(* ===== verification/Prelude.thy ===== *)
theory Prelude
  imports Main "HOL-Library.Char_ord" "HOL-Library.List_Lexorder" "HOL-Library.Sublist"
begin

text \<open>
  Shared ground of the development.

  Three things live here.  First, the exception-and-state monad in which every handler of the
  program is written: a Python function that works on a SQLAlchemy session becomes a function
  from the session to an outcome (an exception on the left, a value on the right) and the session
  it leaves behind.  The session is returned on the exceptional path too, because the code catches
  some exceptions and keeps the rows written before them.  Second, the SQL statements the
  repositories issue, as operations on tables that are lists of rows.  Third, the generic lemmas
  that carry the component proofs, most of them declared \<open>[simp]\<close> or collected in the fact
  collections below.
\<close>

named_theorems tx_simps \<open>unfolding rules for the monad's combinators\<close>
named_theorems tx_okD \<open>inversion of a successful run, one rule per operation\<close>
named_theorems sql_simps \<open>facts about the table operations\<close>
named_theorems tx_rel_intros \<open>operations and the transition relations they respect\<close>


section \<open>The session monad\<close>

type_synonym ('s, 'e, 'a) txm = "'s \<Rightarrow> ('e + 'a) \<times> 's"

definition tx_return :: "'a \<Rightarrow> ('s, 'e, 'a) txm" where
  "tx_return x = (\<lambda>s. (Inr x, s))"

definition tx_raise :: "'e \<Rightarrow> ('s, 'e, 'a) txm" where
  "tx_raise e = (\<lambda>s. (Inl e, s))"

definition tx_bind :: "('s, 'e, 'a) txm \<Rightarrow> ('a \<Rightarrow> ('s, 'e, 'b) txm) \<Rightarrow> ('s, 'e, 'b) txm" where
  "tx_bind m f = (\<lambda>s. case m s of (Inl e, t) \<Rightarrow> (Inl e, t) | (Inr x, t) \<Rightarrow> f x t)"

definition tx_gets :: "('s \<Rightarrow> 'a) \<Rightarrow> ('s, 'e, 'a) txm" where
  "tx_gets f = (\<lambda>s. (Inr (f s), s))"

definition tx_modify :: "('s \<Rightarrow> 's) \<Rightarrow> ('s, 'e, unit) txm" where
  "tx_modify f = (\<lambda>s. (Inr (), f s))"

definition tx_lift :: "'e + 'a \<Rightarrow> ('s, 'e, 'a) txm" where
  "tx_lift r = (\<lambda>s. (r, s))"

definition tx_unless :: "bool \<Rightarrow> 'e \<Rightarrow> ('s, 'e, unit) txm" where
  "tx_unless b e = (if b then tx_return () else tx_raise e)"

definition tx_catch :: "('s, 'e, 'a) txm \<Rightarrow> ('e \<Rightarrow> ('s, 'e, 'a) txm) \<Rightarrow> ('s, 'e, 'a) txm" where
  "tx_catch m h = (\<lambda>s. case m s of (Inl e, t) \<Rightarrow> h e t | (Inr x, t) \<Rightarrow> (Inr x, t))"

fun tx_mapM :: "('a \<Rightarrow> ('s, 'e, 'b) txm) \<Rightarrow> 'a list \<Rightarrow> ('s, 'e, 'b list) txm" where
  "tx_mapM f [] = tx_return []"
| "tx_mapM f (x # xs) = tx_bind (f x) (\<lambda>y. tx_bind (tx_mapM f xs) (\<lambda>ys. tx_return (y # ys)))"

text \<open>Sequencing of pure checks: the domain layer raises without touching the session.\<close>

definition chk_bind :: "'e + 'a \<Rightarrow> ('a \<Rightarrow> 'e + 'b) \<Rightarrow> 'e + 'b" where
  "chk_bind r f = (case r of Inl e \<Rightarrow> Inl e | Inr x \<Rightarrow> f x)"

definition chk_unless :: "bool \<Rightarrow> 'e \<Rightarrow> 'e + unit" where
  "chk_unless b e = (if b then Inr () else Inl e)"

lemma chk_bind_Inr [simp]: "chk_bind (Inr x) f = f x"
  and chk_bind_Inl [simp]: "chk_bind (Inl e) f = Inl e"
  by (simp_all add: chk_bind_def)

lemma chk_bind_okD [simp]: "chk_bind r f = Inr y \<longleftrightarrow> (\<exists>x. r = Inr x \<and> f x = Inr y)"
  by (auto simp: chk_bind_def split: sum.splits)

lemma chk_unless_simps [simp]:
  "chk_unless True e = Inr ()" "chk_unless False e = Inl e"
  by (simp_all add: chk_unless_def)

lemma chk_unless_okD [simp]: "chk_unless b e = Inr u \<longleftrightarrow> b"
  by (simp add: chk_unless_def)

lemma tx_bind_app:
  "tx_bind m f s = (case m s of (Inl e, t) \<Rightarrow> (Inl e, t) | (Inr x, t) \<Rightarrow> f x t)"
  by (simp add: tx_bind_def)

lemma tx_run [tx_simps]:
  "tx_return x s = (Inr x, s)"
  "tx_raise e s = (Inl e, s)"
  "tx_gets f s = (Inr (f s), s)"
  "tx_modify g s = (Inr (), g s)"
  "tx_lift r s = (r, s)"
  "tx_unless b e s = (if b then (Inr (), s) else (Inl e, s))"
  by (simp_all add: tx_return_def tx_raise_def tx_gets_def tx_modify_def tx_lift_def tx_unless_def)

lemma tx_bind_return [simp]: "tx_bind (tx_return x) f = f x"
  by (simp add: tx_bind_def tx_return_def)

lemma tx_bind_raise [simp]: "tx_bind (tx_raise e) f = tx_raise e"
  by (simp add: tx_bind_def tx_raise_def)

lemma tx_return_bind [simp]: "tx_bind m tx_return = m"
  by (rule ext) (auto simp: tx_bind_def tx_return_def split: prod.splits sum.splits)

lemma tx_bind_assoc: "tx_bind (tx_bind m f) g = tx_bind m (\<lambda>x. tx_bind (f x) g)"
  by (rule ext) (auto simp: tx_bind_def split: prod.splits sum.splits)

lemma tx_bind_okD [tx_okD]:
  "tx_bind m f s = (Inr y, t) \<longleftrightarrow> (\<exists>x u. m s = (Inr x, u) \<and> f x u = (Inr y, t))"
  by (auto simp: tx_bind_def split: prod.splits sum.splits)

lemma tx_basic_okD [tx_okD]:
  "tx_return x s = (Inr y, t) \<longleftrightarrow> y = x \<and> t = s"
  "tx_raise e s = (Inr y, t) \<longleftrightarrow> False"
  "tx_gets f s = (Inr z, t) \<longleftrightarrow> z = f s \<and> t = s"
  "tx_modify g s = (Inr u, t) \<longleftrightarrow> t = g s"
  "tx_lift r s = (Inr w, t) \<longleftrightarrow> r = Inr w \<and> t = s"
  "tx_unless b e s = (Inr u, t) \<longleftrightarrow> b \<and> t = s"
  by (auto simp: tx_run)

lemma tx_if_app: "(if b then m else n) s = (if b then m s else n s)"
  by simp

subsection \<open>Partial-correctness triples\<close>

text \<open>
  \<open>tx_ok P m Q\<close>: from a session satisfying \<open>P\<close>, every successful run of \<open>m\<close> ends in
  \<open>Q\<close> of its result and session.  A failed run promises nothing: its session is rolled back
  by the unit of work, which is where the total statement is made.
\<close>

definition tx_ok :: "('s \<Rightarrow> bool) \<Rightarrow> ('s, 'e, 'a) txm \<Rightarrow> ('a \<Rightarrow> 's \<Rightarrow> bool) \<Rightarrow> bool" where
  "tx_ok P m Q \<longleftrightarrow> (\<forall>s x t. P s \<longrightarrow> m s = (Inr x, t) \<longrightarrow> Q x t)"

lemma tx_okI: "(\<And>s x t. P s \<Longrightarrow> m s = (Inr x, t) \<Longrightarrow> Q x t) \<Longrightarrow> tx_ok P m Q"
  by (simp add: tx_ok_def)

lemma tx_okE: "tx_ok P m Q \<Longrightarrow> m s = (Inr x, t) \<Longrightarrow> P s \<Longrightarrow> Q x t"
  by (simp add: tx_ok_def)

lemma tx_ok_bind:
  "tx_ok P m R \<Longrightarrow> (\<And>x. tx_ok (R x) (f x) Q) \<Longrightarrow> tx_ok P (tx_bind m f) Q"
  unfolding tx_ok_def tx_bind_okD by blast

lemma tx_ok_inv_bind:
  "tx_ok P m (\<lambda>_. P) \<Longrightarrow> (\<And>x. tx_ok P (f x) (\<lambda>_. P)) \<Longrightarrow> tx_ok P (tx_bind m f) (\<lambda>_. P)"
  by (rule tx_ok_bind)

lemma tx_ok_conseq:
  "tx_ok P' m Q' \<Longrightarrow> (\<And>s. P s \<Longrightarrow> P' s) \<Longrightarrow> (\<And>x t. Q' x t \<Longrightarrow> Q x t) \<Longrightarrow> tx_ok P m Q"
  unfolding tx_ok_def by blast

lemma tx_ok_basic:
  "tx_ok P (tx_return x) (\<lambda>_. P)"
  "tx_ok P (tx_raise e) Q"
  "tx_ok P (tx_gets f) (\<lambda>_. P)"
  "tx_ok P (tx_lift r) (\<lambda>_. P)"
  "tx_ok P (tx_unless b e) (\<lambda>_. P)"
  by (auto simp: tx_ok_def tx_okD)

lemma tx_ok_if:
  "(b \<Longrightarrow> tx_ok P m Q) \<Longrightarrow> (\<not> b \<Longrightarrow> tx_ok P n Q) \<Longrightarrow> tx_ok P (if b then m else n) Q"
  by simp

lemma tx_ok_option:
  "tx_ok P m Q \<Longrightarrow> (\<And>x. tx_ok P (f x) Q)
   \<Longrightarrow> tx_ok P (case opt of None \<Rightarrow> m | Some x \<Rightarrow> f x) Q"
  by (cases opt) auto

lemma tx_ok_mapM:
  "(\<And>x. tx_ok P (f x) (\<lambda>_. P)) \<Longrightarrow> tx_ok P (tx_mapM f xs) (\<lambda>_. P)"
  by (induction xs) (auto intro!: tx_ok_inv_bind tx_ok_basic)

text \<open>Frame triples: an operation that never touches what \<open>P\<close> reads keeps \<open>P\<close>.\<close>

definition tx_frame :: "('s \<Rightarrow> 'v) \<Rightarrow> ('s, 'e, 'a) txm \<Rightarrow> bool" where
  "tx_frame v m \<longleftrightarrow> (\<forall>s. v (snd (m s)) = v s)"

lemma tx_frameD: "tx_frame v m \<Longrightarrow> m s = (r, t) \<Longrightarrow> v t = v s"
  unfolding tx_frame_def by (metis snd_conv)

lemma tx_frame_ok: "tx_frame v m \<Longrightarrow> tx_ok (\<lambda>s. P (v s)) m (\<lambda>_ s. P (v s))"
  unfolding tx_frame_def tx_ok_def by (metis snd_conv)

lemma tx_frame_bind:
  assumes "tx_frame v m" "\<And>x. tx_frame v (f x)"
  shows "tx_frame v (tx_bind m f)"
  unfolding tx_frame_def
proof
  fix s
  show "v (snd (tx_bind m f s)) = v s"
  proof (cases "m s")
    case (Pair r t)
    with assms(1) have "v t = v s" unfolding tx_frame_def by (metis snd_conv)
    with Pair assms(2) show ?thesis
      by (cases r) (auto simp: tx_bind_app tx_frame_def)
  qed
qed

lemma tx_frame_basic:
  "tx_frame v (tx_return x)" "tx_frame v (tx_raise e)" "tx_frame v (tx_gets f)"
  "tx_frame v (tx_lift r)" "tx_frame v (tx_unless b e)"
  by (auto simp: tx_frame_def tx_run)


subsection \<open>Transition relations\<close>

text \<open>
  \<open>tx_rel R m\<close>: every successful run of \<open>m\<close> is an \<open>R\<close>-transition of the session.  For a
  reflexive and transitive \<open>R\<close> the rules below reduce a handler to the operations it is made of.
\<close>

definition tx_rel :: "('s \<Rightarrow> 's \<Rightarrow> bool) \<Rightarrow> ('s, 'e, 'a) txm \<Rightarrow> bool" where
  "tx_rel R m \<longleftrightarrow> (\<forall>s x t. m s = (Inr x, t) \<longrightarrow> R s t)"

lemma tx_relI: "(\<And>s x t. m s = (Inr x, t) \<Longrightarrow> R s t) \<Longrightarrow> tx_rel R m"
  by (simp add: tx_rel_def)

lemma tx_relD: "tx_rel R m \<Longrightarrow> m s = (Inr x, t) \<Longrightarrow> R s t"
  by (simp add: tx_rel_def)

lemma tx_rel_frame: "tx_frame v m \<Longrightarrow> (\<And>s t. v s = v t \<Longrightarrow> R s t) \<Longrightarrow> tx_rel R m"
  unfolding tx_rel_def tx_frame_def by (metis snd_conv)

lemma tx_rel_mono: "tx_rel R m \<Longrightarrow> (\<And>s t. R s t \<Longrightarrow> Q s t) \<Longrightarrow> tx_rel Q m"
  by (auto simp: tx_rel_def)

locale session_preorder =
  fixes R :: "'s \<Rightarrow> 's \<Rightarrow> bool"
  assumes R_refl: "R s s"
    and R_trans: "R s t \<Longrightarrow> R t u \<Longrightarrow> R s u"
begin

lemma rel_bind: "tx_rel R m \<Longrightarrow> (\<And>x. tx_rel R (f x)) \<Longrightarrow> tx_rel R (tx_bind m f)"
  unfolding tx_rel_def tx_bind_okD using R_trans by blast

lemma rel_basic:
  "tx_rel R (tx_return x)" "tx_rel R (tx_raise e)" "tx_rel R (tx_gets g)"
  "tx_rel R (tx_lift r)" "tx_rel R (tx_unless b e)"
  by (auto simp: tx_rel_def tx_basic_okD R_refl)

lemma rel_if: "(b \<Longrightarrow> tx_rel R m) \<Longrightarrow> (\<not> b \<Longrightarrow> tx_rel R n) \<Longrightarrow> tx_rel R (if b then m else n)"
  by simp

lemma rel_option:
  "(opt = None \<Longrightarrow> tx_rel R m) \<Longrightarrow> (\<And>x. opt = Some x \<Longrightarrow> tx_rel R (f x))
   \<Longrightarrow> tx_rel R (case opt of None \<Rightarrow> m | Some x \<Rightarrow> f x)"
  by (cases opt) auto

lemma rel_prod: "(\<And>x y. p = (x, y) \<Longrightarrow> tx_rel R (f x y)) \<Longrightarrow> tx_rel R (case p of (x, y) \<Rightarrow> f x y)"
  by (cases p) auto

lemma rel_let: "(\<And>x. x = e \<Longrightarrow> tx_rel R (f x)) \<Longrightarrow> tx_rel R (let x = e in f x)"
  by (simp add: Let_def)

lemma rel_mapM: "(\<And>x. tx_rel R (f x)) \<Longrightarrow> tx_rel R (tx_mapM f xs)"
  by (induction xs) (auto intro!: rel_bind rel_basic)

lemma rel_catch:
  assumes "\<And>s e t. m s = (Inl e, t) \<Longrightarrow> R s t" "tx_rel R m" "\<And>e. tx_rel R (h e)"
  shows "tx_rel R (tx_catch m h)"
proof (rule tx_relI)
  fix s x t
  assume run: "tx_catch m h s = (Inr x, t)"
  obtain r u where mu: "m s = (r, u)" by (cases "m s")
  show "R s t"
  proof (cases r)
    case (Inl e)
    with run mu have "h e u = (Inr x, t)" by (simp add: tx_catch_def)
    with assms(1) mu Inl tx_relD [OF assms(3)] show ?thesis by (metis R_trans)
  next
    case (Inr y)
    with run mu tx_relD [OF assms(2)] show ?thesis by (auto simp: tx_catch_def)
  qed
qed

lemmas rel_rules = rel_bind rel_basic rel_if rel_option rel_prod rel_let rel_mapM

end


section \<open>SQL statements over tables\<close>

text \<open>A table is the list of its rows in insertion order.\<close>

definition sql_update :: "('r \<Rightarrow> bool) \<Rightarrow> ('r \<Rightarrow> 'r) \<Rightarrow> 'r list \<Rightarrow> 'r list" where
  "sql_update P f t = map (\<lambda>r. if P r then f r else r) t"

definition sql_rowcount :: "('r \<Rightarrow> bool) \<Rightarrow> 'r list \<Rightarrow> nat" where
  "sql_rowcount P t = length (filter P t)"

definition sql_sum :: "('r \<Rightarrow> int) \<Rightarrow> 'r list \<Rightarrow> int" where
  "sql_sum f t = sum_list (map f t)"

text \<open>\<open>ORDER BY key\<close> (ties keep insertion order) and \<open>ORDER BY key DESC\<close>.\<close>

definition sql_order_by :: "('r \<Rightarrow> 'k :: linorder) \<Rightarrow> 'r list \<Rightarrow> 'r list" where
  "sql_order_by k t = sort_key k t"

definition sql_order_by_desc :: "('r \<Rightarrow> 'k :: linorder) \<Rightarrow> 'r list \<Rightarrow> 'r list" where
  "sql_order_by_desc k t = rev (sort_key k t)"

lemma sql_update_Nil [simp]: "sql_update P f [] = []"
  and sql_update_Cons [simp]: "sql_update P f (r # t) = (if P r then f r else r) # sql_update P f t"
  and sql_update_append [simp]: "sql_update P f (t @ u) = sql_update P f t @ sql_update P f u"
  by (simp_all add: sql_update_def)

lemma length_sql_update [simp]: "length (sql_update P f t) = length t"
  by (simp add: sql_update_def)

lemma map_sql_update_same:
  "(\<And>r. P r \<Longrightarrow> g (f r) = g r) \<Longrightarrow> map g (sql_update P f t) = map g t"
  by (simp add: sql_update_def)

lemma set_sql_update: "set (sql_update P f t) = f ` {r \<in> set t. P r} \<union> {r \<in> set t. \<not> P r}"
  by (auto simp: sql_update_def)

lemma in_sql_updateD:
  "r \<in> set (sql_update P f t) \<Longrightarrow> (\<exists>r0 \<in> set t. P r0 \<and> r = f r0) \<or> (r \<in> set t \<and> \<not> P r)"
  by (auto simp: set_sql_update)

lemma sql_update_none: "(\<And>r. r \<in> set t \<Longrightarrow> \<not> P r) \<Longrightarrow> sql_update P f t = t"
  by (induction t) auto

lemma sql_rowcount_simps [simp]:
  "sql_rowcount P [] = 0"
  "sql_rowcount P (r # t) = (if P r then Suc (sql_rowcount P t) else sql_rowcount P t)"
  "sql_rowcount P (t @ u) = sql_rowcount P t + sql_rowcount P u"
  by (simp_all add: sql_rowcount_def)

lemma sql_rowcount_0: "sql_rowcount P t = 0 \<longleftrightarrow> (\<forall>r \<in> set t. \<not> P r)"
  by (auto simp: sql_rowcount_def filter_empty_conv)

lemma sql_rowcount_pos: "0 < sql_rowcount P t \<longleftrightarrow> (\<exists>r \<in> set t. P r)"
  by (induction t) auto

lemma sql_sum_simps [simp]:
  "sql_sum f [] = 0"
  "sql_sum f (r # t) = f r + sql_sum f t"
  "sql_sum f (t @ u) = sql_sum f t + sql_sum f u"
  by (simp_all add: sql_sum_def)

lemma sql_sum_cong: "(\<And>r. r \<in> set t \<Longrightarrow> f r = g r) \<Longrightarrow> sql_sum f t = sql_sum g t"
  by (induction t) auto

lemma sql_sum_nonneg: "(\<And>r. r \<in> set t \<Longrightarrow> 0 \<le> f r) \<Longrightarrow> 0 \<le> sql_sum f t"
  by (induction t) auto

lemma sql_sum_filter_split: "sql_sum f (filter P t) + sql_sum f (filter (\<lambda>r. \<not> P r) t) = sql_sum f t"
  by (induction t) auto

lemma set_sql_order_by [simp]:
  "set (sql_order_by k t) = set t" "set (sql_order_by_desc k t) = set t"
  by (simp_all add: sql_order_by_def sql_order_by_desc_def)

lemma length_sql_order_by [simp]:
  "length (sql_order_by k t) = length t" "length (sql_order_by_desc k t) = length t"
  by (simp_all add: sql_order_by_def sql_order_by_desc_def)


subsection \<open>Rows with a primary key\<close>

text \<open>
  \<open>sql_get\<close> is \<open>session.get(Model, pk)\<close>.  The lemmas below are about tables whose key column
  holds no value twice, which the primary key of every table guarantees.
\<close>

definition sql_get :: "('r \<Rightarrow> 'k) \<Rightarrow> 'k \<Rightarrow> 'r list \<Rightarrow> 'r option" where
  "sql_get k v t = find (\<lambda>r. k r = v) t"

abbreviation keys_distinct :: "('r \<Rightarrow> 'k) \<Rightarrow> 'r list \<Rightarrow> bool" where
  "keys_distinct k t \<equiv> distinct (map k t)"

lemma sql_get_Some: "sql_get k v t = Some r \<Longrightarrow> r \<in> set t \<and> k r = v"
  by (auto simp: sql_get_def find_Some_iff in_set_conv_nth)

lemma sql_get_None: "sql_get k v t = None \<longleftrightarrow> v \<notin> k ` set t"
  by (auto simp: sql_get_def find_None_iff)

lemma sql_get_unique: "keys_distinct k t \<Longrightarrow> r \<in> set t \<Longrightarrow> sql_get k (k r) t = Some r"
  by (induction t) (auto simp: sql_get_def rev_image_eqI)

lemma keys_distinct_eq: "keys_distinct k t \<Longrightarrow> r \<in> set t \<Longrightarrow> r' \<in> set t \<Longrightarrow> k r = k r' \<Longrightarrow> r = r'"
  by (metis option.inject sql_get_unique)

lemma sql_rowcount_key:
  "keys_distinct k t \<Longrightarrow> r \<in> set t \<Longrightarrow> sql_rowcount (\<lambda>x. k x = k r) t = 1"
proof (induction t)
  case (Cons a t)
  show ?case
  proof (cases "k a = k r")
    case True
    with Cons.prems have "\<forall>x \<in> set t. k x \<noteq> k r" by (auto simp: image_iff)
    then have "sql_rowcount (\<lambda>x. k x = k r) t = 0" by (simp add: sql_rowcount_0)
    with True show ?thesis by simp
  next
    case False
    with Cons show ?thesis by auto
  qed
qed simp

lemma sql_rowcount_key_le: "keys_distinct k t \<Longrightarrow> sql_rowcount (\<lambda>x. k x = v \<and> P x) t \<le> 1"
proof (induction t)
  case (Cons a t)
  show ?case
  proof (cases "k a = v \<and> P a")
    case True
    with Cons.prems have "\<forall>x \<in> set t. \<not> (k x = v \<and> P x)" by (auto simp: image_iff)
    then have "sql_rowcount (\<lambda>x. k x = v \<and> P x) t = 0" by (simp add: sql_rowcount_0)
    with True show ?thesis by simp
  next
    case False
    with Cons show ?thesis by auto
  qed
qed simp

lemma sql_get_update_same_key:
  "(\<And>r. k (f r) = k r) \<Longrightarrow>
   sql_get k v (sql_update P f t) = map_option (\<lambda>r. if P r then f r else r) (sql_get k v t)"
  by (induction t) (auto simp: sql_get_def)

lemma sql_get_append: "sql_get k v (t @ u) = (case sql_get k v t of None \<Rightarrow> sql_get k v u | Some r \<Rightarrow> Some r)"
  by (induction t) (auto simp: sql_get_def)

lemma sql_get_Nil [simp]: "sql_get k v [] = None"
  and sql_get_Cons [simp]: "sql_get k v (r # t) = (if k r = v then Some r else sql_get k v t)"
  by (simp_all add: sql_get_def)

text \<open>Updating the one row under a key changes a column's total by that row's difference.\<close>

lemma sql_sum_update_key:
  assumes "keys_distinct k t" "r \<in> set t"
  shows "sql_sum g (sql_update (\<lambda>x. k x = k r) f t) = sql_sum g t - g r + g (f r)"
  using assms
proof (induction t)
  case (Cons a t)
  show ?case
  proof (cases "k a = k r")
    case True
    with Cons.prems have "a = r" by (metis keys_distinct_eq list.set_intros(1))
    moreover have "sql_update (\<lambda>x. k x = k r) f t = t"
      using Cons.prems True by (intro sql_update_none) (auto simp: image_iff)
    ultimately show ?thesis by simp
  next
    case False
    with Cons show ?thesis by auto
  qed
qed simp

end
