(* ===== verification/Digits.thy ===== *)
theory Digits
  imports Prelude
begin

text \<open>
  Positional digit strings, shared by the identifier encoder (base 32), the zero-padded decimal
  formats of Python's format specs and the decimal rendering of integers.  The two facts the rest
  of the development uses are that fixed-width encoding loses nothing below the width and that it
  is strictly monotone for the lexicographic order, which is the order a database index uses on
  character columns.
\<close>

fun fixed_digits :: "nat \<Rightarrow> nat \<Rightarrow> nat \<Rightarrow> nat list" where
  "fixed_digits b 0 v = []"
| "fixed_digits b (Suc n) v = fixed_digits b n (v div b) @ [v mod b]"

definition digits_value :: "nat \<Rightarrow> nat list \<Rightarrow> nat" where
  "digits_value b ds = foldl (\<lambda>a d. a * b + d) 0 ds"

lemma digits_value_Nil [simp]: "digits_value b [] = 0"
  and digits_value_snoc [simp]: "digits_value b (ds @ [d]) = digits_value b ds * b + d"
  by (simp_all add: digits_value_def)

lemma length_fixed_digits [simp]: "length (fixed_digits b n v) = n"
  by (induction n arbitrary: v) auto

lemma fixed_digits_bound: "0 < b \<Longrightarrow> d \<in> set (fixed_digits b n v) \<Longrightarrow> d < b"
  by (induction n arbitrary: v) auto

lemma digits_value_fixed: "0 < b \<Longrightarrow> v < b ^ n \<Longrightarrow> digits_value b (fixed_digits b n v) = v"
proof (induction n arbitrary: v)
  case (Suc n)
  then have "v div b < b ^ n" by (simp add: div_less_iff_less_mult mult.commute)
  with Suc show ?case by simp
qed simp

lemma fixed_digits_inj:
  "0 < b \<Longrightarrow> v < b ^ n \<Longrightarrow> w < b ^ n \<Longrightarrow> fixed_digits b n v = fixed_digits b n w \<Longrightarrow> v = w"
  by (metis digits_value_fixed)

lemma list_less_append:
  "length xs = length ys \<Longrightarrow> xs < (ys :: 'a :: linorder list) \<Longrightarrow> xs @ us < ys @ vs"
  unfolding list_less_def by (rule lexord_sufI) auto

lemma list_less_append_same: "(xs @ us < xs @ vs) = (us < (vs :: 'a :: linorder list))"
  unfolding list_less_def by (induction xs) auto

lemma fixed_digits_mono:
  "0 < b \<Longrightarrow> v < w \<Longrightarrow> w < b ^ n \<Longrightarrow> fixed_digits b n v < fixed_digits b n w"
proof (induction n arbitrary: v w)
  case (Suc n)
  have le: "v div b \<le> w div b" using Suc.prems by (simp add: div_le_mono)
  show ?case
  proof (cases "v div b < w div b")
    case True
    have "w div b < b ^ n"
      using Suc.prems by (simp add: div_less_iff_less_mult mult.commute)
    with Suc.IH [OF Suc.prems(1) True] show ?thesis
      by (simp add: list_less_append)
  next
    case False
    with le have eq: "v div b = w div b" by simp
    with Suc.prems(2) have "v mod b < w mod b"
      by (metis div_mult_mod_eq nat_add_left_cancel_less)
    with eq show ?thesis by (simp add: list_less_append_same)
  qed
qed simp

lemma map_list_less:
  assumes "\<And>x y. x \<in> set xs \<union> set ys \<Longrightarrow> y \<in> set xs \<union> set ys \<Longrightarrow> x < y \<Longrightarrow> f x < f y"
    and "xs < (ys :: 'a :: linorder list)"
  shows "map f xs < (map f ys :: 'b :: linorder list)"
  using assms
proof (induction xs arbitrary: ys)
  case Nil
  then show ?case by (cases ys) auto
next
  case (Cons x xs)
  then obtain y zs where ys: "ys = y # zs" by (cases ys) auto
  with Cons.prems(2) consider "x < y" | "x = y" "xs < zs" by auto
  then show ?case
  proof cases
    case 1
    with Cons.prems(1) ys show ?thesis by simp
  next
    case 2
    have "map f xs < map f zs"
      using Cons.prems(1) ys 2 by (intro Cons.IH) auto
    with 2 ys show ?thesis by simp
  qed
qed


section \<open>Decimal rendering\<close>

definition digit_char :: "nat \<Rightarrow> char" where
  "digit_char d = char_of (48 + d)"

definition char_digit :: "char \<Rightarrow> nat" where
  "char_digit c = of_char c - 48"

definition is_ascii_digit :: "char \<Rightarrow> bool" where
  "is_ascii_digit c \<longleftrightarrow> 48 \<le> (of_char c :: nat) \<and> (of_char c :: nat) \<le> 57"

text \<open>\<open>str(n)\<close> for a natural number.\<close>

fun str_nat :: "nat \<Rightarrow> string" where
  "str_nat n = (if n < 10 then [digit_char n] else str_nat (n div 10) @ [digit_char (n mod 10)])"

declare str_nat.simps [simp del]

definition str_int :: "int \<Rightarrow> string" where
  "str_int i = (if i < 0 then CHR ''-'' # str_nat (nat (- i)) else str_nat (nat i))"

text \<open>\<open>f"{n:0{w}d}"\<close> of a non-negative integer: \<open>w\<close> digits at least.\<close>

definition zero_padded :: "nat \<Rightarrow> int \<Rightarrow> string" where
  "zero_padded w n =
     (let s = str_int n in replicate (w - length s) CHR ''0'' @ s)"

text \<open>\<open>int(s)\<close> of a string of ASCII digits.\<close>

definition parse_nat :: "string \<Rightarrow> nat" where
  "parse_nat s = digits_value 10 (map char_digit s)"

lemma char_digit_digit [simp]: "d < 10 \<Longrightarrow> char_digit (digit_char d) = d"
  by (simp add: char_digit_def digit_char_def)

lemma is_ascii_digit_digit [simp]: "d < 10 \<Longrightarrow> is_ascii_digit (digit_char d)"
  by (simp add: is_ascii_digit_def digit_char_def)

lemma parse_nat_snoc: "parse_nat (s @ [c]) = parse_nat s * 10 + char_digit c"
  by (simp add: parse_nat_def)

lemma parse_str_nat [simp]: "parse_nat (str_nat n) = n"
proof (induction n rule: str_nat.induct)
  case (1 n)
  show ?case
  proof (cases "n < 10")
    case True
    then show ?thesis by (simp add: str_nat.simps [of n] parse_nat_def digits_value_def)
  next
    case False
    with 1 show ?thesis by (simp add: str_nat.simps [of n] parse_nat_snoc)
  qed
qed

lemma str_nat_digits: "c \<in> set (str_nat n) \<Longrightarrow> is_ascii_digit c"
proof (induction n rule: str_nat.induct)
  case (1 n)
  show ?case
  proof (cases "n < 10")
    case True
    with 1 show ?thesis by (simp add: str_nat.simps [of n])
  next
    case False
    with 1 show ?thesis by (auto simp: str_nat.simps [of n])
  qed
qed

lemma str_nat_nonempty [simp]: "str_nat n \<noteq> []"
  by (simp add: str_nat.simps [of n])

lemma length_str_nat: "length (str_nat n) \<le> w \<longleftrightarrow> n < 10 ^ w \<and> 0 < w"
proof (induction n arbitrary: w rule: str_nat.induct)
  case (1 n)
  show ?case
  proof (cases "n < 10")
    case True
    show ?thesis
    proof (cases w)
      case (Suc k)
      have "(10::nat) \<le> 10 ^ Suc k" by simp
      with True Suc have "n < 10 ^ w" by (metis less_le_trans)
      with True Suc show ?thesis by (simp add: str_nat.simps [of n])
    qed (simp add: True str_nat.simps [of n])
  next
    case False
    show ?thesis
    proof (cases w)
      case (Suc k)
      have "n div 10 < 10 ^ k \<longleftrightarrow> n < 10 ^ Suc k"
        by (simp add: div_less_iff_less_mult mult.commute)
      moreover have "k = 0 \<longrightarrow> \<not> n div 10 < 10 ^ k"
        using False by (simp add: div_greater_zero_iff)
      ultimately show ?thesis
        using False "1.IH" [OF False, of k] Suc
        by (auto simp: str_nat.simps [of n])
    qed (simp add: False str_nat.simps [of n])
  qed
qed

lemma digits_value_replicate0 [simp]:
  "digits_value 10 (replicate k 0 @ ds) = digits_value 10 ds"
proof -
  have "foldl (\<lambda>a d. a * 10 + d) 0 (replicate k 0) = (0::nat)" by (induction k) auto
  then show ?thesis by (simp add: digits_value_def)
qed

lemma str_int_nonneg: "0 \<le> i \<Longrightarrow> str_int i = str_nat (nat i)"
  by (simp add: str_int_def)

lemma parse_zero_padded [simp]: "0 \<le> n \<Longrightarrow> parse_nat (zero_padded w n) = nat n"
proof -
  assume n: "0 \<le> n"
  have "char_digit CHR ''0'' = 0" by (simp add: char_digit_def)
  then show ?thesis
    using parse_str_nat [of "nat n"]
    by (simp add: n str_int_nonneg zero_padded_def parse_nat_def Let_def map_replicate_const)
qed

lemma length_zero_padded: "0 < w \<Longrightarrow> 0 \<le> n \<Longrightarrow> n < 10 ^ w \<Longrightarrow> length (zero_padded w n) = w"
  using length_str_nat [of "nat n" w] by (simp add: zero_padded_def Let_def str_int_nonneg nat_less_iff)

lemma zero_padded_digits: "0 \<le> n \<Longrightarrow> c \<in> set (zero_padded w n) \<Longrightarrow> is_ascii_digit c"
  by (auto simp: zero_padded_def Let_def is_ascii_digit_def str_int_nonneg dest: str_nat_digits)

text \<open>Evaluation stays in binary integers.\<close>

function str_pos :: "int \<Rightarrow> string" where
  "str_pos n = (if n < 10 then [digit_char (nat n)]
                else str_pos (n div 10) @ [digit_char (nat (n mod 10))])"
  by auto
termination by (relation "measure nat") auto

declare str_pos.simps [simp del]

lemma str_pos_eq: "0 \<le> n \<Longrightarrow> str_pos n = str_nat (nat n)"
proof (induction n rule: str_pos.induct)
  case (1 n)
  show ?case
  proof (cases "n < 10")
    case True
    with 1 show ?thesis by (simp add: str_pos.simps [of n] str_nat.simps [of "nat n"])
  next
    case False
    with 1 have "str_pos (n div 10) = str_nat (nat n div 10)"
      by (simp add: nat_div_distrib pos_imp_zdiv_nonneg_iff)
    with False 1(2) show ?thesis
      by (simp add: str_pos.simps [of n] str_nat.simps [of "nat n"] nat_mod_distrib)
  qed
qed

lemma str_int_code [code]: "str_int i = (if i < 0 then CHR ''-'' # str_pos (- i) else str_pos i)"
  by (simp add: str_int_def str_pos_eq)

end
