(* ===== verification/Errors.thy ===== *)
theory Errors
  imports Digits
begin

text \<open>
  The error taxonomy of \<open>platform_/kernel/errors.py\<close> and the JSON values that error details and
  stored responses are made of.  Exceptions are values.  An \<open>AppError\<close> carries its class and its
  details; the human-readable message is left out, since the module's own contract is that clients
  branch on the code and never on the message.  \<open>IntegrityError\<close> is a constraint violation
  reported by PostgreSQL, named by the constraint; \<open>DatabaseError\<close> any other driver error with
  its SQLSTATE; \<open>PyError\<close> a built-in Python exception, named by its class.
\<close>

datatype json =
    JNull
  | JBool bool
  | JInt int
  | JStr string
  | JTime int
  | JArr "json list"
  | JObj "(string \<times> json) list"

text \<open>
  \<open>JTime t\<close> stands for the string \<open>datetime.isoformat()\<close> of the instant \<open>t\<close>, in microseconds
  since the epoch, UTC.  A Python dict is the association list of its items in insertion order.
\<close>

type_synonym dict = "(string \<times> json) list"

definition dict_get :: "dict \<Rightarrow> string \<Rightarrow> json option" where
  "dict_get d k = map_of d k"

text \<open>\<open>d[k] = v\<close>: an existing key keeps its place, a new one goes to the end.\<close>

fun dict_set :: "dict \<Rightarrow> string \<Rightarrow> json \<Rightarrow> dict" where
  "dict_set [] k v = [(k, v)]"
| "dict_set ((k', v') # d) k v = (if k' = k then (k, v) # d else (k', v') # dict_set d k v)"

definition dict_without :: "string list \<Rightarrow> dict \<Rightarrow> dict" where
  "dict_without ks d = filter (\<lambda>(k, v). k \<notin> set ks) d"

lemma dict_get_set: "dict_get (dict_set d k v) k' = (if k' = k then Some v else dict_get d k')"
  by (induction d) (auto simp: dict_get_def)

lemma dict_get_without: "dict_get (dict_without ks d) k = (if k \<in> set ks then None else dict_get d k)"
  by (induction d) (auto simp: dict_get_def dict_without_def)

datatype error_class =
    AppErrorBase
  | ValidationError
  | InsufficientFundsError
  | SelfTransferError
  | AccountInactiveError
  | CurrencyMismatchError
  | TransferLimitExceededError
  | DailyLimitExceededError
  | AuthenticationError
  | AuthorizationError
  | NotFoundError
  | PinLockedError
  | ConflictError
  | IdempotencyKeyReuseError
  | RequestInProgressError
  | StateConflictError
  | RateLimitedError
  | DependencyUnavailableError

datatype exn =
    AppError error_class dict
  | IntegrityError string
  | DatabaseError string
  | PyError string

fun error_code :: "error_class \<Rightarrow> string" where
  "error_code AppErrorBase = ''INTERNAL_ERROR''"
| "error_code ValidationError = ''VALIDATION_ERROR''"
| "error_code InsufficientFundsError = ''INSUFFICIENT_FUNDS''"
| "error_code SelfTransferError = ''SELF_TRANSFER_NOT_ALLOWED''"
| "error_code AccountInactiveError = ''ACCOUNT_INACTIVE''"
| "error_code CurrencyMismatchError = ''CURRENCY_MISMATCH''"
| "error_code TransferLimitExceededError = ''TRANSFER_LIMIT_EXCEEDED''"
| "error_code DailyLimitExceededError = ''DAILY_LIMIT_EXCEEDED''"
| "error_code AuthenticationError = ''UNAUTHENTICATED''"
| "error_code AuthorizationError = ''FORBIDDEN''"
| "error_code NotFoundError = ''NOT_FOUND''"
| "error_code PinLockedError = ''PIN_LOCKED''"
| "error_code ConflictError = ''CONFLICT''"
| "error_code IdempotencyKeyReuseError = ''IDEMPOTENCY_KEY_REUSED''"
| "error_code RequestInProgressError = ''REQUEST_IN_PROGRESS''"
| "error_code StateConflictError = ''REQUEST_ALREADY_HANDLED''"
| "error_code RateLimitedError = ''RATE_LIMITED''"
| "error_code DependencyUnavailableError = ''SERVICE_TEMPORARILY_UNAVAILABLE''"

text \<open>\<open>http_status\<close> is a class attribute; the three 409 subclasses inherit it from \<open>ConflictError\<close>.\<close>

fun error_http_status :: "error_class \<Rightarrow> int" where
  "error_http_status AppErrorBase = 500"
| "error_http_status ValidationError = 400"
| "error_http_status InsufficientFundsError = 422"
| "error_http_status SelfTransferError = 422"
| "error_http_status AccountInactiveError = 422"
| "error_http_status CurrencyMismatchError = 422"
| "error_http_status TransferLimitExceededError = 422"
| "error_http_status DailyLimitExceededError = 422"
| "error_http_status AuthenticationError = 401"
| "error_http_status AuthorizationError = 403"
| "error_http_status NotFoundError = 404"
| "error_http_status PinLockedError = 423"
| "error_http_status ConflictError = 409"
| "error_http_status IdempotencyKeyReuseError = 409"
| "error_http_status RequestInProgressError = 409"
| "error_http_status StateConflictError = 409"
| "error_http_status RateLimitedError = 429"
| "error_http_status DependencyUnavailableError = 503"

definition error_retryable :: "error_class \<Rightarrow> bool" where
  "error_retryable c \<longleftrightarrow>
     c = RequestInProgressError \<or> c = RateLimitedError \<or> c = DependencyUnavailableError"

text \<open>\<open>AppError.to_payload\<close> without the message; empty details are left out of the payload.\<close>

definition to_payload :: "error_class \<Rightarrow> dict \<Rightarrow> dict" where
  "to_payload c details =
     [(''code'', JStr (error_code c)), (''retryable'', JBool (error_retryable c))]
     @ (if details \<noteq> [] then [(''details'', JObj details)] else [])"

abbreviation app_error :: "error_class \<Rightarrow> exn" where
  "app_error c \<equiv> AppError c []"

definition raises :: "('e + 'a) \<Rightarrow> ('e \<Rightarrow> bool) \<Rightarrow> bool" where
  "raises r P \<longleftrightarrow> (case r of Inl e \<Rightarrow> P e | Inr _ \<Rightarrow> False)"

fun is_app_error :: "error_class \<Rightarrow> exn \<Rightarrow> bool" where
  "is_app_error c (AppError c' _) = (c' = c)"
| "is_app_error c _ = False"

lemma raises_simps [simp]: "raises (Inl e) P = P e" "raises (Inr x) P = False"
  by (simp_all add: raises_def)

lemma inj_error_code: "inj error_code"
proof (rule injI)
  fix x y :: error_class
  assume "error_code x = error_code y"
  then show "x = y" by (cases x; cases y; simp)
qed

end
