(* ===== verification/Json.thy ===== *)
theory Json
  imports Errors
begin

text \<open>
  Canonical JSON and request fingerprints: \<open>fingerprint_request\<close> of
  \<open>modules/financial_core/application/idempotency.py\<close>.  The serialiser is \<open>json.dumps\<close> with
  \<open>sort_keys=True\<close>, compact separators and \<open>ensure_ascii=False\<close>; the digest is the argument
  \<open>sha256\<close>.
\<close>

section \<open>Calendar dates\<close>

text \<open>
  The proleptic Gregorian date of a day number counted from 1970-01-01, as \<open>datetime\<close> computes
  it: years are counted from March inside 400-year eras of 146097 days.
\<close>

definition civil_from_days :: "int \<Rightarrow> int \<times> int \<times> int" where
  "civil_from_days d =
     (let z = d + 719468;
          era = z div 146097;
          doe = z mod 146097;
          yoe = (doe - doe div 1460 + doe div 36524 - doe div 146096) div 365;
          doy = doe - (365 * yoe + yoe div 4 - yoe div 100);
          mp = (5 * doy + 2) div 153;
          day = doy - (153 * mp + 2) div 5 + 1;
          month = (if mp < 10 then mp + 3 else mp - 9);
          year = yoe + era * 400 + (if month \<le> 2 then 1 else 0)
      in (year, month, day))"

abbreviation day_us :: int where
  "day_us \<equiv> 86400000000"

text \<open>\<open>f"{moment:%Y%m%d}"\<close> for an instant in microseconds since the epoch.\<close>

definition format_ymd :: "int \<Rightarrow> string" where
  "format_ymd t =
     (case civil_from_days (t div day_us) of (y, m, d) \<Rightarrow>
        zero_padded 4 y @ zero_padded 2 m @ zero_padded 2 d)"

text \<open>\<open>str(datetime)\<close> of an aware UTC instant: the \<open>default=str\<close> fallback of \<open>json.dumps\<close>.\<close>

definition str_datetime :: "int \<Rightarrow> string" where
  "str_datetime t =
     (case civil_from_days (t div day_us) of (y, m, d) \<Rightarrow>
        let us = t mod day_us; secs = us div 1000000; frac = us mod 1000000
        in zero_padded 4 y @ ''-'' @ zero_padded 2 m @ ''-'' @ zero_padded 2 d
           @ '' '' @ zero_padded 2 (secs div 3600)
           @ '':'' @ zero_padded 2 (secs div 60 mod 60)
           @ '':'' @ zero_padded 2 (secs mod 60)
           @ (if frac = 0 then [] else ''.'' @ zero_padded 6 frac)
           @ ''+00:00'')"

section \<open>json.dumps with sorted keys\<close>

text \<open>With \<open>ensure_ascii=False\<close> only the quote, the backslash and the control characters are escaped.\<close>

definition hex_digit :: "nat \<Rightarrow> char" where
  "hex_digit d = (if d < 10 then char_of (48 + d) else char_of (87 + d))"

definition json_escape_char :: "char \<Rightarrow> string" where
  "json_escape_char c =
     (let n = (of_char c :: nat) in
      if n = 34 then [CHR 0x5C, CHR 0x22]
      else if n = 92 then [CHR 0x5C, CHR 0x5C]
      else if n = 10 then [CHR 0x5C, CHR ''n'']
      else if n = 13 then [CHR 0x5C, CHR ''r'']
      else if n = 9 then [CHR 0x5C, CHR ''t'']
      else if n = 12 then [CHR 0x5C, CHR ''f'']
      else if n = 8 then [CHR 0x5C, CHR ''b'']
      else if n < 32 then [CHR 0x5C, CHR ''u'', CHR ''0'', CHR ''0'',
                           hex_digit (n div 16), hex_digit (n mod 16)]
      else [c])"

definition json_string :: "string \<Rightarrow> string" where
  "json_string s = CHR 0x22 # concat (map json_escape_char s) @ [CHR 0x22]"

fun join_with :: "string \<Rightarrow> string list \<Rightarrow> string" where
  "join_with sep [] = []"
| "join_with sep [x] = x"
| "join_with sep (x # y # xs) = x @ sep @ join_with sep (y # xs)"

fun json_dumps :: "json \<Rightarrow> string" where
  "json_dumps JNull = ''null''"
| "json_dumps (JBool b) = (if b then ''true'' else ''false'')"
| "json_dumps (JInt i) = str_int i"
| "json_dumps (JStr s) = json_string s"
| "json_dumps (JTime t) = json_string (str_datetime t)"
| "json_dumps (JArr xs) = ''['' @ join_with '','' (map json_dumps xs) @ '']''"
| "json_dumps (JObj d) =
     ''{'' @ join_with '',''
       (map (\<lambda>(k, v). json_string k @ '':'' @ v)
         (sort_key fst (map (\<lambda>(k, v). (k, json_dumps v)) d))) @ ''}''"

definition fingerprint_request :: "(string \<Rightarrow> string) \<Rightarrow> dict \<Rightarrow> string" where
  "fingerprint_request sha256 payload = sha256 (json_dumps (JObj payload))"

section \<open>The fingerprint depends on content, not on key order\<close>

lemma sort_key_distinct_set:
  assumes "set xs = set ys" "distinct (map f xs)" "distinct (map f ys)"
  shows "sort_key f xs = sort_key f ys"
proof (rule map_sorted_distinct_set_unique)
  show "inj_on f (set (sort_key f xs) \<union> set (sort_key f ys))"
    using assms by (simp add: distinct_map)
  show "distinct (map f (sort_key f xs))" "distinct (map f (sort_key f ys))"
    using assms by (auto simp: distinct_map)
qed (use assms in auto)

lemma json_dumps_obj_order:
  assumes "set d = set d'" "distinct (map fst d)" "distinct (map fst d')"
  shows "json_dumps (JObj d) = json_dumps (JObj d')"
proof -
  let ?r = "map (\<lambda>(k, v). (k, json_dumps v))"
  have keys: "fst \<circ> (\<lambda>(k, v). (k, json_dumps v)) = fst" by (rule ext) auto
  have "sort_key fst (?r d) = sort_key fst (?r d')"
    using assms by (intro sort_key_distinct_set) (auto simp: keys)
  then show ?thesis by simp
qed

end
