(* ===== verification/Ids.thy ===== *)
theory Ids
  imports Json
begin

text \<open>
  Identifier generation, \<open>platform_/kernel/ids.py\<close>.  The operating system's clock and entropy
  are arguments: \<open>new_ulid ms r\<close> is the identifier the function returns when the clock reads
  \<open>ms\<close> milliseconds and \<open>os.urandom\<close> delivers the ten bytes of \<open>r\<close>.
\<close>

definition crockford :: string where
  "crockford = ''0123456789ABCDEFGHJKMNPQRSTVWXYZ''"

text \<open>The loop of \<open>_encode\<close>: least significant digit first, appended to \<open>chars\<close>.\<close>

fun encode_loop :: "int \<Rightarrow> nat \<Rightarrow> string \<Rightarrow> string" where
  "encode_loop value 0 chars = chars"
| "encode_loop value (Suc n) chars =
     encode_loop (value div 32) n (chars @ [crockford ! nat (value mod 32)])"

definition encode_base32 :: "int \<Rightarrow> nat \<Rightarrow> string" where
  "encode_base32 value len = rev (encode_loop value len [])"

definition new_ulid :: "int \<Rightarrow> int \<Rightarrow> exn + string" where
  "new_ulid ms r =
     (if \<not> (0 \<le> ms \<and> ms < 2 ^ 48) then Inl (PyError ''ValueError'')
      else Inr (encode_base32 ms 10 @ encode_base32 (r mod 2 ^ 80) 16))"

text \<open>\<open>generate_reference\<close>: the eight suffix characters are drawn by \<open>secrets.choice\<close>.\<close>

definition generate_reference :: "string \<Rightarrow> int \<Rightarrow> nat list \<Rightarrow> string" where
  "generate_reference tag now choices =
     tag @ ''-'' @ format_ymd now @ ''-'' @ map (\<lambda>c. crockford ! (c mod 32)) (take 8 choices)"

section \<open>The encoder is fixed-width base 32\<close>

lemma encode_loop_eq:
  "0 \<le> v \<Longrightarrow> encode_loop v n cs = cs @ rev (map ((!) crockford) (fixed_digits 32 n (nat v)))"
  by (induction n arbitrary: v cs)
     (auto simp: nat_div_distrib nat_mod_distrib pos_imp_zdiv_nonneg_iff)

lemma encode_base32_eq: "0 \<le> v \<Longrightarrow> encode_base32 v n = map ((!) crockford) (fixed_digits 32 n (nat v))"
  by (simp add: encode_base32_def encode_loop_eq)

lemma length_encode_loop: "length (encode_loop v n cs) = length cs + n"
  by (induction n arbitrary: v cs) auto

lemma length_encode_base32 [simp]: "length (encode_base32 v n) = n"
  by (simp add: encode_base32_def length_encode_loop)

lemma crockford_sorted: "sorted_wrt (<) crockford"
  unfolding crockford_def by code_simp

lemma length_crockford [simp]: "length crockford = 32"
  by (simp add: crockford_def)

lemma crockford_mono: "i < j \<Longrightarrow> j < 32 \<Longrightarrow> crockford ! i < crockford ! j"
  using crockford_sorted by (simp add: sorted_wrt_iff_nth_less)

lemma encode_base32_mono:
  assumes "0 \<le> v" "v < w" "w < 32 ^ n"
  shows "encode_base32 v n < encode_base32 w n"
proof -
  have "map ((!) crockford) (fixed_digits 32 n (nat v)) < map ((!) crockford) (fixed_digits 32 n (nat w))"
  proof (rule map_list_less)
    show "fixed_digits 32 n (nat v) < fixed_digits 32 n (nat w)"
      using assms by (intro fixed_digits_mono) (auto simp: nat_less_iff)
    fix x y
    assume "y \<in> set (fixed_digits 32 n (nat v)) \<union> set (fixed_digits 32 n (nat w))" "x < y"
    then show "crockford ! x < crockford ! y"
      by (intro crockford_mono) (auto dest: fixed_digits_bound [rotated])
  qed
  then show ?thesis using assms by (simp add: encode_base32_eq)
qed

lemma encode_base32_inj:
  assumes "0 \<le> v" "v < 32 ^ n" "0 \<le> w" "w < 32 ^ n" "encode_base32 v n = encode_base32 w n"
  shows "v = w"
  using encode_base32_mono [of v w n] encode_base32_mono [of w v n] assms
  by (cases v w rule: linorder_cases) auto

end
