(* ===== verification/Money.thy ===== *)
theory Money
  imports Ids
begin

text \<open>
  The money value object, \<open>platform_/kernel/money.py\<close>: currencies, amounts in minor units,
  arithmetic that refuses to mix currencies, and the textual parser and renderer.  Python's
  integers are unbounded, so amounts are \<open>int\<close>.
\<close>

record currency =
  code :: string
  exponent :: int

record money =
  minor :: int
  mcurrency :: currency

abbreviation invalid_money :: exn where
  "invalid_money \<equiv> PyError ''InvalidMoneyError''"

definition is_upper_alpha :: "char \<Rightarrow> bool" where
  "is_upper_alpha c \<longleftrightarrow> 65 \<le> (of_char c :: nat) \<and> (of_char c :: nat) \<le> 90"

text \<open>\<open>Currency.__post_init__\<close> (over ASCII codes).\<close>

definition mk_currency :: "string \<Rightarrow> int \<Rightarrow> exn + currency" where
  "mk_currency c e =
     (if length c \<noteq> 3 \<or> \<not> list_all is_upper_alpha c then Inl invalid_money
      else if e < 0 then Inl invalid_money
      else Inr \<lparr>code = c, exponent = e\<rparr>)"

definition minor_units_per_major :: "currency \<Rightarrow> int" where
  "minor_units_per_major c = 10 ^ nat (exponent c)"

definition BDT :: currency where
  "BDT = \<lparr>code = ''BDT'', exponent = 2\<rparr>"

text \<open>\<open>SUPPORTED_CURRENCIES\<close>, a dict lookup.\<close>

definition supported_currency :: "string \<Rightarrow> currency option" where
  "supported_currency c = (if c = code BDT then Some BDT else None)"

definition MAX_TRANSFER_AMOUNT_MINOR :: int where
  "MAX_TRANSFER_AMOUNT_MINOR = 1000000000000"

abbreviation mk_money :: "int \<Rightarrow> currency \<Rightarrow> money" where
  "mk_money m c \<equiv> \<lparr>minor = m, mcurrency = c\<rparr>"

definition money_zero :: "currency \<Rightarrow> money" where
  "money_zero c = mk_money 0 c"

definition is_positive :: "money \<Rightarrow> bool" where
  "is_positive m \<longleftrightarrow> 0 < minor m"

definition is_zero :: "money \<Rightarrow> bool" where
  "is_zero m \<longleftrightarrow> minor m = 0"

definition assert_same_currency :: "money \<Rightarrow> money \<Rightarrow> exn + unit" where
  "assert_same_currency a b = chk_unless (mcurrency a = mcurrency b) invalid_money"

definition money_add :: "money \<Rightarrow> money \<Rightarrow> exn + money" where
  "money_add a b = chk_bind (assert_same_currency a b) (\<lambda>_. Inr (mk_money (minor a + minor b) (mcurrency a)))"

definition money_sub :: "money \<Rightarrow> money \<Rightarrow> exn + money" where
  "money_sub a b = chk_bind (assert_same_currency a b) (\<lambda>_. Inr (mk_money (minor a - minor b) (mcurrency a)))"

definition money_neg :: "money \<Rightarrow> money" where
  "money_neg a = mk_money (- minor a) (mcurrency a)"

definition money_lt :: "money \<Rightarrow> money \<Rightarrow> exn + bool" where
  "money_lt a b = chk_bind (assert_same_currency a b) (\<lambda>_. Inr (minor a < minor b))"

definition money_le :: "money \<Rightarrow> money \<Rightarrow> exn + bool" where
  "money_le a b = chk_bind (assert_same_currency a b) (\<lambda>_. Inr (minor a \<le> minor b))"

definition money_gt :: "money \<Rightarrow> money \<Rightarrow> exn + bool" where
  "money_gt a b = chk_bind (assert_same_currency a b) (\<lambda>_. Inr (minor a > minor b))"

definition money_ge :: "money \<Rightarrow> money \<Rightarrow> exn + bool" where
  "money_ge a b = chk_bind (assert_same_currency a b) (\<lambda>_. Inr (minor a \<ge> minor b))"


section \<open>The decimal grammar\<close>

text \<open>
  \<open>_DECIMAL_PATTERN\<close> is \<open>^([0-9]{1,12})(?:\.([0-9]{1,2}))?$\<close>.  The groups are greedy and the
  character after the digits is never a digit, so a match is unique: the longest digit prefix,
  then either nothing or a dot and a digit run.  \<open>$\<close> without \<open>re.MULTILINE\<close> matches at the end
  of the string and also just before a newline that ends it; \<open>at_dollar\<close> says so.
\<close>

definition at_dollar :: "string \<Rightarrow> bool" where
  "at_dollar rest \<longleftrightarrow> rest = [] \<or> rest = [CHR 0x0A]"

definition decimal_match :: "string \<Rightarrow> (string \<times> string option) option" where
  "decimal_match raw =
     (let major = takeWhile is_ascii_digit raw; rest = dropWhile is_ascii_digit raw in
      if \<not> (1 \<le> length major \<and> length major \<le> 12) then None
      else if at_dollar rest then Some (major, None)
      else (case rest of
              [] \<Rightarrow> None
            | c # after_dot \<Rightarrow>
                if c \<noteq> CHR ''.'' then None
                else (let frac = takeWhile is_ascii_digit after_dot; end_part = dropWhile is_ascii_digit after_dot in
                      if 1 \<le> length frac \<and> length frac \<le> 2 \<and> at_dollar end_part
                      then Some (major, Some frac) else None)))"

text \<open>\<open>s.ljust(w, "0")\<close>.\<close>

definition ljust0 :: "string \<Rightarrow> nat \<Rightarrow> string" where
  "ljust0 s w = s @ replicate (w - length s) CHR ''0''"

definition from_decimal_string :: "string \<Rightarrow> currency \<Rightarrow> exn + money" where
  "from_decimal_string raw cur =
     (case decimal_match raw of
        None \<Rightarrow> Inl invalid_money
      | Some (major_text, minor_text) \<Rightarrow>
          let fraction = (case minor_text of None \<Rightarrow> [] | Some f \<Rightarrow> f) in
          if int (length fraction) > exponent cur then Inl invalid_money
          else
            let major = int (parse_nat major_text);
                fraction_padded = ljust0 fraction (nat (exponent cur));
                m = major * minor_units_per_major cur
                    + int (parse_nat (if fraction_padded = [] then ''0'' else fraction_padded))
            in Inr (mk_money m cur))"

definition to_decimal_string :: "money \<Rightarrow> string" where
  "to_decimal_string m =
     (let sign = (if minor m < 0 then ''-'' else []);
          magnitude = \<bar>minor m\<bar>;
          unit = minor_units_per_major (mcurrency m)
      in if exponent (mcurrency m) = 0 then sign @ str_int magnitude
         else sign @ str_int (magnitude div unit) @ ''.''
              @ zero_padded (nat (exponent (mcurrency m))) (magnitude mod unit))"

definition money_str :: "money \<Rightarrow> string" where
  "money_str m = code (mcurrency m) @ '' '' @ to_decimal_string m"


section \<open>Round trip\<close>

lemma takeWhile_digits_append:
  "list_all is_ascii_digit ds \<Longrightarrow> \<not> is_ascii_digit c
   \<Longrightarrow> takeWhile is_ascii_digit (ds @ c # rest) = ds"
  "list_all is_ascii_digit ds \<Longrightarrow> \<not> is_ascii_digit c
   \<Longrightarrow> dropWhile is_ascii_digit (ds @ c # rest) = c # rest"
  by (induction ds) auto

lemma takeWhile_digits_all:
  "list_all is_ascii_digit ds \<Longrightarrow> takeWhile is_ascii_digit ds = ds"
  "list_all is_ascii_digit ds \<Longrightarrow> dropWhile is_ascii_digit ds = []"
  by (induction ds) auto

lemma dot_not_digit [simp]: "\<not> is_ascii_digit CHR ''.''"
  by (simp add: is_ascii_digit_def)

lemma decimal_match_plain:
  assumes "list_all is_ascii_digit ds" "1 \<le> length ds" "length ds \<le> 12"
  shows "decimal_match ds = Some (ds, None)"
  using assms by (simp add: decimal_match_def takeWhile_digits_all at_dollar_def)

lemma decimal_match_fraction:
  assumes "list_all is_ascii_digit ds" "1 \<le> length ds" "length ds \<le> 12"
    and "list_all is_ascii_digit fs" "1 \<le> length fs" "length fs \<le> 2"
  shows "decimal_match (ds @ CHR ''.'' # fs) = Some (ds, Some fs)"
  using assms
  by (auto simp: decimal_match_def takeWhile_digits_append takeWhile_digits_all at_dollar_def)
    (simp add: list_all_iff)

lemma all_digits_str_nat: "list_all is_ascii_digit (str_nat n)"
  by (simp add: list_all_iff str_nat_digits)

lemma all_digits_zero_padded: "0 \<le> n \<Longrightarrow> list_all is_ascii_digit (zero_padded w n)"
  by (auto simp: list_all_iff zero_padded_digits)

lemma int_div_less:
  fixes a u n :: int
  assumes "0 < u" "a < n * u"
  shows "a div u < n"
proof (rule ccontr)
  assume "\<not> a div u < n"
  then have "n * u \<le> a div u * u" using assms by simp
  also have "\<dots> \<le> a"
    using assms(1) minus_mod_eq_div_mult [of a u] pos_mod_sign [of u a] by linarith
  finally show False using assms by simp
qed

lemma decimal_roundtrip:
  assumes "0 \<le> minor m" "exponent (mcurrency m) \<in> {0, 1, 2}"
    and "minor m < 10 ^ 12 * minor_units_per_major (mcurrency m)"
  shows "from_decimal_string (to_decimal_string m) (mcurrency m) = Inr m"
proof (cases "exponent (mcurrency m) = 0")
  case True
  let ?s = "str_nat (nat (minor m))"
  have len: "1 \<le> length ?s" "length ?s \<le> 12"
    using length_str_nat [of "nat (minor m)" 12] assms True
    by (auto simp: minor_units_per_major_def Suc_leI)
  have "to_decimal_string m = ?s"
    using True assms by (simp add: to_decimal_string_def Let_def str_int_nonneg)
  moreover have "decimal_match ?s = Some (?s, None)"
    using len by (intro decimal_match_plain all_digits_str_nat)
  ultimately show ?thesis
    using assms True
    by (simp add: from_decimal_string_def ljust0_def minor_units_per_major_def parse_nat_def
        char_digit_def digits_value_def parse_str_nat [unfolded parse_nat_def digits_value_def])
next
  case False
  define c where "c = mcurrency m"
  define w where "w = nat (exponent c)"
  define u where "u = minor_units_per_major c"
  have w: "1 \<le> w" "w \<le> 2" "exponent c = int w"
    using assms(2) False by (auto simp: w_def c_def)
  have u: "u = 10 ^ w" "0 < u" by (simp_all add: u_def minor_units_per_major_def w_def)
  let ?ma = "str_nat (nat (minor m div u))" and ?mi = "zero_padded w (minor m mod u)"
  have "minor m div u < 10 ^ 12"
    using assms(3) int_div_less [OF u(2), of "minor m" "10 ^ 12"]
    by (simp add: c_def [symmetric] u_def [symmetric])
  then have ma: "1 \<le> length ?ma" "length ?ma \<le> 12"
    using length_str_nat [of "nat (minor m div u)" 12] by (auto simp: Suc_leI nat_less_iff)
  have mod: "0 \<le> minor m mod u" "minor m mod u < 10 ^ w" using u by auto
  then have mi: "length ?mi = w" using w by (simp add: length_zero_padded)
  have "to_decimal_string m = ?ma @ CHR ''.'' # ?mi"
    using False assms u
    by (simp add: to_decimal_string_def Let_def str_int_nonneg c_def [symmetric] u_def [symmetric]
        w_def [symmetric] pos_imp_zdiv_nonneg_iff)
  moreover have "decimal_match (?ma @ CHR ''.'' # ?mi) = Some (?ma, Some ?mi)"
    using ma mi w mod by (intro decimal_match_fraction all_digits_str_nat all_digits_zero_padded) auto
  ultimately have "from_decimal_string (to_decimal_string m) c
      = Inr (mk_money (minor m div u * u + minor m mod u) c)"
    using w mi assms(1) u
    by (auto simp: from_decimal_string_def ljust0_def u_def [symmetric] w_def [symmetric]
        pos_imp_zdiv_nonneg_iff Let_def)
  then show ?thesis by (simp add: c_def)
qed



end
