(* ===== verification/Database.thy ===== *)
theory Database
  imports Money
begin

text \<open>
  The relational schema of the program and the session every handler works on.

  Each table of the SQLAlchemy models (\<open>adapters/persistence/models.py\<close> of the modules,
  \<open>platform_/scheduling/models.py\<close>, \<open>platform_/messaging/models.py\<close>,
  \<open>modules/audit/models.py\<close>) is a list of row records in insertion order; enumerated text
  columns are datatypes, so their \<open>status_valid\<close> checks hold by typing.  Timestamps are
  microseconds since the epoch.  An insert evaluates the table's CHECK, UNIQUE, primary-key and
  foreign-key constraints against the current tables and raises \<open>IntegrityError\<close> with the name
  of the first one violated; a \<open>BIGINT\<close> money column out of range raises SQLSTATE 22003.  Width
  limits of the text columns are not modelled.

  The environment holds everything the code obtains from outside the repository: digest,
  password hash, wall clock, entropy, and the settings.  Successive reads of the clock and of the
  entropy source are numbered by the session's \<open>tick\<close>.
\<close>


section \<open>Enumerated columns\<close>

datatype user_status = UserActive | UserSuspended | UserClosed

datatype account_type = USER | SYSTEM_ISSUANCE | PENDING_SETTLEMENT | ESCROW | GROUP | OVERDRAFT_POOL

datatype account_status = ACTIVE | FROZEN | CLOSED

datatype transfer_kind =
    P2P_SEND | REQUEST_SETTLEMENT | SIGNUP_GRANT | REVERSAL
  | UNDO_HOLD | UNDO_SETTLE | UNDO_REFUND
  | ESCROW_HOLD | ESCROW_RELEASE | ESCROW_REFUND
  | GROUP_DEPOSIT | GROUP_WITHDRAWAL | LINK_PAYMENT
  | OVERDRAFT_DRAW | OVERDRAFT_REPAY | OVERDRAFT_FUND

datatype transfer_status = SUCCEEDED | FAILED | REVERSED | PENDING_UNDO | HELD | DISPUTED | REFUNDED

datatype idempotency_status = PROCESSING | COMPLETED

datatype task_type = UndoSettleTask | EscrowAutoReleaseTask | LinkExpiryTask | MoneyRequestExpiryTask

datatype task_status = TaskPending | TaskDone | TaskCancelled | TaskFailed

datatype request_status = ReqPending | ReqAccepted | ReqRejected | ReqCancelled | ReqExpired

datatype escrow_status =
  AwaitingShipment | Shipped | Delivered | Released | EscrowRefunded | EscrowDisputed | EscrowCancelled

datatype pool_status = PoolActive | PoolSuspended | PoolClosed

datatype grant_status = GrantActive | GrantRevoked

datatype loan_status = LoanOutstanding | LoanRepaid | LoanWrittenOff

text \<open>The text each value is stored as; the responses carry these strings.\<close>

fun account_status_str :: "account_status \<Rightarrow> string" where
  "account_status_str ACTIVE = ''ACTIVE''"
| "account_status_str FROZEN = ''FROZEN''"
| "account_status_str CLOSED = ''CLOSED''"

fun account_type_str :: "account_type \<Rightarrow> string" where
  "account_type_str USER = ''USER''"
| "account_type_str SYSTEM_ISSUANCE = ''SYSTEM_ISSUANCE''"
| "account_type_str PENDING_SETTLEMENT = ''PENDING_SETTLEMENT''"
| "account_type_str ESCROW = ''ESCROW''"
| "account_type_str GROUP = ''GROUP''"
| "account_type_str OVERDRAFT_POOL = ''OVERDRAFT_POOL''"

fun kind_str :: "transfer_kind \<Rightarrow> string" where
  "kind_str P2P_SEND = ''P2P_SEND''"
| "kind_str REQUEST_SETTLEMENT = ''REQUEST_SETTLEMENT''"
| "kind_str SIGNUP_GRANT = ''SIGNUP_GRANT''"
| "kind_str REVERSAL = ''REVERSAL''"
| "kind_str UNDO_HOLD = ''UNDO_HOLD''"
| "kind_str UNDO_SETTLE = ''UNDO_SETTLE''"
| "kind_str UNDO_REFUND = ''UNDO_REFUND''"
| "kind_str ESCROW_HOLD = ''ESCROW_HOLD''"
| "kind_str ESCROW_RELEASE = ''ESCROW_RELEASE''"
| "kind_str ESCROW_REFUND = ''ESCROW_REFUND''"
| "kind_str GROUP_DEPOSIT = ''GROUP_DEPOSIT''"
| "kind_str GROUP_WITHDRAWAL = ''GROUP_WITHDRAWAL''"
| "kind_str LINK_PAYMENT = ''LINK_PAYMENT''"
| "kind_str OVERDRAFT_DRAW = ''OVERDRAFT_DRAW''"
| "kind_str OVERDRAFT_REPAY = ''OVERDRAFT_REPAY''"
| "kind_str OVERDRAFT_FUND = ''OVERDRAFT_FUND''"

fun transfer_status_str :: "transfer_status \<Rightarrow> string" where
  "transfer_status_str SUCCEEDED = ''SUCCEEDED''"
| "transfer_status_str FAILED = ''FAILED''"
| "transfer_status_str REVERSED = ''REVERSED''"
| "transfer_status_str PENDING_UNDO = ''PENDING_UNDO''"
| "transfer_status_str HELD = ''HELD''"
| "transfer_status_str DISPUTED = ''DISPUTED''"
| "transfer_status_str REFUNDED = ''REFUNDED''"

fun request_status_str :: "request_status \<Rightarrow> string" where
  "request_status_str ReqPending = ''PENDING''"
| "request_status_str ReqAccepted = ''ACCEPTED''"
| "request_status_str ReqRejected = ''REJECTED''"
| "request_status_str ReqCancelled = ''CANCELLED''"
| "request_status_str ReqExpired = ''EXPIRED''"

fun escrow_status_str :: "escrow_status \<Rightarrow> string" where
  "escrow_status_str AwaitingShipment = ''AWAITING_SHIPMENT''"
| "escrow_status_str Shipped = ''SHIPPED''"
| "escrow_status_str Delivered = ''DELIVERED''"
| "escrow_status_str Released = ''RELEASED''"
| "escrow_status_str EscrowRefunded = ''REFUNDED''"
| "escrow_status_str EscrowDisputed = ''DISPUTED''"
| "escrow_status_str EscrowCancelled = ''CANCELLED''"

fun pool_status_str :: "pool_status \<Rightarrow> string" where
  "pool_status_str PoolActive = ''ACTIVE''"
| "pool_status_str PoolSuspended = ''SUSPENDED''"
| "pool_status_str PoolClosed = ''CLOSED''"

fun grant_status_str :: "grant_status \<Rightarrow> string" where
  "grant_status_str GrantActive = ''ACTIVE''"
| "grant_status_str GrantRevoked = ''REVOKED''"

fun loan_status_str :: "loan_status \<Rightarrow> string" where
  "loan_status_str LoanOutstanding = ''OUTSTANDING''"
| "loan_status_str LoanRepaid = ''REPAID''"
| "loan_status_str LoanWrittenOff = ''WRITTEN_OFF''"

lemma inj_transfer_status_str: "inj transfer_status_str"
proof (rule injI)
  fix x y
  assume "transfer_status_str x = transfer_status_str y"
  then show "x = y" by (cases x; cases y; simp)
qed


section \<open>Rows\<close>

record user_row =
  u_id :: string
  u_phone :: string
  u_display_name :: string
  u_password_hash :: string
  u_pin_hash :: string
  u_pin_failed_attempts :: int
  u_pin_locked_until :: "int option"
  u_status :: user_status
  u_created_at :: int
  u_updated_at :: int

record session_row =
  s_id :: string
  s_user_id :: string
  s_refresh_token_hash :: string
  s_rotated_to_id :: "string option"
  s_issued_at :: int
  s_expires_at :: int
  s_revoked_at :: "int option"
  s_user_agent :: "string option"
  s_ip_address :: "string option"

record account_row =
  a_id :: string
  a_user_id :: "string option"
  a_type :: account_type
  a_number :: string
  a_currency :: string
  a_balance :: int
  a_status :: account_status
  a_version :: int
  a_created_at :: int
  a_updated_at :: int

record transfer_row =
  t_id :: string
  t_reference :: string
  t_sender :: string
  t_receiver :: string
  t_amount :: int
  t_currency :: string
  t_kind :: transfer_kind
  t_status :: transfer_status
  t_note :: "string option"
  t_initiated_by :: "string option"
  t_request_id :: "string option"
  t_reversal_of :: "string option"
  t_parent :: "string option"
  t_intended_receiver :: "string option"
  t_created_at :: int
  t_completed_at :: "int option"

record ledger_transaction_row =
  lt_id :: string
  lt_transfer_id :: string
  lt_type :: transfer_kind
  lt_description :: "string option"
  lt_posted_at :: int

record ledger_entry_row =
  le_id :: string
  le_txn :: string
  le_account :: string
  le_amount :: int
  le_currency :: string
  le_balance_after :: int
  le_created_at :: int

record idempotency_row =
  i_actor :: string
  i_endpoint :: string
  i_key :: string
  i_fingerprint :: string
  i_status :: idempotency_status
  i_resource_id :: "string option"
  i_http_status :: "int option"
  i_response :: "dict option"
  i_created_at :: int
  i_completed_at :: "int option"

record outbox_row =
  o_id :: string
  o_aggregate_type :: string
  o_aggregate_id :: string
  o_event_type :: string
  o_payload :: dict
  o_trace_id :: "string option"
  o_schema_version :: int
  o_occurred_at :: int
  o_published_at :: "int option"
  o_attempt_count :: int
  o_next_attempt_at :: "int option"
  o_last_error :: "string option"
  o_dead_lettered_at :: "int option"

record audit_row =
  au_id :: string
  au_actor :: "string option"
  au_action :: string
  au_resource_type :: string
  au_resource_id :: "string option"
  au_request_id :: "string option"
  au_ip_address :: "string option"
  au_metadata :: "dict option"
  au_created_at :: int

record task_row =
  k_id :: string
  k_type :: task_type
  k_resource_id :: string
  k_due_at :: int
  k_status :: task_status
  k_attempt_count :: int
  k_last_error :: "string option"
  k_created_at :: int
  k_completed_at :: "int option"

record money_request_row =
  m_id :: string
  m_reference :: string
  m_requester :: string
  m_payer :: string
  m_amount :: int
  m_currency :: string
  m_note :: "string option"
  m_status :: request_status
  m_transfer_id :: "string option"
  m_expires_at :: int
  m_responded_at :: "int option"
  m_created_at :: int
  m_updated_at :: int

record escrow_row =
  e_id :: string
  e_reference :: string
  e_hold_transfer :: string
  e_settlement_transfer :: "string option"
  e_buyer :: string
  e_seller :: string
  e_amount :: int
  e_currency :: string
  e_description :: "string option"
  e_status :: escrow_status
  e_code_hash :: string
  e_code_attempts :: int
  e_code_locked_until :: "int option"
  e_tracking_number :: "string option"
  e_courier :: "string option"
  e_shipped_at :: "int option"
  e_delivered_at :: "int option"
  e_auto_release_at :: "int option"
  e_settled_at :: "int option"
  e_dispute_reason :: "string option"
  e_disputed_at :: "int option"
  e_resolved_by :: "string option"
  e_resolution_note :: "string option"
  e_created_at :: int
  e_updated_at :: int

record pool_row =
  p_id :: string
  p_sponsor :: string
  p_account :: string
  p_currency :: string
  p_status :: pool_status
  p_created_at :: int
  p_updated_at :: int

record grant_row =
  g_id :: string
  g_pool :: string
  g_beneficiary :: string
  g_max_draw :: int
  g_status :: grant_status
  g_created_at :: int
  g_updated_at :: int

record loan_row =
  l_id :: string
  l_pool :: string
  l_borrower :: string
  l_draw_transfer :: string
  l_principal :: int
  l_outstanding :: int
  l_currency :: string
  l_status :: loan_status
  l_created_at :: int
  l_repaid_at :: "int option"

record repayment_row =
  r_id :: string
  r_loan :: string
  r_transfer :: string
  r_amount :: int
  r_triggered_by :: "string option"
  r_created_at :: int

record inbox_row =
  n_consumer :: string
  n_event_id :: string
  n_processed_at :: int


section \<open>The session and the environment\<close>

text \<open>
  \<open>tick\<close> counts the reads of clock and entropy; \<open>txn_now\<close> is PostgreSQL's \<open>now()\<close>, the
  start time of the current transaction.
\<close>

record db =
  users :: "user_row list"
  login_sessions :: "session_row list"
  accounts :: "account_row list"
  transfers :: "transfer_row list"
  ledger_transactions :: "ledger_transaction_row list"
  ledger_entries :: "ledger_entry_row list"
  idempotency_records :: "idempotency_row list"
  outbox_events :: "outbox_row list"
  audit_logs :: "audit_row list"
  scheduled_tasks :: "task_row list"
  money_requests :: "money_request_row list"
  safepay_escrows :: "escrow_row list"
  overdraft_pools :: "pool_row list"
  overdraft_grants :: "grant_row list"
  overdraft_loans :: "loan_row list"
  overdraft_repayments :: "repayment_row list"
  consumer_inbox :: "inbox_row list"
  tick :: nat
  txn_now :: int

type_synonym 'a tx = "(db, exn, 'a) txm"

record env =
  sha256 :: "string \<Rightarrow> string"
  hmac_sha256 :: "string \<Rightarrow> string \<Rightarrow> nat"
  argon2_hash :: "nat \<Rightarrow> string \<Rightarrow> string"
  argon2_verify :: "string \<Rightarrow> string \<Rightarrow> bool"
  argon2_needs_rehash :: "string \<Rightarrow> bool"
  jwt_secret :: string
  jwt_encode :: "string \<Rightarrow> dict \<Rightarrow> string"
  jwt_decode :: "string \<Rightarrow> string \<Rightarrow> int \<Rightarrow> dict option"
  engineering_api_key :: string
  token_feed :: "nat \<Rightarrow> string"
  clock_feed :: "nat \<Rightarrow> int"
  db_clock :: "nat \<Rightarrow> int"
  ulid_feed :: "nat \<Rightarrow> int \<times> int"
  choice_feed :: "nat \<Rightarrow> nat list"
  max_transfer_amount_minor :: int
  daily_transfer_limit_minor :: int
  opening_balance_minor :: int
  pin_max_attempts :: int
  pin_lockout_seconds :: int
  access_token_ttl_seconds :: int
  refresh_token_ttl_seconds :: int
  money_request_expiry_hours :: int
  safepay_auto_release_hours :: int
  overdraft_max_draw_minor :: int
  overdraft_lien_sweep_basis_points :: int
  transaction_max_attempts :: nat

abbreviation second_us :: int where
  "second_us \<equiv> 1000000"

abbreviation hour_us :: int where
  "hour_us \<equiv> 3600000000"

definition tx_tick :: "nat tx" where
  "tx_tick = (\<lambda>s. (Inr (tick s), s\<lparr>tick := Suc (tick s)\<rparr>))"

text \<open>\<open>self._clock.now()\<close>, \<open>new_ulid()\<close> and \<open>generate_reference\<close> inside a handler.\<close>

definition clock_now :: "env \<Rightarrow> int tx" where
  "clock_now E = tx_bind tx_tick (\<lambda>n. tx_return (clock_feed E n))"

definition fresh_ulid :: "env \<Rightarrow> string tx" where
  "fresh_ulid E = tx_bind tx_tick (\<lambda>n. tx_lift (case ulid_feed E n of (ms, r) \<Rightarrow> new_ulid ms r))"

definition fresh_reference :: "env \<Rightarrow> string \<Rightarrow> int \<Rightarrow> string tx" where
  "fresh_reference E tag now =
     tx_bind tx_tick (\<lambda>n. tx_return (generate_reference tag now (choice_feed E n)))"


section \<open>Constraints\<close>

definition bigint_ok :: "int \<Rightarrow> bool" where
  "bigint_ok i \<longleftrightarrow> - (2 ^ 63) \<le> i \<and> i < 2 ^ 63"

text \<open>The first violated constraint of a list of named conditions.\<close>

fun first_violation :: "(string \<times> bool) list \<Rightarrow> string option" where
  "first_violation [] = None"
| "first_violation ((c, ok) # cs) = (if ok then first_violation cs else Some c)"

lemma first_violation_None: "first_violation cs = None \<longleftrightarrow> list_all snd cs"
  by (induction cs rule: first_violation.induct) auto

definition require_constraints :: "(db \<Rightarrow> (string \<times> bool) list) \<Rightarrow> unit tx" where
  "require_constraints cs = (\<lambda>s. case first_violation (cs s) of
       None \<Rightarrow> (Inr (), s)
     | Some c \<Rightarrow> (Inl (IntegrityError c), s))"

definition require_bigint :: "int list \<Rightarrow> unit tx" where
  "require_bigint vs = tx_unless (list_all bigint_ok vs) (DatabaseError ''22003'')"

definition opt_in :: "'a option \<Rightarrow> 'a list \<Rightarrow> bool" where
  "opt_in v xs \<longleftrightarrow> (case v of None \<Rightarrow> True | Some x \<Rightarrow> x \<in> set xs)"

lemma require_constraints_okD [tx_okD]:
  "require_constraints cs s = (Inr u, t) \<longleftrightarrow> list_all snd (cs s) \<and> t = s"
  by (auto simp: require_constraints_def first_violation_None [symmetric] split: option.splits)

lemma require_bigint_okD [tx_okD]:
  "require_bigint vs s = (Inr u, t) \<longleftrightarrow> list_all bigint_ok vs \<and> t = s"
  by (simp add: require_bigint_def tx_okD)

lemma frame_require:
  "tx_frame v (require_constraints cs)" "tx_frame v (require_bigint vs)"
  by (auto simp: tx_frame_def require_constraints_def require_bigint_def tx_run split: option.splits)

text \<open>Drawing from the feeds changes nothing but the tick.\<close>

lemma tx_tick_okD [tx_okD]: "tx_tick s = (Inr n, t) \<longleftrightarrow> n = tick s \<and> t = s\<lparr>tick := Suc (tick s)\<rparr>"
  by (auto simp: tx_tick_def)

lemma clock_now_okD [tx_okD]:
  "clock_now E s = (Inr w, t) \<longleftrightarrow> w = clock_feed E (tick s) \<and> t = s\<lparr>tick := Suc (tick s)\<rparr>"
  by (auto simp: clock_now_def tx_okD)

lemma fresh_ulid_okD [tx_okD]:
  "fresh_ulid E s = (Inr w, t) \<longleftrightarrow>
     new_ulid (fst (ulid_feed E (tick s))) (snd (ulid_feed E (tick s))) = Inr w
     \<and> t = s\<lparr>tick := Suc (tick s)\<rparr>"
  by (auto simp: fresh_ulid_def tx_okD split: prod.splits)

lemma fresh_reference_okD [tx_okD]:
  "fresh_reference E p now s = (Inr w, t) \<longleftrightarrow>
     w = generate_reference p now (choice_feed E (tick s)) \<and> t = s\<lparr>tick := Suc (tick s)\<rparr>"
  by (auto simp: fresh_reference_def tx_okD)


section \<open>Parts of the session\<close>

text \<open>
  The four tables the books are kept in.  Every statement about balances and postings reads the
  session through \<open>books\<close> only, so an operation on any other table keeps it by framing.
\<close>

record books =
  b_accounts :: "account_row list"
  b_transfers :: "transfer_row list"
  b_ledger :: "ledger_transaction_row list"
  b_entries :: "ledger_entry_row list"

definition books_of :: "db \<Rightarrow> books" where
  "books_of s = \<lparr>b_accounts = accounts s, b_transfers = transfers s,
                 b_ledger = ledger_transactions s, b_entries = ledger_entries s\<rparr>"

lemma books_of_eq:
  "books_of s = books_of t \<longleftrightarrow>
     accounts s = accounts t \<and> transfers s = transfers t
     \<and> ledger_transactions s = ledger_transactions t \<and> ledger_entries s = ledger_entries t"
  by (simp add: books_of_def)

lemma tx_frame_mono:
  "tx_frame (\<lambda>s. f (v s)) m" if "tx_frame v m"
  using that by (simp add: tx_frame_def)

lemma tx_frame_tick: "(\<And>s n. v (s\<lparr>tick := n\<rparr>) = v s) \<Longrightarrow> tx_frame v tx_tick"
  by (simp add: tx_frame_def tx_tick_def)

lemma tx_frame_feeds:
  assumes "\<And>s n. v (s\<lparr>tick := n\<rparr>) = v s"
  shows "tx_frame v (clock_now E)" "tx_frame v (fresh_ulid E)" "tx_frame v (fresh_reference E p now)"
  unfolding clock_now_def fresh_ulid_def fresh_reference_def
  by (intro tx_frame_bind tx_frame_basic tx_frame_tick assms)+

end
