(* ===== verification/Account.thy ===== *)
theory Account
  imports Database
begin

text \<open>
  The Account aggregate, \<open>modules/financial_core/domain/account.py\<close>: a value loaded from a
  locked row, the guards it answers, and the two transitions that change a balance.
\<close>

definition SYSTEM_ISSUANCE_ACCOUNT_ID :: string where
  "SYSTEM_ISSUANCE_ACCOUNT_ID = ''00000000000000000000000000''"

definition ESCROW_ACCOUNT_ID :: string where
  "ESCROW_ACCOUNT_ID = ''00000000000000000000000001''"

definition PENDING_SETTLEMENT_ACCOUNT_ID :: string where
  "PENDING_SETTLEMENT_ACCOUNT_ID = ''00000000000000000000000002''"

definition USER_OWNED_ACCOUNT_TYPES :: "account_type list" where
  "USER_OWNED_ACCOUNT_TYPES = [USER, OVERDRAFT_POOL]"

definition UNOWNED_ACCOUNT_TYPES :: "account_type list" where
  "UNOWNED_ACCOUNT_TYPES = [SYSTEM_ISSUANCE, ESCROW, PENDING_SETTLEMENT, GROUP]"

record account =
  acc_id :: string
  acc_user_id :: "string option"
  acc_type :: account_type
  acc_balance :: money
  acc_status :: account_status
  acc_version :: int

definition is_system :: "account \<Rightarrow> bool" where
  "is_system a \<longleftrightarrow> acc_type a = SYSTEM_ISSUANCE"

definition can_transact :: "account \<Rightarrow> bool" where
  "can_transact a \<longleftrightarrow> acc_status a = ACTIVE"

definition may_go_negative :: "account \<Rightarrow> bool" where
  "may_go_negative a \<longleftrightarrow> acc_type a = SYSTEM_ISSUANCE"

definition is_holding_account :: "account \<Rightarrow> bool" where
  "is_holding_account a \<longleftrightarrow> acc_type a \<in> {ESCROW, PENDING_SETTLEMENT}"

section \<open>Guards\<close>

definition ensure_active :: "account \<Rightarrow> exn + unit" where
  "ensure_active a = chk_unless (can_transact a)
     (AppError AccountInactiveError
        [(''accountId'', JStr (acc_id a)), (''status'', JStr (account_status_str (acc_status a)))])"

definition ensure_owned_by :: "account \<Rightarrow> string \<Rightarrow> exn + unit" where
  "ensure_owned_by a user_id =
     chk_unless (acc_user_id a = Some user_id) (app_error AuthorizationError)"

definition ensure_same_currency_as :: "account \<Rightarrow> account \<Rightarrow> exn + unit" where
  "ensure_same_currency_as a b =
     chk_unless (mcurrency (acc_balance a) = mcurrency (acc_balance b))
       (AppError CurrencyMismatchError
          [(''from'', JStr (code (mcurrency (acc_balance a)))),
           (''to'', JStr (code (mcurrency (acc_balance b))))])"

definition ensure_can_afford :: "account \<Rightarrow> money \<Rightarrow> exn + unit" where
  "ensure_can_afford a amount =
     (if may_go_negative a then Inr ()
      else chk_bind (money_lt (acc_balance a) amount) (\<lambda>short.
        chk_unless (\<not> short)
          (AppError InsufficientFundsError
             [(''availableMinor'', JInt (minor (acc_balance a))),
              (''requestedMinor'', JInt (minor amount)),
              (''shortfallMinor'', JInt (minor amount - minor (acc_balance a)))])))"

section \<open>Transitions\<close>

definition debit :: "account \<Rightarrow> money \<Rightarrow> exn + account" where
  "debit a amount =
     chk_bind (chk_unless (is_positive amount) (PyError ''ValueError'')) (\<lambda>_.
     chk_bind (ensure_active a) (\<lambda>_.
     chk_bind (ensure_can_afford a amount) (\<lambda>_.
     chk_bind (money_sub (acc_balance a) amount) (\<lambda>b.
       Inr (a\<lparr>acc_balance := b, acc_version := acc_version a + 1\<rparr>)))))"

definition credit :: "account \<Rightarrow> money \<Rightarrow> exn + account" where
  "credit a amount =
     chk_bind (chk_unless (is_positive amount) (PyError ''ValueError'')) (\<lambda>_.
     chk_bind (ensure_active a) (\<lambda>_.
     chk_bind (money_add (acc_balance a) amount) (\<lambda>b.
       Inr (a\<lparr>acc_balance := b, acc_version := acc_version a + 1\<rparr>))))"

lemma assert_same_currency_ok [simp]:
  "assert_same_currency a b = Inr u \<longleftrightarrow> mcurrency a = mcurrency b"
  by (simp add: assert_same_currency_def)

lemma ensure_ok [simp]:
  "ensure_active a = Inr u \<longleftrightarrow> acc_status a = ACTIVE"
  "ensure_owned_by a uid = Inr u \<longleftrightarrow> acc_user_id a = Some uid"
  "ensure_same_currency_as a b = Inr u \<longleftrightarrow> mcurrency (acc_balance a) = mcurrency (acc_balance b)"
  by (simp_all add: ensure_active_def can_transact_def ensure_owned_by_def ensure_same_currency_as_def)

lemma ensure_can_afford_ok:
  "ensure_can_afford a m = Inr u \<longleftrightarrow>
     acc_type a = SYSTEM_ISSUANCE
     \<or> mcurrency (acc_balance a) = mcurrency m \<and> minor m \<le> minor (acc_balance a)"
  by (auto simp: ensure_can_afford_def may_go_negative_def money_lt_def)

lemma debit_ok:
  "debit a m = Inr a' \<longleftrightarrow>
     0 < minor m \<and> acc_status a = ACTIVE \<and> mcurrency (acc_balance a) = mcurrency m
     \<and> (acc_type a = SYSTEM_ISSUANCE \<or> minor m \<le> minor (acc_balance a))
     \<and> a' = a\<lparr>acc_balance := mk_money (minor (acc_balance a) - minor m) (mcurrency m),
              acc_version := acc_version a + 1\<rparr>"
  by (auto simp: debit_def is_positive_def ensure_can_afford_ok money_sub_def)

lemma credit_ok:
  "credit a m = Inr a' \<longleftrightarrow>
     0 < minor m \<and> acc_status a = ACTIVE \<and> mcurrency (acc_balance a) = mcurrency m
     \<and> a' = a\<lparr>acc_balance := mk_money (minor (acc_balance a) + minor m) (mcurrency m),
              acc_version := acc_version a + 1\<rparr>"
  by (auto simp: credit_def is_positive_def money_add_def)

end
