(* ===== verification/Ledger.thy ===== *)
theory Ledger
  imports Account
begin

text \<open>
  The double-entry posting, \<open>modules/financial_core/domain/ledger.py\<close>.  The dataclass validators
  are the constructors \<open>mk_posting_line\<close> and \<open>mk_ledger_posting\<close>, which return the exception
  instead of an unbalanced value.
\<close>

record posting_line =
  pl_account :: string
  pl_amount :: money

record ledger_posting =
  lp_lines :: "posting_line list"
  lp_currency :: currency

abbreviation unbalanced_posting :: exn where
  "unbalanced_posting \<equiv> PyError ''UnbalancedPostingError''"

definition mk_posting_line :: "string \<Rightarrow> money \<Rightarrow> exn + posting_line" where
  "mk_posting_line acc amount =
     (if is_zero amount then Inl unbalanced_posting
      else Inr \<lparr>pl_account = acc, pl_amount = amount\<rparr>)"

definition is_debit :: "posting_line \<Rightarrow> bool" where
  "is_debit l \<longleftrightarrow> minor (pl_amount l) < 0"

definition is_credit :: "posting_line \<Rightarrow> bool" where
  "is_credit l \<longleftrightarrow> minor (pl_amount l) > 0"

definition mk_ledger_posting :: "posting_line list \<Rightarrow> currency \<Rightarrow> exn + ledger_posting" where
  "mk_ledger_posting ls cur =
     (if length ls < 2 then Inl unbalanced_posting
      else if sum_list (map (\<lambda>l. minor (pl_amount l)) ls) \<noteq> 0 then Inl unbalanced_posting
      else if filter (\<lambda>l. mcurrency (pl_amount l) \<noteq> cur) ls \<noteq> [] then Inl unbalanced_posting
      else if card (set (map pl_account ls)) \<noteq> length (map pl_account ls) then Inl unbalanced_posting
      else Inr \<lparr>lp_lines = ls, lp_currency = cur\<rparr>)"

text \<open>\<open>LedgerPosting.transfer\<close>.\<close>

definition transfer_posting :: "string \<Rightarrow> string \<Rightarrow> money \<Rightarrow> exn + ledger_posting" where
  "transfer_posting from_acc to_acc amount =
     (if \<not> is_positive amount then Inl unbalanced_posting
      else if from_acc = to_acc then Inl unbalanced_posting
      else chk_bind (mk_posting_line from_acc (money_neg amount)) (\<lambda>d.
           chk_bind (mk_posting_line to_acc amount) (\<lambda>c.
             mk_ledger_posting [d, c] (mcurrency amount))))"

definition posting_debits :: "ledger_posting \<Rightarrow> posting_line list" where
  "posting_debits p = filter is_debit (lp_lines p)"

definition posting_credits :: "ledger_posting \<Rightarrow> posting_line list" where
  "posting_credits p = filter is_credit (lp_lines p)"

definition total_moved :: "ledger_posting \<Rightarrow> money" where
  "total_moved p = mk_money (sum_list (map (\<lambda>l. minor (pl_amount l)) (posting_credits p))) (lp_currency p)"

text \<open>What the validators guarantee of a posting that exists.\<close>

definition posting_ok :: "ledger_posting \<Rightarrow> bool" where
  "posting_ok p \<longleftrightarrow>
     2 \<le> length (lp_lines p)
     \<and> sum_list (map (\<lambda>l. minor (pl_amount l)) (lp_lines p)) = 0
     \<and> (\<forall>l \<in> set (lp_lines p). mcurrency (pl_amount l) = lp_currency p)
     \<and> distinct (map pl_account (lp_lines p))"

lemma mk_ledger_posting_ok:
  "mk_ledger_posting ls cur = Inr p \<longleftrightarrow> p = \<lparr>lp_lines = ls, lp_currency = cur\<rparr> \<and> posting_ok p"
  using distinct_card [of "map pl_account ls"] card_distinct [of "map pl_account ls"]
  by (auto simp: mk_ledger_posting_def posting_ok_def filter_empty_conv)

lemma transfer_posting_ok:
  "transfer_posting a b m = Inr p \<longleftrightarrow>
     0 < minor m \<and> a \<noteq> b
     \<and> p = \<lparr>lp_lines = [\<lparr>pl_account = a, pl_amount = money_neg m\<rparr>, \<lparr>pl_account = b, pl_amount = m\<rparr>],
             lp_currency = mcurrency m\<rparr>"
  by (auto simp: transfer_posting_def is_positive_def mk_posting_line_def is_zero_def money_neg_def
      mk_ledger_posting_ok posting_ok_def)

lemma sum_signed_split:
  "sum_list (map f (filter (\<lambda>x. f x < 0) xs)) + sum_list (map f (filter (\<lambda>x. 0 < f x) xs))
   = sum_list (map f xs)"
  for f :: "'a \<Rightarrow> int"
  by (induction xs) auto

text \<open>
  A ledger posting that can be constructed is balanced: its debits and credits cancel exactly,
  the gross value moved is the debited value, all lines carry the posting's currency, and no
  account occurs twice.
\<close>

lemma posting_balanced:
  assumes "mk_ledger_posting ls cur = Inr p"
  shows "minor (total_moved p) = - sum_list (map (\<lambda>l. minor (pl_amount l)) (posting_debits p))
    \<and> (\<forall>l \<in> set (lp_lines p). mcurrency (pl_amount l) = cur)
    \<and> distinct (map pl_account (lp_lines p)) \<and> 2 \<le> length (lp_lines p)"
proof -
  have p: "p = \<lparr>lp_lines = ls, lp_currency = cur\<rparr>" "posting_ok p"
    using assms unfolding mk_ledger_posting_ok by blast+
  have "sum_list (map (\<lambda>l. minor (pl_amount l)) (posting_debits p)) + minor (total_moved p) = 0"
    using p sum_signed_split [of "\<lambda>l. minor (pl_amount l)" ls]
    by (simp add: posting_debits_def posting_credits_def total_moved_def posting_ok_def
        is_debit_def [abs_def] is_credit_def [abs_def])
  then show ?thesis using p by (simp add: posting_ok_def)
qed

end
