(* ===== verification/Policies.thy ===== *)
theory Policies
  imports Ledger
begin

text \<open>
  Fee strategies and transfer limits, \<open>modules/financial_core/domain/policies.py\<close>.  Python's
  \<open>//\<close> on integers rounds towards minus infinity, as \<open>div\<close> on \<open>int\<close> does.
\<close>

definition no_fee :: "money \<Rightarrow> money" where
  "no_fee amount = money_zero (mcurrency amount)"

definition flat_fee :: "int \<Rightarrow> money \<Rightarrow> money" where
  "flat_fee flat_minor amount = mk_money flat_minor (mcurrency amount)"

definition percentage_fee :: "int \<Rightarrow> int \<Rightarrow> money \<Rightarrow> money" where
  "percentage_fee basis_points minimum_minor amount =
     (let raw = - (- minor amount * basis_points div 10000)
      in mk_money (max raw minimum_minor) (mcurrency amount))"

record transfer_limits =
  max_single_transfer_minor :: int
  daily_total_minor :: int

definition ensure_within_limits :: "transfer_limits \<Rightarrow> money \<Rightarrow> money \<Rightarrow> exn + unit" where
  "ensure_within_limits lim amount already_sent_today =
     (if minor amount > max_single_transfer_minor lim
      then Inl (AppError TransferLimitExceededError
             [(''requestedMinor'', JInt (minor amount)),
              (''maxSingleTransferMinor'', JInt (max_single_transfer_minor lim))])
      else let projected = minor already_sent_today + minor amount in
        if projected > daily_total_minor lim
        then Inl (AppError DailyLimitExceededError
             [(''alreadySentTodayMinor'', JInt (minor already_sent_today)),
              (''requestedMinor'', JInt (minor amount)),
              (''dailyLimitMinor'', JInt (daily_total_minor lim)),
              (''remainingMinor'', JInt (max 0 (daily_total_minor lim - minor already_sent_today)))])
        else Inr ())"

lemma ensure_within_limits_ok [simp]:
  "ensure_within_limits lim m sent = Inr u \<longleftrightarrow>
     minor m \<le> max_single_transfer_minor lim \<and> minor sent + minor m \<le> daily_total_minor lim"
  by (auto simp: ensure_within_limits_def Let_def)


section \<open>What a fee strategy promises\<close>

text \<open>
  The transfer adds the fee to the amount and debits the sum, so a strategy must answer in the
  amount's currency and must not be negative.
\<close>

locale fee_strategy =
  fixes fee :: "money \<Rightarrow> money"
  assumes fee_currency: "mcurrency (fee m) = mcurrency m"
    and fee_nonneg: "0 < minor m \<Longrightarrow> 0 \<le> minor (fee m)"
begin

lemma total_debit_ok:
  "0 < minor m \<Longrightarrow>
     \<exists>t. money_add m (fee m) = Inr t \<and> minor m \<le> minor t \<and> mcurrency t = mcurrency m"
  using fee_nonneg [of m] by (simp add: money_add_def fee_currency)

end

lemma ceiling_div_bounds:
  fixes n d :: int
  assumes "0 < d"
  shows "n \<le> - (- n div d) * d \<and> (- (- n div d) - 1) * d < n"
proof -
  define q where "q = - n div d"
  have "d * q = - n - (- n mod d)" unfolding q_def by (rule minus_mod_eq_mult_div [symmetric])
  moreover have "0 \<le> - n mod d" "- n mod d < d" using assms by auto
  ultimately show ?thesis unfolding q_def [symmetric] by (simp add: algebra_simps)
qed

interpretation none: fee_strategy no_fee
  by unfold_locales (simp_all add: no_fee_def money_zero_def)

lemma flat_fee_strategy: "0 \<le> flat \<Longrightarrow> fee_strategy (flat_fee flat)"
  by unfold_locales (simp_all add: flat_fee_def)

lemma percentage_fee_strategy:
  assumes "0 \<le> bp"
  shows "fee_strategy (percentage_fee bp mn)"
proof
  fix m :: money
  show "mcurrency (percentage_fee bp mn m) = mcurrency m"
    by (simp add: percentage_fee_def Let_def)
  assume "0 < minor m"
  with assms have "0 \<le> minor m * bp" by simp
  then have "- (minor m * bp) div 10000 \<le> 0"
    using zdiv_mono1 [of "- (minor m * bp)" 0 10000] by simp
  then show "0 \<le> minor (percentage_fee bp mn m)"
    by (simp add: percentage_fee_def Let_def)
qed

text \<open>
  The percentage fee is the exact share rounded up to the next minor unit, never less than the
  configured minimum, and charging it never makes the total debit smaller than the amount.
\<close>

lemma percentage_fee_rounds_up:
  assumes "0 < minor m" "0 \<le> bp"
  shows "minor m * bp \<le> 10000 * minor (percentage_fee bp mn m)
    \<and> mn \<le> minor (percentage_fee bp mn m)
    \<and> (mn < minor (percentage_fee bp mn m) \<longrightarrow>
         10000 * (minor (percentage_fee bp mn m) - 1) < minor m * bp)
    \<and> (\<exists>t. money_add m (percentage_fee bp mn m) = Inr t \<and> minor m \<le> minor t)"
proof -
  have "\<exists>t. money_add m (percentage_fee bp mn m) = Inr t \<and> minor m \<le> minor t"
    using fee_strategy.total_debit_ok [OF percentage_fee_strategy [OF assms(2)] assms(1)] by blast
  moreover have "minor m * bp \<le> 10000 * minor (percentage_fee bp mn m)"
    and "mn < minor (percentage_fee bp mn m) \<longrightarrow>
         10000 * (minor (percentage_fee bp mn m) - 1) < minor m * bp"
    using ceiling_div_bounds [of 10000 "minor m * bp"]
    by (auto simp: percentage_fee_def Let_def max_def)
  ultimately show ?thesis by (simp add: percentage_fee_def Let_def)
qed

end
