(* ===== verification/Repositories.thy ===== *)
theory Repositories
  imports Policies
begin

text \<open>
  The PostgreSQL adapters of the financial core,
  \<open>modules/financial_core/adapters/persistence/repositories.py\<close>, the events of
  \<open>domain/events.py\<close> and the decision types of \<open>application/idempotency.py\<close>.  Each method is an
  operation on the session; row locks order concurrent transactions and have no effect on the
  rows, so \<open>lock_for_update\<close> is the read it performs, in the order it locks.
\<close>

section \<open>Accounts\<close>

definition is_space :: "char \<Rightarrow> bool" where
  "is_space c \<longleftrightarrow> of_char c \<in> {9, 10, 11, 12, 13, 28, 29, 30, 31, 32 :: nat}"

text \<open>\<open>str.strip()\<close>, over ASCII whitespace.\<close>

definition py_strip :: "string \<Rightarrow> string" where
  "py_strip s = rev (dropWhile is_space (rev (dropWhile is_space s)))"

definition account_to_domain :: "account_row \<Rightarrow> exn + account" where
  "account_to_domain r =
     (case supported_currency (py_strip (a_currency r)) of
        None \<Rightarrow> Inl (PyError ''KeyError'')
      | Some cur \<Rightarrow> Inr \<lparr>acc_id = a_id r, acc_user_id = a_user_id r, acc_type = a_type r,
                         acc_balance = mk_money (a_balance r) cur, acc_status = a_status r,
                         acc_version = a_version r\<rparr>)"

text \<open>\<open>Result.one_or_none()\<close>.\<close>

fun one_or_none :: "'r list \<Rightarrow> exn + 'r option" where
  "one_or_none [] = Inr None"
| "one_or_none [r] = Inr (Some r)"
| "one_or_none (r # r' # rs) = Inl (PyError ''MultipleResultsFound'')"

definition optional_account :: "account_row option \<Rightarrow> exn + account option" where
  "optional_account r = (case r of None \<Rightarrow> Inr None
                         | Some row \<Rightarrow> chk_bind (account_to_domain row) (\<lambda>a. Inr (Some a)))"

definition get_account_by_id :: "string \<Rightarrow> account option tx" where
  "get_account_by_id account_id =
     tx_bind (tx_gets (\<lambda>s. sql_get a_id account_id (accounts s))) (\<lambda>r. tx_lift (optional_account r))"

definition get_account_by_user_id :: "string \<Rightarrow> account option tx" where
  "get_account_by_user_id user_id =
     tx_bind (tx_gets (\<lambda>s. filter (\<lambda>a. a_user_id a = Some user_id \<and> a_type a = USER) (accounts s)))
       (\<lambda>rs. tx_lift (chk_bind (one_or_none rs) optional_account))"

definition get_account_by_phone :: "string \<Rightarrow> account option tx" where
  "get_account_by_phone phone =
     tx_bind (tx_gets (\<lambda>s. [a. a \<leftarrow> accounts s, u \<leftarrow> users s,
                                a_user_id a = Some (u_id u), u_phone u = phone, a_type a = USER]))
       (\<lambda>rs. tx_lift (chk_bind (one_or_none rs) optional_account))"

text \<open>\<open>sorted(set(account_ids))\<close>, the order in which \<open>lock_for_update\<close> takes its row locks.\<close>

definition lock_order :: "string list \<Rightarrow> string list" where
  "lock_order ids = sort (remdups ids)"

fun accounts_to_domain :: "account_row list \<Rightarrow> exn + (string \<times> account) list" where
  "accounts_to_domain [] = Inr []"
| "accounts_to_domain (r # rs) =
     chk_bind (account_to_domain r) (\<lambda>a.
     chk_bind (accounts_to_domain rs) (\<lambda>m. Inr ((a_id r, a) # m)))"

definition lock_accounts_for_update :: "string list \<Rightarrow> (string \<times> account) list tx" where
  "lock_accounts_for_update account_ids =
     tx_bind (tx_gets (\<lambda>s. sql_order_by a_id
                 (filter (\<lambda>a. a_id a \<in> set (lock_order account_ids)) (accounts s))))
       (\<lambda>rs. tx_lift (accounts_to_domain rs))"

text \<open>The constraints of the \<open>accounts\<close> table.\<close>

definition account_row_ok :: "account_row \<Rightarrow> (string \<times> bool) list" where
  "account_row_ok a =
     [(''ck_accounts_user_balance_non_negative'', a_type a = SYSTEM_ISSUANCE \<or> 0 \<le> a_balance a),
      (''ck_accounts_ownership_matches_type'',
         (a_type a \<in> set USER_OWNED_ACCOUNT_TYPES \<and> a_user_id a \<noteq> None)
         \<or> (a_type a \<in> set UNOWNED_ACCOUNT_TYPES \<and> a_user_id a = None))]"

definition insert_account :: "account_row \<Rightarrow> unit tx" where
  "insert_account a =
     tx_bind (require_bigint [a_balance a, a_version a]) (\<lambda>_.
     tx_bind (require_constraints (\<lambda>s. account_row_ok a @
        [(''pk_accounts'', a_id a \<notin> a_id ` set (accounts s)),
         (''uq_accounts_account_number'', a_number a \<notin> a_number ` set (accounts s)),
         (''one_account_per_user_per_type'',
            a_user_id a = None
            \<or> (\<forall>b \<in> set (accounts s). \<not> (a_user_id b = a_user_id a \<and> a_type b = a_type a))),
         (''fk_accounts_user_id'', opt_in (a_user_id a) (map u_id (users s)))])) (\<lambda>_.
       tx_modify (\<lambda>s. s\<lparr>accounts := accounts s @ [a]\<rparr>)))"

definition create_account :: "string \<Rightarrow> string \<Rightarrow> string \<Rightarrow> string \<Rightarrow> int \<Rightarrow> unit tx" where
  "create_account account_id user_id account_number cur now =
     insert_account \<lparr>a_id = account_id, a_user_id = Some user_id, a_type = USER,
       a_number = account_number, a_currency = cur, a_balance = 0, a_status = ACTIVE,
       a_version = 0, a_created_at = now, a_updated_at = now\<rparr>"

definition create_subaccount ::
  "string \<Rightarrow> string option \<Rightarrow> account_type \<Rightarrow> string \<Rightarrow> string \<Rightarrow> int \<Rightarrow> unit tx" where
  "create_subaccount account_id user_id ty account_number cur now =
     insert_account \<lparr>a_id = account_id, a_user_id = user_id, a_type = ty,
       a_number = account_number, a_currency = cur, a_balance = 0, a_status = ACTIVE,
       a_version = 0, a_created_at = now, a_updated_at = now\<rparr>"

definition set_account_status :: "string \<Rightarrow> account_status \<Rightarrow> nat tx" where
  "set_account_status account_id st =
     tx_bind (tx_gets (\<lambda>s. sql_rowcount (\<lambda>a. a_id a = account_id) (accounts s))) (\<lambda>n.
     tx_bind (tx_modify (\<lambda>s. s\<lparr>accounts :=
        sql_update (\<lambda>a. a_id a = account_id)
          (\<lambda>a. a\<lparr>a_status := st, a_updated_at := txn_now s\<rparr>) (accounts s)\<rparr>)) (\<lambda>_.
       tx_return n))"

definition persist_balance :: "account \<Rightarrow> unit tx" where
  "persist_balance acc =
     tx_bind (require_bigint [minor (acc_balance acc), acc_version acc]) (\<lambda>_.
     tx_bind (require_constraints (\<lambda>s.
        concat (map (\<lambda>a. account_row_ok (a\<lparr>a_balance := minor (acc_balance acc)\<rparr>))
                    (filter (\<lambda>a. a_id a = acc_id acc) (accounts s))))) (\<lambda>_.
     tx_bind (tx_gets (\<lambda>s. sql_rowcount (\<lambda>a. a_id a = acc_id acc) (accounts s))) (\<lambda>n.
     tx_bind (tx_modify (\<lambda>s. s\<lparr>accounts :=
        sql_update (\<lambda>a. a_id a = acc_id acc)
          (\<lambda>a. a\<lparr>a_balance := minor (acc_balance acc), a_version := acc_version acc,
                  a_updated_at := txn_now s\<rparr>) (accounts s)\<rparr>)) (\<lambda>_.
       tx_unless (n = 1) (PyError ''RuntimeError'')))))"


section \<open>Transfers\<close>

definition settlement_kinds :: "transfer_kind list" where
  "settlement_kinds = [UNDO_SETTLE, UNDO_REFUND, ESCROW_RELEASE, ESCROW_REFUND]"

definition transfer_row_constraints :: "transfer_row \<Rightarrow> db \<Rightarrow> (string \<times> bool) list" where
  "transfer_row_constraints t s =
     [(''ck_transfers_amount_positive'', 0 < t_amount t),
      (''ck_transfers_sender_differs_from_receiver'', t_sender t \<noteq> t_receiver t),
      (''ck_transfers_settlement_leg_has_parent'',
         (t_kind t \<in> set settlement_kinds \<and> t_parent t \<noteq> None)
         \<or> (t_kind t \<notin> set settlement_kinds \<and> t_parent t = None)),
      (''pk_transfers'', t_id t \<notin> t_id ` set (transfers s)),
      (''uq_transfers_reference'', t_reference t \<notin> t_reference ` set (transfers s)),
      (''fk_transfers_sender_account_id'', t_sender t \<in> a_id ` set (accounts s)),
      (''fk_transfers_receiver_account_id'', t_receiver t \<in> a_id ` set (accounts s)),
      (''fk_transfers_initiated_by_user_id'', opt_in (t_initiated_by t) (map u_id (users s))),
      (''fk_transfers_reversal_of_id'', opt_in (t_reversal_of t) (t_id t # map t_id (transfers s))),
      (''fk_transfers_parent_transfer_id'', opt_in (t_parent t) (t_id t # map t_id (transfers s))),
      (''fk_transfers_intended_receiver_account_id'', opt_in (t_intended_receiver t) (map a_id (accounts s)))]"

definition insert_transfer :: "transfer_row \<Rightarrow> unit tx" where
  "insert_transfer t =
     tx_bind (require_bigint [t_amount t]) (\<lambda>_.
     tx_bind (require_constraints (transfer_row_constraints t)) (\<lambda>_.
       tx_modify (\<lambda>s. s\<lparr>transfers := transfers s @ [t]\<rparr>)))"

text \<open>
  \<open>SqlTransferRepository.create\<close>; \<open>money_request_id\<close> is accepted and dropped by the method, so
  it is not an argument here.
\<close>

definition create_transfer ::
  "string \<Rightarrow> string \<Rightarrow> string \<Rightarrow> string \<Rightarrow> money \<Rightarrow> transfer_kind \<Rightarrow> transfer_status \<Rightarrow> string option
   \<Rightarrow> string option \<Rightarrow> string option \<Rightarrow> string option \<Rightarrow> string option \<Rightarrow> int \<Rightarrow> unit tx" where
  "create_transfer transfer_id reference sender receiver amount kind st note initiated_by
     request_id parent intended now =
     insert_transfer \<lparr>t_id = transfer_id, t_reference = reference, t_sender = sender,
       t_receiver = receiver, t_amount = minor amount, t_currency = code (mcurrency amount),
       t_kind = kind, t_status = st, t_note = note, t_initiated_by = initiated_by,
       t_request_id = request_id, t_reversal_of = None, t_parent = parent,
       t_intended_receiver = intended, t_created_at = now,
       t_completed_at = (if st = SUCCEEDED then Some now else None)\<rparr>"

definition try_transition_status :: "string \<Rightarrow> transfer_status \<Rightarrow> transfer_status \<Rightarrow> nat tx" where
  "try_transition_status transfer_id from_status to_status =
     tx_bind (tx_gets (\<lambda>s. sql_rowcount (\<lambda>t. t_id t = transfer_id \<and> t_status t = from_status)
                              (transfers s))) (\<lambda>n.
     tx_bind (tx_modify (\<lambda>s. s\<lparr>transfers :=
        sql_update (\<lambda>t. t_id t = transfer_id \<and> t_status t = from_status)
          (\<lambda>t. t\<lparr>t_status := to_status, t_completed_at := Some (txn_now s)\<rparr>) (transfers s)\<rparr>)) (\<lambda>_.
       tx_return n))"

definition get_transfer :: "string \<Rightarrow> transfer_row option tx" where
  "get_transfer transfer_id = tx_gets (\<lambda>s. sql_get t_id transfer_id (transfers s))"

definition set_intended_receiver :: "string \<Rightarrow> string \<Rightarrow> unit tx" where
  "set_intended_receiver transfer_id account_id =
     tx_bind (require_constraints (\<lambda>s.
        [(''fk_transfers_intended_receiver_account_id'',
            (\<forall>t \<in> set (transfers s). t_id t \<noteq> transfer_id) \<or> account_id \<in> a_id ` set (accounts s))])) (\<lambda>_.
     tx_modify (\<lambda>s. s\<lparr>transfers :=
        sql_update (\<lambda>t. t_id t = transfer_id)
          (\<lambda>t. t\<lparr>t_intended_receiver := Some account_id\<rparr>) (transfers s)\<rparr>))"

definition opt_json :: "('a \<Rightarrow> json) \<Rightarrow> 'a option \<Rightarrow> json" where
  "opt_json f v = (case v of None \<Rightarrow> JNull | Some x \<Rightarrow> f x)"

definition list_pending_undo_for_account :: "string \<Rightarrow> dict list tx" where
  "list_pending_undo_for_account account_id =
     tx_gets (\<lambda>s. map (\<lambda>r. [(''transferId'', JStr (t_id r)), (''reference'', JStr (t_reference r)),
                              (''amountMinor'', JInt (t_amount r)),
                              (''currency'', JStr (py_strip (t_currency r))),
                              (''note'', opt_json JStr (t_note r)),
                              (''createdAt'', JTime (t_created_at r))])
       (take 20 (sql_order_by_desc t_id
          (filter (\<lambda>t. t_sender t = account_id \<and> t_status t = PENDING_UNDO) (transfers s)))))"

definition count_sent_since :: "string \<Rightarrow> int \<Rightarrow> nat tx" where
  "count_sent_since account_id since =
     tx_gets (\<lambda>s. sql_rowcount (\<lambda>t. t_sender t = account_id \<and> since \<le> t_created_at t) (transfers s))"

definition sum_sent_since :: "string \<Rightarrow> int \<Rightarrow> money tx" where
  "sum_sent_since account_id since =
     tx_gets (\<lambda>s. mk_money (sql_sum t_amount
       (filter (\<lambda>t. t_sender t = account_id \<and> t_status t \<in> {SUCCEEDED, PENDING_UNDO, HELD}
                    \<and> since \<le> t_created_at t) (transfers s))) BDT)"

definition get_transfer_by_reference :: "string \<Rightarrow> dict option tx" where
  "get_transfer_by_reference reference =
     tx_bind (tx_gets (\<lambda>s. filter (\<lambda>t. t_reference t = reference) (transfers s))) (\<lambda>rs.
     tx_bind (tx_lift (one_or_none rs)) (\<lambda>r. tx_return (map_option (\<lambda>t.
       [(''transferId'', JStr (t_id t)), (''reference'', JStr (t_reference t)),
        (''status'', JStr (transfer_status_str (t_status t))), (''amountMinor'', JInt (t_amount t)),
        (''currency'', JStr (py_strip (t_currency t))), (''kind'', JStr (kind_str (t_kind t))),
        (''note'', opt_json JStr (t_note t)), (''senderAccountId'', JStr (t_sender t)),
        (''receiverAccountId'', JStr (t_receiver t)), (''createdAt'', JTime (t_created_at t)),
        (''completedAt'', opt_json JTime (t_completed_at t))]) r)))"


section \<open>The ledger\<close>

definition insert_ledger_transaction :: "ledger_transaction_row \<Rightarrow> unit tx" where
  "insert_ledger_transaction l =
     tx_bind (require_constraints (\<lambda>s.
        [(''pk_ledger_transactions'', lt_id l \<notin> lt_id ` set (ledger_transactions s)),
         (''uq_ledger_transactions_transfer_id'',
            lt_transfer_id l \<notin> lt_transfer_id ` set (ledger_transactions s)),
         (''fk_ledger_transactions_transfer_id'', lt_transfer_id l \<in> t_id ` set (transfers s))])) (\<lambda>_.
       tx_modify (\<lambda>s. s\<lparr>ledger_transactions := ledger_transactions s @ [l]\<rparr>))"

definition insert_ledger_entry :: "ledger_entry_row \<Rightarrow> unit tx" where
  "insert_ledger_entry e =
     tx_bind (require_bigint [le_amount e, le_balance_after e]) (\<lambda>_.
     tx_bind (require_constraints (\<lambda>s.
        [(''ck_ledger_entries_amount_non_zero'', le_amount e \<noteq> 0),
         (''pk_ledger_entries'', le_id e \<notin> le_id ` set (ledger_entries s)),
         (''fk_ledger_entries_ledger_transaction_id'', le_txn e \<in> lt_id ` set (ledger_transactions s)),
         (''fk_ledger_entries_account_id'', le_account e \<in> a_id ` set (accounts s))])) (\<lambda>_.
       tx_modify (\<lambda>s. s\<lparr>ledger_entries := ledger_entries s @ [e]\<rparr>)))"

definition entry_of_line ::
  "env \<Rightarrow> string \<Rightarrow> (string \<times> money) list \<Rightarrow> int \<Rightarrow> posting_line \<Rightarrow> ledger_entry_row tx" where
  "entry_of_line E txn_id balances_after now line =
     tx_bind (fresh_ulid E) (\<lambda>eid.
       case map_of balances_after (pl_account line) of
         None \<Rightarrow> tx_raise (PyError ''KeyError'')
       | Some b \<Rightarrow> tx_return \<lparr>le_id = eid, le_txn = txn_id, le_account = pl_account line,
           le_amount = minor (pl_amount line), le_currency = code (mcurrency (pl_amount line)),
           le_balance_after = minor b, le_created_at = now\<rparr>)"

definition ledger_post ::
  "env \<Rightarrow> ledger_posting \<Rightarrow> string \<Rightarrow> transfer_kind \<Rightarrow> string option \<Rightarrow> (string \<times> money) list \<Rightarrow> int
   \<Rightarrow> string tx" where
  "ledger_post E posting transfer_id posting_type description balances_after now =
     tx_bind (fresh_ulid E) (\<lambda>txn_id.
     tx_bind (insert_ledger_transaction \<lparr>lt_id = txn_id, lt_transfer_id = transfer_id,
       lt_type = posting_type, lt_description = description, lt_posted_at = now\<rparr>) (\<lambda>_.
     tx_bind (tx_mapM (entry_of_line E txn_id balances_after now) (lp_lines posting)) (\<lambda>es.
     tx_bind (tx_mapM insert_ledger_entry es) (\<lambda>_.
       tx_return txn_id))))"


section \<open>Idempotency\<close>

datatype idempotency_outcome = PROCEED | REPLAY | IN_PROGRESS | PAYLOAD_MISMATCH

record idempotency_decision =
  outcome :: idempotency_outcome
  stored_status :: "int option"
  stored_body :: "dict option"
  resource_id :: "string option"

definition decision_of :: "idempotency_outcome \<Rightarrow> idempotency_decision" where
  "decision_of oc = \<lparr>outcome = oc, stored_status = None, stored_body = None, resource_id = None\<rparr>"

definition idem_key :: "idempotency_row \<Rightarrow> string \<times> string \<times> string" where
  "idem_key r = (i_actor r, i_endpoint r, i_key r)"

definition idem_reserve :: "string \<Rightarrow> string \<Rightarrow> string \<Rightarrow> string \<Rightarrow> int \<Rightarrow> idempotency_decision tx" where
  "idem_reserve actor endpoint key fingerprint now = (\<lambda>s.
     case sql_get idem_key (actor, endpoint, key) (idempotency_records s) of
       None \<Rightarrow> (Inr (decision_of PROCEED),
         s\<lparr>idempotency_records := idempotency_records s @
            [\<lparr>i_actor = actor, i_endpoint = endpoint, i_key = key, i_fingerprint = fingerprint,
              i_status = PROCESSING, i_resource_id = None, i_http_status = None, i_response = None,
              i_created_at = now, i_completed_at = None\<rparr>]\<rparr>)
     | Some existing \<Rightarrow>
         (Inr (if i_fingerprint existing \<noteq> fingerprint then decision_of PAYLOAD_MISMATCH
               else if i_status existing = COMPLETED
               then \<lparr>outcome = REPLAY, stored_status = i_http_status existing,
                      stored_body = i_response existing, resource_id = i_resource_id existing\<rparr>
               else decision_of IN_PROGRESS), s))"

definition idem_complete ::
  "string \<Rightarrow> string \<Rightarrow> string \<Rightarrow> string \<Rightarrow> int \<Rightarrow> dict \<Rightarrow> int \<Rightarrow> unit tx" where
  "idem_complete actor endpoint key rid http_status body now =
     tx_modify (\<lambda>s. s\<lparr>idempotency_records :=
       sql_update (\<lambda>r. idem_key r = (actor, endpoint, key))
         (\<lambda>r. r\<lparr>i_status := COMPLETED, i_resource_id := Some rid, i_http_status := Some http_status,
                 i_response := Some body, i_completed_at := Some now\<rparr>) (idempotency_records s)\<rparr>)"

definition replay_body_or_raise :: "idempotency_decision \<Rightarrow> exn + dict option" where
  "replay_body_or_raise d =
     (case outcome d of
        PROCEED \<Rightarrow> Inr None
      | PAYLOAD_MISMATCH \<Rightarrow> Inl (app_error IdempotencyKeyReuseError)
      | IN_PROGRESS \<Rightarrow> Inl (app_error RequestInProgressError)
      | REPLAY \<Rightarrow> Inr (Some (case stored_body d of None \<Rightarrow> [] | Some b \<Rightarrow> b)))"


section \<open>Outbox and audit trail\<close>

record domain_event =
  ev_type :: string
  ev_aggregate_type :: string
  ev_schema_version :: int
  ev_aggregate_id :: string
  ev_occurred_at :: int
  ev_payload :: dict

definition transfer_succeeded :: "string \<Rightarrow> int \<Rightarrow> dict \<Rightarrow> domain_event" where
  "transfer_succeeded agg at pl = \<lparr>ev_type = ''financial.transfer.succeeded.v1'',
     ev_aggregate_type = ''transfer'', ev_schema_version = 1, ev_aggregate_id = agg,
     ev_occurred_at = at, ev_payload = pl\<rparr>"

definition money_request_event :: "string \<Rightarrow> string \<Rightarrow> int \<Rightarrow> dict \<Rightarrow> domain_event" where
  "money_request_event ty agg at pl = \<lparr>ev_type = ty,
     ev_aggregate_type = ''money_request'', ev_schema_version = 1, ev_aggregate_id = agg,
     ev_occurred_at = at, ev_payload = pl\<rparr>"

definition outbox_append :: "env \<Rightarrow> domain_event \<Rightarrow> string option \<Rightarrow> unit tx" where
  "outbox_append E ev trace_id =
     tx_bind (fresh_ulid E) (\<lambda>oid.
     tx_bind (require_constraints (\<lambda>s. [(''pk_outbox_events'', oid \<notin> o_id ` set (outbox_events s))])) (\<lambda>_.
       tx_modify (\<lambda>s. s\<lparr>outbox_events := outbox_events s @
         [\<lparr>o_id = oid, o_aggregate_type = ev_aggregate_type ev, o_aggregate_id = ev_aggregate_id ev,
           o_event_type = ev_type ev, o_payload = ev_payload ev, o_trace_id = trace_id,
           o_schema_version = ev_schema_version ev, o_occurred_at = ev_occurred_at ev,
           o_published_at = None, o_attempt_count = 0, o_next_attempt_at = None,
           o_last_error = None, o_dead_lettered_at = None\<rparr>]\<rparr>)))"

definition audit_record ::
  "env \<Rightarrow> string option \<Rightarrow> string \<Rightarrow> string \<Rightarrow> string option \<Rightarrow> string option \<Rightarrow> dict option \<Rightarrow> int
   \<Rightarrow> unit tx" where
  "audit_record E actor action resource_type rid request_id metadata now =
     tx_bind (fresh_ulid E) (\<lambda>aid.
     tx_bind (require_constraints (\<lambda>s.
        [(''pk_audit_logs'', aid \<notin> au_id ` set (audit_logs s)),
         (''fk_audit_logs_actor_user_id'', opt_in actor (map u_id (users s)))])) (\<lambda>_.
       tx_modify (\<lambda>s. s\<lparr>audit_logs := audit_logs s @
         [\<lparr>au_id = aid, au_actor = actor, au_action = action, au_resource_type = resource_type,
           au_resource_id = rid, au_request_id = request_id, au_ip_address = None,
           au_metadata = metadata, au_created_at = now\<rparr>]\<rparr>)))"

end
