(* ===== verification/Books.thy ===== *)
theory Books
  imports Repositories
begin

text \<open>
  The accounting invariant over the four tables the books are kept in, and what one posting does
  to it.  Nothing here mentions a session: the transfer path is shown to perform exactly
  \<open>post_books\<close>, and everything else leaves the books alone or touches statuses only.
\<close>

definition entries_of :: "string \<Rightarrow> ledger_entry_row list \<Rightarrow> ledger_entry_row list" where
  "entries_of acc es = filter (\<lambda>e. le_account e = acc) es"

definition ledger_balance :: "string \<Rightarrow> ledger_entry_row list \<Rightarrow> int" where
  "ledger_balance acc es = sql_sum le_amount (entries_of acc es)"

text \<open>A transfer and its ledger transaction: two entries, debit then credit, of the transfer's amount.\<close>

definition posted_pair :: "ledger_entry_row list \<Rightarrow> transfer_row \<Rightarrow> ledger_transaction_row \<Rightarrow> bool" where
  "posted_pair es t l \<longleftrightarrow>
     lt_transfer_id l = t_id t \<and> 0 < t_amount t \<and> t_sender t \<noteq> t_receiver t
     \<and> (\<exists>x y. filter (\<lambda>e. le_txn e = lt_id l) es = [x, y]
          \<and> le_account x = t_sender t \<and> le_amount x = - t_amount t
          \<and> le_account y = t_receiver t \<and> le_amount y = t_amount t)"

text \<open>Every entry's running balance is the sum of its account's entries up to and including it.\<close>

definition running_ok :: "ledger_entry_row list \<Rightarrow> bool" where
  "running_ok es \<longleftrightarrow>
     (\<forall>pre e post. es = pre @ e # post \<longrightarrow>
        le_balance_after e = ledger_balance (le_account e) pre + le_amount e)"

definition books_inv :: "books \<Rightarrow> bool" where
  "books_inv b \<longleftrightarrow>
     keys_distinct a_id (b_accounts b)
     \<and> keys_distinct t_id (b_transfers b)
     \<and> keys_distinct t_reference (b_transfers b)
     \<and> keys_distinct lt_id (b_ledger b)
     \<and> keys_distinct le_id (b_entries b)
     \<and> (\<forall>a \<in> set (b_accounts b). a_balance a = ledger_balance (a_id a) (b_entries b))
     \<and> (\<forall>a \<in> set (b_accounts b). list_all snd (account_row_ok a))
     \<and> (\<forall>e \<in> set (b_entries b). le_account e \<in> a_id ` set (b_accounts b)
                                \<and> le_txn e \<in> lt_id ` set (b_ledger b))
     \<and> list_all2 (posted_pair (b_entries b)) (b_transfers b) (b_ledger b)
     \<and> running_ok (b_entries b)"

text \<open>The invariant is stated clause by clause, so that a proof names the clause it uses.\<close>

lemma books_invD:
  assumes "books_inv b"
  shows accounts_key: "keys_distinct a_id (b_accounts b)"
    and transfers_key: "keys_distinct t_id (b_transfers b)"
    and references_key: "keys_distinct t_reference (b_transfers b)"
    and ledger_key: "keys_distinct lt_id (b_ledger b)"
    and entries_key: "keys_distinct le_id (b_entries b)"
    and balance_is_ledger: "a \<in> set (b_accounts b) \<Longrightarrow> a_balance a = ledger_balance (a_id a) (b_entries b)"
    and account_checks: "a \<in> set (b_accounts b) \<Longrightarrow> list_all snd (account_row_ok a)"
    and entry_refs: "e \<in> set (b_entries b) \<Longrightarrow> le_account e \<in> a_id ` set (b_accounts b)
                       \<and> le_txn e \<in> lt_id ` set (b_ledger b)"
    and posted_all: "list_all2 (posted_pair (b_entries b)) (b_transfers b) (b_ledger b)"
    and running: "running_ok (b_entries b)"
  using assms unfolding books_inv_def by blast+

lemma entries_of_append [simp]: "entries_of acc (es @ fs) = entries_of acc es @ entries_of acc fs"
  by (simp add: entries_of_def)

lemma ledger_balance_append [simp]:
  "ledger_balance acc (es @ fs) = ledger_balance acc es + ledger_balance acc fs"
  by (simp add: ledger_balance_def)

lemma ledger_balance_Nil [simp]: "ledger_balance acc [] = 0"
  and ledger_balance_Cons [simp]:
    "ledger_balance acc (e # es) = (if le_account e = acc then le_amount e else 0) + ledger_balance acc es"
  by (simp_all add: ledger_balance_def entries_of_def)

lemma running_ok_snoc:
  "running_ok (es @ [e]) \<longleftrightarrow>
     running_ok es \<and> le_balance_after e = ledger_balance (le_account e) es + le_amount e"
proof -
  have "running_ok (es @ [e])" if "running_ok es"
    "le_balance_after e = ledger_balance (le_account e) es + le_amount e"
    unfolding running_ok_def
  proof (intro allI impI)
    fix pre x post
    assume eq: "es @ [e] = pre @ x # post"
    show "le_balance_after x = ledger_balance (le_account x) pre + le_amount x"
    proof (cases post rule: rev_cases)
      case Nil
      with eq that(2) show ?thesis by simp
    next
      case (snoc ys y)
      with eq have "es = pre @ x # ys" by simp
      with that(1) show ?thesis unfolding running_ok_def by blast
    qed
  qed
  moreover have "running_ok es" if r: "running_ok (es @ [e])"
    unfolding running_ok_def
  proof (intro allI impI)
    fix pre x post
    assume "es = pre @ x # post"
    then have "es @ [e] = pre @ x # (post @ [e])" by simp
    with r show "le_balance_after x = ledger_balance (le_account x) pre + le_amount x"
      unfolding running_ok_def by blast
  qed
  moreover have "le_balance_after e = ledger_balance (le_account e) es + le_amount e"
    if "running_ok (es @ [e])"
    using that unfolding running_ok_def by blast
  ultimately show ?thesis by blast
qed

lemma running_ok_Nil [simp]: "running_ok []"
  by (simp add: running_ok_def)


section \<open>One posting\<close>

definition set_balance :: "string \<Rightarrow> int \<Rightarrow> int \<Rightarrow> int \<Rightarrow> account_row list \<Rightarrow> account_row list" where
  "set_balance acc bal ver at t =
     sql_update (\<lambda>a. a_id a = acc) (\<lambda>a. a\<lparr>a_balance := bal, a_version := ver, a_updated_at := at\<rparr>) t"

lemma set_balance_ids [simp]: "map a_id (set_balance acc bal ver at t) = map a_id t"
  by (simp add: set_balance_def map_sql_update_same)

lemma set_balance_ids_set [simp]: "a_id ` set (set_balance acc bal ver at t) = a_id ` set t"
  by (metis set_balance_ids set_map)

lemma in_set_balance:
  "a \<in> set (set_balance acc bal ver at t) \<Longrightarrow>
     (a_id a \<noteq> acc \<and> a \<in> set t)
     \<or> (a_id a = acc \<and> (\<exists>a0 \<in> set t. a_id a0 = acc
           \<and> a = a0\<lparr>a_balance := bal, a_version := ver, a_updated_at := at\<rparr>))"
  unfolding set_balance_def by (auto dest!: in_sql_updateD)

text \<open>
  The effect on the books of moving \<open>amt\<close> from \<open>from_acc\<close> to \<open>to_acc\<close>: two balances, one transfer,
  one ledger transaction, two entries.
\<close>

record movement =
  mv_transfer :: transfer_row
  mv_ledger :: ledger_transaction_row
  mv_debit :: ledger_entry_row
  mv_credit :: ledger_entry_row
  mv_from_version :: int
  mv_to_version :: int
  mv_at :: int

definition post_books :: "movement \<Rightarrow> books \<Rightarrow> books" where
  "post_books mv b =
     b\<lparr>b_accounts := set_balance (le_account (mv_credit mv)) (le_balance_after (mv_credit mv))
                       (mv_to_version mv) (mv_at mv)
                    (set_balance (le_account (mv_debit mv)) (le_balance_after (mv_debit mv))
                       (mv_from_version mv) (mv_at mv) (b_accounts b)),
       b_transfers := b_transfers b @ [mv_transfer mv],
       b_ledger := b_ledger b @ [mv_ledger mv],
       b_entries := b_entries b @ [mv_debit mv, mv_credit mv]\<rparr>"

text \<open>What the transfer path has established when it posts \<open>mv\<close> on books \<open>b\<close>.\<close>

definition movement_ok :: "movement \<Rightarrow> books \<Rightarrow> bool" where
  "movement_ok mv b \<longleftrightarrow>
     (\<exists>ra rb. ra \<in> set (b_accounts b) \<and> rb \<in> set (b_accounts b)
        \<and> a_id ra = t_sender (mv_transfer mv) \<and> a_id rb = t_receiver (mv_transfer mv)
        \<and> le_balance_after (mv_debit mv) = a_balance ra - t_amount (mv_transfer mv)
        \<and> le_balance_after (mv_credit mv) = a_balance rb + t_amount (mv_transfer mv)
        \<and> (a_type ra = SYSTEM_ISSUANCE \<or> t_amount (mv_transfer mv) \<le> a_balance ra))
     \<and> 0 < t_amount (mv_transfer mv)
     \<and> t_sender (mv_transfer mv) \<noteq> t_receiver (mv_transfer mv)
     \<and> le_account (mv_debit mv) = t_sender (mv_transfer mv)
     \<and> le_account (mv_credit mv) = t_receiver (mv_transfer mv)
     \<and> le_amount (mv_debit mv) = - t_amount (mv_transfer mv)
     \<and> le_amount (mv_credit mv) = t_amount (mv_transfer mv)
     \<and> le_txn (mv_debit mv) = lt_id (mv_ledger mv) \<and> le_txn (mv_credit mv) = lt_id (mv_ledger mv)
     \<and> lt_transfer_id (mv_ledger mv) = t_id (mv_transfer mv)
     \<and> t_id (mv_transfer mv) \<notin> t_id ` set (b_transfers b)
     \<and> t_reference (mv_transfer mv) \<notin> t_reference ` set (b_transfers b)
     \<and> lt_id (mv_ledger mv) \<notin> lt_id ` set (b_ledger b)
     \<and> le_id (mv_debit mv) \<notin> le_id ` set (b_entries b)
     \<and> le_id (mv_credit mv) \<notin> le_id ` set (b_entries b)
     \<and> le_id (mv_debit mv) \<noteq> le_id (mv_credit mv)"

lemma account_row_ok_balance:
  "list_all snd (account_row_ok a) \<Longrightarrow> a_type a = SYSTEM_ISSUANCE \<or> 0 \<le> bal
   \<Longrightarrow> list_all snd (account_row_ok (a\<lparr>a_balance := bal, a_version := v, a_updated_at := u\<rparr>))"
  by (simp add: account_row_ok_def)

lemma account_row_ok_nonneg:
  "list_all snd (account_row_ok a) \<Longrightarrow> a_type a \<noteq> SYSTEM_ISSUANCE \<Longrightarrow> 0 \<le> a_balance a"
  by (simp add: account_row_ok_def)

lemma posted_pair_append:
  "posted_pair es t l \<Longrightarrow> (\<And>e. e \<in> set fs \<Longrightarrow> le_txn e \<noteq> lt_id l) \<Longrightarrow> posted_pair (es @ fs) t l"
  unfolding posted_pair_def by (auto simp: filter_empty_conv)

text \<open>The rows after a posting: each is an untouched row or one of the two parties.\<close>

lemma post_books_account_cases:
  assumes "movement_ok mv b" "books_inv b" "a \<in> set (b_accounts (post_books mv b))"
  obtains
    (other) "a \<in> set (b_accounts b)" "a_id a \<noteq> t_sender (mv_transfer mv)"
            "a_id a \<noteq> t_receiver (mv_transfer mv)"
  | (sender) ra where "ra \<in> set (b_accounts b)" "a_id ra = t_sender (mv_transfer mv)"
            "a = ra\<lparr>a_balance := a_balance ra - t_amount (mv_transfer mv),
                    a_version := mv_from_version mv, a_updated_at := mv_at mv\<rparr>"
            "a_type ra = SYSTEM_ISSUANCE \<or> t_amount (mv_transfer mv) \<le> a_balance ra"
  | (receiver) rb where "rb \<in> set (b_accounts b)" "a_id rb = t_receiver (mv_transfer mv)"
            "a = rb\<lparr>a_balance := a_balance rb + t_amount (mv_transfer mv),
                    a_version := mv_to_version mv, a_updated_at := mv_at mv\<rparr>"
proof -
  note key = accounts_key [OF assms(2)]
  from assms(1) obtain ra rb where
    rows: "ra \<in> set (b_accounts b)" "rb \<in> set (b_accounts b)"
      "a_id ra = t_sender (mv_transfer mv)" "a_id rb = t_receiver (mv_transfer mv)"
      "le_balance_after (mv_debit mv) = a_balance ra - t_amount (mv_transfer mv)"
      "le_balance_after (mv_credit mv) = a_balance rb + t_amount (mv_transfer mv)"
      "a_type ra = SYSTEM_ISSUANCE \<or> t_amount (mv_transfer mv) \<le> a_balance ra"
    and accs: "le_account (mv_debit mv) = t_sender (mv_transfer mv)"
      "le_account (mv_credit mv) = t_receiver (mv_transfer mv)"
      "t_sender (mv_transfer mv) \<noteq> t_receiver (mv_transfer mv)"
    unfolding movement_ok_def by blast
  have uniq: "\<And>x. x \<in> set (b_accounts b) \<Longrightarrow> a_id x = a_id ra \<Longrightarrow> x = ra"
    "\<And>x. x \<in> set (b_accounts b) \<Longrightarrow> a_id x = a_id rb \<Longrightarrow> x = rb"
    using key rows keys_distinct_eq by metis+
  let ?mid = "set_balance (le_account (mv_debit mv)) (le_balance_after (mv_debit mv))
                (mv_from_version mv) (mv_at mv) (b_accounts b)"
  from assms(3) have "a \<in> set (set_balance (le_account (mv_credit mv))
      (le_balance_after (mv_credit mv)) (mv_to_version mv) (mv_at mv) ?mid)"
    by (simp add: post_books_def)
  from in_set_balance [OF this] consider (c) a0 where "a0 \<in> set ?mid" "a_id a0 = t_receiver (mv_transfer mv)"
      "a = a0\<lparr>a_balance := le_balance_after (mv_credit mv), a_version := mv_to_version mv,
              a_updated_at := mv_at mv\<rparr>"
    | (n) "a \<in> set ?mid" "a_id a \<noteq> t_receiver (mv_transfer mv)"
    unfolding accs by blast
  then show thesis
  proof cases
    case c
    have "a_id a0 \<noteq> le_account (mv_debit mv)" using c(2) accs by simp
    with in_set_balance [OF c(1)] have "a0 \<in> set (b_accounts b)" by blast
    with c(2) rows(4) have "a0 = rb" by (intro uniq(2)) simp_all
    with c(3) have "a = rb\<lparr>a_balance := a_balance rb + t_amount (mv_transfer mv),
        a_version := mv_to_version mv, a_updated_at := mv_at mv\<rparr>" by (simp only: rows(6))
    with rows(2,4) show thesis by (rule receiver)
  next
    case n
    from in_set_balance [OF n(1)]
    consider "a \<in> set (b_accounts b)" "a_id a \<noteq> t_sender (mv_transfer mv)"
      | a0 where "a0 \<in> set (b_accounts b)" "a_id a0 = t_sender (mv_transfer mv)"
        "a = a0\<lparr>a_balance := le_balance_after (mv_debit mv), a_version := mv_from_version mv,
                a_updated_at := mv_at mv\<rparr>"
      unfolding accs by blast
    then show thesis
    proof cases
      case 1
      with n other show thesis by blast
    next
      case 2
      with rows(3) have "a0 = ra" by (intro uniq(1)) simp_all
      with 2(3) have "a = ra\<lparr>a_balance := a_balance ra - t_amount (mv_transfer mv),
        a_version := mv_from_version mv, a_updated_at := mv_at mv\<rparr>" by (simp only: rows(5))
      with rows(1,3) show thesis using rows(7) by (rule sender)
    qed
  qed
qed

lemma post_books_balances:
  assumes "movement_ok mv b" "books_inv b" "a \<in> set (b_accounts (post_books mv b))"
  shows "a_balance a = ledger_balance (a_id a) (b_entries (post_books mv b))
    \<and> list_all snd (account_row_ok a)"
proof -
  have amounts: "le_account (mv_debit mv) = t_sender (mv_transfer mv)"
     "le_account (mv_credit mv) = t_receiver (mv_transfer mv)"
     "le_amount (mv_debit mv) = - t_amount (mv_transfer mv)"
     "le_amount (mv_credit mv) = t_amount (mv_transfer mv)"
     "t_sender (mv_transfer mv) \<noteq> t_receiver (mv_transfer mv)" "0 < t_amount (mv_transfer mv)"
    using assms(1) unfolding movement_ok_def by blast+
  show ?thesis using assms
  proof (cases rule: post_books_account_cases)
    case other
    then show ?thesis
      using amounts balance_is_ledger [OF assms(2)] account_checks [OF assms(2)]
      by (simp add: post_books_def)
  next
    case (sender ra)
    then show ?thesis
      using amounts balance_is_ledger [OF assms(2)] account_checks [OF assms(2)]
      by (auto simp: post_books_def intro!: account_row_ok_balance)
  next
    case (receiver rb)
    have "a_type rb = SYSTEM_ISSUANCE \<or> 0 \<le> a_balance rb + t_amount (mv_transfer mv)"
      using account_row_ok_nonneg [OF account_checks [OF assms(2) receiver(1)]] amounts by fastforce
    then show ?thesis
      using receiver amounts balance_is_ledger [OF assms(2)] account_checks [OF assms(2)]
      by (auto simp: post_books_def intro!: account_row_ok_balance)
  qed
qed

lemma post_books_pairs:
  assumes "movement_ok mv b" "books_inv b"
  shows "list_all2 (posted_pair (b_entries (post_books mv b)))
           (b_transfers (post_books mv b)) (b_ledger (post_books mv b))"
proof -
  note mo = assms(1) [unfolded movement_ok_def]
  let ?es = "b_entries b" and ?new = "[mv_debit mv, mv_credit mv]"
  have new: "\<And>e. e \<in> set ?new \<Longrightarrow> le_txn e = lt_id (mv_ledger mv)" using mo by auto
  have "posted_pair (?es @ ?new) t l" if "posted_pair ?es t l" "l \<in> set (b_ledger b)" for t l
    using that new mo by (intro posted_pair_append) (auto simp: image_iff)
  with posted_all [OF assms(2)]
  have old: "list_all2 (posted_pair (?es @ ?new)) (b_transfers b) (b_ledger b)"
    by (auto simp: list_all2_conv_all_nth)
  have "lt_id (mv_ledger mv) \<notin> lt_id ` set (b_ledger b)" using mo by blast
  then have "filter (\<lambda>e. le_txn e = lt_id (mv_ledger mv)) ?es = []"
    using entry_refs [OF assms(2)] unfolding filter_empty_conv by metis
  with new have "filter (\<lambda>e. le_txn e = lt_id (mv_ledger mv)) (?es @ ?new) = ?new" by simp
  then have "posted_pair (?es @ ?new) (mv_transfer mv) (mv_ledger mv)"
    using mo unfolding posted_pair_def by auto
  with old show ?thesis by (simp add: post_books_def list_all2_appendI)
qed

lemma post_books_running:
  assumes "movement_ok mv b" "books_inv b"
  shows "running_ok (b_entries (post_books mv b))"
proof -
  note mo = assms(1) [unfolded movement_ok_def]
  have "running_ok ((b_entries b @ [mv_debit mv]) @ [mv_credit mv])"
    unfolding running_ok_snoc
    using mo running [OF assms(2)] balance_is_ledger [OF assms(2)] by auto
  then show ?thesis by (simp add: post_books_def)
qed

lemma books_inv_post:
  assumes "movement_ok mv b" "books_inv b"
  shows "books_inv (post_books mv b)"
proof -
  note mo = assms(1) [unfolded movement_ok_def]
  have ids: "a_id ` set (b_accounts (post_books mv b)) = a_id ` set (b_accounts b)"
    "map a_id (b_accounts (post_books mv b)) = map a_id (b_accounts b)"
    by (simp_all add: post_books_def)
  have refs: "le_account e \<in> a_id ` set (b_accounts (post_books mv b))
      \<and> le_txn e \<in> lt_id ` set (b_ledger (post_books mv b))"
    if "e \<in> set (b_entries (post_books mv b))" for e
  proof -
    have parties: "t_sender (mv_transfer mv) \<in> a_id ` set (b_accounts b)"
      "t_receiver (mv_transfer mv) \<in> a_id ` set (b_accounts b)" using mo by (metis image_eqI)+
    from that consider "e \<in> set (b_entries b)" | "e = mv_debit mv" | "e = mv_credit mv"
      by (auto simp: post_books_def)
    then show ?thesis
      using entry_refs [OF assms(2), of e] mo parties unfolding ids
      by cases (auto simp: post_books_def)
  qed
  have keys: "keys_distinct t_id (b_transfers (post_books mv b))"
    "keys_distinct t_reference (b_transfers (post_books mv b))"
    "keys_distinct lt_id (b_ledger (post_books mv b))"
    "keys_distinct le_id (b_entries (post_books mv b))"
    using mo books_invD(2-5) [OF assms(2)] by (simp_all add: post_books_def)
  show ?thesis
    unfolding books_inv_def
    using accounts_key [OF assms(2)] ids(2) keys refs post_books_balances [OF assms]
      post_books_pairs [OF assms] post_books_running [OF assms] by simp
qed


section \<open>Other changes to the books\<close>

text \<open>An account opened with a zero balance.\<close>

lemma books_inv_open_account:
  assumes "books_inv b" "a_id a \<notin> a_id ` set (b_accounts b)" "a_balance a = 0"
    "list_all snd (account_row_ok a)"
  shows "books_inv (b\<lparr>b_accounts := b_accounts b @ [a]\<rparr>)"
proof -
  have "entries_of (a_id a) (b_entries b) = []"
    using entry_refs [OF assms(1)] assms(2) unfolding entries_of_def filter_empty_conv by metis
  then have "ledger_balance (a_id a) (b_entries b) = 0" by (simp add: ledger_balance_def)
  then show ?thesis using assms unfolding books_inv_def by auto
qed

text \<open>An update of the transfers that keeps everything but status, completion and intended receiver.\<close>

lemma books_inv_transfer_update:
  assumes "books_inv b"
    and keep: "\<And>t. t_id (f t) = t_id t" "\<And>t. t_reference (f t) = t_reference t"
      "\<And>t. t_sender (f t) = t_sender t" "\<And>t. t_receiver (f t) = t_receiver t"
      "\<And>t. t_amount (f t) = t_amount t"
  shows "books_inv (b\<lparr>b_transfers := sql_update P f (b_transfers b)\<rparr>)"
proof -
  have "map t_id (sql_update P f (b_transfers b)) = map t_id (b_transfers b)"
    "map t_reference (sql_update P f (b_transfers b)) = map t_reference (b_transfers b)"
    using keep by (simp_all add: map_sql_update_same)
  moreover have "posted_pair es (f t) l = posted_pair es t l" for es t l
    using keep by (simp add: posted_pair_def)
  then have "list_all2 (posted_pair (b_entries b)) (sql_update P f (b_transfers b)) (b_ledger b)"
    using posted_all [OF assms(1)] by (auto simp: list_all2_conv_all_nth sql_update_def)
  ultimately show ?thesis using assms(1) unfolding books_inv_def by simp
qed

text \<open>An update of the accounts that keeps identity, balance, type and owner.\<close>

lemma books_inv_account_update:
  assumes "books_inv b"
    and keep: "\<And>a. a_id (f a) = a_id a" "\<And>a. a_balance (f a) = a_balance a"
      "\<And>a. a_type (f a) = a_type a" "\<And>a. a_user_id (f a) = a_user_id a"
  shows "books_inv (b\<lparr>b_accounts := sql_update P f (b_accounts b)\<rparr>)"
proof -
  have ids: "map a_id (sql_update P f (b_accounts b)) = map a_id (b_accounts b)"
    using keep by (simp add: map_sql_update_same)
  then have idset: "a_id ` set (sql_update P f (b_accounts b)) = a_id ` set (b_accounts b)"
    by (metis set_map)
  have chk: "account_row_ok (f a) = account_row_ok a" for a
    using keep by (simp add: account_row_ok_def)
  have "a_balance a = ledger_balance (a_id a) (b_entries b) \<and> list_all snd (account_row_ok a)"
    if "a \<in> set (sql_update P f (b_accounts b))" for a
    using in_sql_updateD [OF that] balance_is_ledger [OF assms(1)] account_checks [OF assms(1)]
    by (auto simp: keep chk)
  with ids idset show ?thesis using assms(1) unfolding books_inv_def by simp
qed

end
