(* ===== verification/Repository_Facts.thy ===== *)
theory Repository_Facts
  imports Books
begin

text \<open>
  What each repository statement does when it succeeds, as equations on the session it leaves,
  and which parts of the session it leaves alone.
\<close>

section \<open>Successful statements\<close>

lemma persist_balance_okD:
  assumes "persist_balance acc s = (Inr u, t)"
  shows "t = s\<lparr>accounts := set_balance (acc_id acc) (minor (acc_balance acc)) (acc_version acc)
                 (txn_now s) (accounts s)\<rparr>
    \<and> bigint_ok (minor (acc_balance acc))
    \<and> (\<forall>a \<in> set (accounts s). a_id a = acc_id acc \<longrightarrow>
          a_type a = SYSTEM_ISSUANCE \<or> 0 \<le> minor (acc_balance acc))"
  using assms
  by (auto simp: persist_balance_def set_balance_def tx_okD account_row_ok_def list_all_iff)

lemma insert_transfer_okD:
  assumes "insert_transfer row s = (Inr u, t)"
  shows "t = s\<lparr>transfers := transfers s @ [row]\<rparr> \<and> list_all snd (transfer_row_constraints row s)"
  using assms by (auto simp: insert_transfer_def tx_okD)

lemma insert_ledger_transaction_okD [tx_okD]:
  "insert_ledger_transaction l s = (Inr u, t) \<longleftrightarrow>
     lt_id l \<notin> lt_id ` set (ledger_transactions s)
     \<and> lt_transfer_id l \<notin> lt_transfer_id ` set (ledger_transactions s)
     \<and> lt_transfer_id l \<in> t_id ` set (transfers s)
     \<and> t = s\<lparr>ledger_transactions := ledger_transactions s @ [l]\<rparr>"
  by (auto simp: insert_ledger_transaction_def tx_okD)

lemma insert_ledger_entry_okD [tx_okD]:
  "insert_ledger_entry e s = (Inr u, t) \<longleftrightarrow>
     bigint_ok (le_amount e) \<and> bigint_ok (le_balance_after e) \<and> le_amount e \<noteq> 0
     \<and> le_id e \<notin> le_id ` set (ledger_entries s)
     \<and> le_txn e \<in> lt_id ` set (ledger_transactions s) \<and> le_account e \<in> a_id ` set (accounts s)
     \<and> t = s\<lparr>ledger_entries := ledger_entries s @ [e]\<rparr>"
  by (auto simp: insert_ledger_entry_def tx_okD)

lemma entry_of_line_okD [tx_okD]:
  "entry_of_line E txn bs now line s = (Inr e, t) \<longleftrightarrow>
     (\<exists>eid b. fresh_ulid E s = (Inr eid, t) \<and> map_of bs (pl_account line) = Some b
       \<and> e = \<lparr>le_id = eid, le_txn = txn, le_account = pl_account line,
               le_amount = minor (pl_amount line), le_currency = code (mcurrency (pl_amount line)),
               le_balance_after = minor b, le_created_at = now\<rparr>)"
  by (auto simp: entry_of_line_def tx_bind_okD tx_basic_okD split: option.splits)

lemma tx_mapM_two_okD:
  "tx_mapM f [x, y] s = (Inr r, t) \<longleftrightarrow>
     (\<exists>a b u. f x s = (Inr a, u) \<and> f y u = (Inr b, t) \<and> r = [a, b])"
  by (auto simp: tx_bind_okD tx_basic_okD)

text \<open>The posting of a two-line transfer.\<close>

lemma ledger_post_transfer_okD:
  assumes "ledger_post E p tid kind descr [(a, ba), (b, bb)] now s = (Inr r, t)"
    and "transfer_posting a b m = Inr p"
  shows "\<exists>l x y n.
     t = s\<lparr>tick := n, ledger_transactions := ledger_transactions s @ [l],
           ledger_entries := ledger_entries s @ [x, y]\<rparr>
     \<and> lt_transfer_id l = tid \<and> lt_id l \<notin> lt_id ` set (ledger_transactions s)
     \<and> le_txn x = lt_id l \<and> le_txn y = lt_id l
     \<and> le_account x = a \<and> le_account y = b
     \<and> le_amount x = - minor m \<and> le_amount y = minor m
     \<and> le_balance_after x = minor ba \<and> le_balance_after y = minor bb
     \<and> le_id x \<notin> le_id ` set (ledger_entries s) \<and> le_id y \<notin> le_id ` set (ledger_entries s)
     \<and> le_id x \<noteq> le_id y"
proof -
  from assms(2) have p: "a \<noteq> b"
    "lp_lines p = [\<lparr>pl_account = a, pl_amount = money_neg m\<rparr>, \<lparr>pl_account = b, pl_amount = m\<rparr>]"
    by (auto simp: transfer_posting_ok)
  define L where "L txn = \<lparr>lt_id = txn, lt_transfer_id = tid, lt_type = kind,
    lt_description = descr, lt_posted_at = now\<rparr>" for txn
  let ?entry = "\<lambda>txn. entry_of_line E txn [(a, ba), (b, bb)] now"
  from assms(1) obtain txn s1 s2 xs s4 us where
    "fresh_ulid E s = (Inr txn, s1)" "insert_ledger_transaction (L txn) s1 = (Inr (), s2)"
    "tx_mapM (?entry txn) (lp_lines p) s2 = (Inr xs, s4)"
    "tx_mapM insert_ledger_entry xs s4 = (Inr us, t)"
    unfolding ledger_post_def tx_bind_okD tx_basic_okD L_def by auto
  then obtain x s3 y s5 where steps:
    "fresh_ulid E s = (Inr txn, s1)" "insert_ledger_transaction (L txn) s1 = (Inr (), s2)"
    "?entry txn \<lparr>pl_account = a, pl_amount = money_neg m\<rparr> s2 = (Inr x, s3)"
    "?entry txn \<lparr>pl_account = b, pl_amount = m\<rparr> s3 = (Inr y, s4)"
    "insert_ledger_entry x s4 = (Inr (), s5)" "insert_ledger_entry y s5 = (Inr (), t)"
    unfolding p(2) tx_mapM_two_okD by (auto simp: tx_bind_okD tx_basic_okD)
  show ?thesis
    using steps p(1)
    by (intro exI [of _ "L txn"] exI [of _ x] exI [of _ y] exI [of _ "tick s4"])
       (auto simp: L_def money_neg_def fresh_ulid_okD insert_ledger_transaction_okD
          insert_ledger_entry_okD entry_of_line_okD)
qed

lemma idem_reserve_okD:
  assumes "idem_reserve actor ep key fp now s = (r, t)"
  obtains (fresh) "sql_get idem_key (actor, ep, key) (idempotency_records s) = None"
      "r = Inr (decision_of PROCEED)"
      "t = s\<lparr>idempotency_records := idempotency_records s @
         [\<lparr>i_actor = actor, i_endpoint = ep, i_key = key, i_fingerprint = fp,
           i_status = PROCESSING, i_resource_id = None, i_http_status = None, i_response = None,
           i_created_at = now, i_completed_at = None\<rparr>]\<rparr>"
  | (seen) row d where "sql_get idem_key (actor, ep, key) (idempotency_records s) = Some row"
      "r = Inr d" "outcome d \<noteq> PROCEED" "t = s"
      "outcome d = REPLAY \<longleftrightarrow> i_fingerprint row = fp \<and> i_status row = COMPLETED"
      "outcome d = REPLAY \<longrightarrow> stored_body d = i_response row \<and> resource_id d = i_resource_id row"
      "outcome d = PAYLOAD_MISMATCH \<longleftrightarrow> i_fingerprint row \<noteq> fp"
  using assms
  by (cases "sql_get idem_key (actor, ep, key) (idempotency_records s)")
     (auto simp: idem_reserve_def decision_of_def split: if_splits)

lemma idem_complete_okD [tx_okD]:
  "idem_complete actor ep key rid st body now s = (Inr u, t) \<longleftrightarrow>
     t = s\<lparr>idempotency_records := sql_update (\<lambda>r. idem_key r = (actor, ep, key))
         (\<lambda>r. r\<lparr>i_status := COMPLETED, i_resource_id := Some rid, i_http_status := Some st,
                 i_response := Some body, i_completed_at := Some now\<rparr>) (idempotency_records s)\<rparr>"
  by (simp add: idem_complete_def tx_okD)

lemma outbox_append_okD:
  assumes "outbox_append E ev tr s = (Inr u, t)"
  shows "\<exists>row n. t = s\<lparr>tick := n, outbox_events := outbox_events s @ [row]\<rparr>
    \<and> o_event_type row = ev_type ev \<and> o_aggregate_id row = ev_aggregate_id ev
    \<and> o_payload row = ev_payload ev \<and> o_published_at row = None \<and> o_dead_lettered_at row = None
    \<and> o_next_attempt_at row = None \<and> o_occurred_at row = ev_occurred_at ev \<and> o_trace_id row = tr"
  using assms by (fastforce simp: outbox_append_def tx_okD)

lemma audit_record_okD:
  assumes "audit_record E actor act ty rid req md now s = (Inr u, t)"
  shows "\<exists>row n. t = s\<lparr>tick := n, audit_logs := audit_logs s @ [row]\<rparr>
    \<and> au_actor row = actor \<and> au_action row = act \<and> au_resource_type row = ty
    \<and> au_resource_id row = rid \<and> au_metadata row = md"
  using assms by (fastforce simp: audit_record_def tx_okD)


section \<open>Reading accounts\<close>

lemma account_to_domain_okD:
  assumes "account_to_domain r = Inr a"
  shows "acc_id a = a_id r \<and> acc_user_id a = a_user_id r \<and> acc_type a = a_type r
    \<and> acc_balance a = mk_money (a_balance r) BDT \<and> acc_status a = a_status r
    \<and> acc_version a = a_version r"
  using assms by (auto simp: account_to_domain_def supported_currency_def split: option.splits if_splits)

lemma accounts_to_domain_lookup:
  assumes "accounts_to_domain rs = Inr m" "map_of m k = Some a"
  shows "\<exists>r \<in> set rs. a_id r = k \<and> account_to_domain r = Inr a"
  using assms
  by (induction rs arbitrary: m) (auto split: if_splits)

lemma lock_accounts_okD:
  assumes "lock_accounts_for_update ids s = (Inr m, t)" "map_of m k = Some a"
  shows "t = s \<and> k \<in> set ids \<and> (\<exists>r \<in> set (accounts s). a_id r = k \<and> account_to_domain r = Inr a)"
proof -
  from assms(1) have "t = s" and
    m: "accounts_to_domain (sql_order_by a_id
          (filter (\<lambda>a. a_id a \<in> set (lock_order ids)) (accounts s))) = Inr m"
    by (auto simp: lock_accounts_for_update_def tx_okD)
  with accounts_to_domain_lookup [OF m assms(2)] show ?thesis
    by (auto simp: lock_order_def)
qed

lemma set_lock_order [simp]: "set (lock_order ids) = set ids"
  by (simp add: lock_order_def)

lemma strict_sorted_lock_order: "sorted_wrt (<) (lock_order ids)"
  by (simp add: lock_order_def strict_sorted_iff)

lemma get_account_by_id_okD:
  assumes "get_account_by_id k s = (Inr r, t)"
  shows "t = s \<and> (case r of None \<Rightarrow> sql_get a_id k (accounts s) = None
     | Some a \<Rightarrow> \<exists>row \<in> set (accounts s). a_id row = k \<and> account_to_domain row = Inr a)"
  using assms sql_get_Some [of a_id k "accounts s"]
  by (auto simp: get_account_by_id_def tx_okD optional_account_def split: option.splits)

lemma one_or_none_ok:
  "one_or_none rs = Inr r \<longleftrightarrow> (rs = [] \<and> r = None) \<or> (\<exists>x. rs = [x] \<and> r = Some x)"
  by (cases rs rule: one_or_none.cases) auto

lemma get_account_by_user_id_okD:
  assumes "get_account_by_user_id uid s = (Inr r, t)"
  shows "t = s \<and> (case r of None \<Rightarrow> \<forall>a \<in> set (accounts s). \<not> (a_user_id a = Some uid \<and> a_type a = USER)
     | Some a \<Rightarrow> \<exists>row \<in> set (accounts s). a_user_id row = Some uid \<and> a_type row = USER
                   \<and> account_to_domain row = Inr a)"
proof -
  let ?rs = "filter (\<lambda>a. a_user_id a = Some uid \<and> a_type a = USER) (accounts s)"
  have st: "t = s" and "chk_bind (one_or_none ?rs) optional_account = Inr r"
    using assms by (auto simp: get_account_by_user_id_def tx_okD)
  then obtain x where "one_or_none ?rs = Inr x" "optional_account x = Inr r" by auto
  then consider "?rs = []" "r = None" | y a where "?rs = [y]" "r = Some a" "account_to_domain y = Inr a"
    by (auto simp: one_or_none_ok optional_account_def)
  then show ?thesis
  proof cases
    case 1
    then show ?thesis using st by (auto simp: filter_empty_conv)
  next
    case (2 y a)
    then have "y \<in> set ?rs" by simp
    then have "y \<in> set (accounts s)" "a_user_id y = Some uid" "a_type y = USER" by simp_all
    then show ?thesis using st 2 by auto
  qed
qed


section \<open>Frames\<close>

text \<open>
  An operation keeps every view of the session that does not read the columns it writes.  The
  premises are equations the simplifier proves for each concrete view.
\<close>

named_theorems frames \<open>operations and the views they keep\<close>

lemma frame_reads [frames]:
  "tx_frame v (get_account_by_id k)" "tx_frame v (get_account_by_user_id k)"
  "tx_frame v (get_account_by_phone k)" "tx_frame v (lock_accounts_for_update ids)"
  "tx_frame v (get_transfer k)" "tx_frame v (sum_sent_since k since)"
  unfolding get_account_by_id_def get_account_by_user_id_def get_account_by_phone_def
    lock_accounts_for_update_def get_transfer_def sum_sent_since_def
  by (intro tx_frame_bind tx_frame_basic)+

lemma tx_frame_modify: "(\<And>s. v (f s) = v s) \<Longrightarrow> tx_frame v (tx_modify f)"
  by (simp add: tx_frame_def tx_run)

lemma frame_outbox_append [frames]:
  assumes "\<And>s n. v (s\<lparr>tick := n\<rparr>) = v s" "\<And>s x. v (s\<lparr>outbox_events := x\<rparr>) = v s"
  shows "tx_frame v (outbox_append E ev tr)"
  unfolding outbox_append_def
  by (intro tx_frame_bind tx_frame_feeds tx_frame_modify frame_require assms)

lemma frame_audit_record [frames]:
  assumes "\<And>s n. v (s\<lparr>tick := n\<rparr>) = v s" "\<And>s x. v (s\<lparr>audit_logs := x\<rparr>) = v s"
  shows "tx_frame v (audit_record E actor act ty rid req md now)"
  unfolding audit_record_def
  by (intro tx_frame_bind tx_frame_feeds tx_frame_modify frame_require assms)

lemma frame_idem_reserve [frames]:
  assumes "\<And>s x. v (s\<lparr>idempotency_records := x\<rparr>) = v s"
  shows "tx_frame v (idem_reserve actor ep key fp now)"
  using assms by (auto simp: tx_frame_def idem_reserve_def split: option.splits)

lemma frame_idem_complete [frames]:
  assumes "\<And>s x. v (s\<lparr>idempotency_records := x\<rparr>) = v s"
  shows "tx_frame v (idem_complete actor ep key rid st body now)"
  unfolding idem_complete_def by (intro tx_frame_modify assms)

lemma books_of_ignores [simp]:
  "books_of (s\<lparr>tick := n\<rparr>) = books_of s"
  "books_of (s\<lparr>idempotency_records := x1\<rparr>) = books_of s"
  "books_of (s\<lparr>outbox_events := x2\<rparr>) = books_of s"
  "books_of (s\<lparr>audit_logs := x3\<rparr>) = books_of s"
  "books_of (s\<lparr>scheduled_tasks := x4\<rparr>) = books_of s"
  "books_of (s\<lparr>money_requests := x5\<rparr>) = books_of s"
  "books_of (s\<lparr>safepay_escrows := x6\<rparr>) = books_of s"
  "books_of (s\<lparr>overdraft_pools := x7\<rparr>) = books_of s"
  "books_of (s\<lparr>overdraft_grants := x8\<rparr>) = books_of s"
  "books_of (s\<lparr>overdraft_loans := x9\<rparr>) = books_of s"
  "books_of (s\<lparr>overdraft_repayments := x10\<rparr>) = books_of s"
  "books_of (s\<lparr>users := x11\<rparr>) = books_of s"
  "books_of (s\<lparr>login_sessions := x12\<rparr>) = books_of s"
  "books_of (s\<lparr>consumer_inbox := x13\<rparr>) = books_of s"
  "books_of (s\<lparr>txn_now := x14\<rparr>) = books_of s"
  by (simp_all add: books_of_eq)

lemma books_of_upd [simp]:
  "books_of (s\<lparr>accounts := x\<rparr>) = books_of s\<lparr>b_accounts := x\<rparr>"
  "books_of (s\<lparr>transfers := y\<rparr>) = books_of s\<lparr>b_transfers := y\<rparr>"
  "books_of (s\<lparr>ledger_transactions := z\<rparr>) = books_of s\<lparr>b_ledger := z\<rparr>"
  "books_of (s\<lparr>ledger_entries := w\<rparr>) = books_of s\<lparr>b_entries := w\<rparr>"
  by (simp_all add: books_of_def)

lemma books_of_sel [simp]:
  "b_accounts (books_of s) = accounts s" "b_transfers (books_of s) = transfers s"
  "b_ledger (books_of s) = ledger_transactions s" "b_entries (books_of s) = ledger_entries s"
  by (simp_all add: books_of_def)

end
