(* ===== verification/Transfers.thy ===== *)
theory Transfers
  imports Repository_Facts
begin

text \<open>
  The transfer use case, \<open>modules/financial_core/application/transfer.py\<close>, the only code path
  that changes a balance.  \<open>execute_with\<close> is \<open>TransferUseCase.execute\<close> with the credit
  interceptor and the fee strategy it was constructed with as arguments; the limits come from the
  settings.  The numbered steps of the method are the definitions below, composed in its order.
\<close>

definition TRANSFER_ENDPOINT :: string where
  "TRANSFER_ENDPOINT = ''POST:/api/v1/transfers''"

definition SYSTEM_INITIATED_KINDS :: "transfer_kind list" where
  "SYSTEM_INITIATED_KINDS =
     [SIGNUP_GRANT, UNDO_SETTLE, UNDO_REFUND, ESCROW_RELEASE, ESCROW_REFUND, GROUP_WITHDRAWAL]"

record transfer_command =
  c_actor :: string
  c_sender :: string
  c_receiver :: string
  c_amount :: money
  c_key :: string
  c_fingerprint :: string
  c_kind :: transfer_kind
  c_note :: "string option"
  c_request_id :: "string option"
  c_money_request_id :: "string option"
  c_enforce_limits :: bool
  c_initial_status :: transfer_status
  c_parent :: "string option"
  c_intended :: "string option"
  c_endpoint :: string

text \<open>The dataclass defaults.\<close>

definition base_command ::
  "string \<Rightarrow> string \<Rightarrow> string \<Rightarrow> money \<Rightarrow> string \<Rightarrow> string \<Rightarrow> transfer_command" where
  "base_command actor sender receiver amount key fp =
     \<lparr>c_actor = actor, c_sender = sender, c_receiver = receiver, c_amount = amount, c_key = key,
      c_fingerprint = fp, c_kind = P2P_SEND, c_note = None, c_request_id = None,
      c_money_request_id = None, c_enforce_limits = True, c_initial_status = SUCCEEDED,
      c_parent = None, c_intended = None, c_endpoint = TRANSFER_ENDPOINT\<rparr>"

record transfer_result =
  tr_id :: string
  tr_reference :: string
  tr_status :: string
  tr_amount :: money
  tr_fee :: money
  tr_sender_balance :: money
  tr_receiver_balance :: money
  tr_completed_at :: int
  tr_replayed :: bool

definition to_response :: "transfer_result \<Rightarrow> dict" where
  "to_response r =
     [(''transferId'', JStr (tr_id r)),
      (''reference'', JStr (tr_reference r)),
      (''status'', JStr (tr_status r)),
      (''amountMinor'', JInt (minor (tr_amount r))),
      (''feeMinor'', JInt (minor (tr_fee r))),
      (''currency'', JStr (code (mcurrency (tr_amount r)))),
      (''senderBalanceMinor'', JInt (minor (tr_sender_balance r))),
      (''completedAt'', JTime (tr_completed_at r))]"

record interceptor =
  additional_lock_ids :: "string \<Rightarrow> transfer_kind \<Rightarrow> string list tx"
  after_credit :: "string \<Rightarrow> account \<Rightarrow> money \<Rightarrow> transfer_kind \<Rightarrow> string option \<Rightarrow> unit tx"


section \<open>Step 1: the idempotency decision\<close>

definition body_str :: "dict \<Rightarrow> string \<Rightarrow> string \<Rightarrow> exn + string" where
  "body_str body k dflt =
     (case dict_get body k of
        None \<Rightarrow> Inr dflt
      | Some (JStr s) \<Rightarrow> Inr s
      | Some _ \<Rightarrow> Inl (PyError ''TypeError''))"

definition body_int :: "dict \<Rightarrow> string \<Rightarrow> exn + int" where
  "body_int body k =
     (case dict_get body k of
        None \<Rightarrow> Inr 0
      | Some (JInt i) \<Rightarrow> Inr i
      | Some _ \<Rightarrow> Inl (PyError ''TypeError''))"

definition body_time :: "env \<Rightarrow> dict \<Rightarrow> string \<Rightarrow> int tx" where
  "body_time E body k =
     (case dict_get body k of
        Some (JTime t) \<Rightarrow> tx_return t
      | None \<Rightarrow> clock_now E
      | Some JNull \<Rightarrow> clock_now E
      | Some _ \<Rightarrow> tx_raise (PyError ''ValueError''))"

definition replayed_result :: "env \<Rightarrow> idempotency_decision \<Rightarrow> transfer_result tx" where
  "replayed_result E d =
     (let body = (case stored_body d of None \<Rightarrow> [] | Some b \<Rightarrow> b) in
      tx_bind (tx_lift (body_str body ''currency'' ''BDT'')) (\<lambda>currency_code.
      case supported_currency currency_code of
        None \<Rightarrow> tx_raise (app_error NotFoundError)
      | Some cur \<Rightarrow>
          tx_bind (tx_lift (body_str body ''transferId''
            (case resource_id d of None \<Rightarrow> [] | Some r \<Rightarrow> r))) (\<lambda>tid.
          tx_bind (tx_lift (body_str body ''reference'' [])) (\<lambda>ref.
          tx_bind (tx_lift (body_str body ''status'' ''SUCCEEDED'')) (\<lambda>st.
          tx_bind (tx_lift (body_int body ''amountMinor'')) (\<lambda>amt.
          tx_bind (tx_lift (body_int body ''feeMinor'')) (\<lambda>fee.
          tx_bind (tx_lift (body_int body ''senderBalanceMinor'')) (\<lambda>bal.
          tx_bind (body_time E body ''completedAt'') (\<lambda>at.
            tx_return \<lparr>tr_id = tid, tr_reference = ref, tr_status = st,
              tr_amount = mk_money amt cur, tr_fee = mk_money fee cur,
              tr_sender_balance = mk_money bal cur, tr_receiver_balance = mk_money 0 cur,
              tr_completed_at = at, tr_replayed = True\<rparr>)))))))))"

definition handle_idempotency_decision ::
  "env \<Rightarrow> idempotency_decision \<Rightarrow> transfer_result option tx" where
  "handle_idempotency_decision E d =
     (case outcome d of
        PROCEED \<Rightarrow> tx_return None
      | PAYLOAD_MISMATCH \<Rightarrow> tx_raise (app_error IdempotencyKeyReuseError)
      | IN_PROGRESS \<Rightarrow> tx_raise (app_error RequestInProgressError)
      | REPLAY \<Rightarrow> tx_bind (replayed_result E d) (\<lambda>r. tx_return (Some r)))"


section \<open>Steps 2 and 3: locking and revalidation\<close>

definition transfer_authorize :: "account \<Rightarrow> transfer_command \<Rightarrow> exn + unit" where
  "transfer_authorize sender cmd =
     (if c_kind cmd \<in> set SYSTEM_INITIATED_KINDS \<and> acc_user_id sender = None then Inr ()
      else ensure_owned_by sender (c_actor cmd))"

definition start_of_day :: "int \<Rightarrow> int" where
  "start_of_day now = now - now mod day_us"

definition lock_parties ::
  "interceptor option \<Rightarrow> transfer_command \<Rightarrow> (account \<times> account) tx" where
  "lock_parties icpt cmd =
     tx_bind (tx_unless (c_sender cmd \<noteq> c_receiver cmd) (app_error SelfTransferError)) (\<lambda>_.
     tx_bind (case icpt of None \<Rightarrow> tx_return []
              | Some i \<Rightarrow> additional_lock_ids i (c_receiver cmd) (c_kind cmd)) (\<lambda>extra.
     tx_bind (lock_accounts_for_update (c_sender cmd # c_receiver cmd # extra)) (\<lambda>locked.
       case (map_of locked (c_sender cmd), map_of locked (c_receiver cmd)) of
         (Some sender, Some receiver) \<Rightarrow> tx_return (sender, receiver)
       | _ \<Rightarrow> tx_raise (app_error NotFoundError))))"

definition validate_transfer ::
  "(money \<Rightarrow> money) \<Rightarrow> env \<Rightarrow> transfer_command \<Rightarrow> int \<Rightarrow> account \<Rightarrow> account \<Rightarrow> (money \<times> money) tx" where
  "validate_transfer fee_for E cmd now sender receiver =
     tx_bind (tx_lift (transfer_authorize sender cmd)) (\<lambda>_.
     tx_bind (tx_lift (ensure_active sender)) (\<lambda>_.
     tx_bind (tx_lift (ensure_active receiver)) (\<lambda>_.
     tx_bind (tx_lift (ensure_same_currency_as sender receiver)) (\<lambda>_.
     tx_bind (tx_return (fee_for (c_amount cmd))) (\<lambda>fee.
     tx_bind (tx_lift (money_add (c_amount cmd) fee)) (\<lambda>total_debit.
     tx_bind (if c_enforce_limits cmd then
                tx_bind (sum_sent_since (acc_id sender) (start_of_day now)) (\<lambda>already_today.
                  tx_lift (ensure_within_limits
                    \<lparr>max_single_transfer_minor = max_transfer_amount_minor E,
                     daily_total_minor = daily_transfer_limit_minor E\<rparr> total_debit already_today))
              else tx_return ()) (\<lambda>_.
     tx_bind (tx_lift (ensure_can_afford sender total_debit)) (\<lambda>_.
       tx_return (fee, total_debit)))))))))"


section \<open>Steps 4 to 7: the movement and its records\<close>

definition apply_movement ::
  "env \<Rightarrow> transfer_command \<Rightarrow> int \<Rightarrow> account \<Rightarrow> account \<Rightarrow> money \<Rightarrow> money
   \<Rightarrow> (transfer_result \<times> account) tx" where
  "apply_movement E cmd now sender receiver fee total_debit =
     tx_bind (tx_lift (debit sender total_debit)) (\<lambda>updated_sender.
     tx_bind (tx_lift (credit receiver (c_amount cmd))) (\<lambda>updated_receiver.
     tx_bind (persist_balance updated_sender) (\<lambda>_.
     tx_bind (persist_balance updated_receiver) (\<lambda>_.
     tx_bind (fresh_ulid E) (\<lambda>transfer_id.
     tx_bind (fresh_reference E ''TRX'' now) (\<lambda>reference.
     tx_bind (create_transfer transfer_id reference (acc_id sender) (acc_id receiver) (c_amount cmd)
       (c_kind cmd) (c_initial_status cmd) (c_note cmd) (Some (c_actor cmd)) (c_request_id cmd)
       (c_parent cmd) (c_intended cmd) now) (\<lambda>_.
     tx_bind (tx_lift (transfer_posting (acc_id sender) (acc_id receiver) (c_amount cmd))) (\<lambda>posting.
     tx_bind (ledger_post E posting transfer_id (c_kind cmd) (c_note cmd)
       [(acc_id updated_sender, acc_balance updated_sender),
        (acc_id updated_receiver, acc_balance updated_receiver)] now) (\<lambda>_.
       tx_return (\<lparr>tr_id = transfer_id, tr_reference = reference,
          tr_status = transfer_status_str (c_initial_status cmd), tr_amount = c_amount cmd,
          tr_fee = fee, tr_sender_balance = acc_balance updated_sender,
          tr_receiver_balance = acc_balance updated_receiver, tr_completed_at = now,
          tr_replayed = False\<rparr>, updated_receiver))))))))))"

definition announce_transfer ::
  "env \<Rightarrow> transfer_command \<Rightarrow> int \<Rightarrow> account \<Rightarrow> account \<Rightarrow> transfer_result \<Rightarrow> unit tx" where
  "announce_transfer E cmd now sender receiver r =
     tx_bind (outbox_append E (transfer_succeeded (tr_id r) now
       [(''transferId'', JStr (tr_id r)), (''reference'', JStr (tr_reference r)),
        (''senderAccountId'', JStr (acc_id sender)), (''receiverAccountId'', JStr (acc_id receiver)),
        (''senderUserId'', opt_json JStr (acc_user_id sender)),
        (''receiverUserId'', opt_json JStr (acc_user_id receiver)),
        (''amountMinor'', JInt (minor (c_amount cmd))), (''feeMinor'', JInt (minor (tr_fee r))),
        (''currency'', JStr (code (mcurrency (c_amount cmd)))),
        (''kind'', JStr (kind_str (c_kind cmd)))]) (c_request_id cmd)) (\<lambda>_.
     audit_record E (Some (c_actor cmd)) ''TRANSFER_SUCCEEDED'' ''transfer'' (Some (tr_id r))
       (c_request_id cmd)
       (Some [(''reference'', JStr (tr_reference r)), (''amountMinor'', JInt (minor (c_amount cmd))),
              (''kind'', JStr (kind_str (c_kind cmd)))]) now)"


section \<open>The use case\<close>

definition settle_transfer ::
  "(money \<Rightarrow> money) \<Rightarrow> env \<Rightarrow> interceptor option \<Rightarrow> transfer_command \<Rightarrow> int \<Rightarrow> transfer_result tx" where
  "settle_transfer fee_for E icpt cmd now =
     tx_bind (lock_parties icpt cmd) (\<lambda>(sender, receiver).
     tx_bind (validate_transfer fee_for E cmd now sender receiver) (\<lambda>(fee, total_debit).
     tx_bind (apply_movement E cmd now sender receiver fee total_debit) (\<lambda>(r, updated_receiver).
     tx_bind (announce_transfer E cmd now sender receiver r) (\<lambda>_.
     tx_bind (case icpt of None \<Rightarrow> tx_return ()
              | Some i \<Rightarrow> after_credit i (tr_id r) updated_receiver (c_amount cmd) (c_kind cmd)
                            (c_request_id cmd)) (\<lambda>_.
     tx_bind (idem_complete (c_actor cmd) (c_endpoint cmd) (c_key cmd) (tr_id r) 201
                (to_response r) now) (\<lambda>_.
       tx_return r))))))"

definition execute_with ::
  "(money \<Rightarrow> money) \<Rightarrow> env \<Rightarrow> interceptor option \<Rightarrow> transfer_command \<Rightarrow> transfer_result tx" where
  "execute_with fee_for E icpt cmd =
     tx_bind (clock_now E) (\<lambda>now.
     tx_bind (idem_reserve (c_actor cmd) (c_endpoint cmd) (c_key cmd) (c_fingerprint cmd) now) (\<lambda>d.
     tx_bind (handle_idempotency_decision E d) (\<lambda>replay.
       case replay of
         Some r \<Rightarrow> tx_return r
       | None \<Rightarrow> settle_transfer fee_for E icpt cmd now)))"


section \<open>What a successful movement does to the books\<close>

lemma lock_parties_okD:
  assumes "lock_parties icpt cmd s = (Inr (sender, receiver), t)"
    and "\<And>i. icpt = Some i \<Longrightarrow> snd (additional_lock_ids i (c_receiver cmd) (c_kind cmd) s) = s"
  shows "t = s \<and> c_sender cmd \<noteq> c_receiver cmd
    \<and> (\<exists>ra \<in> set (accounts s). a_id ra = c_sender cmd \<and> account_to_domain ra = Inr sender)
    \<and> (\<exists>rb \<in> set (accounts s). a_id rb = c_receiver cmd \<and> account_to_domain rb = Inr receiver)"
proof -
  obtain extra u locked where
    extra: "(case icpt of None \<Rightarrow> tx_return []
       | Some i \<Rightarrow> additional_lock_ids i (c_receiver cmd) (c_kind cmd)) s = (Inr extra, u)"
    and locked: "lock_accounts_for_update (c_sender cmd # c_receiver cmd # extra) u = (Inr locked, t)"
    and parties: "map_of locked (c_sender cmd) = Some sender" "map_of locked (c_receiver cmd) = Some receiver"
    and diff: "c_sender cmd \<noteq> c_receiver cmd"
    using assms(1) unfolding lock_parties_def
    by (auto simp: tx_bind_okD tx_basic_okD split: option.splits)
  have "u = s"
  proof (cases icpt)
    case None
    with extra show ?thesis by (simp add: tx_okD)
  next
    case (Some i)
    with extra assms(2) [OF Some] show ?thesis by simp
  qed
  then show ?thesis
    using lock_accounts_okD [OF locked parties(1)] lock_accounts_okD [OF locked parties(2)] diff by auto
qed

lemma validate_transfer_okD:
  assumes "validate_transfer fee_for E cmd now sender receiver s = (Inr (fee, total_debit), t)"
  shows "t = s \<and> fee = fee_for (c_amount cmd) \<and> money_add (c_amount cmd) fee = Inr total_debit
    \<and> transfer_authorize sender cmd = Inr ()
    \<and> acc_status sender = ACTIVE \<and> acc_status receiver = ACTIVE
    \<and> mcurrency (acc_balance sender) = mcurrency (acc_balance receiver)
    \<and> ensure_can_afford sender total_debit = Inr ()
    \<and> (c_enforce_limits cmd \<longrightarrow> minor total_debit \<le> max_transfer_amount_minor E
         \<and> sql_sum t_amount (filter (\<lambda>t. t_sender t = acc_id sender
              \<and> t_status t \<in> {SUCCEEDED, PENDING_UNDO, HELD} \<and> start_of_day now \<le> t_created_at t)
              (transfers s)) + minor total_debit \<le> daily_transfer_limit_minor E)"
  using assms
  by (auto simp: validate_transfer_def tx_bind_okD tx_basic_okD sum_sent_since_def split: if_splits)

text \<open>The record of one movement, as the transfer path fills it in.\<close>

lemma apply_movement_okD:
  assumes "apply_movement E cmd now sender receiver fee total_debit s = (Inr (r, ur), t)"
    and ra: "ra \<in> set (accounts s)" "account_to_domain ra = Inr sender"
    and rb: "rb \<in> set (accounts s)" "account_to_domain rb = Inr receiver"
    and tot: "minor total_debit = minor (c_amount cmd)" "mcurrency total_debit = mcurrency (c_amount cmd)"
  shows "\<exists>mv n. t = s\<lparr>tick := n, accounts := b_accounts (post_books mv (books_of s)),
            transfers := transfers s @ [mv_transfer mv],
            ledger_transactions := ledger_transactions s @ [mv_ledger mv],
            ledger_entries := ledger_entries s @ [mv_debit mv, mv_credit mv]\<rparr>
    \<and> movement_ok mv (books_of s)
    \<and> t_id (mv_transfer mv) = tr_id r \<and> t_reference (mv_transfer mv) = tr_reference r
    \<and> t_sender (mv_transfer mv) = acc_id sender \<and> t_receiver (mv_transfer mv) = acc_id receiver
    \<and> t_amount (mv_transfer mv) = minor (c_amount cmd)
    \<and> t_kind (mv_transfer mv) = c_kind cmd \<and> t_status (mv_transfer mv) = c_initial_status cmd
    \<and> t_intended_receiver (mv_transfer mv) = c_intended cmd \<and> t_parent (mv_transfer mv) = c_parent cmd
    \<and> t_initiated_by (mv_transfer mv) = Some (c_actor cmd) \<and> t_note (mv_transfer mv) = c_note cmd
    \<and> t_created_at (mv_transfer mv) = now
    \<and> tr_status r = transfer_status_str (c_initial_status cmd) \<and> tr_amount r = c_amount cmd
    \<and> tr_completed_at r = now \<and> tr_fee r = fee \<and> \<not> tr_replayed r
    \<and> tr_sender_balance r = mk_money (le_balance_after (mv_debit mv)) BDT
    \<and> tr_receiver_balance r = mk_money (le_balance_after (mv_credit mv)) BDT
    \<and> ur = receiver\<lparr>acc_balance := mk_money (a_balance rb + minor (c_amount cmd)) BDT,
                    acc_version := acc_version receiver + 1\<rparr>
    \<and> mcurrency (c_amount cmd) = BDT"
proof -
  note dom = account_to_domain_okD [OF ra(2)] account_to_domain_okD [OF rb(2)]
  obtain us s1 s2 tid s3 ref s4 s5 posting txn where
    us: "debit sender total_debit = Inr us" and ur: "credit receiver (c_amount cmd) = Inr ur"
    and p1: "persist_balance us s = (Inr (), s1)" and p2: "persist_balance ur s1 = (Inr (), s2)"
    and ids: "fresh_ulid E s2 = (Inr tid, s3)" "fresh_reference E ''TRX'' now s3 = (Inr ref, s4)"
    and ct: "create_transfer tid ref (acc_id sender) (acc_id receiver) (c_amount cmd)
       (c_kind cmd) (c_initial_status cmd) (c_note cmd) (Some (c_actor cmd)) (c_request_id cmd)
       (c_parent cmd) (c_intended cmd) now s4 = (Inr (), s5)"
    and posting: "transfer_posting (acc_id sender) (acc_id receiver) (c_amount cmd) = Inr posting"
    and post: "ledger_post E posting tid (c_kind cmd) (c_note cmd)
       [(acc_id us, acc_balance us), (acc_id ur, acc_balance ur)] now s5 = (Inr txn, t)"
    and r: "r = \<lparr>tr_id = tid, tr_reference = ref,
          tr_status = transfer_status_str (c_initial_status cmd), tr_amount = c_amount cmd,
          tr_fee = fee, tr_sender_balance = acc_balance us,
          tr_receiver_balance = acc_balance ur, tr_completed_at = now, tr_replayed = False\<rparr>"
    using assms(1) unfolding apply_movement_def
    by (auto simp: tx_bind_okD tx_basic_okD)
  define row where "row = \<lparr>t_id = tid, t_reference = ref, t_sender = acc_id sender,
       t_receiver = acc_id receiver, t_amount = minor (c_amount cmd),
       t_currency = code (mcurrency (c_amount cmd)), t_kind = c_kind cmd,
       t_status = c_initial_status cmd, t_note = c_note cmd, t_initiated_by = Some (c_actor cmd),
       t_request_id = c_request_id cmd, t_reversal_of = None, t_parent = c_parent cmd,
       t_intended_receiver = c_intended cmd, t_created_at = now,
       t_completed_at = (if c_initial_status cmd = SUCCEEDED then Some now else None)\<rparr>"
  note us' = us [unfolded debit_ok] and ur' = ur [unfolded credit_ok]
  have uf: "acc_id us = a_id ra" "minor (acc_balance us) = a_balance ra - minor (c_amount cmd)"
    "acc_id ur = a_id rb" "minor (acc_balance ur) = a_balance rb + minor (c_amount cmd)"
    and afford: "a_type ra = SYSTEM_ISSUANCE \<or> minor (c_amount cmd) \<le> a_balance ra"
    and pos: "0 < minor (c_amount cmd)"
    using us' ur' dom tot by auto
  have cur: "mcurrency (c_amount cmd) = BDT" using ur' dom by auto
  have bals: "acc_balance us = mk_money (minor (acc_balance us)) BDT"
    "acc_balance ur = mk_money (minor (acc_balance ur)) BDT" using us' ur' cur tot by auto
  have s2: "s2 = s\<lparr>accounts := set_balance (acc_id ur) (minor (acc_balance ur)) (acc_version ur)
      (txn_now s) (set_balance (acc_id us) (minor (acc_balance us)) (acc_version us)
      (txn_now s) (accounts s))\<rparr>"
    using persist_balance_okD [OF p1] persist_balance_okD [OF p2] by simp
  have s4: "s4 = s2\<lparr>tick := Suc (Suc (tick s2))\<rparr>" using ids by (auto simp: tx_okD)
  have s5: "s5 = s4\<lparr>transfers := transfers s4 @ [row]\<rparr>"
    and con: "list_all snd (transfer_row_constraints row s4)"
    using insert_transfer_okD [OF ct [unfolded create_transfer_def]] by (simp_all add: row_def)
  have posting': "transfer_posting (acc_id us) (acc_id ur) (c_amount cmd) = Inr posting"
    using posting uf(1,3) dom by simp
  from ledger_post_transfer_okD [OF post posting']
  obtain l x y n where
    t: "t = s5\<lparr>tick := n, ledger_transactions := ledger_transactions s5 @ [l],
           ledger_entries := ledger_entries s5 @ [x, y]\<rparr>"
    and l: "lt_transfer_id l = tid" "lt_id l \<notin> lt_id ` set (ledger_transactions s5)"
    and xy: "le_txn x = lt_id l" "le_txn y = lt_id l" "le_account x = acc_id us" "le_account y = acc_id ur"
      "le_amount x = - minor (c_amount cmd)" "le_amount y = minor (c_amount cmd)"
      "le_balance_after x = minor (acc_balance us)" "le_balance_after y = minor (acc_balance ur)"
      "le_id x \<notin> le_id ` set (ledger_entries s5)" "le_id y \<notin> le_id ` set (ledger_entries s5)"
      "le_id x \<noteq> le_id y"
    by blast
  define mv where "mv = \<lparr>mv_transfer = row, mv_ledger = l, mv_debit = x, mv_credit = y,
    mv_from_version = acc_version us, mv_to_version = acc_version ur, mv_at = txn_now s\<rparr>"
  have tt: "t = s\<lparr>tick := n, accounts := b_accounts (post_books mv (books_of s)),
            transfers := transfers s @ [mv_transfer mv],
            ledger_transactions := ledger_transactions s @ [mv_ledger mv],
            ledger_entries := ledger_entries s @ [mv_debit mv, mv_credit mv]\<rparr>"
    by (simp add: t s5 s4 s2 mv_def post_books_def xy)
  have diff: "a_id ra \<noteq> a_id rb" using con dom by (simp add: transfer_row_constraints_def row_def)
  have fresh: "tid \<notin> t_id ` set (transfers s)" "ref \<notin> t_reference ` set (transfers s)"
    using con by (simp_all add: transfer_row_constraints_def row_def s4 s2)
  have "movement_ok mv (books_of s)"
    unfolding movement_ok_def
    using ra(1) rb(1) dom uf afford pos diff fresh l xy
    by (simp add: mv_def row_def s5 s4 s2) (metis order_refl)
  then show ?thesis
    using tt uf ur' cur dom bals xy(7,8)
    by (intro exI [of _ mv] exI [of _ n]) (simp add: mv_def row_def r)
qed

end
