(* ===== verification/Evolution.thy ===== *)
theory Evolution
  imports Transfers
begin

text \<open>
  What every handler of the program does to the session, whatever it is for: it keeps the books,
  and it only ever appends to the tables that are history.  \<open>evolves\<close> is that transition
  relation.  It is reflexive and transitive, so a handler respects it as soon as its operations
  do; the operations are dealt with here once, except for the one place where the books are out
  of step between two statements, the movement of \<open>Transfers\<close>, which is one operation here.
\<close>

definition books_ok :: "db \<Rightarrow> bool" where
  "books_ok s \<longleftrightarrow> books_inv (books_of s)"

text \<open>The columns of each table that no statement of the program changes.\<close>

definition account_core where
  "account_core a = (a_id a, a_user_id a, a_type a, a_number a, a_currency a)"

definition transfer_core where
  "transfer_core t = (t_id t, t_reference t, t_sender t, t_receiver t, t_amount t, t_kind t,
     t_initiated_by t, t_parent t, t_created_at t)"

definition idem_core where
  "idem_core r = (idem_key r, i_fingerprint r)"

text \<open>Handlers append fresh, unpublished events and touch no other row of the outbox.\<close>

definition outbox_grows :: "outbox_row list \<Rightarrow> outbox_row list \<Rightarrow> bool" where
  "outbox_grows xs ys \<longleftrightarrow>
     (\<exists>new. ys = xs @ new \<and> (\<forall>r \<in> set new. o_published_at r = None)
        \<and> (keys_distinct o_id xs \<longrightarrow> keys_distinct o_id ys))"

lemma outbox_grows_refl [simp]: "outbox_grows xs xs"
  by (simp add: outbox_grows_def)

lemma outbox_grows_trans: "outbox_grows xs ys \<Longrightarrow> outbox_grows ys zs \<Longrightarrow> outbox_grows xs zs"
  unfolding outbox_grows_def by fastforce

lemma outbox_grows_append:
  "o_id r \<notin> o_id ` set xs \<Longrightarrow> o_published_at r = None \<Longrightarrow> outbox_grows xs (xs @ [r])"
  by (auto simp: outbox_grows_def)

definition evolves :: "db \<Rightarrow> db \<Rightarrow> bool" where
  "evolves s t \<longleftrightarrow>
     (books_ok s \<longrightarrow> books_ok t)
     \<and> prefix (ledger_entries s) (ledger_entries t)
     \<and> prefix (ledger_transactions s) (ledger_transactions t)
     \<and> prefix (audit_logs s) (audit_logs t)
     \<and> prefix (map transfer_core (transfers s)) (map transfer_core (transfers t))
     \<and> prefix (map account_core (accounts s)) (map account_core (accounts t))
     \<and> prefix (map idem_core (idempotency_records s)) (map idem_core (idempotency_records t))
     \<and> outbox_grows (outbox_events s) (outbox_events t)"

interpretation evo: session_preorder evolves
  by unfold_locales (auto simp: evolves_def intro: prefix_order.trans outbox_grows_trans)

declare evo.R_trans [trans]

text \<open>The parts of the session \<open>evolves\<close> reads.\<close>

definition history_of where
  "history_of s = (books_of s, audit_logs s, idempotency_records s, outbox_events s)"

lemma evolves_same_history: "history_of s = history_of t \<Longrightarrow> evolves s t"
  by (auto simp: evolves_def history_of_def books_ok_def books_of_def)

lemma evolves_frame: "tx_frame history_of m \<Longrightarrow> tx_rel evolves m"
  by (erule tx_rel_frame) (rule evolves_same_history)

lemma history_of_ignores [simp]:
  "history_of (s\<lparr>tick := n\<rparr>) = history_of s"
  "history_of (s\<lparr>scheduled_tasks := x4\<rparr>) = history_of s"
  "history_of (s\<lparr>money_requests := x5\<rparr>) = history_of s"
  "history_of (s\<lparr>safepay_escrows := x6\<rparr>) = history_of s"
  "history_of (s\<lparr>overdraft_pools := x7\<rparr>) = history_of s"
  "history_of (s\<lparr>overdraft_grants := x8\<rparr>) = history_of s"
  "history_of (s\<lparr>overdraft_loans := x9\<rparr>) = history_of s"
  "history_of (s\<lparr>overdraft_repayments := x10\<rparr>) = history_of s"
  "history_of (s\<lparr>users := x11\<rparr>) = history_of s"
  "history_of (s\<lparr>login_sessions := x12\<rparr>) = history_of s"
  "history_of (s\<lparr>consumer_inbox := x13\<rparr>) = history_of s"
  "history_of (s\<lparr>txn_now := x14\<rparr>) = history_of s"
  by (simp_all add: history_of_def)

section \<open>The operations\<close>

lemma evolves_modify: "(\<And>s. evolves s (f s)) \<Longrightarrow> tx_rel evolves (tx_modify f)"
  by (simp add: tx_rel_def tx_basic_okD)

lemma evolves_feeds [tx_rel_intros]:
  "tx_rel evolves (clock_now E)" "tx_rel evolves (fresh_ulid E)"
  "tx_rel evolves (fresh_reference E p now)"
  by (intro evolves_frame tx_frame_feeds; simp)+

lemma evolves_require [tx_rel_intros]:
  "tx_rel evolves (require_constraints cs)" "tx_rel evolves (require_bigint vs)"
  by (intro evolves_frame frame_require)+

lemma evolves_reads [tx_rel_intros]:
  "tx_rel evolves (get_account_by_id k)" "tx_rel evolves (get_account_by_user_id k)"
  "tx_rel evolves (get_account_by_phone k)" "tx_rel evolves (lock_accounts_for_update ids)"
  "tx_rel evolves (get_transfer k)" "tx_rel evolves (sum_sent_since k since)"
  by (intro evolves_frame frame_reads)+

lemma evolves_idem_reserve [tx_rel_intros]: "tx_rel evolves (idem_reserve actor ep key fp now)"
proof (rule tx_relI)
  fix s x t
  assume "idem_reserve actor ep key fp now s = (Inr x, t)"
  then show "evolves s t"
    by (rule idem_reserve_okD) (auto simp: evolves_def books_ok_def evo.R_refl)
qed

lemma map_idem_core_update:
  "map idem_core (sql_update P (\<lambda>r. r\<lparr>i_status := st, i_resource_id := a, i_http_status := b,
     i_response := c, i_completed_at := d\<rparr>) t) = map idem_core t"
  by (rule map_sql_update_same) (simp add: idem_core_def idem_key_def)

lemma evolves_idem_complete [tx_rel_intros]:
  "tx_rel evolves (idem_complete actor ep key rid st body now)"
  unfolding idem_complete_def
  by (rule evolves_modify) (simp add: evolves_def books_ok_def map_idem_core_update)

lemma outbox_append_fresh:
  assumes "outbox_append E ev tr s = (Inr u, t)"
  shows "\<exists>row n. t = s\<lparr>tick := n, outbox_events := outbox_events s @ [row]\<rparr>
    \<and> outbox_grows (outbox_events s) (outbox_events s @ [row])"
  using assms by (fastforce simp: outbox_append_def tx_okD intro: outbox_grows_append)

lemma evolves_outbox_append [tx_rel_intros]: "tx_rel evolves (outbox_append E ev tr)"
  by (rule tx_relI, drule outbox_append_fresh) (auto simp: evolves_def books_ok_def)

lemma evolves_audit_record [tx_rel_intros]:
  "tx_rel evolves (audit_record E actor act ty rid req md now)"
  by (rule tx_relI, drule audit_record_okD) (auto simp: evolves_def books_ok_def)

lemma evolves_try_transition_status [tx_rel_intros]:
  "tx_rel evolves (try_transition_status tid from_st to_st)"
proof -
  have "evolves s (s\<lparr>transfers := sql_update P
      (\<lambda>t. t\<lparr>t_status := to_st, t_completed_at := Some w\<rparr>) (transfers s)\<rparr>)" for s P w
  proof -
    have "map transfer_core (sql_update P (\<lambda>t. t\<lparr>t_status := to_st, t_completed_at := Some w\<rparr>)
        (transfers s)) = map transfer_core (transfers s)"
      by (rule map_sql_update_same) (simp add: transfer_core_def)
    then show ?thesis
      using books_inv_transfer_update [of "books_of s" "\<lambda>t. t\<lparr>t_status := to_st, t_completed_at := Some w\<rparr>" P]
      by (simp add: evolves_def books_ok_def)
  qed
  then show ?thesis
    unfolding try_transition_status_def
    by (intro evo.rel_rules evolves_modify)
qed

lemma evolves_set_account_status [tx_rel_intros]:
  "tx_rel evolves (set_account_status acc st)"
proof -
  have "evolves s (s\<lparr>accounts := sql_update P
      (\<lambda>a. a\<lparr>a_status := st, a_updated_at := w\<rparr>) (accounts s)\<rparr>)" for s P w
  proof -
    have "map account_core (sql_update P (\<lambda>a. a\<lparr>a_status := st, a_updated_at := w\<rparr>) (accounts s))
        = map account_core (accounts s)"
      by (rule map_sql_update_same) (simp add: account_core_def)
    then show ?thesis
      using books_inv_account_update [of "books_of s" "\<lambda>a. a\<lparr>a_status := st, a_updated_at := w\<rparr>" P]
      by (simp add: evolves_def books_ok_def)
  qed
  then show ?thesis
    unfolding set_account_status_def
    by (intro evo.rel_rules evolves_modify)
qed

lemma evolves_insert_account:
  assumes "a_balance a = 0"
  shows "tx_rel evolves (insert_account a)"
proof (rule tx_relI)
  fix s x t
  assume run: "insert_account a s = (Inr x, t)"
  have t: "t = s\<lparr>accounts := accounts s @ [a]\<rparr>"
    and chk: "list_all snd (account_row_ok a)" "a_id a \<notin> a_id ` set (accounts s)"
    using run by (auto simp: insert_account_def tx_okD)
  have "books_of t = books_of s\<lparr>b_accounts := accounts s @ [a]\<rparr>"
    by (simp add: t)
  with books_inv_open_account [of "books_of s" a] chk assms
  have "books_ok s \<longrightarrow> books_ok t" by (simp add: books_ok_def)
  then show "evolves s t" by (simp add: t evolves_def)
qed

lemma evolves_create_account [tx_rel_intros]:
  "tx_rel evolves (create_account aid uid num cur now)"
  "tx_rel evolves (create_subaccount aid ouid ty num cur now)"
  unfolding create_account_def create_subaccount_def
  by (simp_all add: evolves_insert_account)


section \<open>The movement\<close>

lemma map_account_core_set_balance [simp]:
  "map account_core (set_balance acc bal ver at t) = map account_core t"
  unfolding set_balance_def by (rule map_sql_update_same) (simp add: account_core_def)

lemma evolves_movement:
  assumes "movement_ok mv (books_of s)"
    and t: "t = s\<lparr>tick := n, accounts := b_accounts (post_books mv (books_of s)),
            transfers := transfers s @ [mv_transfer mv],
            ledger_transactions := ledger_transactions s @ [mv_ledger mv],
            ledger_entries := ledger_entries s @ [mv_debit mv, mv_credit mv]\<rparr>"
  shows "evolves s t"
proof -
  have "books_of t = post_books mv (books_of s)"
    by (simp add: t books_of_def post_books_def)
  with books_inv_post [OF assms(1)] have "books_ok s \<longrightarrow> books_ok t" by (simp add: books_ok_def)
  then show ?thesis by (simp add: t evolves_def post_books_def)
qed

lemma no_fee_total: "money_add m (no_fee m) = Inr w \<Longrightarrow> w = m"
  by (cases m) (simp add: money_add_def no_fee_def money_zero_def assert_same_currency_def)

text \<open>The steps of a transfer that was not a replay, with the facts each of them establishes.\<close>

lemma settle_transfer_okD:
  assumes "settle_transfer no_fee E icpt cmd now s = (Inr r, t)"
    and "\<And>i. icpt = Some i \<Longrightarrow> snd (additional_lock_ids i (c_receiver cmd) (c_kind cmd) s) = s"
  obtains mv n ra rb sender receiver ur s1 s2 s3 where
    "ra \<in> set (accounts s)" "a_id ra = c_sender cmd" "account_to_domain ra = Inr sender"
    "rb \<in> set (accounts s)" "a_id rb = c_receiver cmd" "account_to_domain rb = Inr receiver"
    "c_sender cmd \<noteq> c_receiver cmd"
    "validate_transfer no_fee E cmd now sender receiver s = (Inr (no_fee (c_amount cmd), c_amount cmd), s)"
    "apply_movement E cmd now sender receiver (no_fee (c_amount cmd)) (c_amount cmd) s = (Inr (r, ur), s1)"
    "announce_transfer E cmd now sender receiver r s1 = (Inr (), s2)"
    "(case icpt of None \<Rightarrow> tx_return ()
        | Some i \<Rightarrow> after_credit i (tr_id r) ur (c_amount cmd) (c_kind cmd) (c_request_id cmd)) s2
     = (Inr (), s3)"
    "idem_complete (c_actor cmd) (c_endpoint cmd) (c_key cmd) (tr_id r) 201 (to_response r) now s3
     = (Inr (), t)"
proof -
  obtain sender receiver s0 fee total_debit u ur s1 s2 s3 where
    lp: "lock_parties icpt cmd s = (Inr (sender, receiver), s0)"
    and vt: "validate_transfer no_fee E cmd now sender receiver s0 = (Inr (fee, total_debit), u)"
    and rest: "apply_movement E cmd now sender receiver fee total_debit u = (Inr (r, ur), s1)"
      "announce_transfer E cmd now sender receiver r s1 = (Inr (), s2)"
      "(case icpt of None \<Rightarrow> tx_return ()
        | Some i \<Rightarrow> after_credit i (tr_id r) ur (c_amount cmd) (c_kind cmd) (c_request_id cmd)) s2
       = (Inr (), s3)"
      "idem_complete (c_actor cmd) (c_endpoint cmd) (c_key cmd) (tr_id r) 201 (to_response r) now s3
       = (Inr (), t)"
    using assms(1) unfolding settle_transfer_def
    by (auto simp: tx_bind_okD tx_basic_okD split: prod.splits)
  note lp' = lock_parties_okD [OF lp assms(2)]
  note vt' = validate_transfer_okD [OF vt]
  have "s0 = s" "u = s" "fee = no_fee (c_amount cmd)" "total_debit = c_amount cmd"
    using lp' vt' no_fee_total by auto
  then show thesis using that lp' vt rest by blast
qed

end
