(* ===== verification/Lien.thy ===== *)
theory Lien
  imports Evolution
begin

text \<open>
  The overdraft tables and the repayment lien:
  \<open>modules/overdraft/adapters/persistence/repositories.py\<close> and the two interceptor methods of
  \<open>modules/overdraft/application/service.py\<close>.

  The transfer use case and the lien call each other.  The composition root breaks the cycle with
  a setter; here it is broken by the number of nested transfers: \<open>execute_depth 0\<close> has no
  interceptor, \<open>execute_depth (Suc n)\<close> has the lien posting through \<open>execute_depth n\<close>.  A
  repayment is of kind \<open>OVERDRAFT_REPAY\<close>, for which the interceptor returns at once, so one level
  of nesting is all there ever is: \<open>execute_depth_stable\<close> shows that all depths from 1 on are the
  same function, and \<open>execute_transfer\<close> is that function.
\<close>

section \<open>Repository\<close>

definition get_pool_for_sponsor :: "string \<Rightarrow> pool_row option tx" where
  "get_pool_for_sponsor sponsor =
     tx_bind (tx_gets (\<lambda>s. filter (\<lambda>p. p_sponsor p = sponsor) (overdraft_pools s)))
       (\<lambda>rs. tx_lift (one_or_none rs))"

definition get_pool :: "string \<Rightarrow> pool_row option tx" where
  "get_pool pool_id = tx_gets (\<lambda>s. sql_get p_id pool_id (overdraft_pools s))"

definition create_pool_row :: "string \<Rightarrow> string \<Rightarrow> string \<Rightarrow> string \<Rightarrow> int \<Rightarrow> unit tx" where
  "create_pool_row pool_id sponsor pool_account cur now =
     tx_bind (require_constraints (\<lambda>s.
        [(''pk_overdraft_pools'', pool_id \<notin> p_id ` set (overdraft_pools s)),
         (''uq_overdraft_pools_pool_account_id'', pool_account \<notin> p_account ` set (overdraft_pools s)),
         (''one_pool_per_sponsor'', sponsor \<notin> p_sponsor ` set (overdraft_pools s)),
         (''fk_overdraft_pools_sponsor_user_id'', sponsor \<in> u_id ` set (users s)),
         (''fk_overdraft_pools_pool_account_id'', pool_account \<in> a_id ` set (accounts s))])) (\<lambda>_.
       tx_modify (\<lambda>s. s\<lparr>overdraft_pools := overdraft_pools s @
         [\<lparr>p_id = pool_id, p_sponsor = sponsor, p_account = pool_account, p_currency = cur,
           p_status = PoolActive, p_created_at = now, p_updated_at = now\<rparr>]\<rparr>))"

definition create_grant_row :: "string \<Rightarrow> string \<Rightarrow> string \<Rightarrow> int \<Rightarrow> int \<Rightarrow> unit tx" where
  "create_grant_row grant_id pool_id beneficiary max_draw now =
     tx_bind (require_bigint [max_draw]) (\<lambda>_.
     tx_bind (require_constraints (\<lambda>s.
        [(''ck_overdraft_grants_max_draw_positive'', 0 < max_draw),
         (''pk_overdraft_grants'', grant_id \<notin> g_id ` set (overdraft_grants s)),
         (''one_grant_per_beneficiary'',
            \<forall>g \<in> set (overdraft_grants s). \<not> (g_pool g = pool_id \<and> g_beneficiary g = beneficiary)),
         (''fk_overdraft_grants_pool_id'', pool_id \<in> p_id ` set (overdraft_pools s)),
         (''fk_overdraft_grants_beneficiary_user_id'', beneficiary \<in> u_id ` set (users s))])) (\<lambda>_.
       tx_modify (\<lambda>s. s\<lparr>overdraft_grants := overdraft_grants s @
         [\<lparr>g_id = grant_id, g_pool = pool_id, g_beneficiary = beneficiary, g_max_draw = max_draw,
           g_status = GrantActive, g_created_at = now, g_updated_at = now\<rparr>]\<rparr>)))"

definition get_grant :: "string \<Rightarrow> string \<Rightarrow> grant_row option tx" where
  "get_grant pool_id beneficiary =
     tx_bind (tx_gets (\<lambda>s. filter (\<lambda>g. g_pool g = pool_id \<and> g_beneficiary g = beneficiary)
                              (overdraft_grants s))) (\<lambda>rs. tx_lift (one_or_none rs))"

text \<open>The columns \<open>active_grants_for_borrower\<close> selects.\<close>

record borrower_grant =
  bg_grant :: string
  bg_max_draw :: int
  bg_pool :: string
  bg_sponsor :: string
  bg_pool_account :: string
  bg_balance :: int

definition active_grants_for_borrower :: "string \<Rightarrow> borrower_grant list tx" where
  "active_grants_for_borrower borrower =
     tx_gets (\<lambda>s. map (\<lambda>(g, p, a).
         \<lparr>bg_grant = g_id g, bg_max_draw = g_max_draw g, bg_pool = p_id p, bg_sponsor = p_sponsor p,
          bg_pool_account = p_account p, bg_balance = a_balance a\<rparr>)
       (sql_order_by (\<lambda>(g, p, a). g_created_at g) (sql_order_by (\<lambda>(g, p, a). g_id g)
          [(g, p, a). g \<leftarrow> overdraft_grants s, p \<leftarrow> overdraft_pools s, a \<leftarrow> accounts s,
             p_id p = g_pool g, a_id a = p_account p, g_beneficiary g = borrower,
             g_status g = GrantActive, p_status p = PoolActive, a_status a = ACTIVE])))"

definition create_loan :: "env \<Rightarrow> string \<Rightarrow> string \<Rightarrow> string \<Rightarrow> int \<Rightarrow> string \<Rightarrow> int \<Rightarrow> string tx" where
  "create_loan E pool_id borrower draw_transfer amount cur now =
     tx_bind (fresh_ulid E) (\<lambda>loan_id.
     tx_bind (require_bigint [amount]) (\<lambda>_.
     tx_bind (require_constraints (\<lambda>s.
        [(''ck_overdraft_loans_principal_positive'', 0 < amount),
         (''pk_overdraft_loans'', loan_id \<notin> l_id ` set (overdraft_loans s)),
         (''uq_overdraft_loans_draw_transfer_id'',
            draw_transfer \<notin> l_draw_transfer ` set (overdraft_loans s)),
         (''fk_overdraft_loans_pool_id'', pool_id \<in> p_id ` set (overdraft_pools s)),
         (''fk_overdraft_loans_borrower_user_id'', borrower \<in> u_id ` set (users s)),
         (''fk_overdraft_loans_draw_transfer_id'', draw_transfer \<in> t_id ` set (transfers s))])) (\<lambda>_.
     tx_bind (tx_modify (\<lambda>s. s\<lparr>overdraft_loans := overdraft_loans s @
         [\<lparr>l_id = loan_id, l_pool = pool_id, l_borrower = borrower, l_draw_transfer = draw_transfer,
           l_principal = amount, l_outstanding = amount, l_currency = cur,
           l_status = LoanOutstanding, l_created_at = now, l_repaid_at = None\<rparr>]\<rparr>)) (\<lambda>_.
       tx_return loan_id))))"

record outstanding_loan =
  ol_id :: string
  ol_pool :: string
  ol_outstanding :: int
  ol_currency :: string
  ol_sponsor :: string
  ol_pool_account :: string

definition outstanding_loans :: "string \<Rightarrow> outstanding_loan list tx" where
  "outstanding_loans borrower =
     tx_gets (\<lambda>s. map (\<lambda>(l, p).
         \<lparr>ol_id = l_id l, ol_pool = l_pool l, ol_outstanding = l_outstanding l,
          ol_currency = l_currency l, ol_sponsor = p_sponsor p, ol_pool_account = p_account p\<rparr>)
       (sql_order_by (\<lambda>(l, p). l_created_at l) (sql_order_by (\<lambda>(l, p). l_id l)
          [(l, p). l \<leftarrow> overdraft_loans s, p \<leftarrow> overdraft_pools s, p_id p = l_pool l,
             l_borrower l = borrower, l_status l = LoanOutstanding, 0 < l_outstanding l])))"

text \<open>The CHECK constraints of \<open>overdraft_loans\<close> that an update can violate.\<close>

definition loan_row_ok :: "loan_row \<Rightarrow> (string \<times> bool) list" where
  "loan_row_ok l =
     [(''ck_overdraft_loans_principal_positive'', 0 < l_principal l),
      (''ck_overdraft_loans_outstanding_within_principal'', 0 \<le> l_outstanding l \<and> l_outstanding l \<le> l_principal l),
      (''ck_overdraft_loans_repaid_means_zero'', (l_status l = LoanRepaid \<and> l_outstanding l = 0) \<or> l_status l \<noteq> LoanRepaid)]"

definition repaid_loan :: "int \<Rightarrow> int \<Rightarrow> loan_row \<Rightarrow> loan_row" where
  "repaid_loan new_outstanding now l =
     l\<lparr>l_outstanding := new_outstanding,
       l_status := (if new_outstanding = 0 then LoanRepaid else LoanOutstanding),
       l_repaid_at := (if new_outstanding = 0 then Some now else None)\<rparr>"

definition insert_repayment :: "repayment_row \<Rightarrow> unit tx" where
  "insert_repayment r =
     tx_bind (require_bigint [r_amount r]) (\<lambda>_.
     tx_bind (require_constraints (\<lambda>s.
        [(''ck_overdraft_repayments_amount_positive'', 0 < r_amount r),
         (''pk_overdraft_repayments'', r_id r \<notin> r_id ` set (overdraft_repayments s)),
         (''uq_overdraft_repayments_transfer_id'', r_transfer r \<notin> r_transfer ` set (overdraft_repayments s)),
         (''fk_overdraft_repayments_loan_id'', r_loan r \<in> l_id ` set (overdraft_loans s)),
         (''fk_overdraft_repayments_transfer_id'', r_transfer r \<in> t_id ` set (transfers s)),
         (''fk_overdraft_repayments_triggered_by_transfer_id'', opt_in (r_triggered_by r) (map t_id (transfers s)))])) (\<lambda>_.
       tx_modify (\<lambda>s. s\<lparr>overdraft_repayments := overdraft_repayments s @ [r]\<rparr>)))"

definition apply_repayment :: "env \<Rightarrow> string \<Rightarrow> string \<Rightarrow> int \<Rightarrow> string \<Rightarrow> int \<Rightarrow> unit tx" where
  "apply_repayment E loan_id transfer_id amount triggered_by now =
     tx_bind (tx_gets (\<lambda>s. sql_get l_id loan_id (overdraft_loans s))) (\<lambda>found.
     case found of
       None \<Rightarrow> tx_return ()
     | Some loan \<Rightarrow>
         if l_status loan \<noteq> LoanOutstanding then tx_return ()
         else
           tx_bind (tx_return (max 0 (l_outstanding loan - amount))) (\<lambda>new_outstanding.
           tx_bind (require_constraints (\<lambda>s. concat (map (\<lambda>l. loan_row_ok (repaid_loan new_outstanding now l))
              (filter (\<lambda>l. l_id l = loan_id \<and> l_status l = LoanOutstanding) (overdraft_loans s))))) (\<lambda>_.
           tx_bind (tx_modify (\<lambda>s. s\<lparr>overdraft_loans :=
              sql_update (\<lambda>l. l_id l = loan_id \<and> l_status l = LoanOutstanding)
                (repaid_loan new_outstanding now) (overdraft_loans s)\<rparr>)) (\<lambda>_.
           tx_bind (fresh_ulid E) (\<lambda>rid.
             insert_repayment \<lparr>r_id = rid, r_loan = loan_id, r_transfer = transfer_id, r_amount = amount,
               r_triggered_by = Some triggered_by, r_created_at = now\<rparr>)))))"


section \<open>The interceptor\<close>

definition overdraft_leg :: "transfer_kind \<Rightarrow> bool" where
  "overdraft_leg k \<longleftrightarrow> k \<in> {OVERDRAFT_DRAW, OVERDRAFT_REPAY}"

definition lien_lock_ids :: "string \<Rightarrow> transfer_kind \<Rightarrow> string list tx" where
  "lien_lock_ids receiver_account_id kind =
     (if overdraft_leg kind then tx_return []
      else tx_bind (get_account_by_id receiver_account_id) (\<lambda>found.
        case found of
          None \<Rightarrow> tx_return []
        | Some receiver \<Rightarrow>
            if acc_type receiver \<noteq> USER then tx_return []
            else (case acc_user_id receiver of
                    None \<Rightarrow> tx_return []
                  | Some uid \<Rightarrow>
                      if uid = [] then tx_return []
                      else tx_bind (outstanding_loans uid) (\<lambda>loans.
                        tx_return (map ol_pool_account loans)))))"

definition lien_endpoint :: string where
  "lien_endpoint = ''INTERNAL:/overdraft/lien-repayment''"

definition lien_command ::
  "env \<Rightarrow> string \<Rightarrow> account \<Rightarrow> string \<Rightarrow> currency \<Rightarrow> string option \<Rightarrow> outstanding_loan \<Rightarrow> int
   \<Rightarrow> transfer_command" where
  "lien_command E incoming receiver uid cur request_id loan repay_minor =
     (base_command uid (acc_id receiver) (ol_pool_account loan) (mk_money repay_minor cur)
        (''lien:'' @ incoming @ '':'' @ ol_id loan)
        (fingerprint_request (sha256 E)
           [(''incomingTransferId'', JStr incoming), (''loanId'', JStr (ol_id loan)),
            (''amountMinor'', JInt repay_minor)]))
     \<lparr>c_kind := OVERDRAFT_REPAY, c_note := Some ''Automatic Spot-Me repayment'',
      c_request_id := request_id, c_enforce_limits := False, c_endpoint := lien_endpoint\<rparr>"

text \<open>The loop over the loans, with the remaining budget.\<close>

fun lien_sweep ::
  "env \<Rightarrow> (transfer_command \<Rightarrow> transfer_result tx) \<Rightarrow> string \<Rightarrow> account \<Rightarrow> string \<Rightarrow> currency
   \<Rightarrow> string option \<Rightarrow> int \<Rightarrow> outstanding_loan list \<Rightarrow> unit tx" where
  "lien_sweep E exec incoming receiver uid cur request_id budget [] = tx_return ()"
| "lien_sweep E exec incoming receiver uid cur request_id budget (loan # loans) =
     (if budget \<le> 0 then tx_return ()
      else
        tx_bind (tx_return (min budget (ol_outstanding loan))) (\<lambda>repay_minor.
        tx_bind (exec (lien_command E incoming receiver uid cur request_id loan repay_minor)) (\<lambda>repayment.
        tx_bind (clock_now E) (\<lambda>now.
        tx_bind (apply_repayment E (ol_id loan) (tr_id repayment) repay_minor incoming now) (\<lambda>_.
          lien_sweep E exec incoming receiver uid cur request_id (budget - repay_minor) loans)))))"

definition lien_after_credit ::
  "env \<Rightarrow> (transfer_command \<Rightarrow> transfer_result tx) \<Rightarrow> string \<Rightarrow> account \<Rightarrow> money \<Rightarrow> transfer_kind
   \<Rightarrow> string option \<Rightarrow> unit tx" where
  "lien_after_credit E exec incoming receiver amount kind request_id =
     (if overdraft_leg kind then tx_return ()
      else if acc_type receiver \<noteq> USER then tx_return ()
      else (case acc_user_id receiver of
              None \<Rightarrow> tx_return ()
            | Some uid \<Rightarrow>
                if uid = [] then tx_return ()
                else
                  tx_bind (tx_return (minor amount * overdraft_lien_sweep_basis_points E div 10000)) (\<lambda>budget.
                    if budget \<le> 0 then tx_return ()
                    else tx_bind (outstanding_loans uid) (\<lambda>loans.
                      lien_sweep E exec incoming receiver uid (mcurrency amount) request_id budget loans))))"

definition lien :: "env \<Rightarrow> (transfer_command \<Rightarrow> transfer_result tx) \<Rightarrow> interceptor" where
  "lien E exec = \<lparr>additional_lock_ids = lien_lock_ids, after_credit = lien_after_credit E exec\<rparr>"


section \<open>Tying the knot\<close>

fun execute_depth :: "env \<Rightarrow> nat \<Rightarrow> transfer_command \<Rightarrow> transfer_result tx" where
  "execute_depth E 0 cmd = execute_with no_fee E None cmd"
| "execute_depth E (Suc n) cmd = execute_with no_fee E (Some (lien E (execute_depth E n))) cmd"

text \<open>The transfer use case as the container wires it: no fee, the overdraft lien installed.\<close>

definition execute_transfer :: "env \<Rightarrow> transfer_command \<Rightarrow> transfer_result tx" where
  "execute_transfer E = execute_depth E 1"


lemma lien_command_kind [simp]: "c_kind (lien_command E inc rcv uid cur rq loan amt) = OVERDRAFT_REPAY"
  by (simp add: lien_command_def)

lemma execute_overdraft_leg:
  assumes "overdraft_leg (c_kind cmd)"
  shows "execute_with fee E (Some (lien E exec)) cmd = execute_with fee E None cmd"
proof -
  have "settle_transfer fee E (Some (lien E exec)) cmd now = settle_transfer fee E None cmd now" for now
    using assms
    by (simp add: settle_transfer_def lock_parties_def lien_def lien_lock_ids_def lien_after_credit_def)
  then show ?thesis by (simp add: execute_with_def cong: option.case_cong)
qed

lemma lien_sweep_cong:
  assumes "\<And>cmd. c_kind cmd = OVERDRAFT_REPAY \<Longrightarrow> exec cmd = exec' cmd"
  shows "lien_sweep E exec inc rcv uid cur rq budget loans = lien_sweep E exec' inc rcv uid cur rq budget loans"
  by (induction loans arbitrary: budget) (simp_all add: assms)

lemma lien_cong:
  assumes "\<And>cmd. c_kind cmd = OVERDRAFT_REPAY \<Longrightarrow> exec cmd = exec' cmd"
  shows "lien E exec = lien E exec'"
proof -
  have sweep: "lien_sweep E exec = lien_sweep E exec'"
    by (intro ext, subst lien_sweep_cong [OF assms]) simp_all
  show ?thesis unfolding lien_def lien_after_credit_def [abs_def] sweep ..
qed

lemma execute_depth_leg: "c_kind cmd = OVERDRAFT_REPAY \<Longrightarrow> execute_depth E n cmd = execute_depth E 0 cmd"
  by (cases n) (simp_all add: execute_overdraft_leg overdraft_leg_def)

lemma execute_depth_stable: "execute_depth E (Suc n) = execute_transfer E"
proof
  fix cmd
  have "lien E (execute_depth E n) = lien E (execute_depth E 0)"
    by (rule lien_cong) (rule execute_depth_leg)
  then show "execute_depth E (Suc n) cmd = execute_transfer E cmd"
    by (simp add: execute_transfer_def)
qed

text \<open>
  C37: the wired transfer use case satisfies the recursive equation of the object graph, in which
  the lien posts its repayments through the very use case it is installed in; the recursion is
  well founded because any number of nested levels beyond the first gives the same function.
\<close>

theorem execute_transfer_recursive:
  "execute_transfer E cmd = execute_with no_fee E (Some (lien E (execute_transfer E))) cmd
   \<and> execute_depth E (Suc n) cmd = execute_transfer E cmd"
proof -
  have "execute_transfer E = execute_depth E (Suc 1)" by (simp add: execute_depth_stable)
  then have "execute_transfer E cmd = execute_with no_fee E (Some (lien E (execute_depth E 1))) cmd"
    by (simp only: execute_depth.simps)
  moreover have "execute_depth E 1 = execute_transfer E" by (simp add: execute_transfer_def)
  ultimately show ?thesis by (simp only: execute_depth_stable)
qed


section \<open>What a transfer respects\<close>

lemma frame_overdraft_reads [frames]:
  "tx_frame v (get_pool_for_sponsor u)" "tx_frame v (get_pool p)" "tx_frame v (get_grant p u)"
  "tx_frame v (active_grants_for_borrower u)" "tx_frame v (outstanding_loans u)"
  unfolding get_pool_for_sponsor_def get_pool_def get_grant_def active_grants_for_borrower_def
    outstanding_loans_def
  by (intro tx_frame_bind tx_frame_basic)+

lemma lien_lock_ids_read_only: "snd (lien_lock_ids r k s) = s"
proof -
  have "tx_frame (\<lambda>s. s) (lien_lock_ids r k)"
    unfolding lien_lock_ids_def
    by (auto intro!: tx_frame_bind tx_frame_basic frames split: option.splits)
  then show ?thesis by (simp add: tx_frame_def)
qed

text \<open>
  A transition relation that the elementary steps of a transfer respect: reading the clock, the
  idempotency record, one movement of the books, the event, the audit row, a repayment of a loan.
  The transfer use case respects it then, with any interceptor that does, and so with the lien.
\<close>

locale transfer_preorder = session_preorder R for R :: "db \<Rightarrow> db \<Rightarrow> bool" +
  assumes R_clock: "tx_rel R (clock_now E)"
    and R_reserve: "tx_rel R (idem_reserve actor ep key fp now)"
    and R_complete: "tx_rel R (idem_complete actor ep key rid st body now)"
    and R_outbox: "tx_rel R (outbox_append E ev tr)"
    and R_audit: "tx_rel R (audit_record E who act ty resid req md now)"
    and R_movement: "movement_ok mv (books_of s) \<Longrightarrow>
       R s (s\<lparr>tick := n, accounts := b_accounts (post_books mv (books_of s)),
            transfers := transfers s @ [mv_transfer mv],
            ledger_transactions := ledger_transactions s @ [mv_ledger mv],
            ledger_entries := ledger_entries s @ [mv_debit mv, mv_credit mv]\<rparr>)"
    and R_repayment: "tx_rel R (apply_repayment E lid tid amt trg now)"
begin

lemma R_reads: "tx_rel R (outstanding_loans u)"
  by (rule tx_rel_frame [OF frame_overdraft_reads(5) [where v = "\<lambda>s. s"]]) (simp add: R_refl)

lemma announce_rel: "tx_rel R (announce_transfer E cmd now sender receiver r)"
  unfolding announce_transfer_def by (intro rel_rules R_outbox R_audit)

lemma handle_rel: "tx_rel R (handle_idempotency_decision E d)"
proof -
  have "tx_rel R (replayed_result E d)"
    unfolding replayed_result_def body_time_def
    by (intro rel_rules) (auto intro!: rel_rules R_clock split: json.splits)
  then show ?thesis
    unfolding handle_idempotency_decision_def by (cases "outcome d") (auto intro!: rel_rules)
qed

lemma movement_rel:
  assumes "apply_movement E cmd now sender receiver fee (c_amount cmd) s = (Inr (r, ur), t)"
    "ra \<in> set (accounts s)" "account_to_domain ra = Inr sender"
    "rb \<in> set (accounts s)" "account_to_domain rb = Inr receiver"
  shows "R s t"
  using apply_movement_okD [OF assms] R_movement by blast

lemma settle_transfer_rel:
  assumes "\<And>i rcv k s. icpt = Some i \<Longrightarrow> snd (additional_lock_ids i rcv k s) = s"
    and "\<And>i tid acc m k rq. icpt = Some i \<Longrightarrow> tx_rel R (after_credit i tid acc m k rq)"
  shows "tx_rel R (settle_transfer no_fee E icpt cmd now)"
proof (rule tx_relI)
  fix s r t
  assume "settle_transfer no_fee E icpt cmd now s = (Inr r, t)"
  then show "R s t"
  proof (rule settle_transfer_okD)
    show "snd (additional_lock_ids i (c_receiver cmd) (c_kind cmd) s) = s" if "icpt = Some i" for i
      using assms(1) that by blast
  next
    fix ra rb sender receiver ur s1 s2 s3
    assume rows: "ra \<in> set (accounts s)" "account_to_domain ra = Inr sender"
        "rb \<in> set (accounts s)" "account_to_domain rb = Inr receiver"
      and am: "apply_movement E cmd now sender receiver (no_fee (c_amount cmd)) (c_amount cmd) s
                 = (Inr (r, ur), s1)"
      and an: "announce_transfer E cmd now sender receiver r s1 = (Inr (), s2)"
      and ic: "(case icpt of None \<Rightarrow> tx_return ()
          | Some i \<Rightarrow> after_credit i (tr_id r) ur (c_amount cmd) (c_kind cmd) (c_request_id cmd)) s2
        = (Inr (), s3)"
      and co: "idem_complete (c_actor cmd) (c_endpoint cmd) (c_key cmd) (tr_id r) 201
                 (to_response r) now s3 = (Inr (), t)"
    have "R s s1" using am rows by (rule movement_rel)
    moreover have "R s1 s2" using announce_rel an by (rule tx_relD)
    moreover have "R s2 s3"
    proof (cases icpt)
      case None
      with ic show ?thesis by (simp add: tx_okD R_refl)
    next
      case (Some i)
      with ic tx_relD [OF assms(2) [OF Some]] show ?thesis by simp
    qed
    moreover have "R s3 t" using R_complete co by (rule tx_relD)
    ultimately show ?thesis by (meson R_trans)
  qed
qed

lemma plain_transfer_rel: "tx_rel R (execute_depth E 0 cmd)"
  unfolding execute_depth.simps execute_with_def
  by (intro rel_rules R_clock R_reserve handle_rel settle_transfer_rel) simp_all

end

text \<open>
  What the transfer use case relies on in the hook it calls around a credit: asking for more
  accounts to lock does not write, and the sweep after the credit respects the relation.
\<close>

locale credit_interceptor = transfer_preorder R for R :: "db \<Rightarrow> db \<Rightarrow> bool" +
  fixes icpt :: interceptor
  assumes locks_read_only: "snd (additional_lock_ids icpt rcv k s) = s"
    and sweep_rel: "tx_rel R (after_credit icpt tid acc m k rq)"
begin

lemma execute_with_rel: "tx_rel R (execute_with no_fee E (Some icpt) cmd)"
  unfolding execute_with_def
  by (intro rel_rules R_clock R_reserve handle_rel settle_transfer_rel)
     (auto simp: locks_read_only intro: sweep_rel)

end

sublocale transfer_preorder \<subseteq> hook: credit_interceptor R "lien E (execute_depth E 0)" for E
proof
  show "snd (additional_lock_ids (lien E (execute_depth E 0)) rcv k s) = s" for rcv k s
    by (simp add: lien_def lien_lock_ids_read_only)
  have "tx_rel R (lien_sweep E (execute_depth E 0) inc rcv uid cur rq budget loans)"
    for inc rcv uid cur rq budget loans
    by (induction loans arbitrary: budget)
       (auto intro!: rel_rules R_clock R_repayment plain_transfer_rel simp del: execute_depth.simps)
  then show "tx_rel R (after_credit (lien E (execute_depth E 0)) tid acc m k rq)" for tid acc m k rq
    unfolding lien_def lien_after_credit_def
    by (auto intro!: rel_rules R_reads split: option.splits simp del: execute_depth.simps)
qed

context transfer_preorder
begin

lemma lien_after_credit_rel: "tx_rel R (lien_after_credit E (execute_depth E 0) tid acc m k rq)"
  using hook.sweep_rel [of E tid acc m k rq] by (simp add: lien_def)

lemma execute_transfer_rel: "tx_rel R (execute_transfer E cmd)"
  using hook.execute_with_rel [of E E cmd] by (simp add: execute_transfer_def)

end


section \<open>A transfer keeps the books\<close>

lemma evolves_overdraft_reads [tx_rel_intros]:
  "tx_rel evolves (get_pool_for_sponsor u)" "tx_rel evolves (get_pool p)" "tx_rel evolves (get_grant p u)"
  "tx_rel evolves (active_grants_for_borrower u)" "tx_rel evolves (outstanding_loans u)"
  by (intro evolves_frame frame_overdraft_reads)+

lemma evolves_overdraft_writes [tx_rel_intros]:
  "tx_rel evolves (create_pool_row a b c d now)"
  "tx_rel evolves (create_grant_row e f g m now)"
  "tx_rel evolves (create_loan E h i j amt cur now)"
  "tx_rel evolves (insert_repayment r)"
  "tx_rel evolves (apply_repayment E k l amt2 w now)"
  unfolding create_pool_row_def create_grant_row_def create_loan_def apply_repayment_def insert_repayment_def
  by (intro evo.rel_rules tx_rel_intros evolves_modify evolves_same_history; simp)+

interpretation bookkeeping: transfer_preorder evolves
  by unfold_locales (intro tx_rel_intros evolves_movement; simp)+

lemmas execute_transfer_evolves [tx_rel_intros] = bookkeeping.execute_transfer_rel


section \<open>What a transfer leaves alone\<close>

text \<open>
  A transfer appends to \<open>transfers\<close> and touches no other feature's tables; accounts keep
  everything but balance and version.
\<close>

definition account_face where
  "account_face a = (account_core a, a_status a, a_created_at a)"

definition others_of where
  "others_of s = (users s, login_sessions s, scheduled_tasks s, money_requests s, safepay_escrows s,
     overdraft_pools s, overdraft_grants s, consumer_inbox s, txn_now s)"

definition transfer_step :: "db \<Rightarrow> db \<Rightarrow> bool" where
  "transfer_step s t \<longleftrightarrow>
     prefix (transfers s) (transfers t) \<and> map account_face (accounts s) = map account_face (accounts t)
     \<and> others_of s = others_of t"

interpretation tstep: session_preorder transfer_step
  by unfold_locales (auto simp: transfer_step_def intro: prefix_order.trans)

lemma transfer_step_frame:
  "tx_frame (\<lambda>s. (transfers s, accounts s, others_of s)) m \<Longrightarrow> tx_rel transfer_step m"
  by (erule tx_rel_frame) (auto simp: transfer_step_def)

lemma tstep_ops:
  "tx_rel transfer_step (clock_now E)"
  "tx_rel transfer_step (idem_reserve actor ep key fp now)"
  "tx_rel transfer_step (idem_complete actor ep key rid st body now)"
  "tx_rel transfer_step (outbox_append E ev tr)"
  "tx_rel transfer_step (audit_record E aact act ty arid req md now)"
  by (intro transfer_step_frame frames tx_frame_feeds; simp add: others_of_def)+

lemma tstep_apply_repayment: "tx_rel transfer_step (apply_repayment E k l amt w now)"
  unfolding apply_repayment_def insert_repayment_def
  by (rule transfer_step_frame)
     (auto intro!: tx_frame_bind tx_frame_basic tx_frame_modify tx_frame_feeds frame_require
       simp: others_of_def split: option.splits)

lemma map_account_face_set_balance [simp]:
  "map account_face (set_balance acc bal ver at t) = map account_face t"
  unfolding set_balance_def by (rule map_sql_update_same) (simp add: account_face_def account_core_def)

interpretation untouched: transfer_preorder transfer_step
  by unfold_locales
     (auto intro: tstep_ops tstep_apply_repayment simp: transfer_step_def post_books_def others_of_def)

lemmas execute_transfer_tstep = untouched.execute_transfer_rel

end
