(* ===== verification/Scenario.thy ===== *)
theory Scenario
  imports Lien
begin

text \<open>
  A small concrete world in which the theorems of the development are applied: an environment
  with a toy digest and clock, and the database of a fresh installation, two registered users and
  the three system accounts, nothing posted yet.
\<close>

definition demo_env :: env where
  "demo_env = \<lparr>sha256 = (\<lambda>s. s), hmac_sha256 = (\<lambda>k m. length m),
     argon2_hash = (\<lambda>n s. s), argon2_verify = (\<lambda>h s. h = s), argon2_needs_rehash = (\<lambda>h. False),
     jwt_secret = replicate 32 CHR ''k'', jwt_encode = (\<lambda>k d. json_dumps (JObj d)),
     jwt_decode = (\<lambda>k t now. None), engineering_api_key = ''engineer'', token_feed = (\<lambda>n. str_nat n),
     clock_feed = (\<lambda>n. 1000000 * int n), db_clock = (\<lambda>n. 1000000 * int n),
     ulid_feed = (\<lambda>n. (int n, 0)), choice_feed = (\<lambda>n. replicate 8 n),
     max_transfer_amount_minor = 1000000000, daily_transfer_limit_minor = 1000000000,
     opening_balance_minor = 10000000, pin_max_attempts = 5, pin_lockout_seconds = 900,
     access_token_ttl_seconds = 900, refresh_token_ttl_seconds = 604800,
     money_request_expiry_hours = 72, safepay_auto_release_hours = 72,
     overdraft_max_draw_minor = 50000, overdraft_lien_sweep_basis_points = 5000,
     transaction_max_attempts = 3\<rparr>"

definition demo_user :: "string \<Rightarrow> string \<Rightarrow> user_row" where
  "demo_user uid phone = \<lparr>u_id = uid, u_phone = phone, u_display_name = uid, u_password_hash = ''pw'',
     u_pin_hash = ''1234'', u_pin_failed_attempts = 0, u_pin_locked_until = None, u_status = UserActive,
     u_created_at = 0, u_updated_at = 0\<rparr>"

definition demo_account :: "string \<Rightarrow> string option \<Rightarrow> account_type \<Rightarrow> account_row" where
  "demo_account aid uid ty = \<lparr>a_id = aid, a_user_id = uid, a_type = ty, a_number = ''N'' @ aid,
     a_currency = ''BDT'', a_balance = 0, a_status = ACTIVE, a_version = 0, a_created_at = 0,
     a_updated_at = 0\<rparr>"

definition demo_db :: db where
  "demo_db = \<lparr>users = [demo_user ''alice'' ''01711111111'', demo_user ''bob'' ''01822222222''],
     login_sessions = [],
     accounts = [demo_account SYSTEM_ISSUANCE_ACCOUNT_ID None SYSTEM_ISSUANCE,
                 demo_account ESCROW_ACCOUNT_ID None ESCROW,
                 demo_account PENDING_SETTLEMENT_ACCOUNT_ID None PENDING_SETTLEMENT,
                 demo_account ''A'' (Some ''alice'') USER,
                 demo_account ''B'' (Some ''bob'') USER],
     transfers = [], ledger_transactions = [], ledger_entries = [], idempotency_records = [],
     outbox_events = [], audit_logs = [], scheduled_tasks = [], money_requests = [],
     safepay_escrows = [], overdraft_pools = [], overdraft_grants = [], overdraft_loans = [],
     overdraft_repayments = [], consumer_inbox = [], tick = 0, txn_now = 0\<rparr>"

text \<open>Alice receives her welcome bonus; Alice pays Bob.\<close>

definition demo_grant :: transfer_command where
  "demo_grant = (base_command ''alice'' SYSTEM_ISSUANCE_ACCOUNT_ID ''A'' (mk_money 10000 BDT)
     ''signup-grant:alice'' ''f1'')\<lparr>c_kind := SIGNUP_GRANT, c_enforce_limits := False\<rparr>"

definition demo_send :: transfer_command where
  "demo_send = base_command ''alice'' ''A'' ''B'' (mk_money 2500 BDT) ''send-1'' ''f2''"


section \<open>Running a handler\<close>

text \<open>
  A handler applied to a concrete session is evaluated by the simplifier.  The congruence rule
  keeps it from descending into continuations before their argument is known.
\<close>

lemma tx_bind_weak_cong: "m = m' \<Longrightarrow> s = s' \<Longrightarrow> tx_bind m f s = tx_bind m' f s'"
  by simp

lemma demo_ulid:
  "0 \<le> k \<Longrightarrow> k < 32 \<Longrightarrow> new_ulid k 0 = Inr (''000000000'' @ [crockford ! nat k] @ ''0000000000000000'')"
  by (simp add: new_ulid_def encode_base32_def eval_nat_numeral crockford_def)

lemma demo_reference:
  assumes "0 \<le> t" "t < day_us" "n < 32"
  shows "generate_reference tag t (replicate 8 n) = tag @ ''-19700101-'' @ replicate 8 (crockford ! n)"
proof -
  have "format_ymd 0 = ''19700101''" by code_simp
  with assms have "format_ymd t = ''19700101''" by (simp add: format_ymd_def)
  with assms(3) show ?thesis by (simp add: generate_reference_def)
qed

lemma demo_strip: "py_strip ''BDT'' = ''BDT''"
  by code_simp

lemma demo_lock_order:
  "lock_order [''00000000000000000000000000'', ''A''] = [''00000000000000000000000000'', ''A'']"
  "lock_order [''A'', ''B''] = [''A'', ''B'']"
  "lock_order [''A'', ''00000000000000000000000002''] = [''00000000000000000000000002'', ''A'']"
  "lock_order [''00000000000000000000000002'', ''A''] = [''00000000000000000000000002'', ''A'']"
  "lock_order [''00000000000000000000000002'', ''B''] = [''00000000000000000000000002'', ''B'']"
  by code_simp+

lemmas demo_simps = demo_env_def demo_db_def demo_user_def demo_account_def demo_grant_def demo_send_def
  demo_ulid demo_reference demo_strip demo_lock_order crockford_def
  SYSTEM_ISSUANCE_ACCOUNT_ID_def ESCROW_ACCOUNT_ID_def PENDING_SETTLEMENT_ACCOUNT_ID_def
  TRANSFER_ENDPOINT_def BDT_def

lemmas monad_simps = tx_bind_app tx_run tx_tick_def clock_now_def fresh_ulid_def fresh_reference_def
  require_bigint_def require_constraints_def bigint_ok_def opt_in_def

lemmas account_simps = lock_accounts_for_update_def sql_order_by_def account_to_domain_def
  supported_currency_def get_account_by_id_def get_account_by_user_id_def optional_account_def
  ensure_active_def can_transact_def ensure_same_currency_as_def ensure_owned_by_def
  ensure_can_afford_def may_go_negative_def money_add_def money_sub_def money_lt_def
  assert_same_currency_def debit_def credit_def is_positive_def persist_balance_def account_row_ok_def
  USER_OWNED_ACCOUNT_TYPES_def UNOWNED_ACCOUNT_TYPES_def

lemmas transfer_simps = execute_transfer_def execute_with_def settle_transfer_def lock_parties_def
  base_command_def validate_transfer_def transfer_authorize_def SYSTEM_INITIATED_KINDS_def
  sum_sent_since_def ensure_within_limits_def start_of_day_def no_fee_def money_zero_def
  apply_movement_def create_transfer_def insert_transfer_def transfer_row_constraints_def
  settlement_kinds_def transfer_posting_def mk_posting_line_def mk_ledger_posting_def money_neg_def
  is_zero_def ledger_post_def insert_ledger_transaction_def entry_of_line_def insert_ledger_entry_def
  announce_transfer_def outbox_append_def audit_record_def transfer_succeeded_def

lemmas idem_simps = idem_reserve_def decision_of_def handle_idempotency_decision_def idem_complete_def
  idem_key_def

lemmas lien_simps = lien_def lien_lock_ids_def overdraft_leg_def outstanding_loans_def
  lien_after_credit_def

lemmas run_simps = demo_simps monad_simps account_simps transfer_simps idem_simps lien_simps

text \<open>The sessions after Alice's bonus and after her payment.\<close>

definition demo_funded :: db where
  "demo_funded = snd (execute_transfer demo_env demo_grant demo_db)"

definition demo_paid :: db where
  "demo_paid = snd (execute_transfer demo_env demo_send demo_funded)"

lemma demo_grant_runs:
  "\<exists>r t. execute_transfer demo_env demo_grant demo_db = (Inr r, t) \<and> \<not> tr_replayed r"
  by (simp add: run_simps cong: tx_bind_weak_cong)

lemma demo_send_runs:
  "\<exists>r t. execute_transfer demo_env demo_send demo_funded = (Inr r, t) \<and> \<not> tr_replayed r
     \<and> minor (tr_sender_balance r) = 7500 \<and> minor (tr_receiver_balance r) = 2500"
  by (simp add: demo_funded_def run_simps cong: tx_bind_weak_cong)

end
