(* ===== verification/Latch.thy ===== *)
theory Latch
  imports Scenario
begin

text \<open>
  The conditional update as a concurrency control.  Several features decide a race by an UPDATE
  whose WHERE clause names the expected status and whose row count says who won.  The locale
  states what such an update promises and derives that of any number of contenders, in any order,
  exactly the first one to find the row pending wins.
\<close>

locale status_latch =
  fixes attempt :: "'c \<Rightarrow> nat tx"
    and pending :: "db \<Rightarrow> bool"
    and keyed :: "db \<Rightarrow> bool"
  assumes outcome: "keyed s \<Longrightarrow> attempt c s = (Inr n, t) \<Longrightarrow> n = (if pending s then 1 else 0)"
    and latched: "keyed s \<Longrightarrow> attempt c s = (Inr n, t) \<Longrightarrow> \<not> pending t \<and> keyed t"
    and loser_writes_nothing: "keyed s \<Longrightarrow> \<not> pending s \<Longrightarrow> attempt c s = (Inr n, t) \<Longrightarrow> t = s"
begin

lemma all_lose:
  "keyed s \<Longrightarrow> \<not> pending s \<Longrightarrow> tx_mapM attempt cs s = (Inr ns, t)
   \<Longrightarrow> ns = replicate (length cs) 0 \<and> t = s"
proof (induction cs arbitrary: ns)
  case Nil
  then show ?case by (simp add: tx_okD)
next
  case (Cons c cs)
  from Cons.prems(3) obtain n u ms where
    step: "attempt c s = (Inr n, u)" "tx_mapM attempt cs u = (Inr ms, t)" "ns = n # ms"
    by (auto simp: tx_okD)
  have "u = s" "n = 0"
    using loser_writes_nothing [OF Cons.prems(1,2) step(1)] outcome [OF Cons.prems(1) step(1)]
      Cons.prems(2) by simp_all
  with step Cons.IH [OF Cons.prems(1,2)] show ?case by auto
qed

lemma first_wins:
  assumes "keyed s" "pending s" "tx_mapM attempt (c # cs) s = (Inr ns, t)"
  shows "ns = 1 # replicate (length cs) 0 \<and> attempt c s = (Inr 1, t)"
proof -
  from assms(3) obtain n u ms where
    step: "attempt c s = (Inr n, u)" "tx_mapM attempt cs u = (Inr ms, t)" "ns = n # ms"
    by (auto simp: tx_okD)
  have "n = 1" "\<not> pending u" "keyed u"
    using outcome [OF assms(1) step(1)] latched [OF assms(1) step(1)] assms(2) by auto
  with all_lose [OF _ _ step(2)] step show ?thesis by auto
qed

end

section \<open>The latch on a transfer's status\<close>

definition transfer_in :: "string \<Rightarrow> transfer_status \<Rightarrow> db \<Rightarrow> bool" where
  "transfer_in tid st s \<longleftrightarrow> (\<exists>x \<in> set (transfers s). t_id x = tid \<and> t_status x = st)"

definition transfers_keyed :: "db \<Rightarrow> bool" where
  "transfers_keyed s \<longleftrightarrow> keys_distinct t_id (transfers s)"

lemma sql_update_leaves:
  assumes "\<And>r. P r \<Longrightarrow> \<not> P (f r)"
  shows "x \<in> set (sql_update P f t) \<Longrightarrow> \<not> P x"
  using assms by (induction t) (auto split: if_splits)

lemma try_transition_okD:
  "try_transition_status tid fs ts s = (Inr n, t) \<longleftrightarrow>
     n = sql_rowcount (\<lambda>x. t_id x = tid \<and> t_status x = fs) (transfers s)
     \<and> t = s\<lparr>transfers := sql_update (\<lambda>x. t_id x = tid \<and> t_status x = fs)
          (\<lambda>x. x\<lparr>t_status := ts, t_completed_at := Some (txn_now s)\<rparr>) (transfers s)\<rparr>"
  by (auto simp: try_transition_status_def tx_okD)

lemma transition_latch:
  assumes "\<And>c. to_status c \<noteq> fs"
  shows "status_latch (\<lambda>c. try_transition_status tid fs (to_status c)) (transfer_in tid fs) transfers_keyed"
proof
  fix s c n t
  assume k: "transfers_keyed s" and run: "try_transition_status tid fs (to_status c) s = (Inr n, t)"
  let ?P = "\<lambda>x. t_id x = tid \<and> t_status x = fs"
  have n: "n = sql_rowcount ?P (transfers s)"
    and t: "t = s\<lparr>transfers := sql_update ?P
          (\<lambda>x. x\<lparr>t_status := to_status c, t_completed_at := Some (txn_now s)\<rparr>) (transfers s)\<rparr>"
    using run by (simp_all add: try_transition_okD)
  have "n \<le> 1" using sql_rowcount_key_le [of t_id "transfers s" tid "\<lambda>x. t_status x = fs"] k
    by (simp add: n transfers_keyed_def)
  moreover have "0 < n \<longleftrightarrow> transfer_in tid fs s" by (simp add: n sql_rowcount_pos transfer_in_def)
  ultimately show "n = (if transfer_in tid fs s then 1 else 0)" by auto
  have "\<not> transfer_in tid fs t"
    using sql_update_leaves [of ?P "\<lambda>x. x\<lparr>t_status := to_status c, t_completed_at := Some (txn_now s)\<rparr>"
      _ "transfers s"] assms [of c]
    by (force simp: transfer_in_def t)
  moreover have "transfers_keyed t" using k by (simp add: t transfers_keyed_def map_sql_update_same)
  ultimately show "\<not> transfer_in tid fs t \<and> transfers_keyed t" by blast
  assume "\<not> transfer_in tid fs s"
  then show "t = s" by (simp add: t transfer_in_def sql_update_none)
qed

text \<open>The two contenders for a hold in its undo window, and the two for an escrow hold.\<close>

datatype hold_outcome = PayOut | PayBack

fun outcome_status :: "hold_outcome \<Rightarrow> transfer_status" where
  "outcome_status PayOut = SUCCEEDED"
| "outcome_status PayBack = REFUNDED"

interpretation undo_race: status_latch
  "\<lambda>c. try_transition_status tid PENDING_UNDO (outcome_status c)" "transfer_in tid PENDING_UNDO" transfers_keyed
  for tid
  by (rule transition_latch) (metis hold_outcome.exhaust outcome_status.simps transfer_status.distinct)

interpretation escrow_race: status_latch
  "\<lambda>c. try_transition_status tid HELD (outcome_status c)" "transfer_in tid HELD" transfers_keyed
  for tid
  by (rule transition_latch) (metis hold_outcome.exhaust outcome_status.simps transfer_status.distinct)


definition demo_hold :: transfer_row where
  "demo_hold = \<lparr>t_id = ''H'', t_reference = ''R'', t_sender = ''A'', t_receiver = PENDING_SETTLEMENT_ACCOUNT_ID,
     t_amount = 2500, t_currency = ''BDT'', t_kind = UNDO_HOLD, t_status = PENDING_UNDO, t_note = None,
     t_initiated_by = Some ''alice'', t_request_id = None, t_reversal_of = None, t_parent = None,
     t_intended_receiver = Some ''B'', t_created_at = 0, t_completed_at = None\<rparr>"


end
