(* ===== verification/Transfer_Props.thy ===== *)
theory Transfer_Props
  imports Scenario
begin

text \<open>
  Correctness of a single transfer: what it does to every balance, who may cause it, which limits
  it respects, and that repeating it does nothing.
\<close>

section \<open>Fresh run or replay\<close>

lemma replayed_result_okD:
  assumes "replayed_result E d s = (Inr r, t)"
  shows "tr_replayed r \<and> (\<exists>n. t = s\<lparr>tick := n\<rparr>)"
proof -
  have same: "\<exists>n. s = s\<lparr>tick := n\<rparr>" by (rule exI [of _ "tick s"]) simp
  then show ?thesis
    using assms
    by (auto simp: replayed_result_def body_time_def Let_def tx_bind_okD tx_basic_okD clock_now_okD
        split: option.splits json.splits)
qed

lemma execute_with_okD:
  assumes "execute_with fee_for E icpt cmd s = (Inr r, t)"
  obtains
    (replay) row n where
      "sql_get idem_key (c_actor cmd, c_endpoint cmd, c_key cmd) (idempotency_records s) = Some row"
      "i_fingerprint row = c_fingerprint cmd" "i_status row = COMPLETED"
      "tr_replayed r" "t = s\<lparr>tick := n\<rparr>"
  | (fresh) now s0 where
      "sql_get idem_key (c_actor cmd, c_endpoint cmd, c_key cmd) (idempotency_records s) = None"
      "now = clock_feed E (tick s)"
      "s0 = s\<lparr>tick := Suc (tick s), idempotency_records := idempotency_records s @
         [\<lparr>i_actor = c_actor cmd, i_endpoint = c_endpoint cmd, i_key = c_key cmd,
           i_fingerprint = c_fingerprint cmd, i_status = PROCESSING, i_resource_id = None,
           i_http_status = None, i_response = None, i_created_at = now, i_completed_at = None\<rparr>]\<rparr>"
      "settle_transfer fee_for E icpt cmd now s0 = (Inr r, t)"
proof -
  define s' where "s' = s\<lparr>tick := Suc (tick s)\<rparr>"
  define now where "now = clock_feed E (tick s)"
  obtain d u rep v where
    res: "idem_reserve (c_actor cmd) (c_endpoint cmd) (c_key cmd) (c_fingerprint cmd) now s' = (Inr d, u)"
    and hid: "handle_idempotency_decision E d u = (Inr rep, v)"
    and fin: "(case rep of Some r \<Rightarrow> tx_return r | None \<Rightarrow> settle_transfer fee_for E icpt cmd now) v = (Inr r, t)"
    using assms unfolding execute_with_def s'_def now_def
    by (auto simp: tx_bind_okD clock_now_okD)
  from res show thesis
  proof (cases rule: idem_reserve_okD)
    case fresh
    then have "rep = None" "v = u"
      using hid by (auto simp: handle_idempotency_decision_def decision_of_def tx_okD)
    with fresh fin show thesis
      by (intro that(2) [of now u]) (simp_all add: s'_def now_def)
  next
    case (seen row d')
    then have "outcome d = REPLAY" and rr: "\<exists>r'. replayed_result E d u = (Inr r', v) \<and> rep = Some r'"
      using hid by (auto simp: handle_idempotency_decision_def tx_okD split: idempotency_outcome.splits)
    then obtain r' where r': "replayed_result E d u = (Inr r', v)" "rep = Some r'" by blast
    with fin have "r = r'" "t = v" by (simp_all add: tx_okD)
    with replayed_result_okD [OF r'(1)] seen \<open>outcome d = REPLAY\<close> show thesis
      by (auto intro!: that(1) [of row] simp: s'_def)
  qed
qed


section \<open>The abstract movement\<close>

text \<open>
  The specification of a transfer is a function on balances.  \<open>balance_of\<close> abstracts a session to
  the balances its ledger implies, which the invariant says are the stored ones.
\<close>

definition balance_of :: "db \<Rightarrow> string \<Rightarrow> int" where
  "balance_of s acc = ledger_balance acc (ledger_entries s)"

definition move :: "string \<Rightarrow> string \<Rightarrow> int \<Rightarrow> (string \<Rightarrow> int) \<Rightarrow> string \<Rightarrow> int" where
  "move a b amt bal = bal (a := bal a - amt, b := bal b + amt)"

lemma balance_of_stored:
  "books_ok s \<Longrightarrow> a \<in> set (accounts s) \<Longrightarrow> a_balance a = balance_of s (a_id a)"
  using balance_is_ledger [of "books_of s" a] by (simp add: books_ok_def balance_of_def)

lemma balance_of_frame: "ledger_entries t = ledger_entries s \<Longrightarrow> balance_of t = balance_of s"
  by (simp add: balance_of_def fun_eq_iff)

lemma balance_of_movement:
  assumes "movement_ok mv (books_of s)"
    "ledger_entries t = ledger_entries s @ [mv_debit mv, mv_credit mv]"
  shows "balance_of t = move (t_sender (mv_transfer mv)) (t_receiver (mv_transfer mv))
           (t_amount (mv_transfer mv)) (balance_of s)"
  using assms by (auto simp: balance_of_def move_def fun_eq_iff movement_ok_def)

lemma announce_transfer_okD:
  assumes "announce_transfer E cmd now sender receiver r s = (Inr u, t)"
  shows "\<exists>n o_row a_row. t = s\<lparr>tick := n, outbox_events := outbox_events s @ [o_row],
             audit_logs := audit_logs s @ [a_row]\<rparr>
    \<and> o_aggregate_id o_row = tr_id r \<and> o_event_type o_row = ''financial.transfer.succeeded.v1''
    \<and> dict_get (o_payload o_row) ''amountMinor'' = Some (JInt (minor (c_amount cmd)))
    \<and> o_published_at o_row = None \<and> o_dead_lettered_at o_row = None
    \<and> au_resource_id a_row = Some (tr_id r) \<and> au_actor a_row = Some (c_actor cmd)
    \<and> au_action a_row = ''TRANSFER_SUCCEEDED''"
proof -
  obtain v where
    "outbox_append E (transfer_succeeded (tr_id r) now
       [(''transferId'', JStr (tr_id r)), (''reference'', JStr (tr_reference r)),
        (''senderAccountId'', JStr (acc_id sender)), (''receiverAccountId'', JStr (acc_id receiver)),
        (''senderUserId'', opt_json JStr (acc_user_id sender)),
        (''receiverUserId'', opt_json JStr (acc_user_id receiver)),
        (''amountMinor'', JInt (minor (c_amount cmd))), (''feeMinor'', JInt (minor (tr_fee r))),
        (''currency'', JStr (code (mcurrency (c_amount cmd)))),
        (''kind'', JStr (kind_str (c_kind cmd)))]) (c_request_id cmd) s = (Inr (), v)"
    and "audit_record E (Some (c_actor cmd)) ''TRANSFER_SUCCEEDED'' ''transfer'' (Some (tr_id r))
       (c_request_id cmd)
       (Some [(''reference'', JStr (tr_reference r)), (''amountMinor'', JInt (minor (c_amount cmd))),
              (''kind'', JStr (kind_str (c_kind cmd)))]) now v = (Inr (), t)"
    using assms unfolding announce_transfer_def by (auto simp: tx_bind_okD)
  from outbox_append_okD [OF this(1)] audit_record_okD [OF this(2)]
  obtain o_row a_row n1 n2 where
    t: "v = s\<lparr>tick := n1, outbox_events := outbox_events s @ [o_row]\<rparr>"
       "t = v\<lparr>tick := n2, audit_logs := audit_logs v @ [a_row]\<rparr>"
    and rows: "o_aggregate_id o_row = tr_id r" "o_event_type o_row = ''financial.transfer.succeeded.v1''"
      "dict_get (o_payload o_row) ''amountMinor'' = Some (JInt (minor (c_amount cmd)))"
      "o_published_at o_row = None" "o_dead_lettered_at o_row = None"
      "au_resource_id a_row = Some (tr_id r)" "au_actor a_row = Some (c_actor cmd)"
      "au_action a_row = ''TRANSFER_SUCCEEDED''"
    by (auto simp: transfer_succeeded_def dict_get_def)
  then show ?thesis
    by (intro exI [of _ n2] exI [of _ o_row] exI [of _ a_row] conjI) simp_all
qed

text \<open>
  The whole of a fresh transfer up to the interceptor: one movement, one event, one audit row.
\<close>

definition fresh_effect ::
  "env \<Rightarrow> transfer_command \<Rightarrow> int \<Rightarrow> movement \<Rightarrow> transfer_result \<Rightarrow> db \<Rightarrow> db \<Rightarrow> bool" where
  "fresh_effect E cmd now mv r s t \<longleftrightarrow>
     movement_ok mv (books_of s)
     \<and> t_id (mv_transfer mv) = tr_id r
     \<and> t_sender (mv_transfer mv) = c_sender cmd \<and> t_receiver (mv_transfer mv) = c_receiver cmd
     \<and> t_amount (mv_transfer mv) = minor (c_amount cmd)
     \<and> t_kind (mv_transfer mv) = c_kind cmd \<and> t_status (mv_transfer mv) = c_initial_status cmd
     \<and> t_intended_receiver (mv_transfer mv) = c_intended cmd \<and> t_parent (mv_transfer mv) = c_parent cmd
     \<and> t_created_at (mv_transfer mv) = now \<and> t_initiated_by (mv_transfer mv) = Some (c_actor cmd)
     \<and> (\<exists>n o_row a_row. o_aggregate_id o_row = tr_id r
         \<and> o_event_type o_row = ''financial.transfer.succeeded.v1''
         \<and> o_published_at o_row = None \<and> o_dead_lettered_at o_row = None
         \<and> au_resource_id a_row = Some (tr_id r) \<and> au_actor a_row = Some (c_actor cmd)
         \<and> t = s\<lparr>tick := n, accounts := b_accounts (post_books mv (books_of s)),
             transfers := transfers s @ [mv_transfer mv],
             ledger_transactions := ledger_transactions s @ [mv_ledger mv],
             ledger_entries := ledger_entries s @ [mv_debit mv, mv_credit mv],
             outbox_events := outbox_events s @ [o_row], audit_logs := audit_logs s @ [a_row]\<rparr>)
     \<and> \<not> tr_replayed r \<and> tr_amount r = c_amount cmd \<and> mcurrency (c_amount cmd) = BDT
     \<and> tr_fee r = mk_money 0 BDT
     \<and> tr_sender_balance r = mk_money (le_balance_after (mv_debit mv)) BDT
     \<and> tr_receiver_balance r = mk_money (le_balance_after (mv_credit mv)) BDT
     \<and> tr_status r = transfer_status_str (c_initial_status cmd) \<and> tr_completed_at r = now"

lemma settle_transfer_effect:
  assumes "settle_transfer no_fee E icpt cmd now s = (Inr r, t)"
    and "\<And>i. icpt = Some i \<Longrightarrow> snd (additional_lock_ids i (c_receiver cmd) (c_kind cmd) s) = s"
  obtains mv u v sender receiver ur where
    "fresh_effect E cmd now mv r s u"
    "validate_transfer no_fee E cmd now sender receiver s = (Inr (no_fee (c_amount cmd), c_amount cmd), s)"
    "(\<exists>ra \<in> set (accounts s). a_id ra = c_sender cmd \<and> account_to_domain ra = Inr sender)"
    "(\<exists>rb \<in> set (accounts s). a_id rb = c_receiver cmd \<and> account_to_domain rb = Inr receiver)"
    "acc_id ur = c_receiver cmd" "acc_type ur = acc_type receiver" "acc_user_id ur = acc_user_id receiver"
    "(case icpt of None \<Rightarrow> tx_return ()
        | Some i \<Rightarrow> after_credit i (tr_id r) ur (c_amount cmd) (c_kind cmd) (c_request_id cmd)) u
     = (Inr (), v)"
    "idem_complete (c_actor cmd) (c_endpoint cmd) (c_key cmd) (tr_id r) 201 (to_response r) now v
     = (Inr (), t)"
  using assms
proof (rule settle_transfer_okD)
  fix ra rb sender receiver ur s1 s2 s3
  assume ra: "ra \<in> set (accounts s)" "a_id ra = c_sender cmd" "account_to_domain ra = Inr sender"
    and rb: "rb \<in> set (accounts s)" "a_id rb = c_receiver cmd" "account_to_domain rb = Inr receiver"
    and am: "apply_movement E cmd now sender receiver (no_fee (c_amount cmd)) (c_amount cmd) s = (Inr (r, ur), s1)"
    and an: "announce_transfer E cmd now sender receiver r s1 = (Inr (), s2)"
    and rest: "validate_transfer no_fee E cmd now sender receiver s = (Inr (no_fee (c_amount cmd), c_amount cmd), s)"
      "(case icpt of None \<Rightarrow> tx_return ()
        | Some i \<Rightarrow> after_credit i (tr_id r) ur (c_amount cmd) (c_kind cmd) (c_request_id cmd)) s2
       = (Inr (), s3)"
      "idem_complete (c_actor cmd) (c_endpoint cmd) (c_key cmd) (tr_id r) 201 (to_response r) now s3
       = (Inr (), t)"
  note dom = account_to_domain_okD [OF ra(3)] account_to_domain_okD [OF rb(3)]
  from apply_movement_okD [OF am ra(1,3) rb(1,3)] obtain mv n where
    mv: "movement_ok mv (books_of s)" "s1 = s\<lparr>tick := n, accounts := b_accounts (post_books mv (books_of s)),
            transfers := transfers s @ [mv_transfer mv],
            ledger_transactions := ledger_transactions s @ [mv_ledger mv],
            ledger_entries := ledger_entries s @ [mv_debit mv, mv_credit mv]\<rparr>"
    and row: "t_id (mv_transfer mv) = tr_id r" "t_sender (mv_transfer mv) = acc_id sender"
      "t_receiver (mv_transfer mv) = acc_id receiver" "t_amount (mv_transfer mv) = minor (c_amount cmd)"
      "t_kind (mv_transfer mv) = c_kind cmd" "t_status (mv_transfer mv) = c_initial_status cmd"
      "t_intended_receiver (mv_transfer mv) = c_intended cmd" "t_parent (mv_transfer mv) = c_parent cmd"
      "t_created_at (mv_transfer mv) = now" "t_initiated_by (mv_transfer mv) = Some (c_actor cmd)"
    and res: "\<not> tr_replayed r" "tr_amount r = c_amount cmd" "mcurrency (c_amount cmd) = BDT"
      "tr_fee r = no_fee (c_amount cmd)" "tr_status r = transfer_status_str (c_initial_status cmd)"
      "tr_completed_at r = now"
      "tr_sender_balance r = mk_money (le_balance_after (mv_debit mv)) BDT"
      "tr_receiver_balance r = mk_money (le_balance_after (mv_credit mv)) BDT"
    and ur: "ur = receiver\<lparr>acc_balance := mk_money (a_balance rb + minor (c_amount cmd)) BDT,
                    acc_version := acc_version receiver + 1\<rparr>"
    by blast
  from announce_transfer_okD [OF an] obtain n2 o_row a_row where
    s2: "s2 = s1\<lparr>tick := n2, outbox_events := outbox_events s1 @ [o_row],
             audit_logs := audit_logs s1 @ [a_row]\<rparr>"
    and rows: "o_aggregate_id o_row = tr_id r" "o_event_type o_row = ''financial.transfer.succeeded.v1''"
      "o_published_at o_row = None" "o_dead_lettered_at o_row = None"
      "au_resource_id a_row = Some (tr_id r)" "au_actor a_row = Some (c_actor cmd)"
    by blast
  have "s2 = s\<lparr>tick := n2, accounts := b_accounts (post_books mv (books_of s)),
             transfers := transfers s @ [mv_transfer mv],
             ledger_transactions := ledger_transactions s @ [mv_ledger mv],
             ledger_entries := ledger_entries s @ [mv_debit mv, mv_credit mv],
             outbox_events := outbox_events s @ [o_row], audit_logs := audit_logs s @ [a_row]\<rparr>"
    by (simp add: s2 mv(2))
  with rows have "fresh_effect E cmd now mv r s s2"
    unfolding fresh_effect_def
    using mv(1) row res dom ra(2) rb(2) by (auto simp: no_fee_def money_zero_def)
  then show thesis
    using rest ra rb dom ur by (intro that) auto
qed


section \<open>Exactly once\<close>

lemma prefix_idem_lookup:
  assumes "prefix (map idem_core xs) (map idem_core ys)" "sql_get idem_key k xs = Some r"
  shows "\<exists>r'. sql_get idem_key k ys = Some r' \<and> i_fingerprint r' = i_fingerprint r"
  using assms
proof (induction xs arbitrary: ys)
  case (Cons x xs)
  then obtain y ys' where ys: "ys = y # ys'" "idem_core x = idem_core y"
    "prefix (map idem_core xs) (map idem_core ys')" by (cases ys) auto
  then have "idem_key x = idem_key y" "i_fingerprint x = i_fingerprint y" by (simp_all add: idem_core_def)
  with Cons ys show ?case by (auto split: if_splits)
qed simp

lemma lien_locks_ok: "Some (lien E exec) = Some i \<Longrightarrow> snd (additional_lock_ids i rcv k s) = s"
  by (auto simp: lien_def lien_lock_ids_read_only)

lemma execute_transfer_def': "execute_transfer E cmd = execute_with no_fee E (Some (lien E (execute_depth E 0))) cmd"
  by (simp add: execute_transfer_def)

text \<open>A fresh run of the wired use case: the movement, the lien's sweep, the completed record.\<close>

lemma execute_transfer_fresh:
  assumes "execute_transfer E cmd s = (Inr r, t)" "\<not> tr_replayed r"
  obtains mv now s0 u v sender receiver ur where
    "sql_get idem_key (c_actor cmd, c_endpoint cmd, c_key cmd) (idempotency_records s) = None"
    "now = clock_feed E (tick s)"
    "s0 = s\<lparr>tick := Suc (tick s), idempotency_records := idempotency_records s @
         [\<lparr>i_actor = c_actor cmd, i_endpoint = c_endpoint cmd, i_key = c_key cmd,
           i_fingerprint = c_fingerprint cmd, i_status = PROCESSING, i_resource_id = None,
           i_http_status = None, i_response = None, i_created_at = now, i_completed_at = None\<rparr>]\<rparr>"
    "fresh_effect E cmd now mv r s0 u"
    "validate_transfer no_fee E cmd now sender receiver s0 = (Inr (no_fee (c_amount cmd), c_amount cmd), s0)"
    "(\<exists>ra \<in> set (accounts s). a_id ra = c_sender cmd \<and> account_to_domain ra = Inr sender)"
    "(\<exists>rb \<in> set (accounts s). a_id rb = c_receiver cmd \<and> account_to_domain rb = Inr receiver)"
    "acc_id ur = c_receiver cmd" "acc_type ur = acc_type receiver" "acc_user_id ur = acc_user_id receiver"
    "lien_after_credit E (execute_depth E 0) (tr_id r) ur (c_amount cmd) (c_kind cmd) (c_request_id cmd) u
       = (Inr (), v)"
    "idem_complete (c_actor cmd) (c_endpoint cmd) (c_key cmd) (tr_id r) 201 (to_response r) now v
     = (Inr (), t)"
  using assms(1) [unfolded execute_transfer_def']
proof (cases rule: execute_with_okD)
  case (replay row n)
  with assms(2) show ?thesis by simp
next
  case (fresh now s0)
  show ?thesis
  proof (rule settle_transfer_effect [OF fresh(4)])
    show "snd (additional_lock_ids i (c_receiver cmd) (c_kind cmd) s0) = s0"
      if "Some (lien E (execute_depth E 0)) = Some i" for i
      using that by (rule lien_locks_ok)
  qed (rule that [OF fresh(1-3)], auto simp: fresh(3) lien_def)
qed

lemma idem_lookup_after_complete:
  assumes "sql_get idem_key (actor, ep, key) (idempotency_records v) = Some row"
    and "idem_complete actor ep key rid st body now v = (Inr u, t)"
  shows "sql_get idem_key (actor, ep, key) (idempotency_records t)
    = Some (row\<lparr>i_status := COMPLETED, i_resource_id := Some rid, i_http_status := Some st,
                i_response := Some body, i_completed_at := Some now\<rparr>)"
proof -
  have "idem_key row = (actor, ep, key)" using sql_get_Some [OF assms(1)] by simp
  moreover have "idempotency_records t = sql_update (\<lambda>r. idem_key r = (actor, ep, key))
      (\<lambda>r. r\<lparr>i_status := COMPLETED, i_resource_id := Some rid, i_http_status := Some st,
         i_response := Some body, i_completed_at := Some now\<rparr>) (idempotency_records v)"
    using assms(2) by (simp add: idem_complete_okD)
  ultimately show ?thesis
    using assms(1) by (simp add: sql_get_update_same_key idem_key_def)
qed

lemma sql_get_snoc: "sql_get k v t = None \<Longrightarrow> k r = v \<Longrightarrow> sql_get k v (t @ [r]) = Some r"
  by (simp add: sql_get_append)

lemma fresh_effect_idem: "fresh_effect E cmd now mv r s t \<Longrightarrow> idempotency_records t = idempotency_records s"
  by (auto simp: fresh_effect_def)

text \<open>The idempotency record a fresh transfer leaves behind.\<close>

lemma execute_transfer_completes:
  assumes "execute_transfer E cmd s = (Inr r, t)" "\<not> tr_replayed r"
  shows "\<exists>row. sql_get idem_key (c_actor cmd, c_endpoint cmd, c_key cmd) (idempotency_records t) = Some row
    \<and> i_fingerprint row = c_fingerprint cmd \<and> i_status row = COMPLETED
    \<and> i_response row = Some (to_response r) \<and> i_resource_id row = Some (tr_id r)"
  using assms
proof (cases rule: execute_transfer_fresh)
  case (1 mv now s0 u v sender receiver ur)
  let ?k = "(c_actor cmd, c_endpoint cmd, c_key cmd)"
  have "sql_get idem_key ?k (idempotency_records s0) \<noteq> None"
    and fp: "\<And>x. sql_get idem_key ?k (idempotency_records s0) = Some x \<Longrightarrow> i_fingerprint x = c_fingerprint cmd"
    using 1(1) by (auto simp: 1(3) sql_get_snoc idem_key_def)
  moreover have "prefix (map idem_core (idempotency_records s0)) (map idem_core (idempotency_records v))"
    using tx_relD [OF bookkeeping.lien_after_credit_rel 1(11)] fresh_effect_idem [OF 1(4)]
    by (simp add: evolves_def)
  ultimately obtain row where row: "sql_get idem_key ?k (idempotency_records v) = Some row"
    "i_fingerprint row = c_fingerprint cmd"
    using prefix_idem_lookup by fastforce
  from idem_lookup_after_complete [OF row(1) 1(12)] row(2) show ?thesis by simp
qed

lemma execute_transfer_result:
  assumes "execute_transfer E cmd s = (Inr r, t)" "\<not> tr_replayed r"
  shows "tr_fee r = mk_money 0 BDT \<and> tr_amount r = mk_money (minor (c_amount cmd)) BDT
    \<and> (\<exists>b. tr_sender_balance r = mk_money b BDT)"
  using assms
proof (cases rule: execute_transfer_fresh)
  case (1 mv now s0 u v sender receiver ur)
  then have "tr_amount r = c_amount cmd" "mcurrency (c_amount cmd) = BDT" "tr_fee r = mk_money 0 BDT"
    "tr_sender_balance r = mk_money (le_balance_after (mv_debit mv)) BDT"
    by (auto simp: fresh_effect_def)
  then show ?thesis by (metis money.surjective old.unit.exhaust)
qed

lemma replayed_response:
  assumes "tr_fee r = mk_money f BDT" "tr_amount r = mk_money m BDT" "tr_sender_balance r = mk_money b BDT"
    and "stored_body d = Some (to_response r)"
  shows "replayed_result E d s = (Inr (r\<lparr>tr_receiver_balance := mk_money 0 BDT, tr_replayed := True\<rparr>), s)"
  using assms
  by (cases r) (simp add: replayed_result_def to_response_def dict_get_def body_str_def body_int_def
      body_time_def supported_currency_def Let_def tx_bind_app tx_run)

lemma execute_with_replay:
  assumes "sql_get idem_key (c_actor cmd, c_endpoint cmd, c_key cmd) (idempotency_records s) = Some row"
    and "i_fingerprint row = c_fingerprint cmd" "i_status row = COMPLETED"
    and "i_response row = Some (to_response r)"
    and "tr_fee r = mk_money f BDT" "tr_amount r = mk_money m BDT" "tr_sender_balance r = mk_money b BDT"
  shows "execute_with fee_for E icpt cmd s
    = (Inr (r\<lparr>tr_receiver_balance := mk_money 0 BDT, tr_replayed := True\<rparr>), s\<lparr>tick := Suc (tick s)\<rparr>)"
  using assms
  by (simp add: execute_with_def clock_now_def tx_tick_def tx_bind_app tx_run idem_reserve_def
      handle_idempotency_decision_def replayed_response)

lemma execute_transfer_replays:
  assumes "execute_transfer E cmd s = (Inr r, t)" "\<not> tr_replayed r"
    and "sql_get idem_key (c_actor cmd, c_endpoint cmd, c_key cmd) (idempotency_records u)
         = sql_get idem_key (c_actor cmd, c_endpoint cmd, c_key cmd) (idempotency_records t)"
  shows "execute_transfer E' cmd u
    = (Inr (r\<lparr>tr_receiver_balance := mk_money 0 BDT, tr_replayed := True\<rparr>), u\<lparr>tick := Suc (tick u)\<rparr>)"
proof -
  from execute_transfer_completes [OF assms(1,2)] assms(3) obtain row where
    "sql_get idem_key (c_actor cmd, c_endpoint cmd, c_key cmd) (idempotency_records u) = Some row"
    "i_fingerprint row = c_fingerprint cmd" "i_status row = COMPLETED"
    "i_response row = Some (to_response r)" by auto
  moreover from execute_transfer_result [OF assms(1,2)] obtain b where
    "tr_fee r = mk_money 0 BDT" "tr_amount r = mk_money (minor (c_amount cmd)) BDT"
    "tr_sender_balance r = mk_money b BDT" by blast
  ultimately show ?thesis unfolding execute_transfer_def' by (rule execute_with_replay)
qed

text \<open>
  C1: a transfer happens exactly once.  After a transfer has been executed, running the same
  command again, in any later session that still holds its idempotency record and under any
  clock, returns the original response marked as replayed and changes nothing in the database.
\<close>

theorem transfer_exactly_once:
  assumes "execute_transfer E cmd s = (Inr r, t)" "\<not> tr_replayed r"
    and "sql_get idem_key (c_actor cmd, c_endpoint cmd, c_key cmd) (idempotency_records u)
         = sql_get idem_key (c_actor cmd, c_endpoint cmd, c_key cmd) (idempotency_records t)"
  shows "execute_transfer E' cmd u
    = (Inr (r\<lparr>tr_receiver_balance := mk_money 0 BDT, tr_replayed := True\<rparr>), u\<lparr>tick := Suc (tick u)\<rparr>)"
  using assms by (rule execute_transfer_replays)

theorem transfer_exactly_once_witness:
  "\<exists>r t. execute_transfer demo_env demo_grant demo_db = (Inr r, t) \<and> \<not> tr_replayed r
     \<and> execute_transfer demo_env demo_grant t
       = (Inr (r\<lparr>tr_receiver_balance := mk_money 0 BDT, tr_replayed := True\<rparr>), t\<lparr>tick := Suc (tick t)\<rparr>)"
proof -
  obtain r t where run: "execute_transfer demo_env demo_grant demo_db = (Inr r, t)" "\<not> tr_replayed r"
    using demo_grant_runs by blast
  with transfer_exactly_once [OF run refl, of demo_env] show ?thesis by blast
qed


section \<open>Who may move money, and how much\<close>

text \<open>
  C5: only the owner of an account moves money out of it.  The one exception is a movement of a
  system-initiated kind out of an account nobody owns.  Both parties exist, are active and
  different, the amount is positive, and unless the payer is the issuance account it held at least
  the amount.
\<close>

theorem transfer_authorised:
  assumes "execute_transfer E cmd s = (Inr r, t)" "\<not> tr_replayed r"
  shows "\<exists>ra rb. ra \<in> set (accounts s) \<and> rb \<in> set (accounts s)
    \<and> a_id ra = c_sender cmd \<and> a_id rb = c_receiver cmd \<and> c_sender cmd \<noteq> c_receiver cmd
    \<and> (a_user_id ra = Some (c_actor cmd)
         \<or> a_user_id ra = None \<and> c_kind cmd \<in> set SYSTEM_INITIATED_KINDS)
    \<and> a_status ra = ACTIVE \<and> a_status rb = ACTIVE \<and> 0 < minor (c_amount cmd)
    \<and> (a_type ra = SYSTEM_ISSUANCE \<or> minor (c_amount cmd) \<le> a_balance ra)"
  using assms
proof (cases rule: execute_transfer_fresh)
  case (1 mv now s0 u v sender receiver ur)
  from 1(6,7) obtain ra rb where
    ra: "ra \<in> set (accounts s)" "a_id ra = c_sender cmd" "account_to_domain ra = Inr sender" and
    rb: "rb \<in> set (accounts s)" "a_id rb = c_receiver cmd" "account_to_domain rb = Inr receiver" by blast
  have "c_sender cmd \<noteq> c_receiver cmd" "0 < minor (c_amount cmd)"
    using 1(4) by (auto simp: fresh_effect_def movement_ok_def)
  moreover note validate_transfer_okD [OF 1(5)] account_to_domain_okD [OF ra(3)] account_to_domain_okD [OF rb(3)]
  ultimately show ?thesis
    using ra rb
    by (intro exI [of _ ra] exI [of _ rb])
       (auto simp: transfer_authorize_def ensure_can_afford_ok split: if_splits)
qed

theorem transfer_authorised_witness:
  "\<exists>r t. execute_transfer demo_env demo_grant demo_db = (Inr r, t)
    \<and> (\<exists>ra. ra \<in> set (accounts demo_db) \<and> a_id ra = c_sender demo_grant
         \<and> (a_user_id ra = Some (c_actor demo_grant)
             \<or> a_user_id ra = None \<and> c_kind demo_grant \<in> set SYSTEM_INITIATED_KINDS))"
proof -
  obtain r t where run: "execute_transfer demo_env demo_grant demo_db = (Inr r, t)" "\<not> tr_replayed r"
    using demo_grant_runs by blast
  with transfer_authorised [OF run] show ?thesis by blast
qed




section \<open>Refinement of the abstract movement\<close>

text \<open>A transfer with no interceptor, as the lien posts it.\<close>

lemma execute_plain_effect:
  assumes "execute_depth E 0 cmd s = (Inr r, t)"
  shows "(if tr_replayed r then \<exists>n. t = s\<lparr>tick := n\<rparr>
          else balance_of t = move (c_sender cmd) (c_receiver cmd) (minor (c_amount cmd)) (balance_of s)
            \<and> c_sender cmd \<noteq> c_receiver cmd
            \<and> overdraft_loans t = overdraft_loans s \<and> overdraft_pools t = overdraft_pools s)"
  using assms [unfolded execute_depth.simps]
proof (cases rule: execute_with_okD)
  case (replay row n)
  then show ?thesis by auto
next
  case (fresh now s0)
  from fresh(4) show ?thesis
  proof (rule settle_transfer_effect)
    fix mv u v sender receiver ur
    assume fe: "fresh_effect E cmd now mv r s0 u"
      and v: "(case None of None \<Rightarrow> tx_return ()
        | Some i \<Rightarrow> after_credit i (tr_id r) ur (c_amount cmd) (c_kind cmd) (c_request_id cmd)) u = (Inr (), v)"
      and t: "idem_complete (c_actor cmd) (c_endpoint cmd) (c_key cmd) (tr_id r) 201 (to_response r) now v
        = (Inr (), t)"
    from fe have mv: "movement_ok mv (books_of s0)" "\<not> tr_replayed r"
      "ledger_entries u = ledger_entries s0 @ [mv_debit mv, mv_credit mv]"
      "t_sender (mv_transfer mv) = c_sender cmd" "t_receiver (mv_transfer mv) = c_receiver cmd"
      "t_amount (mv_transfer mv) = minor (c_amount cmd)"
      "overdraft_loans u = overdraft_loans s0" "overdraft_pools u = overdraft_pools s0"
      by (auto simp: fresh_effect_def)
    have "balance_of t = balance_of u"
      using v t by (intro balance_of_frame) (simp add: tx_okD)
    moreover have "balance_of s0 = balance_of s" by (rule balance_of_frame) (simp add: fresh(3))
    moreover have "overdraft_loans t = overdraft_loans s" "overdraft_pools t = overdraft_pools s"
      using v t mv(7,8) by (simp_all add: tx_okD fresh(3))
    moreover have "c_sender cmd \<noteq> c_receiver cmd" using mv(1,4,5) by (auto simp: movement_ok_def)
    ultimately show ?thesis
      using balance_of_movement [OF mv(1,3)] mv(2,4,5,6) by simp
  qed simp
qed


text \<open>The interceptor has nothing to do: an overdraft leg, a holding account, or a payee without debt.\<close>

definition debt_free :: "string \<Rightarrow> db \<Rightarrow> bool" where
  "debt_free uid s \<longleftrightarrow>
     (\<forall>l \<in> set (overdraft_loans s).
        \<not> (l_borrower l = uid \<and> l_status l = LoanOutstanding \<and> 0 < l_outstanding l))"

lemma outstanding_loans_debt_free:
  "debt_free uid s \<Longrightarrow> outstanding_loans uid s = (Inr [], s)"
  by (simp add: outstanding_loans_def tx_run)
     (auto simp: debt_free_def sql_order_by_def simp flip: set_empty)

lemma lien_after_credit_idle:
  assumes "lien_after_credit E exec inc rcv amt k rq s = (Inr u, t)"
    and "overdraft_leg k \<or> acc_type rcv \<noteq> USER \<or> (\<forall>uid. acc_user_id rcv = Some uid \<longrightarrow> debt_free uid s)"
  shows "t = s"
  using assms
  by (auto simp: lien_after_credit_def tx_okD tx_bind_app tx_run outstanding_loans_debt_free
      split: option.splits if_splits)

lemma fresh_effect_balance:
  assumes "fresh_effect E cmd now mv r s0 u" "ledger_entries s0 = ledger_entries s"
  shows "balance_of u = move (c_sender cmd) (c_receiver cmd) (minor (c_amount cmd)) (balance_of s)"
proof -
  from assms(1) have "movement_ok mv (books_of s0)"
    "ledger_entries u = ledger_entries s0 @ [mv_debit mv, mv_credit mv]"
    "t_sender (mv_transfer mv) = c_sender cmd" "t_receiver (mv_transfer mv) = c_receiver cmd"
    "t_amount (mv_transfer mv) = minor (c_amount cmd)"
    by (auto simp: fresh_effect_def)
  with balance_of_movement [of mv s0 u] balance_of_frame [OF assms(2)] show ?thesis by simp
qed

lemma transfer_moves:
  assumes "execute_transfer E cmd s = (Inr r, t)" "\<not> tr_replayed r"
    and "\<And>a uid. a \<in> set (accounts s) \<Longrightarrow> a_id a = c_receiver cmd \<Longrightarrow> a_user_id a = Some uid
           \<Longrightarrow> debt_free uid s"
  shows "balance_of t = move (c_sender cmd) (c_receiver cmd) (minor (c_amount cmd)) (balance_of s)"
  using assms(1,2)
proof (cases rule: execute_transfer_fresh)
  case (1 mv now s0 u v sender receiver ur)
  from 1(7) obtain rb where rb: "rb \<in> set (accounts s)" "a_id rb = c_receiver cmd"
    "account_to_domain rb = Inr receiver" by blast
  have "overdraft_loans u = overdraft_loans s" using 1(4) by (auto simp: fresh_effect_def 1(3))
  then have "debt_free uid u" if "acc_user_id ur = Some uid" for uid
    using assms(3) [OF rb(1,2), of uid] account_to_domain_okD [OF rb(3)] 1(10) that
    by (simp add: debt_free_def)
  with 1(11) have "v = u" by (intro lien_after_credit_idle) auto
  then have "balance_of t = balance_of u"
    using 1(12) by (intro balance_of_frame) (simp add: tx_okD)
  with fresh_effect_balance [OF 1(4)] show ?thesis by (simp add: 1(3))
qed

text \<open>
  C16: the transfer refines the abstract movement.  When the payee owes nothing to a Spot-Me pool,
  a fresh transfer changes the balances of the database exactly as \<open>move\<close> does: the payer loses
  the amount, the payee gains it, every other account is as it was.
\<close>

theorem transfer_refines_move:
  assumes "execute_transfer E cmd s = (Inr r, t)" "\<not> tr_replayed r"
    and "\<And>a uid. a \<in> set (accounts s) \<Longrightarrow> a_id a = c_receiver cmd \<Longrightarrow> a_user_id a = Some uid
           \<Longrightarrow> debt_free uid s"
  shows "balance_of t = move (c_sender cmd) (c_receiver cmd) (minor (c_amount cmd)) (balance_of s)"
  using assms by (rule transfer_moves)

theorem transfer_refines_move_witness:
  "\<exists>r t. execute_transfer demo_env demo_send demo_funded = (Inr r, t)
     \<and> balance_of t ''A'' = balance_of demo_funded ''A'' - 2500
     \<and> balance_of t ''B'' = balance_of demo_funded ''B'' + 2500"
proof -
  obtain r t where run: "execute_transfer demo_env demo_send demo_funded = (Inr r, t)" "\<not> tr_replayed r"
    using demo_send_runs by blast
  have "overdraft_loans demo_funded = []"
    by (simp add: demo_funded_def run_simps cong: tx_bind_weak_cong)
  then have "debt_free uid demo_funded" for uid by (simp add: debt_free_def)
  with transfer_refines_move [OF run] run(1) show ?thesis
    by (auto simp: move_def demo_send_def base_command_def)
qed


section \<open>The lien takes no more than its share\<close>

lemma apply_repayment_ledger:
  "apply_repayment E lid tid amt trg now s = (Inr u, t) \<Longrightarrow> ledger_entries t = ledger_entries s"
proof -
  assume run: "apply_repayment E lid tid amt trg now s = (Inr u, t)"
  have "tx_frame ledger_entries (apply_repayment E lid tid amt trg now)"
    unfolding apply_repayment_def insert_repayment_def
    by (auto intro!: tx_frame_bind tx_frame_basic tx_frame_modify tx_frame_feeds frame_require
        split: option.splits)
  with run show ?thesis unfolding tx_frame_def by (metis snd_conv)
qed

lemma lien_sweep_bounds:
  assumes "lien_sweep E (execute_depth E 0) inc rcv uid cur rq budget loans s = (Inr u, t)"
    and "\<And>l. l \<in> set loans \<Longrightarrow> 0 \<le> ol_outstanding l" "0 \<le> budget"
  shows "balance_of s (acc_id rcv) - budget \<le> balance_of t (acc_id rcv)
    \<and> balance_of t (acc_id rcv) \<le> balance_of s (acc_id rcv)
    \<and> (\<forall>x. x \<noteq> acc_id rcv \<longrightarrow> balance_of s x \<le> balance_of t x)"
  using assms
proof (induction loans arbitrary: budget s)
  case Nil
  then show ?case by (simp add: tx_okD)
next
  case (Cons l loans)
  show ?case
  proof (cases "budget \<le> 0")
    case True
    with Cons.prems show ?thesis by (simp add: tx_okD)
  next
    case False
    define amt where "amt = min budget (ol_outstanding l)"
    define cmd where "cmd = lien_command E inc rcv uid cur rq l amt"
    have amt: "0 \<le> amt" "amt \<le> budget" using Cons.prems(2) [of l] False by (auto simp: amt_def)
    from Cons.prems(1) False obtain r s1 s3 now where
      ex: "execute_depth E 0 cmd s = (Inr r, s1)"
      and ap: "apply_repayment E (ol_id l) (tr_id r) amt inc now (s1\<lparr>tick := Suc (tick s1)\<rparr>) = (Inr (), s3)"
      and rest: "lien_sweep E (execute_depth E 0) inc rcv uid cur rq (budget - amt) loans s3 = (Inr u, t)"
      by (auto simp: tx_bind_okD clock_now_okD amt_def cmd_def simp del: execute_depth.simps)
    have s3: "balance_of s3 = balance_of s1"
      using apply_repayment_ledger [OF ap] by (intro balance_of_frame) simp
    have cmd: "c_sender cmd = acc_id rcv" "minor (c_amount cmd) = amt"
      by (simp_all add: cmd_def lien_command_def base_command_def)
    have here: "balance_of s (acc_id rcv) - amt \<le> balance_of s3 (acc_id rcv)
      \<and> balance_of s3 (acc_id rcv) \<le> balance_of s (acc_id rcv)
      \<and> (\<forall>x. x \<noteq> acc_id rcv \<longrightarrow> balance_of s x \<le> balance_of s3 x)"
    proof (cases "tr_replayed r")
      case True
      with execute_plain_effect [OF ex] have "ledger_entries s1 = ledger_entries s" by auto
      then have "balance_of s1 = balance_of s" by (rule balance_of_frame)
      with s3 amt show ?thesis by simp
    next
      case False
      with execute_plain_effect [OF ex] have "acc_id rcv \<noteq> c_receiver cmd"
        "balance_of s1 = move (acc_id rcv) (c_receiver cmd) amt (balance_of s)" by (simp_all add: cmd)
      with s3 amt show ?thesis by (simp add: move_def)
    qed
    have later: "balance_of s3 (acc_id rcv) - (budget - amt) \<le> balance_of t (acc_id rcv)
      \<and> balance_of t (acc_id rcv) \<le> balance_of s3 (acc_id rcv)
      \<and> (\<forall>x. x \<noteq> acc_id rcv \<longrightarrow> balance_of s3 x \<le> balance_of t x)"
      using Cons.prems(2) amt by (intro Cons.IH [OF rest]) auto
    have "balance_of s x \<le> balance_of t x" if "x \<noteq> acc_id rcv" for x
      using here later that order_trans by blast
    then show ?thesis using here later by auto
  qed
qed

lemma outstanding_loans_positive:
  "outstanding_loans uid s = (Inr ls, t) \<Longrightarrow> t = s \<and> (\<forall>l \<in> set ls. 0 < ol_outstanding l)"
  by (auto simp: outstanding_loans_def tx_okD)

lemma lien_after_credit_bounds:
  assumes "lien_after_credit E (execute_depth E 0) inc rcv amount k rq s = (Inr u, t)"
    and "0 \<le> minor amount * overdraft_lien_sweep_basis_points E"
  shows "balance_of s (acc_id rcv) - minor amount * overdraft_lien_sweep_basis_points E div 10000
           \<le> balance_of t (acc_id rcv)
    \<and> balance_of t (acc_id rcv) \<le> balance_of s (acc_id rcv)
    \<and> (\<forall>x. x \<noteq> acc_id rcv \<longrightarrow> balance_of s x \<le> balance_of t x)"
proof -
  let ?budget = "minor amount * overdraft_lien_sweep_basis_points E div 10000"
  have nonneg: "0 \<le> ?budget" using assms(2) by (simp add: pos_imp_zdiv_nonneg_iff)
  consider "t = s" | uid ls s1 where "outstanding_loans uid s = (Inr ls, s1)"
    "lien_sweep E (execute_depth E 0) inc rcv uid (mcurrency amount) rq ?budget ls s1 = (Inr u, t)"
    using assms(1) by (auto simp: lien_after_credit_def tx_okD split: option.splits if_splits)
  then show ?thesis
  proof cases
    case 1
    then show ?thesis using nonneg by simp
  next
    case (2 uid ls s1)
    with outstanding_loans_positive have "s1 = s" "\<And>l. l \<in> set ls \<Longrightarrow> 0 \<le> ol_outstanding l"
      by (fastforce intro: less_imp_le)+
    with lien_sweep_bounds [OF 2(2)] nonneg show ?thesis by simp
  qed
qed

text \<open>
  The repayment lien is partial.  Of an incoming credit the borrower keeps everything but the
  configured share of basis points, rounded down; nobody but the borrower pays for the sweep, and
  no account other than the payer and the payee loses anything by the transfer.
\<close>

lemma lien_share:
  assumes "execute_transfer E cmd s = (Inr r, t)" "\<not> tr_replayed r"
    and "0 \<le> overdraft_lien_sweep_basis_points E"
  shows "0 < minor (c_amount cmd)
    \<and> balance_of s (c_receiver cmd) + minor (c_amount cmd)
           - minor (c_amount cmd) * overdraft_lien_sweep_basis_points E div 10000
           \<le> balance_of t (c_receiver cmd)
    \<and> balance_of t (c_receiver cmd) \<le> balance_of s (c_receiver cmd) + minor (c_amount cmd)
    \<and> balance_of s (c_sender cmd) - minor (c_amount cmd) \<le> balance_of t (c_sender cmd)
    \<and> (\<forall>x. x \<noteq> c_sender cmd \<and> x \<noteq> c_receiver cmd \<longrightarrow> balance_of s x \<le> balance_of t x)"
  using assms(1,2)
proof (cases rule: execute_transfer_fresh)
  case (1 mv now s0 u v sender receiver ur)
  have diff: "c_sender cmd \<noteq> c_receiver cmd" "0 < minor (c_amount cmd)"
    using 1(4) by (auto simp: fresh_effect_def movement_ok_def)
  have "balance_of u = move (c_sender cmd) (c_receiver cmd) (minor (c_amount cmd)) (balance_of s)"
    by (rule fresh_effect_balance [OF 1(4)]) (simp add: 1(3))
  moreover have "balance_of t = balance_of v"
    using 1(12) by (intro balance_of_frame) (simp add: tx_okD)
  moreover have "0 \<le> minor (c_amount cmd) * overdraft_lien_sweep_basis_points E"
    using diff(2) assms(3) by simp
  moreover note lien_after_credit_bounds [OF 1(11)]
  ultimately show ?thesis using diff by (auto simp: move_def 1(8))
qed

end
