(* ===== verification/Scheduling.thy ===== *)
theory Scheduling
  imports Scenario
begin

text \<open>
  The deferred-settlement queue, \<open>platform_/scheduling/repository.py\<close>.  Due times are written and
  compared on the database clock, \<open>txn_now\<close>.
\<close>

definition schedule_task :: "env \<Rightarrow> task_type \<Rightarrow> string \<Rightarrow> int \<Rightarrow> string tx" where
  "schedule_task E ty rid delay_seconds =
     tx_bind (fresh_ulid E) (\<lambda>task_id.
     tx_bind (tx_gets (\<lambda>s. \<exists>k \<in> set (scheduled_tasks s). k_type k = ty \<and> k_resource_id k = rid)) (\<lambda>conflict.
       if conflict then tx_return task_id
       else
         tx_bind (require_constraints (\<lambda>s.
            [(''pk_scheduled_tasks'', task_id \<notin> k_id ` set (scheduled_tasks s))])) (\<lambda>_.
         tx_bind (tx_modify (\<lambda>s. s\<lparr>scheduled_tasks := scheduled_tasks s @
            [\<lparr>k_id = task_id, k_type = ty, k_resource_id = rid,
              k_due_at = txn_now s + delay_seconds * second_us, k_status = TaskPending,
              k_attempt_count = 0, k_last_error = None, k_created_at = txn_now s,
              k_completed_at = None\<rparr>]\<rparr>)) (\<lambda>_.
           tx_return task_id))))"

definition claim_due :: "nat \<Rightarrow> task_row list tx" where
  "claim_due batch_size =
     tx_gets (\<lambda>s. take batch_size (sql_order_by k_due_at
       (filter (\<lambda>k. k_status k = TaskPending \<and> k_due_at k \<le> txn_now s) (scheduled_tasks s))))"

definition complete_task :: "string \<Rightarrow> unit tx" where
  "complete_task task_id =
     tx_modify (\<lambda>s. s\<lparr>scheduled_tasks := sql_update (\<lambda>k. k_id k = task_id)
       (\<lambda>k. k\<lparr>k_status := TaskDone, k_completed_at := Some (txn_now s)\<rparr>) (scheduled_tasks s)\<rparr>)"

definition cancel_task :: "task_type \<Rightarrow> string \<Rightarrow> nat tx" where
  "cancel_task ty rid =
     tx_bind (tx_gets (\<lambda>s. sql_rowcount (\<lambda>k. k_type k = ty \<and> k_resource_id k = rid
                               \<and> k_status k = TaskPending) (scheduled_tasks s))) (\<lambda>n.
     tx_bind (tx_modify (\<lambda>s. s\<lparr>scheduled_tasks :=
        sql_update (\<lambda>k. k_type k = ty \<and> k_resource_id k = rid \<and> k_status k = TaskPending)
          (\<lambda>k. k\<lparr>k_status := TaskCancelled, k_completed_at := Some (txn_now s)\<rparr>) (scheduled_tasks s)\<rparr>)) (\<lambda>_.
       tx_return n))"

definition failure_delay :: "nat \<Rightarrow> int" where
  "failure_delay attempt = min (2 ^ attempt) 300"

definition record_task_failure :: "string \<Rightarrow> nat \<Rightarrow> string \<Rightarrow> nat \<Rightarrow> unit tx" where
  "record_task_failure task_id attempt error max_attempts =
     (let terminal = attempt \<ge> max_attempts in
      tx_modify (\<lambda>s. s\<lparr>scheduled_tasks := sql_update (\<lambda>k. k_id k = task_id)
        (\<lambda>k. k\<lparr>k_attempt_count := int attempt, k_last_error := Some (take 500 error),
                k_status := (if terminal then TaskFailed else TaskPending),
                k_due_at := (if terminal then k_due_at k
                             else txn_now s + failure_delay attempt * second_us)\<rparr>)
        (scheduled_tasks s)\<rparr>))"

record backlog_report =
  bl_pending :: nat
  bl_overdue :: nat
  bl_failed :: nat
  bl_done :: nat
  bl_oldest_overdue_us :: int

definition task_backlog :: "backlog_report tx" where
  "task_backlog = tx_gets (\<lambda>s.
     let overdue = filter (\<lambda>k. k_status k = TaskPending \<and> k_due_at k \<le> txn_now s) (scheduled_tasks s) in
     \<lparr>bl_pending = sql_rowcount (\<lambda>k. k_status k = TaskPending) (scheduled_tasks s),
      bl_overdue = length overdue,
      bl_failed = sql_rowcount (\<lambda>k. k_status k = TaskFailed) (scheduled_tasks s),
      bl_done = sql_rowcount (\<lambda>k. k_status k = TaskDone) (scheduled_tasks s),
      bl_oldest_overdue_us = (if overdue = [] then 0
                              else txn_now s - Min (set (map k_due_at overdue)))\<rparr>)"


section \<open>Facts\<close>

lemma frame_scheduling [frames]:
  assumes "\<And>s n. v (s\<lparr>tick := n\<rparr>) = v s" "\<And>s x. v (s\<lparr>scheduled_tasks := x\<rparr>) = v s"
  shows "tx_frame v (schedule_task E ty rid d)" "tx_frame v (complete_task tid)"
    "tx_frame v (cancel_task ty rid)" "tx_frame v (record_task_failure tid a e m)"
    "tx_frame v (claim_due n)"
  unfolding schedule_task_def complete_task_def cancel_task_def record_task_failure_def Let_def claim_due_def
  by (auto intro!: tx_frame_bind tx_frame_basic tx_frame_modify tx_frame_feeds frame_require simp: assms)

lemma evolves_scheduling [tx_rel_intros]:
  "tx_rel evolves (schedule_task E ty rid d)" "tx_rel evolves (complete_task tid)"
  "tx_rel evolves (cancel_task ty rid)" "tx_rel evolves (record_task_failure tid a e m)"
  "tx_rel evolves (claim_due n)"
  by (intro evolves_frame frame_scheduling; simp)+

text \<open>One task per resource, and the primary key.\<close>

definition tasks_ok :: "task_row list \<Rightarrow> bool" where
  "tasks_ok ts \<longleftrightarrow> distinct (map k_id ts) \<and> distinct (map (\<lambda>k. (k_type k, k_resource_id k)) ts)"

lemma tasks_ok_update:
  assumes "tasks_ok ts" "\<And>k. k_id (f k) = k_id k" "\<And>k. k_type (f k) = k_type k"
    "\<And>k. k_resource_id (f k) = k_resource_id k"
  shows "tasks_ok (sql_update P f ts)"
  using assms by (simp add: tasks_ok_def map_sql_update_same)

lemma schedule_task_okD:
  assumes "schedule_task E ty rid d s = (Inr i, t)"
  shows "\<exists>n. (\<exists>k \<in> set (scheduled_tasks s). k_type k = ty \<and> k_resource_id k = rid) \<and> t = s\<lparr>tick := n\<rparr>
    \<or> (\<forall>k \<in> set (scheduled_tasks s). \<not> (k_type k = ty \<and> k_resource_id k = rid))
      \<and> i \<notin> k_id ` set (scheduled_tasks s)
      \<and> t = s\<lparr>tick := n, scheduled_tasks := scheduled_tasks s @
            [\<lparr>k_id = i, k_type = ty, k_resource_id = rid,
              k_due_at = txn_now s + d * second_us, k_status = TaskPending,
              k_attempt_count = 0, k_last_error = None, k_created_at = txn_now s,
              k_completed_at = None\<rparr>]\<rparr>"
  using assms by (auto simp: schedule_task_def tx_okD split: if_splits)

text \<open>
  The queue never holds two tasks for one resource: every queue operation keeps the task
  identifiers unique and at most one task per (type, resource), so a settlement scheduled twice is
  queued once.
\<close>

lemma one_task_per_resource:
  assumes "tasks_ok (scheduled_tasks s)"
  shows "(schedule_task E ty rid d s = (Inr i, t) \<longrightarrow>
            tasks_ok (scheduled_tasks t)
            \<and> sql_rowcount (\<lambda>k. k_type k = ty \<and> k_resource_id k = rid) (scheduled_tasks t) = 1)
    \<and> tasks_ok (scheduled_tasks (snd (complete_task tid s)))
    \<and> tasks_ok (scheduled_tasks (snd (cancel_task ty rid s)))
    \<and> tasks_ok (scheduled_tasks (snd (record_task_failure tid a e m s)))"
proof -
  have one: "sql_rowcount (\<lambda>k. k_type k = ty \<and> k_resource_id k = rid) ts = 1"
    if "tasks_ok ts" "x \<in> set ts" "k_type x = ty" "k_resource_id x = rid" for ts x
    using sql_rowcount_key [of "\<lambda>k. (k_type k, k_resource_id k)" ts x] that by (simp add: tasks_ok_def)
  have "tasks_ok (scheduled_tasks t)
      \<and> sql_rowcount (\<lambda>k. k_type k = ty \<and> k_resource_id k = rid) (scheduled_tasks t) = 1"
    if "schedule_task E ty rid d s = (Inr i, t)"
  proof (cases "\<exists>k \<in> set (scheduled_tasks s). k_type k = ty \<and> k_resource_id k = rid")
    case True
    with schedule_task_okD [OF that] have "scheduled_tasks t = scheduled_tasks s" by auto
    with True assms one show ?thesis by auto
  next
    case False
    with schedule_task_okD [OF that] obtain k where
      "scheduled_tasks t = scheduled_tasks s @ [k]" "k_type k = ty" "k_resource_id k = rid" "k_id k = i"
      "i \<notin> k_id ` set (scheduled_tasks s)" by auto
    with False assms show ?thesis
      by (auto simp: tasks_ok_def sql_rowcount_0)
  qed
  then show ?thesis
    using assms
    by (simp add: complete_task_def cancel_task_def record_task_failure_def Let_def tx_bind_app tx_run
        tasks_ok_update)
qed

end
