(* ===== verification/Holding.thy ===== *)
theory Holding
  imports Transfer_Props Scheduling
begin

text \<open>
  Two-stage money movement and its first client:
  \<open>modules/financial_core/application/holding.py\<close> and \<open>undo.py\<close>, and the opening of a funded
  account, \<open>open_account.py\<close>.  All three move money through \<open>execute_transfer\<close>.
\<close>

section \<open>Opening an account\<close>

definition open_account ::
  "env \<Rightarrow> string \<Rightarrow> money \<Rightarrow> string \<Rightarrow> int \<Rightarrow> string option \<Rightarrow> string tx" where
  "open_account E user_id opening_balance account_number now request_id =
     tx_bind (fresh_ulid E) (\<lambda>account_id.
     tx_bind (create_account account_id user_id account_number
                (code (mcurrency opening_balance)) now) (\<lambda>_.
     tx_bind (if is_positive opening_balance then
                tx_bind (execute_transfer E
                  ((base_command user_id SYSTEM_ISSUANCE_ACCOUNT_ID account_id opening_balance
                     (''signup-grant:'' @ user_id)
                     (fingerprint_request (sha256 E)
                       [(''userId'', JStr user_id), (''amountMinor'', JInt (minor opening_balance))]))
                   \<lparr>c_kind := SIGNUP_GRANT, c_note := Some ''Welcome bonus'',
                    c_request_id := request_id, c_enforce_limits := False\<rparr>)) (\<lambda>_. tx_return ())
              else tx_return ()) (\<lambda>_.
       tx_return account_id)))"


section \<open>Holds\<close>

definition str_lower :: "string \<Rightarrow> string" where
  "str_lower s = map (\<lambda>c. if is_upper_alpha c then char_of (of_char c + 32 :: nat) else c) s"

definition hold_money ::
  "env \<Rightarrow> string \<Rightarrow> string \<Rightarrow> string \<Rightarrow> money \<Rightarrow> transfer_kind \<Rightarrow> transfer_status \<Rightarrow> string
   \<Rightarrow> string option \<Rightarrow> string option \<Rightarrow> bool \<Rightarrow> string option \<Rightarrow> string \<Rightarrow> transfer_result tx" where
  "hold_money E actor payer holding amount kind pending key note request_id enforce intended endpoint =
     execute_transfer E
       ((base_command actor payer holding amount key
          (fingerprint_request (sha256 E)
            [(''payer'', JStr payer), (''holding'', JStr holding),
             (''amountMinor'', JInt (minor amount)), (''kind'', JStr (kind_str kind))]))
        \<lparr>c_kind := kind, c_note := note, c_request_id := request_id, c_enforce_limits := enforce,
         c_initial_status := pending, c_intended := intended, c_endpoint := endpoint\<rparr>)"

definition settle_command ::
  "env \<Rightarrow> string \<Rightarrow> transfer_status \<Rightarrow> string \<Rightarrow> string \<Rightarrow> money \<Rightarrow> transfer_kind \<Rightarrow> string
   \<Rightarrow> string option \<Rightarrow> string option \<Rightarrow> transfer_command" where
  "settle_command E hold_id to_status beneficiary holding amount kind actor note request_id =
     (base_command actor holding beneficiary amount
        (''settle:'' @ hold_id @ '':'' @ transfer_status_str to_status)
        (fingerprint_request (sha256 E)
          [(''hold'', JStr hold_id), (''outcome'', JStr (transfer_status_str to_status))]))
     \<lparr>c_kind := kind, c_note := note, c_request_id := request_id, c_enforce_limits := False,
      c_parent := Some hold_id, c_endpoint := ''INTERNAL:/holds/'' @ str_lower (kind_str kind)\<rparr>"

definition settle_hold ::
  "env \<Rightarrow> string \<Rightarrow> string \<Rightarrow> transfer_status \<Rightarrow> transfer_status \<Rightarrow> string \<Rightarrow> string \<Rightarrow> money
   \<Rightarrow> transfer_kind \<Rightarrow> string \<Rightarrow> string option \<Rightarrow> string option \<Rightarrow> transfer_result tx" where
  "settle_hold E hold_id hold_reference from_status to_status beneficiary holding amount kind actor note
     request_id =
     tx_bind (try_transition_status hold_id from_status to_status) (\<lambda>n.
     tx_bind (tx_unless (n = 1)
        (AppError StateConflictError [(''reference'', JStr hold_reference)])) (\<lambda>_.
       execute_transfer E
         (settle_command E hold_id to_status beneficiary holding amount kind actor note request_id)))"


section \<open>Send with an undo window\<close>

definition UNDO_WINDOW_SECONDS :: int where
  "UNDO_WINDOW_SECONDS = 10"

definition undoable_send ::
  "env \<Rightarrow> string \<Rightarrow> string \<Rightarrow> string \<Rightarrow> money \<Rightarrow> string \<Rightarrow> string option \<Rightarrow> string option \<Rightarrow> string
   \<Rightarrow> transfer_result tx" where
  "undoable_send E actor sender receiver amount key note request_id endpoint =
     tx_bind (hold_money E actor sender PENDING_SETTLEMENT_ACCOUNT_ID amount UNDO_HOLD PENDING_UNDO key
                note request_id True (Some receiver) endpoint) (\<lambda>hold.
     tx_bind (if tr_replayed hold then tx_return ()
              else tx_bind (schedule_task E UndoSettleTask (tr_id hold) UNDO_WINDOW_SECONDS)
                     (\<lambda>_. tx_return ())) (\<lambda>_.
       tx_return hold))"

definition require_hold :: "string \<Rightarrow> transfer_row tx" where
  "require_hold transfer_id =
     tx_bind (get_transfer transfer_id) (\<lambda>found.
       case found of
         None \<Rightarrow> tx_raise (app_error NotFoundError)
       | Some hold \<Rightarrow>
           if t_kind hold \<noteq> UNDO_HOLD then tx_raise (app_error NotFoundError)
           else if t_status hold \<noteq> PENDING_UNDO
           then tx_raise (AppError StateConflictError
                  [(''status'', JStr (transfer_status_str (t_status hold)))])
           else tx_return hold)"

definition undo_endpoint :: "string \<Rightarrow> string" where
  "undo_endpoint transfer_id = ''POST:/api/v1/transfers/'' @ transfer_id @ ''/undo''"

text \<open>Everything \<open>undo\<close> does once the idempotency key is reserved.\<close>

definition undo_once :: "env \<Rightarrow> string \<Rightarrow> string \<Rightarrow> string option \<Rightarrow> (transfer_row \<times> dict) tx" where
  "undo_once E transfer_id actor request_id =
     tx_bind (require_hold transfer_id) (\<lambda>hold.
     tx_bind (get_account_by_id (t_sender hold)) (\<lambda>sender.
     tx_bind (tx_unless (case sender of None \<Rightarrow> False | Some a \<Rightarrow> acc_user_id a = Some actor)
                (app_error NotFoundError)) (\<lambda>_.
     tx_bind (settle_hold E (t_id hold) (t_reference hold) PENDING_UNDO REFUNDED (t_sender hold)
                PENDING_SETTLEMENT_ACCOUNT_ID (mk_money (t_amount hold) BDT) UNDO_REFUND actor
                (Some ''Undone by sender'') request_id) (\<lambda>settlement.
     tx_bind (cancel_task UndoSettleTask (t_id hold)) (\<lambda>_.
       tx_return (hold,
         [(''transferId'', JStr (t_id hold)), (''reference'', JStr (t_reference hold)),
          (''status'', JStr (transfer_status_str REFUNDED)),
          (''refundTransferId'', JStr (tr_id settlement)),
          (''refundReference'', JStr (tr_reference settlement)),
          (''amountMinor'', JInt (minor (tr_amount settlement))),
          (''currency'', JStr (code (mcurrency (tr_amount settlement)))),
          (''senderBalanceMinor'', JInt (minor (tr_receiver_balance settlement))),
          (''replayed'', JBool False)]))))))"

definition undo :: "env \<Rightarrow> string \<Rightarrow> string \<Rightarrow> string \<Rightarrow> string option \<Rightarrow> dict tx" where
  "undo E transfer_id actor key request_id =
     tx_bind (clock_now E) (\<lambda>now.
     tx_bind (idem_reserve actor (undo_endpoint transfer_id) key
        (fingerprint_request (sha256 E) [(''transferId'', JStr transfer_id)]) now) (\<lambda>decision.
     tx_bind (tx_lift (replay_body_or_raise decision)) (\<lambda>replay.
       case replay of
         Some body \<Rightarrow> tx_return (dict_set body ''replayed'' (JBool True))
       | None \<Rightarrow>
           tx_bind (undo_once E transfer_id actor request_id) (\<lambda>(hold, response).
           tx_bind (idem_complete actor (undo_endpoint transfer_id) key (t_id hold) 200 response now) (\<lambda>_.
             tx_return response)))))"

definition undo_deadline :: "transfer_result \<Rightarrow> int" where
  "undo_deadline hold = tr_completed_at hold + UNDO_WINDOW_SECONDS * second_us"

text \<open>\<open>hold.initiated_by_user_id or ""\<close>.\<close>

definition settle_undo :: "env \<Rightarrow> string \<Rightarrow> transfer_result option tx" where
  "settle_undo E transfer_id =
     tx_bind (get_transfer transfer_id) (\<lambda>found.
       case found of
         None \<Rightarrow> tx_return None
       | Some hold \<Rightarrow>
           if t_status hold \<noteq> PENDING_UNDO then tx_return None
           else (case t_intended_receiver hold of
                   None \<Rightarrow> tx_raise (app_error StateConflictError)
                 | Some receiver \<Rightarrow>
                     tx_bind (settle_hold E (t_id hold) (t_reference hold) PENDING_UNDO SUCCEEDED receiver
                       PENDING_SETTLEMENT_ACCOUNT_ID (mk_money (t_amount hold) BDT) UNDO_SETTLE
                       (case t_initiated_by hold of None \<Rightarrow> [] | Some u \<Rightarrow> u) (t_note hold) None)
                       (\<lambda>settlement. tx_return (Some settlement))))"

text \<open>
  The \<open>_reserve\<close> helper of the SafePay and overdraft services: the stored body of a repeated
  request, or \<open>None\<close> when the key is new.
\<close>

definition reserve_or_replay ::
  "string \<Rightarrow> string \<Rightarrow> string \<Rightarrow> string \<Rightarrow> int \<Rightarrow> dict option tx" where
  "reserve_or_replay actor endpoint key fingerprint now =
     tx_bind (idem_reserve actor endpoint key fingerprint now) (\<lambda>d. tx_lift (replay_body_or_raise d))"

lemma reserve_or_replay_evolves [tx_rel_intros]: "tx_rel evolves (reserve_or_replay a ep key fp now)"
  unfolding reserve_or_replay_def by (intro evo.rel_rules tx_rel_intros)

lemma holding_evolves [tx_rel_intros]:
  "tx_rel evolves (open_account E u m n now rq)"
  "tx_rel evolves (hold_money E a p h amt k st key note rq lim intd ep)"
  "tx_rel evolves (settle_hold E i rf fs ts b hh am kk ac nt rq)"
  unfolding open_account_def hold_money_def settle_hold_def
  by (intro evo.rel_rules tx_rel_intros)+

lemma undo_evolves [tx_rel_intros]:
  "tx_rel evolves (undoable_send E a sn rc amt key note rq ep)"
  "tx_rel evolves (require_hold i)"
  "tx_rel evolves (undo_once E i a rq)"
  "tx_rel evolves (undo E i a key rq)"
  "tx_rel evolves (settle_undo E i)"
proof -
  show rh: "tx_rel evolves (require_hold i)" for i
    unfolding require_hold_def by (intro evo.rel_rules tx_rel_intros)
  show uo: "tx_rel evolves (undo_once E i a rq)" for E i a rq
    unfolding undo_once_def by (intro evo.rel_rules tx_rel_intros rh)
  show "tx_rel evolves (undoable_send E a sn rc amt key note rq ep)"
    unfolding undoable_send_def by (intro evo.rel_rules tx_rel_intros)
  show "tx_rel evolves (undo E i a key rq)"
    unfolding undo_def by (intro evo.rel_rules tx_rel_intros uo)
  show "tx_rel evolves (settle_undo E i)"
    unfolding settle_undo_def by (intro evo.rel_rules tx_rel_intros)
qed

end
