(* ===== verification/Identity.thy ===== *)
theory Identity
  imports Holding
begin

text \<open>
  Users, sessions and PIN authorisation: \<open>modules/identity/adapters/persistence/repositories.py\<close>,
  \<open>modules/identity/application/auth_service.py\<close>, the wrappers of
  \<open>platform_/security/passwords.py\<close> and \<open>tokens.py\<close>, and \<open>run_pin_protected\<close> of
  \<open>apps/api/dependencies.py\<close> without its unit of work, which is in \<open>Unit_Of_Work\<close>.
  Argon2, SHA-256 and the JWT codec are fields of the environment.
\<close>

section \<open>Secrets and tokens\<close>

text \<open>\<open>PasswordHasherService.hash\<close> draws a fresh salt; \<open>verify\<close> and \<open>needs_rehash\<close> are pure.\<close>

definition hash_secret :: "env \<Rightarrow> string \<Rightarrow> string tx" where
  "hash_secret E secret = tx_bind tx_tick (\<lambda>n. tx_return (argon2_hash E n secret))"

definition hash_refresh_token :: "env \<Rightarrow> string \<Rightarrow> string" where
  "hash_refresh_token E raw = sha256 E raw"

definition TOKEN_ISSUER :: string where
  "TOKEN_ISSUER = ''money-movement''"

text \<open>\<open>int(now.timestamp())\<close>.\<close>

definition timestamp :: "int \<Rightarrow> int" where
  "timestamp t = (if 0 \<le> t then t div second_us else - ((- t) div second_us))"

definition issue_access_token :: "env \<Rightarrow> string \<Rightarrow> string \<Rightarrow> int \<Rightarrow> string" where
  "issue_access_token E user_id session_id now =
     jwt_encode E (jwt_secret E)
       [(''sub'', JStr user_id), (''sid'', JStr session_id), (''iat'', JInt (timestamp now)),
        (''exp'', JInt (timestamp (now + access_token_ttl_seconds E * second_us))),
        (''iss'', JStr TOKEN_ISSUER), (''typ'', JStr ''access'')]"

record access_token_claims =
  cl_user :: string
  cl_session :: string
  cl_issued_at :: int
  cl_expires_at :: int

text \<open>
  \<open>verify_access_token\<close>: \<open>None\<close> is \<open>TokenError\<close>.  The decoder checks signature, algorithm, issuer,
  expiry and the presence of the required claims; the type claim is checked here.
\<close>

definition verify_access_token :: "env \<Rightarrow> string \<Rightarrow> int \<Rightarrow> access_token_claims option" where
  "verify_access_token E token now =
     (case jwt_decode E (jwt_secret E) token now of
        None \<Rightarrow> None
      | Some payload \<Rightarrow>
          if dict_get payload ''typ'' \<noteq> Some (JStr ''access'') then None
          else (case (dict_get payload ''sub'', dict_get payload ''iat'', dict_get payload ''exp'') of
                  (Some (JStr sub), Some (JInt iat), Some (JInt ex)) \<Rightarrow>
                    Some \<lparr>cl_user = sub,
                          cl_session = (case dict_get payload ''sid'' of Some (JStr sid) \<Rightarrow> sid | _ \<Rightarrow> []),
                          cl_issued_at = iat * second_us, cl_expires_at = ex * second_us\<rparr>
                | _ \<Rightarrow> None))"

definition issue_refresh_token :: "env \<Rightarrow> (string \<times> string) tx" where
  "issue_refresh_token E =
     tx_bind tx_tick (\<lambda>n. tx_return (token_feed E n, hash_refresh_token E (token_feed E n)))"

definition refresh_expiry :: "env \<Rightarrow> int \<Rightarrow> int" where
  "refresh_expiry E now = now + refresh_token_ttl_seconds E * second_us"


section \<open>User repository\<close>

definition phone_format :: "string \<Rightarrow> bool" where
  "phone_format p \<longleftrightarrow> length p = 11 \<and> take 2 p = ''01'' \<and> p ! 2 \<in> set ''3456789'' \<and> list_all is_ascii_digit (drop 3 p)"

definition create_user_row :: "user_row \<Rightarrow> unit tx" where
  "create_user_row u =
     tx_bind (require_constraints (\<lambda>s.
        [(''ck_users_pin_attempts_non_negative'', 0 \<le> u_pin_failed_attempts u),
         (''ck_users_phone_format'', phone_format (u_phone u)),
         (''pk_users'', u_id u \<notin> u_id ` set (users s)),
         (''uq_users_phone'', u_phone u \<notin> u_phone ` set (users s))])) (\<lambda>_.
       tx_modify (\<lambda>s. s\<lparr>users := users s @ [u]\<rparr>))"

definition create_user :: "string \<Rightarrow> string \<Rightarrow> string \<Rightarrow> string \<Rightarrow> string \<Rightarrow> int \<Rightarrow> unit tx" where
  "create_user user_id phone display_name password_hash pin_hash now =
     create_user_row \<lparr>u_id = user_id, u_phone = phone, u_display_name = display_name,
       u_password_hash = password_hash, u_pin_hash = pin_hash, u_pin_failed_attempts = 0,
       u_pin_locked_until = None, u_status = UserActive, u_created_at = now, u_updated_at = now\<rparr>"

definition get_user_by_phone :: "string \<Rightarrow> user_row option tx" where
  "get_user_by_phone phone =
     tx_bind (tx_gets (\<lambda>s. filter (\<lambda>u. u_phone u = phone) (users s))) (\<lambda>rs. tx_lift (one_or_none rs))"

definition get_user_by_id :: "string \<Rightarrow> user_row option tx" where
  "get_user_by_id user_id = tx_gets (\<lambda>s. sql_get u_id user_id (users s))"

definition lock_user :: "string \<Rightarrow> user_row option tx" where
  "lock_user user_id =
     tx_bind (tx_gets (\<lambda>s. filter (\<lambda>u. u_id u = user_id) (users s))) (\<lambda>rs. tx_lift (one_or_none rs))"

definition update_user :: "string \<Rightarrow> (user_row \<Rightarrow> user_row) \<Rightarrow> unit tx" where
  "update_user user_id f =
     tx_modify (\<lambda>s. s\<lparr>users := sql_update (\<lambda>u. u_id u = user_id)
       (\<lambda>u. (f u)\<lparr>u_updated_at := txn_now s\<rparr>) (users s)\<rparr>)"

definition record_pin_failure :: "string \<Rightarrow> int \<Rightarrow> int option \<Rightarrow> unit tx" where
  "record_pin_failure user_id attempts locked_until =
     update_user user_id (\<lambda>u. u\<lparr>u_pin_failed_attempts := attempts, u_pin_locked_until := locked_until\<rparr>)"

definition reset_pin_failures :: "string \<Rightarrow> unit tx" where
  "reset_pin_failures user_id =
     update_user user_id (\<lambda>u. u\<lparr>u_pin_failed_attempts := 0, u_pin_locked_until := None\<rparr>)"

definition update_password_hash :: "string \<Rightarrow> string \<Rightarrow> unit tx" where
  "update_password_hash user_id h = update_user user_id (\<lambda>u. u\<lparr>u_password_hash := h\<rparr>)"

definition set_user_status :: "string \<Rightarrow> user_status \<Rightarrow> nat tx" where
  "set_user_status user_id st =
     tx_bind (tx_gets (\<lambda>s. sql_rowcount (\<lambda>u. u_id u = user_id) (users s))) (\<lambda>n.
     tx_bind (update_user user_id (\<lambda>u. u\<lparr>u_status := st\<rparr>)) (\<lambda>_. tx_return n))"

definition search_user :: "string \<Rightarrow> string \<Rightarrow> dict option tx" where
  "search_user phone exclude_user_id =
     tx_bind (tx_gets (\<lambda>s. filter (\<lambda>u. u_phone u = phone \<and> u_id u \<noteq> exclude_user_id
                                  \<and> u_status u = UserActive) (users s))) (\<lambda>rs.
     tx_bind (tx_lift (one_or_none rs)) (\<lambda>r. tx_return (map_option (\<lambda>u.
       [(''userId'', JStr (u_id u)), (''displayName'', JStr (u_display_name u)),
        (''phone'', JStr (u_phone u))]) r)))"


section \<open>Session repository\<close>

definition create_session ::
  "string \<Rightarrow> string \<Rightarrow> string \<Rightarrow> int \<Rightarrow> int \<Rightarrow> string option \<Rightarrow> string option \<Rightarrow> unit tx" where
  "create_session session_id user_id token_hash expires_at now user_agent ip_address =
     tx_bind (require_constraints (\<lambda>s.
        [(''pk_sessions'', session_id \<notin> s_id ` set (login_sessions s)),
         (''uq_sessions_refresh_token_hash'', token_hash \<notin> s_refresh_token_hash ` set (login_sessions s)),
         (''fk_sessions_user_id'', user_id \<in> u_id ` set (users s))])) (\<lambda>_.
       tx_modify (\<lambda>s. s\<lparr>login_sessions := login_sessions s @
         [\<lparr>s_id = session_id, s_user_id = user_id, s_refresh_token_hash = token_hash,
           s_rotated_to_id = None, s_issued_at = now, s_expires_at = expires_at, s_revoked_at = None,
           s_user_agent = (case user_agent of None \<Rightarrow> None | Some a \<Rightarrow> if a = [] then None else Some (take 200 a)),
           s_ip_address = ip_address\<rparr>]\<rparr>))"

definition get_session_by_token_hash :: "string \<Rightarrow> session_row option tx" where
  "get_session_by_token_hash h =
     tx_bind (tx_gets (\<lambda>s. filter (\<lambda>x. s_refresh_token_hash x = h) (login_sessions s)))
       (\<lambda>rs. tx_lift (one_or_none rs))"

definition revoke_session :: "string \<Rightarrow> int \<Rightarrow> nat tx" where
  "revoke_session session_id now =
     tx_bind (tx_gets (\<lambda>s. sql_rowcount (\<lambda>x. s_id x = session_id \<and> s_revoked_at x = None)
                              (login_sessions s))) (\<lambda>n.
     tx_bind (tx_modify (\<lambda>s. s\<lparr>login_sessions :=
        sql_update (\<lambda>x. s_id x = session_id \<and> s_revoked_at x = None)
          (\<lambda>x. x\<lparr>s_revoked_at := Some now\<rparr>) (login_sessions s)\<rparr>)) (\<lambda>_. tx_return n))"

definition revoke_all_for_user :: "string \<Rightarrow> int \<Rightarrow> unit tx" where
  "revoke_all_for_user user_id now =
     tx_modify (\<lambda>s. s\<lparr>login_sessions :=
        sql_update (\<lambda>x. s_user_id x = user_id \<and> s_revoked_at x = None)
          (\<lambda>x. x\<lparr>s_revoked_at := Some now\<rparr>) (login_sessions s)\<rparr>)"

definition mark_rotated :: "string \<Rightarrow> string \<Rightarrow> int \<Rightarrow> unit tx" where
  "mark_rotated session_id successor_id now =
     tx_bind (require_constraints (\<lambda>s.
        [(''fk_sessions_rotated_to_id'',
            (\<forall>x \<in> set (login_sessions s). s_id x \<noteq> session_id)
            \<or> successor_id \<in> s_id ` set (login_sessions s))])) (\<lambda>_.
     tx_modify (\<lambda>s. s\<lparr>login_sessions := sql_update (\<lambda>x. s_id x = session_id)
          (\<lambda>x. x\<lparr>s_rotated_to_id := Some successor_id, s_revoked_at := Some now\<rparr>) (login_sessions s)\<rparr>))"


section \<open>Authentication service\<close>

record auth_tokens =
  at_access :: string
  at_refresh :: string
  at_expires_in :: int

record registered_user =
  ru_user :: string
  ru_account :: string
  ru_display_name :: string
  ru_phone :: string
  ru_tokens :: auth_tokens

definition start_session ::
  "env \<Rightarrow> string \<Rightarrow> int \<Rightarrow> string option \<Rightarrow> string option \<Rightarrow> auth_tokens tx" where
  "start_session E user_id now user_agent ip_address =
     tx_bind (fresh_ulid E) (\<lambda>session_id.
     tx_bind (issue_refresh_token E) (\<lambda>(raw, token_hash).
     tx_bind (create_session session_id user_id token_hash (refresh_expiry E now) now user_agent ip_address) (\<lambda>_.
       tx_return \<lparr>at_access = issue_access_token E user_id session_id now, at_refresh = raw,
                  at_expires_in = access_token_ttl_seconds E\<rparr>)))"

definition account_number_for :: "string \<Rightarrow> string" where
  "account_number_for user_id = ''MM'' @ drop (length user_id - 10) user_id"

text \<open>The insert of a new user; a violated constraint becomes the duplicate-phone conflict.\<close>

fun duplicate_user :: "exn \<Rightarrow> unit tx" where
  "duplicate_user (IntegrityError c) = tx_raise (app_error ConflictError)"
| "duplicate_user e = tx_raise e"

definition register ::
  "env \<Rightarrow> string \<Rightarrow> string \<Rightarrow> string \<Rightarrow> string \<Rightarrow> string option \<Rightarrow> string option \<Rightarrow> string option
   \<Rightarrow> registered_user tx" where
  "register E phone display_name password pin request_id user_agent ip_address =
     tx_bind (clock_now E) (\<lambda>now.
     tx_bind (fresh_ulid E) (\<lambda>user_id.
     tx_bind (hash_secret E password) (\<lambda>password_hash.
     tx_bind (hash_secret E pin) (\<lambda>pin_hash.
     tx_bind (tx_catch (create_user user_id phone display_name password_hash pin_hash now)
                duplicate_user) (\<lambda>_.
     tx_bind (open_account E user_id (mk_money (opening_balance_minor E) BDT)
                (account_number_for user_id) now request_id) (\<lambda>account_id.
     tx_bind (start_session E user_id now user_agent ip_address) (\<lambda>tokens.
       tx_return \<lparr>ru_user = user_id, ru_account = account_id, ru_display_name = display_name,
                  ru_phone = phone, ru_tokens = tokens\<rparr>)))))))"

definition login ::
  "env \<Rightarrow> string \<Rightarrow> string \<Rightarrow> string option \<Rightarrow> string option \<Rightarrow> (string \<times> auth_tokens) tx" where
  "login E phone password user_agent ip_address =
     tx_bind (clock_now E) (\<lambda>now.
     tx_bind (get_user_by_phone phone) (\<lambda>found.
       case found of
         None \<Rightarrow> tx_bind (hash_secret E password) (\<lambda>_. tx_raise (app_error AuthenticationError))
       | Some user \<Rightarrow>
           tx_bind (tx_unless (argon2_verify E (u_password_hash user) password)
              (app_error AuthenticationError)) (\<lambda>_.
           tx_bind (tx_unless (u_status user = UserActive) (app_error AuthenticationError)) (\<lambda>_.
           tx_bind (if argon2_needs_rehash E (u_password_hash user)
                    then tx_bind (hash_secret E password) (\<lambda>h. update_password_hash (u_id user) h)
                    else tx_return ()) (\<lambda>_.
           tx_bind (start_session E (u_id user) now user_agent ip_address) (\<lambda>tokens.
             tx_return (u_id user, tokens)))))))"

definition refresh ::
  "env \<Rightarrow> string \<Rightarrow> string option \<Rightarrow> string option \<Rightarrow> auth_tokens tx" where
  "refresh E refresh_token user_agent ip_address =
     tx_bind (clock_now E) (\<lambda>now.
     tx_bind (get_session_by_token_hash (hash_refresh_token E refresh_token)) (\<lambda>found.
       case found of
         None \<Rightarrow> tx_raise (app_error AuthenticationError)
       | Some record \<Rightarrow>
           if s_revoked_at record \<noteq> None
           then tx_bind (revoke_all_for_user (s_user_id record) now)
                  (\<lambda>_. tx_raise (app_error AuthenticationError))
           else
             tx_bind (tx_unless (now < s_expires_at record) (app_error AuthenticationError)) (\<lambda>_.
             tx_bind (fresh_ulid E) (\<lambda>successor_id.
             tx_bind (issue_refresh_token E) (\<lambda>(raw, token_hash).
             tx_bind (create_session successor_id (s_user_id record) token_hash (refresh_expiry E now) now
                        user_agent ip_address) (\<lambda>_.
             tx_bind (mark_rotated (s_id record) successor_id now) (\<lambda>_.
               tx_return \<lparr>at_access = issue_access_token E (s_user_id record) successor_id now,
                          at_refresh = raw, at_expires_in = access_token_ttl_seconds E\<rparr>)))))))"

definition logout :: "env \<Rightarrow> string \<Rightarrow> unit tx" where
  "logout E refresh_token =
     tx_bind (clock_now E) (\<lambda>now.
     tx_bind (get_session_by_token_hash (hash_refresh_token E refresh_token)) (\<lambda>found.
       case found of
         None \<Rightarrow> tx_return ()
       | Some record \<Rightarrow> tx_bind (revoke_session (s_id record) now) (\<lambda>_. tx_return ())))"

definition check_pin_lock :: "user_row \<Rightarrow> int \<Rightarrow> exn + unit" where
  "check_pin_lock user now =
     (case u_pin_locked_until user of
        None \<Rightarrow> Inr ()
      | Some until \<Rightarrow> chk_unless (until \<le> now) (AppError PinLockedError [(''lockedUntil'', JTime until)]))"

definition verify_pin :: "env \<Rightarrow> string \<Rightarrow> string \<Rightarrow> unit tx" where
  "verify_pin E user_id pin =
     tx_bind (clock_now E) (\<lambda>now.
     tx_bind (lock_user user_id) (\<lambda>found.
       case found of
         None \<Rightarrow> tx_raise (app_error AuthenticationError)
       | Some user \<Rightarrow>
           tx_bind (tx_lift (check_pin_lock user now)) (\<lambda>_.
             if argon2_verify E (u_pin_hash user) pin
             then (if u_pin_failed_attempts user \<noteq> 0 then reset_pin_failures user_id else tx_return ())
             else
               tx_bind (tx_return (u_pin_failed_attempts user + 1)) (\<lambda>attempts.
               tx_bind (tx_return (if pin_max_attempts E \<le> attempts
                                   then Some (now + pin_lockout_seconds E * second_us) else None)) (\<lambda>locked_until.
               tx_bind (record_pin_failure user_id attempts locked_until) (\<lambda>_.
                 case locked_until of
                   Some until \<Rightarrow> tx_raise (AppError PinLockedError [(''lockedUntil'', JTime until)])
                 | None \<Rightarrow> tx_raise (AppError ValidationError
                     [(''remainingAttempts'', JInt (pin_max_attempts E - attempts))])))))))"

text \<open>
  The transaction body of \<open>run_pin_protected\<close>: a wrong or locked PIN is returned as a value, so that
  the attempt counter commits; the caller raises it after the commit.
\<close>

fun pin_outcome :: "exn \<Rightarrow> (exn + unit) tx" where
  "pin_outcome (AppError ValidationError d) = tx_return (Inl (AppError ValidationError d))"
| "pin_outcome (AppError PinLockedError d) = tx_return (Inl (AppError PinLockedError d))"
| "pin_outcome e = tx_raise e"

definition pin_protected :: "env \<Rightarrow> string \<Rightarrow> string \<Rightarrow> 'a tx \<Rightarrow> (exn + 'a) tx" where
  "pin_protected E user_id pin operation =
     tx_bind (tx_catch (tx_bind (verify_pin E user_id pin) (\<lambda>_. tx_return (Inr ()))) pin_outcome) (\<lambda>checked.
       case checked of
         Inl e \<Rightarrow> tx_return (Inl e)
       | Inr _ \<Rightarrow> tx_bind operation (\<lambda>x. tx_return (Inr x)))"

lemma evolves_identity_ops [tx_rel_intros]:
  "tx_rel evolves (hash_secret E sec)" "tx_rel evolves (issue_refresh_token E)"
  "tx_rel evolves (create_user_row u)" "tx_rel evolves (create_user i ph nm h1 h2 now)"
  "tx_rel evolves (get_user_by_phone ph)" "tx_rel evolves (get_user_by_id i)" "tx_rel evolves (lock_user i)"
  "tx_rel evolves (update_user i f)" "tx_rel evolves (record_pin_failure i att lk)"
  "tx_rel evolves (reset_pin_failures i)" "tx_rel evolves (update_password_hash i h1)"
  "tx_rel evolves (set_user_status i st)" "tx_rel evolves (search_user ph i)"
  "tx_rel evolves (create_session sid i h1 ex now ua ip)" "tx_rel evolves (get_session_by_token_hash h1)"
  "tx_rel evolves (revoke_session sid now)" "tx_rel evolves (revoke_all_for_user i now)"
  "tx_rel evolves (mark_rotated sid su now)"
  unfolding hash_secret_def issue_refresh_token_def create_user_row_def create_user_def get_user_by_phone_def
    get_user_by_id_def lock_user_def update_user_def record_pin_failure_def reset_pin_failures_def
    update_password_hash_def set_user_status_def search_user_def create_session_def
    get_session_by_token_hash_def revoke_session_def revoke_all_for_user_def mark_rotated_def
  by (intro evolves_frame tx_frame_bind tx_frame_basic tx_frame_modify frame_require tx_frame_tick; simp)+

lemma rel_catch_reraise:
  assumes "tx_rel R m" "\<And>e s. \<exists>e'. h e s = (Inl e', s)"
  shows "tx_rel R (tx_catch m h)"
proof (rule tx_relI)
  fix s x t
  assume run: "tx_catch m h s = (Inr x, t)"
  obtain r u where m: "m s = (r, u)" by (cases "m s")
  show "R s t"
  proof (cases r)
    case (Inl e)
    with run m assms(2) [of e u] show ?thesis by (auto simp: tx_catch_def)
  next
    case (Inr y)
    with run m tx_relD [OF assms(1)] show ?thesis by (simp add: tx_catch_def)
  qed
qed

lemma duplicate_user_raises: "\<exists>e'. duplicate_user e s = (Inl e', s)"
  by (cases e) (simp_all add: tx_run)

lemma frame_verify_pin:
  assumes "\<And>s n. v (s\<lparr>tick := n\<rparr>) = v s" "\<And>s x. v (s\<lparr>users := x\<rparr>) = v s"
  shows "tx_frame v (verify_pin E uid pin)"
  unfolding verify_pin_def lock_user_def record_pin_failure_def reset_pin_failures_def update_user_def
  by (auto intro!: tx_frame_bind tx_frame_basic tx_frame_modify tx_frame_feeds simp: assms split: option.splits)

lemma evolves_start_session [tx_rel_intros]: "tx_rel evolves (start_session E u now ua ip)"
  unfolding start_session_def by (intro evo.rel_rules tx_rel_intros)

lemma identity_evolves [tx_rel_intros]:
  "tx_rel evolves (register E ph nm pw pin rq ua ip)"
  "tx_rel evolves (login E ph pw ua ip)"
  "tx_rel evolves (refresh E tok ua ip)"
  "tx_rel evolves (logout E tok)"
  "tx_rel evolves (verify_pin E uid pin)"
  unfolding register_def login_def refresh_def logout_def
  by (intro evo.rel_rules tx_rel_intros rel_catch_reraise duplicate_user_raises
      evolves_frame [OF frame_verify_pin]; simp)+

lemma evolves_pin_protected [tx_rel_intros]:
  assumes "tx_rel evolves m"
  shows "tx_rel evolves (pin_protected E uid pin m)"
proof -
  have checked: "tx_rel evolves (tx_catch (tx_bind (verify_pin E uid pin) (\<lambda>_. tx_return (Inr ()))) pin_outcome)"
  proof (rule evo.rel_catch)
    have "tx_frame history_of (tx_bind (verify_pin E uid pin) (\<lambda>_. tx_return (Inr ())))"
      by (intro tx_frame_bind frame_verify_pin tx_frame_basic; simp)
    then show "evolves s t" if "tx_bind (verify_pin E uid pin) (\<lambda>_. tx_return (Inr ())) s = (Inl e, t)" for s e t
      using that evolves_same_history unfolding tx_frame_def by (metis snd_conv)
    show "tx_rel evolves (tx_bind (verify_pin E uid pin) (\<lambda>_. tx_return (Inr ())))"
      by (intro evo.rel_rules tx_rel_intros)
    show "tx_rel evolves (pin_outcome e)" for e
      by (cases e rule: pin_outcome.cases) (auto intro: evo.rel_rules)
  qed
  show ?thesis
    unfolding pin_protected_def
    by (rule evo.rel_bind [OF checked]) (auto intro!: evo.rel_rules assms split: sum.splits)
qed



section \<open>The PIN gate\<close>

definition users_keyed :: "db \<Rightarrow> bool" where
  "users_keyed s \<longleftrightarrow> keys_distinct u_id (users s)"

lemma filter_key_unique:
  "keys_distinct k t \<Longrightarrow> filter (\<lambda>r. k r = v) t = (case sql_get k v t of None \<Rightarrow> [] | Some r \<Rightarrow> [r])"
proof (induction t)
  case (Cons a t)
  show ?case
  proof (cases "k a = v")
    case True
    with Cons.prems have "filter (\<lambda>r. k r = v) t = []" by (auto simp: filter_empty_conv image_iff)
    with True show ?thesis by simp
  next
    case False
    with Cons show ?thesis by simp
  qed
qed simp

lemma lock_user_run:
  "users_keyed s \<Longrightarrow> lock_user uid s = (Inr (sql_get u_id uid (users s)), s)"
  by (simp add: lock_user_def tx_bind_app tx_run users_keyed_def filter_key_unique split: option.splits)

text \<open>What a PIN check does, case by case, on the row of the user.\<close>

definition failed_pin :: "env \<Rightarrow> int \<Rightarrow> user_row \<Rightarrow> user_row" where
  "failed_pin E now u =
     u\<lparr>u_pin_failed_attempts := u_pin_failed_attempts u + 1,
       u_pin_locked_until := (if pin_max_attempts E \<le> u_pin_failed_attempts u + 1
                              then Some (now + pin_lockout_seconds E * second_us) else None)\<rparr>"

definition pin_locked :: "int \<Rightarrow> user_row \<Rightarrow> bool" where
  "pin_locked now u \<longleftrightarrow> (case u_pin_locked_until u of None \<Rightarrow> False | Some until \<Rightarrow> now < until)"

lemma verify_pin_locked:
  assumes "users_keyed s" "sql_get u_id uid (users s) = Some u" "pin_locked (clock_feed E (tick s)) u"
  shows "\<exists>d. verify_pin E uid pin s = (Inl (AppError PinLockedError d), s\<lparr>tick := Suc (tick s)\<rparr>)"
proof -
  have "users_keyed (s\<lparr>tick := Suc (tick s)\<rparr>)" using assms(1) by (simp add: users_keyed_def)
  with assms(2,3) show ?thesis
    by (auto simp: verify_pin_def clock_now_def tx_tick_def tx_bind_app tx_run lock_user_run
        check_pin_lock_def pin_locked_def chk_unless_def split: option.splits)
qed

lemma verify_pin_wrong:
  assumes "users_keyed s" "sql_get u_id uid (users s) = Some u" "\<not> pin_locked (clock_feed E (tick s)) u"
    and "\<not> argon2_verify E (u_pin_hash u) pin"
  shows "\<exists>c d. c \<in> {PinLockedError, ValidationError} \<and> verify_pin E uid pin s
    = (Inl (AppError c d), s\<lparr>tick := Suc (tick s), users := sql_update (\<lambda>x. u_id x = uid)
        (\<lambda>x. (x\<lparr>u_pin_failed_attempts := u_pin_failed_attempts (failed_pin E (clock_feed E (tick s)) u),
                 u_pin_locked_until := u_pin_locked_until (failed_pin E (clock_feed E (tick s)) u),
                 u_updated_at := txn_now s\<rparr>)) (users s)\<rparr>)"
proof -
  have "users_keyed (s\<lparr>tick := Suc (tick s)\<rparr>)" using assms(1) by (simp add: users_keyed_def)
  with assms(2-4) show ?thesis
    by (auto simp: verify_pin_def clock_now_def tx_tick_def tx_bind_app tx_run lock_user_run
        check_pin_lock_def pin_locked_def record_pin_failure_def update_user_def failed_pin_def
        split: option.splits)
qed

lemma verify_pin_ok:
  assumes "users_keyed s" "verify_pin E uid pin s = (Inr r, t)"
  shows "\<exists>u. sql_get u_id uid (users s) = Some u \<and> \<not> pin_locked (clock_feed E (tick s)) u
    \<and> argon2_verify E (u_pin_hash u) pin"
proof -
  have k: "users_keyed (s\<lparr>tick := Suc (tick s)\<rparr>)" using assms(1) by (simp add: users_keyed_def)
  from assms(2) k obtain u where u: "sql_get u_id uid (users s) = Some u"
    by (auto simp: verify_pin_def clock_now_def tx_tick_def tx_bind_app tx_run lock_user_run split: option.splits)
  moreover have "\<not> pin_locked (clock_feed E (tick s)) u"
    using verify_pin_locked [OF assms(1) u, of E pin] assms(2) by auto
  moreover have "argon2_verify E (u_pin_hash u) pin"
    using verify_pin_wrong [OF assms(1) u, of E pin] assms(2) calculation(2) by auto
  ultimately show ?thesis by blast
qed

text \<open>
  A protected command runs only for the right PIN of an unlocked user.  When it commits a
  result, the stored PIN hash verified and the user was not locked; otherwise the command is not run
  at all: whatever it is, the outcome is the same refusal and neither books nor history change.
\<close>

lemma pin_gate:
  assumes "users_keyed s" "pin_protected E uid pin m s = (Inr r, t)"
  shows "(\<exists>u. sql_get u_id uid (users s) = Some u \<and> \<not> pin_locked (clock_feed E (tick s)) u
            \<and> argon2_verify E (u_pin_hash u) pin)
         \<and> (\<exists>x. r = Inr x)
       \<or> (\<exists>c d. r = Inl (AppError c d) \<and> c \<in> {PinLockedError, ValidationError})
         \<and> history_of t = history_of s
         \<and> (\<forall>m' :: 'b tx. pin_protected E uid pin m' s = (Inr (Inl (projl r)), t))"
proof (cases "fst (verify_pin E uid pin s)")
  case (Inr z)
  then obtain u where "verify_pin E uid pin s = (Inr z, u)" by (cases "verify_pin E uid pin s") auto
  with verify_pin_ok [OF assms(1) this] assms(2) show ?thesis
    by (auto simp: pin_protected_def tx_catch_def tx_bind_app tx_run split: prod.splits sum.splits)
next
  case (Inl e)
  then obtain u where v: "verify_pin E uid pin s = (Inl e, u)" by (cases "verify_pin E uid pin s") auto
  have "history_of u = history_of s"
    using frame_verify_pin [of history_of E uid pin] v unfolding tx_frame_def by (metis history_of_ignores(1,9) snd_conv)
  with v assms(2) show ?thesis
    by (cases e rule: pin_outcome.cases)
       (auto simp: pin_protected_def tx_catch_def tx_bind_app tx_run)
qed

lemma wrong_guess:
  assumes "users_keyed s" "sql_get u_id uid (users s) = Some u" "\<not> pin_locked (clock_feed E (tick s)) u"
    and "\<not> argon2_verify E (u_pin_hash u) pin"
  shows "\<exists>e t u'. pin_protected E uid pin m s = (Inr (Inl e), t) \<and> users_keyed t \<and> tick t = Suc (tick s)
    \<and> sql_get u_id uid (users t) = Some u' \<and> u_pin_hash u' = u_pin_hash u
    \<and> u_pin_failed_attempts u' = u_pin_failed_attempts u + 1
    \<and> u_pin_locked_until u' = u_pin_locked_until (failed_pin E (clock_feed E (tick s)) u)"
proof -
  let ?f = "failed_pin E (clock_feed E (tick s)) u"
  let ?g = "\<lambda>x. x\<lparr>u_pin_failed_attempts := u_pin_failed_attempts ?f,
       u_pin_locked_until := u_pin_locked_until ?f, u_updated_at := txn_now s\<rparr>"
  let ?t = "s\<lparr>tick := Suc (tick s), users := sql_update (\<lambda>x. u_id x = uid) ?g (users s)\<rparr>"
  obtain c d where c: "c \<in> {PinLockedError, ValidationError}"
    and v: "verify_pin E uid pin s = (Inl (AppError c d), ?t)"
    using verify_pin_wrong [OF assms] by blast
  from c v have run: "pin_protected E uid pin m s = (Inr (Inl (AppError c d)), ?t)"
    by (auto simp: pin_protected_def tx_catch_def tx_bind_app tx_run)
  have key: "users_keyed ?t" using assms(1) by (simp add: users_keyed_def map_sql_update_same)
  have "u_id u = uid" using sql_get_Some [OF assms(2)] by simp
  then have "sql_get u_id uid (users ?t) = Some (?g u)"
    using assms(2) by (simp add: sql_get_update_same_key)
  with run key show ?thesis by (force simp: failed_pin_def)
qed

text \<open>
  C33: guessing a PIN is cut off.  From an unlocked user with \<open>a\<close> recorded failures, any
  \<open>pin_max_attempts - a\<close> wrong guesses in a row are all refused and leave the user locked for the
  lockout time after the last of them; until then every further attempt, even with the right PIN, is
  refused without running the command.
\<close>

theorem pin_lockout:
  assumes "users_keyed s" "sql_get u_id uid (users s) = Some u" "u_pin_locked_until u = None"
    and "\<And>p. p \<in> set pins \<Longrightarrow> \<not> argon2_verify E (u_pin_hash u) p"
    and "pins \<noteq> []" "u_pin_failed_attempts u + int (length pins) = pin_max_attempts E"
  shows "\<exists>rs t until. tx_mapM (\<lambda>p. pin_protected E uid p m) pins s = (Inr rs, t)
    \<and> list_all isl rs
    \<and> until = clock_feed E (tick s + length pins - 1) + pin_lockout_seconds E * second_us
    \<and> (\<forall>s' pin. users s' = users t \<and> clock_feed E (tick s') < until \<longrightarrow>
         (\<exists>d. pin_protected E uid pin m' s' = (Inr (Inl (AppError PinLockedError d)), s'\<lparr>tick := Suc (tick s')\<rparr>)))"
  using assms
proof (induction pins arbitrary: s u)
  case (Cons p ps)
  note IH = Cons.IH and prems = Cons.prems
  have notlocked: "\<not> pin_locked (clock_feed E (tick s)) u" using prems(3) by (simp add: pin_locked_def)
  from wrong_guess [OF prems(1,2) notlocked, of p m] prems(4) obtain e t u' where
    run: "pin_protected E uid p m s = (Inr (Inl e), t)" and t: "users_keyed t" "tick t = Suc (tick s)"
      "sql_get u_id uid (users t) = Some u'" "u_pin_hash u' = u_pin_hash u"
      "u_pin_failed_attempts u' = u_pin_failed_attempts u + 1"
      "u_pin_locked_until u' = u_pin_locked_until (failed_pin E (clock_feed E (tick s)) u)" by auto
  show ?case
  proof (cases ps)
    case Nil
    let ?until = "clock_feed E (tick s) + pin_lockout_seconds E * second_us"
    have lock: "u_pin_locked_until u' = Some ?until"
      using t(6) prems(6) Nil by (simp add: failed_pin_def)
    have "\<exists>d. pin_protected E uid pin m' s' = (Inr (Inl (AppError PinLockedError d)), s'\<lparr>tick := Suc (tick s')\<rparr>)"
      if "users s' = users t" "clock_feed E (tick s') < ?until" for s' pin
      using verify_pin_locked [of s' uid u' E pin] that t(1,3) lock
      by (auto simp: users_keyed_def pin_locked_def pin_protected_def tx_catch_def tx_bind_app tx_run)
    with run Nil show ?thesis by (auto simp: tx_bind_app tx_run)
  next
    case (Cons q qs)
    have "u_pin_locked_until u' = None"
      using t(6) prems(6) Cons by (simp add: failed_pin_def)
    from IH [OF t(1,3) this] prems(4,6) t(4,5) Cons obtain rs t' until where
      "tx_mapM (\<lambda>p. pin_protected E uid p m) ps t = (Inr rs, t')" "list_all isl rs"
      "until = clock_feed E (tick t + length ps - 1) + pin_lockout_seconds E * second_us"
      "\<forall>s' pin. users s' = users t' \<and> clock_feed E (tick s') < until \<longrightarrow>
         (\<exists>d. pin_protected E uid pin m' s' = (Inr (Inl (AppError PinLockedError d)), s'\<lparr>tick := Suc (tick s')\<rparr>))"
      by auto
    with run t(2) Cons show ?thesis
      by (intro exI [of _ "Inl e # rs"] exI [of _ t'] exI [of _ until]) (simp add: tx_bind_app tx_run)
  qed
qed simp

theorem pin_lockout_witness:
  "\<exists>rs t until. tx_mapM (\<lambda>p. pin_protected demo_env ''alice'' p (tx_return ())) [''1'', ''2'', ''3'', ''4'', ''5''] demo_db
      = (Inr rs, t) \<and> list_all isl rs \<and> until = 904000000
    \<and> (\<forall>s' pin. users s' = users t \<and> clock_feed demo_env (tick s') < until \<longrightarrow>
         (\<exists>d. pin_protected demo_env ''alice'' pin (execute_transfer demo_env demo_grant) s'
            = (Inr (Inl (AppError PinLockedError d)), s'\<lparr>tick := Suc (tick s')\<rparr>)))"
  using pin_lockout [of demo_db "''alice''" "demo_user ''alice'' ''01711111111''"
      "[''1'', ''2'', ''3'', ''4'', ''5'']" demo_env "tx_return ()" "execute_transfer demo_env demo_grant"]
  by (auto simp: users_keyed_def demo_db_def demo_user_def demo_env_def)



section \<open>Refresh tokens\<close>

lemma one_or_none_Some: "one_or_none rs = Inr (Some r) \<longleftrightarrow> rs = [r]"
  by (cases rs rule: one_or_none.cases) auto

lemma filter_sql_update_commute:
  "(\<And>r. Q (f r) = Q r) \<Longrightarrow> filter Q (sql_update P f t) = sql_update P f (filter Q t)"
  by (induction t) auto

lemma refresh_okD:
  assumes "refresh E tok ua ip s = (Inr tk, t)"
  shows "\<exists>rw succ n. filter (\<lambda>x. s_refresh_token_hash x = hash_refresh_token E tok) (login_sessions s) = [rw]
    \<and> s_revoked_at rw = None \<and> clock_feed E (tick s) < s_expires_at rw
    \<and> s_id succ \<notin> s_id ` set (login_sessions s) \<and> s_user_id succ = s_user_id rw
    \<and> s_revoked_at succ = None \<and> s_refresh_token_hash succ = hash_refresh_token E (at_refresh tk)
    \<and> s_refresh_token_hash succ \<notin> s_refresh_token_hash ` set (login_sessions s)
    \<and> t = s\<lparr>tick := n, login_sessions := sql_update (\<lambda>x. s_id x = s_id rw)
         (\<lambda>x. x\<lparr>s_rotated_to_id := Some (s_id succ), s_revoked_at := Some (clock_feed E (tick s))\<rparr>)
         (login_sessions s @ [succ])\<rparr>"
proof -
  let ?now = "clock_feed E (tick s)"
  obtain rw successor_id raw h u1 u2 u3 u4 where
    get: "filter (\<lambda>x. s_refresh_token_hash x = hash_refresh_token E tok) (login_sessions s) = [rw]"
    and live: "s_revoked_at rw = None" "?now < s_expires_at rw"
    and ul: "fresh_ulid E (s\<lparr>tick := Suc (tick s)\<rparr>) = (Inr successor_id, u1)"
    and ir: "issue_refresh_token E u1 = (Inr (raw, h), u2)"
    and cs: "create_session successor_id (s_user_id rw) h (refresh_expiry E ?now) ?now ua ip u2 = (Inr (), u3)"
    and mr: "mark_rotated (s_id rw) successor_id ?now u3 = (Inr (), u4)"
    and fin: "t = u4" "tk = \<lparr>at_access = issue_access_token E (s_user_id rw) successor_id ?now,
       at_refresh = raw, at_expires_in = access_token_ttl_seconds E\<rparr>"
    using assms unfolding refresh_def get_session_by_token_hash_def
    by (auto simp: tx_okD clock_now_okD one_or_none_Some split: option.splits if_splits prod.splits)
  have "u1 = s\<lparr>tick := Suc (Suc (tick s))\<rparr>" using ul by (auto simp: fresh_ulid_okD)
  moreover have "u2 = u1\<lparr>tick := Suc (tick u1)\<rparr>" "h = hash_refresh_token E raw"
    using ir by (auto simp: issue_refresh_token_def tx_okD tx_tick_okD)
  ultimately have s2: "u2 = s\<lparr>tick := Suc (Suc (Suc (tick s)))\<rparr>" "h = hash_refresh_token E raw" by simp_all
  define succ where "succ = \<lparr>s_id = successor_id, s_user_id = s_user_id rw, s_refresh_token_hash = h,
     s_rotated_to_id = None, s_issued_at = ?now, s_expires_at = refresh_expiry E ?now, s_revoked_at = None,
     s_user_agent = (case ua of None \<Rightarrow> None | Some a \<Rightarrow> if a = [] then None else Some (take 200 a)),
     s_ip_address = ip\<rparr>"
  have "u3 = u2\<lparr>login_sessions := login_sessions u2 @ [succ]\<rparr>"
    "s_id succ \<notin> s_id ` set (login_sessions s)"
    "s_refresh_token_hash succ \<notin> s_refresh_token_hash ` set (login_sessions s)"
    using cs by (auto simp: create_session_def tx_okD succ_def s2)
  moreover have "t = u3\<lparr>login_sessions := sql_update (\<lambda>x. s_id x = s_id rw)
         (\<lambda>x. x\<lparr>s_rotated_to_id := Some (s_id succ), s_revoked_at := Some ?now\<rparr>) (login_sessions u3)\<rparr>"
    using mr fin by (simp add: mark_rotated_def tx_okD succ_def)
  ultimately show ?thesis
    using get live fin s2
    by (intro exI [of _ rw] exI [of _ succ] exI [of _ "Suc (Suc (Suc (tick s)))"]) (simp add: succ_def)
qed

text \<open>
  A refresh token is used once.  After a successful refresh the presented token is revoked:
  presenting it again, at any time, is refused.  The token handed out in exchange belongs to the same
  user and is live.
\<close>

lemma refresh_rotates:
  assumes "refresh E tok ua ip s = (Inr tk, t)" "login_sessions u = login_sessions t"
  shows "fst (refresh E tok ua' ip' u) = Inl (app_error AuthenticationError)
    \<and> (\<exists>old new. old \<in> set (login_sessions s) \<and> s_refresh_token_hash old = sha256 E tok
       \<and> new \<in> set (login_sessions t) \<and> s_refresh_token_hash new = sha256 E (at_refresh tk)
       \<and> s_user_id new = s_user_id old \<and> s_revoked_at new = None)"
proof -
  from refresh_okD [OF assms(1)] obtain rw succ n where
    get: "filter (\<lambda>x. s_refresh_token_hash x = hash_refresh_token E tok) (login_sessions s) = [rw]"
    and ids: "s_id succ \<notin> s_id ` set (login_sessions s)" "s_user_id succ = s_user_id rw"
      "s_revoked_at succ = None" "s_refresh_token_hash succ = hash_refresh_token E (at_refresh tk)"
      "s_refresh_token_hash succ \<notin> s_refresh_token_hash ` set (login_sessions s)"
    and t: "t = s\<lparr>tick := n, login_sessions := sql_update (\<lambda>x. s_id x = s_id rw)
         (\<lambda>x. x\<lparr>s_rotated_to_id := Some (s_id succ), s_revoked_at := Some (clock_feed E (tick s))\<rparr>)
         (login_sessions s @ [succ])\<rparr>" by blast
  have rw: "rw \<in> set (login_sessions s)" "s_refresh_token_hash rw = hash_refresh_token E tok"
    using filter_eq_ConsD [OF get] by auto
  then have ne: "s_refresh_token_hash succ \<noteq> hash_refresh_token E tok" "s_id succ \<noteq> s_id rw"
    using ids by (metis imageI)+
  let ?g = "\<lambda>x. x\<lparr>s_rotated_to_id := Some (s_id succ), s_revoked_at := Some (clock_feed E (tick s))\<rparr>"
  have "filter (\<lambda>x. s_refresh_token_hash x = hash_refresh_token E tok) (login_sessions t) = [?g rw]"
    using get ne by (simp add: t filter_sql_update_commute)
  then have "fst (refresh E tok ua' ip' u) = Inl (app_error AuthenticationError)"
    by (auto simp: refresh_def clock_now_def tx_tick_def get_session_by_token_hash_def tx_bind_app tx_run
        assms(2) hash_refresh_token_def revoke_all_for_user_def)
  moreover have "\<exists>old new. old \<in> set (login_sessions s) \<and> s_refresh_token_hash old = sha256 E tok
       \<and> new \<in> set (login_sessions t) \<and> s_refresh_token_hash new = sha256 E (at_refresh tk)
       \<and> s_user_id new = s_user_id old \<and> s_revoked_at new = None"
    using rw ids ne by (intro exI [of _ rw] exI [of _ succ]) (simp add: t hash_refresh_token_def)
  ultimately show ?thesis by blast
qed

definition demo_signed_in :: db where
  "demo_signed_in = snd (start_session demo_env ''alice'' 0 None None demo_db)"

end
