(* ===== verification/SafePay.thy ===== *)
theory SafePay
  imports Identity Latch
begin

text \<open>
  Conditional Safe-Pay: \<open>modules/safepay/adapters/persistence/repositories.py\<close> and
  \<open>modules/safepay/application/service.py\<close>.  The buyer's money is held in the escrow account and
  is released to the seller or refunded, once.
\<close>

section \<open>Repository\<close>

definition DELIVERY_CODE_MAX_ATTEMPTS :: int where
  "DELIVERY_CODE_MAX_ATTEMPTS = 5"

definition escrow_row_ok :: "escrow_row \<Rightarrow> (string \<times> bool) list" where
  "escrow_row_ok r =
     [(''ck_safepay_escrows_amount_positive'', 0 < e_amount r),
      (''ck_safepay_escrows_buyer_differs_from_seller'', e_buyer r \<noteq> e_seller r),
      (''ck_safepay_escrows_attempts_non_negative'', 0 \<le> e_code_attempts r),
      (''ck_safepay_escrows_settled_has_settlement_leg'',
         (e_status r \<in> {Released, EscrowRefunded} \<and> e_settlement_transfer r \<noteq> None)
         \<or> (e_status r \<notin> {Released, EscrowRefunded} \<and> e_settlement_transfer r = None))]"

definition insert_escrow :: "escrow_row \<Rightarrow> unit tx" where
  "insert_escrow r =
     tx_bind (require_bigint [e_amount r]) (\<lambda>_.
     tx_bind (require_constraints (\<lambda>s. escrow_row_ok r @
        [(''pk_safepay_escrows'', e_id r \<notin> e_id ` set (safepay_escrows s)),
         (''uq_safepay_escrows_reference'', e_reference r \<notin> e_reference ` set (safepay_escrows s)),
         (''uq_safepay_escrows_hold_transfer_id'', e_hold_transfer r \<notin> e_hold_transfer ` set (safepay_escrows s)),
         (''fk_safepay_escrows_hold_transfer_id'', e_hold_transfer r \<in> t_id ` set (transfers s)),
         (''fk_safepay_escrows_buyer_user_id'', e_buyer r \<in> u_id ` set (users s)),
         (''fk_safepay_escrows_seller_user_id'', e_seller r \<in> u_id ` set (users s)),
         (''uq_safepay_escrows_settlement_transfer_id'',
            e_settlement_transfer r = None \<or> e_settlement_transfer r \<notin> e_settlement_transfer ` set (safepay_escrows s)),
         (''fk_safepay_escrows_settlement_transfer_id'', opt_in (e_settlement_transfer r) (map t_id (transfers s))),
         (''fk_safepay_escrows_resolved_by_user_id'', opt_in (e_resolved_by r) (map u_id (users s)))])) (\<lambda>_.
       tx_modify (\<lambda>s. s\<lparr>safepay_escrows := safepay_escrows s @ [r]\<rparr>)))"

definition create_escrow ::
  "string \<Rightarrow> string \<Rightarrow> string \<Rightarrow> string \<Rightarrow> string \<Rightarrow> int \<Rightarrow> string \<Rightarrow> string option \<Rightarrow> string \<Rightarrow> int \<Rightarrow> unit tx" where
  "create_escrow escrow_id reference hold_transfer buyer seller amount cur description code_hash now =
     insert_escrow \<lparr>e_id = escrow_id, e_reference = reference, e_hold_transfer = hold_transfer,
       e_settlement_transfer = None, e_buyer = buyer, e_seller = seller, e_amount = amount,
       e_currency = cur, e_description = description, e_status = AwaitingShipment,
       e_code_hash = code_hash, e_code_attempts = 0, e_code_locked_until = None,
       e_tracking_number = None, e_courier = None, e_shipped_at = None, e_delivered_at = None,
       e_auto_release_at = None, e_settled_at = None, e_dispute_reason = None, e_disputed_at = None,
       e_resolved_by = None, e_resolution_note = None, e_created_at = now, e_updated_at = now\<rparr>"

definition get_escrow :: "string \<Rightarrow> escrow_row option tx" where
  "get_escrow escrow_id = tx_gets (\<lambda>s. sql_get e_id escrow_id (safepay_escrows s))"

definition lock_escrow :: "string \<Rightarrow> escrow_row option tx" where
  "lock_escrow escrow_id =
     tx_bind (tx_gets (\<lambda>s. filter (\<lambda>r. e_id r = escrow_id) (safepay_escrows s)))
       (\<lambda>rs. tx_lift (one_or_none rs))"

definition find_by_tracking :: "string \<Rightarrow> string \<Rightarrow> escrow_row option tx" where
  "find_by_tracking courier tracking_number =
     tx_gets (\<lambda>s. case sql_order_by_desc e_created_at
         (filter (\<lambda>r. e_courier r = Some courier \<and> e_tracking_number r = Some tracking_number)
            (safepay_escrows s)) of
       [] \<Rightarrow> None | r # _ \<Rightarrow> Some r)"

definition escrow_as_dict :: "escrow_row \<Rightarrow> dict" where
  "escrow_as_dict r =
     [(''escrowId'', JStr (e_id r)), (''reference'', JStr (e_reference r)),
      (''holdTransferId'', JStr (e_hold_transfer r)),
      (''settlementTransferId'', opt_json JStr (e_settlement_transfer r)),
      (''buyerUserId'', JStr (e_buyer r)), (''sellerUserId'', JStr (e_seller r)),
      (''amountMinor'', JInt (e_amount r)), (''currency'', JStr (py_strip (e_currency r))),
      (''description'', opt_json JStr (e_description r)),
      (''status'', JStr (escrow_status_str (e_status r))),
      (''trackingNumber'', opt_json JStr (e_tracking_number r)), (''courier'', opt_json JStr (e_courier r)),
      (''shippedAt'', opt_json JTime (e_shipped_at r)), (''deliveredAt'', opt_json JTime (e_delivered_at r)),
      (''autoReleaseAt'', opt_json JTime (e_auto_release_at r)),
      (''settledAt'', opt_json JTime (e_settled_at r)),
      (''disputeReason'', opt_json JStr (e_dispute_reason r)),
      (''disputedAt'', opt_json JTime (e_disputed_at r)),
      (''resolutionNote'', opt_json JStr (e_resolution_note r)), (''createdAt'', JTime (e_created_at r))]"

text \<open>The join of an escrow with the user rows of its two parties.\<close>

definition escrows_with_parties :: "(escrow_row \<Rightarrow> bool) \<Rightarrow> db \<Rightarrow> (escrow_row \<times> user_row \<times> user_row) list" where
  "escrows_with_parties P s =
     [(e, b, v). e \<leftarrow> safepay_escrows s, b \<leftarrow> users s, v \<leftarrow> users s,
        u_id b = e_buyer e, u_id v = e_seller e, P e]"

definition list_escrows_for_user :: "string \<Rightarrow> nat \<Rightarrow> dict list tx" where
  "list_escrows_for_user user_id limit =
     tx_gets (\<lambda>s. map (\<lambda>(e, b, v).
        [(''escrowId'', JStr (e_id e)), (''reference'', JStr (e_reference e)),
         (''role'', JStr (if e_buyer e = user_id then ''BUYER'' else ''SELLER'')),
         (''counterpartyName'', JStr (if e_buyer e = user_id then u_display_name v else u_display_name b)),
         (''amountMinor'', JInt (e_amount e)), (''currency'', JStr (py_strip (e_currency e))),
         (''description'', opt_json JStr (e_description e)),
         (''status'', JStr (escrow_status_str (e_status e))),
         (''trackingNumber'', opt_json JStr (e_tracking_number e)), (''courier'', opt_json JStr (e_courier e)),
         (''autoReleaseAt'', opt_json JTime (e_auto_release_at e)), (''createdAt'', JTime (e_created_at e))])
       (take limit (sql_order_by_desc (\<lambda>(e, b, v). e_created_at e)
          (escrows_with_parties (\<lambda>e. e_buyer e = user_id \<or> e_seller e = user_id) s))))"

text \<open>\<open>ORDER BY disputed_at ASC, id ASC\<close>; a missing dispute time sorts last and fails to render.\<close>

definition dispute_to_dict :: "escrow_row \<times> user_row \<times> user_row \<Rightarrow> dict tx" where
  "dispute_to_dict = (\<lambda>(e, b, v).
     case e_disputed_at e of
       None \<Rightarrow> tx_raise (PyError ''AttributeError'')
     | Some at \<Rightarrow> tx_return
         [(''escrowId'', JStr (e_id e)), (''reference'', JStr (e_reference e)),
          (''amountMinor'', JInt (e_amount e)), (''currency'', JStr (py_strip (e_currency e))),
          (''description'', opt_json JStr (e_description e)),
          (''reason'', opt_json JStr (e_dispute_reason e)), (''disputedAt'', JTime at),
          (''buyerName'', JStr (u_display_name b)), (''buyerPhone'', JStr (u_phone b)),
          (''sellerName'', JStr (u_display_name v)), (''sellerPhone'', JStr (u_phone v)),
          (''courier'', opt_json JStr (e_courier e)), (''trackingNumber'', opt_json JStr (e_tracking_number e)),
          (''shippedAt'', opt_json JTime (e_shipped_at e)), (''deliveredAt'', opt_json JTime (e_delivered_at e)),
          (''createdAt'', JTime (e_created_at e))])"

definition list_disputed_escrows :: "nat \<Rightarrow> dict list tx" where
  "list_disputed_escrows limit =
     tx_bind (tx_gets (\<lambda>s. take limit
        (sql_order_by (\<lambda>(e, b, v). e_disputed_at e = None)
          (sql_order_by (\<lambda>(e, b, v). case e_disputed_at e of None \<Rightarrow> 0 | Some at \<Rightarrow> at)
            (sql_order_by (\<lambda>(e, b, v). e_id e)
              (escrows_with_parties (\<lambda>e. e_status e = EscrowDisputed) s))))))
       (tx_mapM dispute_to_dict)"

text \<open>An UPDATE of escrow rows: the new rows are checked, then written; the row count is returned.\<close>

definition update_escrows ::
  "(escrow_row \<Rightarrow> bool) \<Rightarrow> (escrow_row \<Rightarrow> escrow_row) \<Rightarrow> (db \<Rightarrow> (string \<times> bool) list) \<Rightarrow> nat tx" where
  "update_escrows P f extra =
     tx_bind (require_constraints (\<lambda>s.
        concat (map (\<lambda>r. escrow_row_ok (f r)) (filter P (safepay_escrows s)))
        @ (if filter P (safepay_escrows s) = [] then [] else extra s))) (\<lambda>_.
     tx_bind (tx_gets (\<lambda>s. sql_rowcount P (safepay_escrows s))) (\<lambda>n.
     tx_bind (tx_modify (\<lambda>s. s\<lparr>safepay_escrows := sql_update P f (safepay_escrows s)\<rparr>)) (\<lambda>_.
       tx_return n)))"

definition mark_shipped_row :: "string \<Rightarrow> string \<Rightarrow> string \<Rightarrow> string \<Rightarrow> int \<Rightarrow> nat tx" where
  "mark_shipped_row escrow_id seller courier tracking_number now =
     update_escrows (\<lambda>r. e_id r = escrow_id \<and> e_seller r = seller \<and> e_status r = AwaitingShipment)
       (\<lambda>r. r\<lparr>e_status := Shipped, e_courier := Some courier, e_tracking_number := Some tracking_number,
               e_shipped_at := Some now, e_updated_at := now\<rparr>) (\<lambda>s. [])"

definition mark_delivered :: "string \<Rightarrow> int \<Rightarrow> int \<Rightarrow> nat tx" where
  "mark_delivered escrow_id delivered_at auto_release_at =
     update_escrows (\<lambda>r. e_id r = escrow_id \<and> e_status r = Shipped)
       (\<lambda>r. r\<lparr>e_status := Delivered, e_delivered_at := Some delivered_at,
               e_auto_release_at := Some auto_release_at, e_updated_at := delivered_at\<rparr>) (\<lambda>s. [])"

definition mark_disputed :: "string \<Rightarrow> string \<Rightarrow> string \<Rightarrow> int \<Rightarrow> nat tx" where
  "mark_disputed escrow_id buyer reason now =
     update_escrows (\<lambda>r. e_id r = escrow_id \<and> e_buyer r = buyer
                       \<and> e_status r \<in> {AwaitingShipment, Shipped, Delivered})
       (\<lambda>r. r\<lparr>e_status := EscrowDisputed, e_dispute_reason := Some reason, e_disputed_at := Some now,
               e_updated_at := now\<rparr>) (\<lambda>s. [])"

definition record_code_failure :: "string \<Rightarrow> int \<Rightarrow> int option \<Rightarrow> int \<Rightarrow> unit tx" where
  "record_code_failure escrow_id attempts locked_until now =
     tx_bind (update_escrows (\<lambda>r. e_id r = escrow_id)
       (\<lambda>r. r\<lparr>e_code_attempts := attempts, e_code_locked_until := locked_until, e_updated_at := now\<rparr>)
       (\<lambda>s. [])) (\<lambda>_. tx_return ())"

definition mark_settled ::
  "string \<Rightarrow> escrow_status list \<Rightarrow> escrow_status \<Rightarrow> string \<Rightarrow> int \<Rightarrow> string option \<Rightarrow> nat tx" where
  "mark_settled escrow_id from_statuses st settlement_transfer now resolution_note =
     update_escrows (\<lambda>r. e_id r = escrow_id \<and> e_status r \<in> set from_statuses
                       \<and> e_settlement_transfer r = None)
       (\<lambda>r. r\<lparr>e_status := st, e_settlement_transfer := Some settlement_transfer, e_settled_at := Some now,
               e_resolved_by := None, e_resolution_note := resolution_note, e_code_attempts := 0,
               e_code_locked_until := None, e_updated_at := now\<rparr>)
       (\<lambda>s. [(''uq_safepay_escrows_settlement_transfer_id'',
                \<forall>r \<in> set (safepay_escrows s). e_settlement_transfer r \<noteq> Some settlement_transfer),
              (''fk_safepay_escrows_settlement_transfer_id'', settlement_transfer \<in> t_id ` set (transfers s))])"



section \<open>Shared helpers of the service\<close>

definition complete_body ::
  "string \<Rightarrow> string \<Rightarrow> string \<Rightarrow> string \<Rightarrow> dict \<Rightarrow> int \<Rightarrow> int \<Rightarrow> unit tx" where
  "complete_body actor endpoint key rid body now http_status =
     idem_complete actor endpoint key rid http_status (dict_without [''deliveryCode'', ''replayed''] body) now"

definition safepay_audit :: "env \<Rightarrow> string \<Rightarrow> string \<Rightarrow> string \<Rightarrow> string option \<Rightarrow> dict \<Rightarrow> unit tx" where
  "safepay_audit E actor action escrow_id request_id metadata =
     tx_bind (clock_now E) (\<lambda>now.
       audit_record E (Some actor) action ''safepay_escrow'' (Some escrow_id) request_id (Some metadata) now)"

definition delivery_code :: "env \<Rightarrow> string \<Rightarrow> string" where
  "delivery_code E escrow_id =
     zero_padded 6 (int (hmac_sha256 E (jwt_secret E @ '':safepay'') (''safepay-delivery:'' @ escrow_id)) mod 1000000)"

text \<open>\<open>body["escrowId"]\<close>.\<close>

definition body_escrow_id :: "dict \<Rightarrow> exn + string" where
  "body_escrow_id body =
     (case dict_get body ''escrowId'' of Some (JStr i) \<Rightarrow> Inr i | _ \<Rightarrow> Inl (PyError ''KeyError''))"

definition state_command ::
  "env \<Rightarrow> string \<Rightarrow> string \<Rightarrow> string \<Rightarrow> dict \<Rightarrow> (int \<Rightarrow> dict tx) \<Rightarrow> dict tx" where
  "state_command E actor endpoint key payload execute =
     tx_bind (clock_now E) (\<lambda>now.
     tx_bind (reserve_or_replay actor endpoint key (fingerprint_request (sha256 E) payload) now) (\<lambda>replay.
       case replay of
         Some body \<Rightarrow> tx_return (dict_set body ''replayed'' (JBool True))
       | None \<Rightarrow>
           tx_bind (execute now) (\<lambda>body.
           tx_bind (tx_lift (body_escrow_id body)) (\<lambda>rid.
           tx_bind (complete_body actor endpoint key rid body now 200) (\<lambda>_.
             tx_return body)))))"


section \<open>Settlement\<close>

definition release_locked ::
  "env \<Rightarrow> escrow_row \<Rightarrow> string \<Rightarrow> string \<Rightarrow> string option \<Rightarrow> string option \<Rightarrow> dict tx" where
  "release_locked E escrow actor reason request_id resolution_note =
     tx_bind (get_transfer (e_hold_transfer escrow)) (\<lambda>found.
     case found of None \<Rightarrow> tx_raise (app_error StateConflictError) | Some hold \<Rightarrow>
     (case t_intended_receiver hold of None \<Rightarrow> tx_raise (app_error StateConflictError) | Some beneficiary \<Rightarrow>
     tx_bind (settle_hold E (t_id hold) (t_reference hold) HELD SUCCEEDED beneficiary ESCROW_ACCOUNT_ID
                (mk_money (e_amount escrow) BDT) ESCROW_RELEASE actor (Some reason) request_id) (\<lambda>settlement.
     tx_bind (clock_now E) (\<lambda>now.
     tx_bind (mark_settled (e_id escrow) [AwaitingShipment, Shipped, Delivered, EscrowDisputed] Released
                (tr_id settlement) now resolution_note) (\<lambda>n.
     tx_bind (tx_unless (n = 1) (app_error StateConflictError)) (\<lambda>_.
     tx_bind (cancel_task EscrowAutoReleaseTask (e_id escrow)) (\<lambda>_.
     tx_bind (safepay_audit E actor ''SAFEPAY_RELEASED'' (e_id escrow) request_id
        [(''settlementTransferId'', JStr (tr_id settlement)), (''reason'', JStr reason)]) (\<lambda>_.
       tx_return
         [(''escrowId'', JStr (e_id escrow)), (''reference'', JStr (e_reference escrow)),
          (''status'', JStr ''RELEASED''), (''settlementTransferId'', JStr (tr_id settlement)),
          (''settlementReference'', JStr (tr_reference settlement))]))))))))"

definition refund_locked :: "env \<Rightarrow> escrow_row \<Rightarrow> string \<Rightarrow> string option \<Rightarrow> string \<Rightarrow> dict tx" where
  "refund_locked E escrow reason request_id resolution_note =
     tx_bind (get_transfer (e_hold_transfer escrow)) (\<lambda>found.
     case found of None \<Rightarrow> tx_raise (app_error StateConflictError) | Some hold \<Rightarrow>
     tx_bind (settle_hold E (t_id hold) (t_reference hold) HELD REFUNDED (t_sender hold) ESCROW_ACCOUNT_ID
                (mk_money (e_amount escrow) BDT) ESCROW_REFUND (e_buyer escrow) (Some reason) request_id) (\<lambda>settlement.
     tx_bind (clock_now E) (\<lambda>now.
     tx_bind (mark_settled (e_id escrow) [EscrowDisputed] EscrowRefunded (tr_id settlement) now
                (Some resolution_note)) (\<lambda>n.
     tx_bind (tx_unless (n = 1) (app_error StateConflictError)) (\<lambda>_.
       tx_return
         [(''escrowId'', JStr (e_id escrow)), (''reference'', JStr (e_reference escrow)),
          (''status'', JStr ''REFUNDED''), (''settlementTransferId'', JStr (tr_id settlement)),
          (''settlementReference'', JStr (tr_reference settlement))])))))"


section \<open>Commands\<close>

definition SAFEPAY_CREATE_ENDPOINT :: string where
  "SAFEPAY_CREATE_ENDPOINT = ''POST:/api/v1/safepay''"

definition create_safepay ::
  "env \<Rightarrow> string \<Rightarrow> string \<Rightarrow> string \<Rightarrow> string \<Rightarrow> money \<Rightarrow> string option \<Rightarrow> string \<Rightarrow> string option \<Rightarrow> dict tx" where
  "create_safepay E buyer buyer_account seller seller_account amount description key request_id =
     tx_bind (clock_now E) (\<lambda>now.
     tx_bind (reserve_or_replay buyer SAFEPAY_CREATE_ENDPOINT key
        (fingerprint_request (sha256 E)
          [(''sellerUserId'', JStr seller), (''amountMinor'', JInt (minor amount)),
           (''currency'', JStr (code (mcurrency amount))), (''description'', opt_json JStr description)]) now) (\<lambda>replay.
     case replay of
       Some body \<Rightarrow>
         tx_bind (tx_lift (body_escrow_id body)) (\<lambda>i.
           tx_return (dict_set (dict_set body ''deliveryCode'' (JStr (delivery_code E i))) ''replayed'' (JBool True)))
     | None \<Rightarrow>
     tx_bind (fresh_ulid E) (\<lambda>escrow_id.
     tx_bind (hold_money E buyer buyer_account ESCROW_ACCOUNT_ID amount ESCROW_HOLD HELD
                (''safepay-hold:'' @ escrow_id) description request_id True (Some seller_account)
                ''INTERNAL:/safepay/hold'') (\<lambda>hold.
     tx_bind (fresh_reference E ''SAFE'' now) (\<lambda>reference.
     tx_bind (hash_secret E (delivery_code E escrow_id)) (\<lambda>code_hash.
     tx_bind (create_escrow escrow_id reference (tr_id hold) buyer seller (minor amount)
                (code (mcurrency amount)) description code_hash now) (\<lambda>_.
     tx_bind (tx_return
         [(''escrowId'', JStr escrow_id), (''reference'', JStr reference),
          (''holdTransferId'', JStr (tr_id hold)), (''status'', JStr ''AWAITING_SHIPMENT''),
          (''amountMinor'', JInt (minor amount)), (''currency'', JStr (code (mcurrency amount)))]) (\<lambda>body.
     tx_bind (complete_body buyer SAFEPAY_CREATE_ENDPOINT key escrow_id body now 201) (\<lambda>_.
     tx_bind (safepay_audit E buyer ''SAFEPAY_CREATED'' escrow_id request_id
        [(''amountMinor'', JInt (minor amount)), (''sellerUserId'', JStr seller)]) (\<lambda>_.
       tx_return (body @ [(''deliveryCode'', JStr (delivery_code E escrow_id)),
                          (''replayed'', JBool False)])))))))))))"

definition safepay_detail :: "env \<Rightarrow> string \<Rightarrow> string \<Rightarrow> dict tx" where
  "safepay_detail E escrow_id user_id =
     tx_bind (get_escrow escrow_id) (\<lambda>found.
       case found of
         None \<Rightarrow> tx_raise (app_error NotFoundError)
       | Some r \<Rightarrow>
           tx_bind (tx_unless (user_id \<in> {e_buyer r, e_seller r}) (app_error NotFoundError)) (\<lambda>_.
             tx_return (escrow_as_dict r
               @ [(''role'', JStr (if e_buyer r = user_id then ''BUYER'' else ''SELLER''))]
               @ (if e_buyer r = user_id \<and> e_status r \<notin> {Released, EscrowRefunded}
                  then [(''deliveryCode'', JStr (delivery_code E (e_id r)))] else []))))"

definition safepay_endpoint :: "string \<Rightarrow> string \<Rightarrow> string" where
  "safepay_endpoint escrow_id verb = ''POST:/api/v1/safepay/'' @ escrow_id @ ''/'' @ verb"

definition mark_shipped_once ::
  "env \<Rightarrow> string \<Rightarrow> string \<Rightarrow> string \<Rightarrow> string \<Rightarrow> string option \<Rightarrow> int \<Rightarrow> dict tx" where
  "mark_shipped_once E escrow_id seller courier tracking_number request_id now =
     tx_bind (mark_shipped_row escrow_id seller courier tracking_number now) (\<lambda>n.
     tx_bind (tx_unless (n = 1) (app_error StateConflictError)) (\<lambda>_.
     tx_bind (safepay_audit E seller ''SAFEPAY_SHIPPED'' escrow_id request_id
        [(''courier'', JStr courier), (''trackingNumber'', JStr tracking_number)]) (\<lambda>_.
       tx_return [(''escrowId'', JStr escrow_id), (''status'', JStr ''SHIPPED''),
                  (''courier'', JStr courier), (''trackingNumber'', JStr tracking_number)])))"

definition mark_shipped ::
  "env \<Rightarrow> string \<Rightarrow> string \<Rightarrow> string \<Rightarrow> string \<Rightarrow> string \<Rightarrow> string option \<Rightarrow> dict tx" where
  "mark_shipped E escrow_id seller courier tracking_number key request_id =
     state_command E seller (safepay_endpoint escrow_id ''ship'') key
       [(''courier'', JStr courier), (''trackingNumber'', JStr tracking_number)]
       (mark_shipped_once E escrow_id seller courier tracking_number request_id)"

definition CODE_LOCK_SECONDS :: int where
  "CODE_LOCK_SECONDS = 900"

text \<open>A wrong delivery code: count it, lock on the fifth, answer 400 or 423.\<close>

definition wrong_code :: "escrow_row \<Rightarrow> int \<Rightarrow> (dict \<times> int) tx" where
  "wrong_code escrow now =
     tx_bind (tx_return (e_code_attempts escrow + 1)) (\<lambda>attempts.
     tx_bind (tx_return (if DELIVERY_CODE_MAX_ATTEMPTS \<le> attempts
                         then Some (now + CODE_LOCK_SECONDS * second_us) else None)) (\<lambda>locked_until.
     tx_bind (record_code_failure (e_id escrow) attempts locked_until now) (\<lambda>_.
       tx_return
         ([(''escrowId'', JStr (e_id escrow)), (''status'', JStr (escrow_status_str (e_status escrow))),
           (''errorCode'', JStr (if locked_until \<noteq> None then ''DELIVERY_CODE_LOCKED'' else ''INVALID_DELIVERY_CODE'')),
           (''message'', JStr (if locked_until \<noteq> None then ''Delivery code locked after too many attempts.''
                              else ''The delivery code is incorrect.'')),
           (''attemptsRemaining'', JInt (max 0 (DELIVERY_CODE_MAX_ATTEMPTS - attempts)))],
          if locked_until \<noteq> None then 423 else 400))))"

definition code_locked :: "escrow_row \<Rightarrow> int \<Rightarrow> bool" where
  "code_locked escrow now \<longleftrightarrow>
     (case e_code_locked_until escrow of None \<Rightarrow> False | Some until \<Rightarrow> now < until)"

text \<open>What \<open>release_with_code\<close> answers once its key is reserved: the body and its HTTP status.\<close>

definition release_with_code_once ::
  "env \<Rightarrow> string \<Rightarrow> string \<Rightarrow> string \<Rightarrow> string option \<Rightarrow> int \<Rightarrow> (string \<times> dict \<times> int) tx" where
  "release_with_code_once E escrow_id seller entered request_id now =
     tx_bind (lock_escrow escrow_id) (\<lambda>found.
     case found of None \<Rightarrow> tx_raise (app_error NotFoundError) | Some escrow \<Rightarrow>
     tx_bind (tx_unless (e_seller escrow = seller) (app_error NotFoundError)) (\<lambda>_.
     tx_bind (tx_unless (e_status escrow \<in> {AwaitingShipment, Shipped, Delivered})
        (app_error StateConflictError)) (\<lambda>_.
       if code_locked escrow now
       then tx_return (e_id escrow,
         [(''escrowId'', JStr (e_id escrow)), (''status'', JStr (escrow_status_str (e_status escrow))),
          (''errorCode'', JStr ''DELIVERY_CODE_LOCKED''),
          (''message'', JStr ''Too many incorrect delivery-code attempts. Try later.'')], 423)
       else if \<not> argon2_verify E (e_code_hash escrow) entered
       then tx_bind (wrong_code escrow now) (\<lambda>(body, st). tx_return (e_id escrow, body, st))
       else tx_bind (release_locked E escrow seller ''Buyer delivery code verified'' request_id None)
              (\<lambda>body. tx_return (e_id escrow, body, 200)))))"

definition release_with_code ::
  "env \<Rightarrow> string \<Rightarrow> string \<Rightarrow> string \<Rightarrow> string \<Rightarrow> string option \<Rightarrow> dict tx" where
  "release_with_code E escrow_id seller entered key request_id =
     tx_bind (clock_now E) (\<lambda>now.
     tx_bind (reserve_or_replay seller (safepay_endpoint escrow_id ''release-code'') key
        (fingerprint_request (sha256 E) [(''deliveryCode'', JStr entered)]) now) (\<lambda>replay.
       case replay of
         Some body \<Rightarrow> tx_return (dict_set body ''replayed'' (JBool True))
       | None \<Rightarrow>
           tx_bind (release_with_code_once E escrow_id seller entered request_id now) (\<lambda>(rid, body, st).
           tx_bind (complete_body seller (safepay_endpoint escrow_id ''release-code'') key rid body now st) (\<lambda>_.
             tx_return body))))"

definition buyer_release_once :: "env \<Rightarrow> string \<Rightarrow> string \<Rightarrow> string option \<Rightarrow> dict tx" where
  "buyer_release_once E escrow_id buyer request_id =
     tx_bind (lock_escrow escrow_id) (\<lambda>found.
     case found of None \<Rightarrow> tx_raise (app_error NotFoundError) | Some escrow \<Rightarrow>
     tx_bind (tx_unless (e_buyer escrow = buyer) (app_error NotFoundError)) (\<lambda>_.
     tx_bind (tx_unless (e_status escrow \<in> {Shipped, Delivered}) (app_error StateConflictError)) (\<lambda>_.
       release_locked E escrow buyer ''Buyer confirmed receipt'' request_id None)))"

definition confirm_received :: "env \<Rightarrow> string \<Rightarrow> string \<Rightarrow> string \<Rightarrow> string option \<Rightarrow> dict tx" where
  "confirm_received E escrow_id buyer key request_id =
     state_command E buyer (safepay_endpoint escrow_id ''confirm-received'') key
       [(''escrowId'', JStr escrow_id)] (\<lambda>_. buyer_release_once E escrow_id buyer request_id)"

definition dispute_once ::
  "env \<Rightarrow> string \<Rightarrow> string \<Rightarrow> string \<Rightarrow> string option \<Rightarrow> int \<Rightarrow> dict tx" where
  "dispute_once E escrow_id buyer reason request_id now =
     tx_bind (mark_disputed escrow_id buyer reason now) (\<lambda>n.
     tx_bind (tx_unless (n = 1) (app_error StateConflictError)) (\<lambda>_.
     tx_bind (cancel_task EscrowAutoReleaseTask escrow_id) (\<lambda>_.
     tx_bind (safepay_audit E buyer ''SAFEPAY_DISPUTED'' escrow_id request_id
        [(''reason'', JStr reason)]) (\<lambda>_.
       tx_return [(''escrowId'', JStr escrow_id), (''status'', JStr ''DISPUTED'')]))))"

definition dispute :: "env \<Rightarrow> string \<Rightarrow> string \<Rightarrow> string \<Rightarrow> string \<Rightarrow> string option \<Rightarrow> dict tx" where
  "dispute E escrow_id buyer reason key request_id =
     state_command E buyer (safepay_endpoint escrow_id ''dispute'') key [(''reason'', JStr reason)]
       (dispute_once E escrow_id buyer reason request_id)"

text \<open>The effect of a delivery event on an escrow that was found, by its status.\<close>

definition apply_delivery :: "env \<Rightarrow> string \<Rightarrow> bool \<Rightarrow> escrow_row \<Rightarrow> int \<Rightarrow> dict tx" where
  "apply_delivery E courier release_immediately escrow now =
     (if e_status escrow = Shipped then
        tx_bind (tx_return (now + safepay_auto_release_hours E * hour_us)) (\<lambda>release_at.
        tx_bind (mark_delivered (e_id escrow) now release_at) (\<lambda>n.
        tx_bind (tx_unless (n = 1) (app_error StateConflictError)) (\<lambda>_.
        tx_bind (get_escrow (e_id escrow)) (\<lambda>refreshed.
        case refreshed of None \<Rightarrow> tx_raise (PyError ''InvalidRequestError'') | Some escrow' \<Rightarrow>
          if release_immediately
          then release_locked E escrow' (e_seller escrow') (''Verified '' @ courier @ '' delivery event'') None None
          else
            tx_bind (schedule_task E EscrowAutoReleaseTask (e_id escrow')
                       (safepay_auto_release_hours E * 3600)) (\<lambda>_.
              tx_return [(''escrowId'', JStr (e_id escrow')), (''status'', JStr ''DELIVERED''),
                         (''autoReleaseAt'', JTime release_at)])))))
      else if e_status escrow \<in> {Released, EscrowRefunded, EscrowDisputed}
      then tx_return [(''escrowId'', JStr (e_id escrow)),
                      (''status'', JStr (escrow_status_str (e_status escrow)))]
      else tx_raise (app_error StateConflictError))"

definition courier_delivered :: "env \<Rightarrow> string \<Rightarrow> string \<Rightarrow> string \<Rightarrow> bool \<Rightarrow> dict tx" where
  "courier_delivered E courier tracking_number event_id release_immediately =
     tx_bind (find_by_tracking courier tracking_number) (\<lambda>found.
     case found of None \<Rightarrow> tx_raise (app_error NotFoundError) | Some escrow \<Rightarrow>
     tx_bind (clock_now E) (\<lambda>now.
     tx_bind (reserve_or_replay (e_seller escrow) (''POST:/courier/'' @ courier @ ''/delivered'') event_id
        (fingerprint_request (sha256 E)
          [(''trackingNumber'', JStr tracking_number), (''releaseImmediately'', JBool release_immediately)]) now) (\<lambda>replay.
       case replay of
         Some body \<Rightarrow> tx_return (dict_set body ''replayed'' (JBool True))
       | None \<Rightarrow>
           tx_bind (apply_delivery E courier release_immediately escrow now) (\<lambda>body.
           tx_bind (complete_body (e_seller escrow) (''POST:/courier/'' @ courier @ ''/delivered'') event_id
                      (e_id escrow) body now 200) (\<lambda>_.
             tx_return body)))))"

definition auto_release :: "env \<Rightarrow> string \<Rightarrow> dict option tx" where
  "auto_release E escrow_id =
     tx_bind (lock_escrow escrow_id) (\<lambda>found.
     case found of None \<Rightarrow> tx_return None | Some escrow \<Rightarrow>
       if e_status escrow \<noteq> Delivered then tx_return None
       else tx_bind (release_locked E escrow (e_seller escrow) ''SafePay dispute window elapsed'' None None)
              (\<lambda>body. tx_return (Some body)))"

definition ban_buyer :: "env \<Rightarrow> string \<Rightarrow> unit tx" where
  "ban_buyer E buyer =
     tx_bind (set_user_status buyer UserClosed) (\<lambda>_.
     tx_bind (get_account_by_user_id buyer) (\<lambda>found.
     tx_bind (case found of None \<Rightarrow> tx_return ()
              | Some acc \<Rightarrow> tx_bind (set_account_status (acc_id acc) CLOSED) (\<lambda>_. tx_return ())) (\<lambda>_.
     tx_bind (clock_now E) (\<lambda>now. revoke_all_for_user buyer now))))"

definition resolve_once ::
  "env \<Rightarrow> string \<Rightarrow> string \<Rightarrow> string \<Rightarrow> bool \<Rightarrow> string option \<Rightarrow> dict tx" where
  "resolve_once E escrow_id decision note ban request_id =
     tx_bind (lock_escrow escrow_id) (\<lambda>found.
     case found of None \<Rightarrow> tx_raise (app_error NotFoundError) | Some escrow \<Rightarrow>
     tx_bind (tx_unless (e_status escrow = EscrowDisputed) (app_error StateConflictError)) (\<lambda>_.
       if decision = ''RELEASE'' then
         tx_bind (release_locked E escrow (e_seller escrow) note request_id (Some note)) (\<lambda>body.
           if ban then tx_bind (ban_buyer E (e_buyer escrow)) (\<lambda>_.
                         tx_return (body @ [(''buyerBanned'', JBool True)]))
           else tx_return body)
       else refund_locked E escrow note request_id note))"

definition resolve_dispute ::
  "env \<Rightarrow> string \<Rightarrow> string \<Rightarrow> string \<Rightarrow> bool \<Rightarrow> string \<Rightarrow> string option \<Rightarrow> dict tx" where
  "resolve_dispute E escrow_id decision note ban key request_id =
     state_command E escrow_id (''POST:/api/v1/admin/safepay/'' @ escrow_id @ ''/resolve'') key
       [(''decision'', JStr decision), (''note'', JStr note), (''banBuyer'', JBool ban)]
       (\<lambda>_. resolve_once E escrow_id decision note ban request_id)"



section \<open>Every command keeps the books\<close>

lemma evolves_escrow_ops [tx_rel_intros]:
  "tx_rel evolves (insert_escrow r)" "tx_rel evolves (create_escrow i rf h b v amt cur d ch now)"
  "tx_rel evolves (get_escrow i)" "tx_rel evolves (lock_escrow i)" "tx_rel evolves (find_by_tracking co tn)"
  "tx_rel evolves (update_escrows P f extra)" "tx_rel evolves (mark_shipped_row i v co tn now)"
  "tx_rel evolves (mark_delivered i now ar)" "tx_rel evolves (mark_disputed i b rs now)"
  "tx_rel evolves (record_code_failure i att lk now)" "tx_rel evolves (mark_settled i fr st tid now nt)"
  unfolding insert_escrow_def create_escrow_def get_escrow_def lock_escrow_def find_by_tracking_def
    update_escrows_def mark_shipped_row_def mark_delivered_def mark_disputed_def record_code_failure_def
    mark_settled_def
  by (intro evolves_frame tx_frame_bind tx_frame_basic tx_frame_modify frame_require; simp)+

lemma evolves_safepay_helpers [tx_rel_intros]:
  "tx_rel evolves (complete_body a ep key i body now st)"
  "tx_rel evolves (safepay_audit E a act i rq md)"
  "(\<And>now. tx_rel evolves (ex now)) \<Longrightarrow> tx_rel evolves (state_command E a ep key pl ex)"
  unfolding complete_body_def safepay_audit_def state_command_def
  by (intro evo.rel_rules tx_rel_intros; assumption?)+

lemma evolves_escrow_settlement [tx_rel_intros]:
  "tx_rel evolves (release_locked E r a rs rq nt)" "tx_rel evolves (refund_locked E r rs rq nn)"
  unfolding release_locked_def refund_locked_def by (intro evo.rel_rules tx_rel_intros)+

lemma evolves_safepay_steps [tx_rel_intros]:
  "tx_rel evolves (mark_shipped_once E i v co tn rq now)" "tx_rel evolves (wrong_code r now)"
  "tx_rel evolves (buyer_release_once E i b rq)" "tx_rel evolves (dispute_once E i b rs rq now)"
  "tx_rel evolves (apply_delivery E co im r now)" "tx_rel evolves (ban_buyer E b)"
  unfolding mark_shipped_once_def wrong_code_def buyer_release_once_def dispute_once_def apply_delivery_def
    ban_buyer_def
  by (intro evo.rel_rules tx_rel_intros)+

lemma evolves_safepay_once [tx_rel_intros]:
  "tx_rel evolves (release_with_code_once E i v en rq now)" "tx_rel evolves (resolve_once E i de nt bn rq)"
  unfolding release_with_code_once_def resolve_once_def by (intro evo.rel_rules tx_rel_intros)+

lemma safepay_evolves [tx_rel_intros]:
  "tx_rel evolves (create_safepay E b ba v va amt d key rq)"
  "tx_rel evolves (mark_shipped E i v co tn key rq)"
  "tx_rel evolves (release_with_code E i v en key rq)"
  "tx_rel evolves (confirm_received E i b key rq)"
  "tx_rel evolves (dispute E i b rs key rq)"
  "tx_rel evolves (courier_delivered E co tn ev im)"
  "tx_rel evolves (auto_release E i)"
  "tx_rel evolves (resolve_dispute E i de nt bn key rq)"
  unfolding create_safepay_def mark_shipped_def release_with_code_def confirm_received_def dispute_def
    courier_delivered_def auto_release_def resolve_dispute_def
  by (intro evo.rel_rules tx_rel_intros)+

end
