(* ===== verification/Overdraft.thy ===== *)
theory Overdraft
  imports SafePay
begin

text \<open>
  The community overdraft (Spot-Me): the commands of \<open>modules/overdraft/application/service.py\<close> and
  the read model of its repository.  The tables and the lien are in \<open>Lien\<close>.
\<close>

section \<open>Helpers\<close>

definition overdraft_complete ::
  "string \<Rightarrow> string \<Rightarrow> string \<Rightarrow> string \<Rightarrow> dict \<Rightarrow> int \<Rightarrow> int \<Rightarrow> unit tx" where
  "overdraft_complete actor endpoint key rid body now http_status =
     idem_complete actor endpoint key rid http_status (dict_without [''replayed''] body) now"

definition overdraft_audit :: "env \<Rightarrow> string \<Rightarrow> string \<Rightarrow> string \<Rightarrow> string option \<Rightarrow> dict \<Rightarrow> unit tx" where
  "overdraft_audit E actor action rid request_id metadata =
     tx_bind (clock_now E) (\<lambda>now.
       audit_record E (Some actor) action ''overdraft'' (Some rid) request_id (Some metadata) now)"

text \<open>\<open>s[-n:]\<close>.\<close>

definition last_chars :: "nat \<Rightarrow> string \<Rightarrow> string" where
  "last_chars n s = drop (length s - n) s"


section \<open>Sponsor commands\<close>

definition POOLS_ENDPOINT :: string where
  "POOLS_ENDPOINT = ''POST:/api/v1/overdraft/pools''"

definition fund_command ::
  "env \<Rightarrow> string \<Rightarrow> string \<Rightarrow> string \<Rightarrow> string \<Rightarrow> money \<Rightarrow> string \<Rightarrow> string \<Rightarrow> string option \<Rightarrow> string
   \<Rightarrow> transfer_command" where
  "fund_command E sponsor sponsor_account pool_account pool_id amount key note request_id endpoint =
     (base_command sponsor sponsor_account pool_account amount key
        (fingerprint_request (sha256 E) [(''poolId'', JStr pool_id), (''amountMinor'', JInt (minor amount))]))
     \<lparr>c_kind := OVERDRAFT_FUND, c_note := Some note, c_request_id := request_id, c_endpoint := endpoint\<rparr>"

definition create_pool :: "env \<Rightarrow> string \<Rightarrow> money \<Rightarrow> string \<Rightarrow> string option \<Rightarrow> dict tx" where
  "create_pool E sponsor amount key request_id =
     tx_bind (clock_now E) (\<lambda>now.
     tx_bind (reserve_or_replay sponsor POOLS_ENDPOINT key
        (fingerprint_request (sha256 E)
          [(''amountMinor'', JInt (minor amount)), (''currency'', JStr (code (mcurrency amount)))]) now) (\<lambda>replay.
     case replay of Some body \<Rightarrow> tx_return (dict_set body ''replayed'' (JBool True)) | None \<Rightarrow>
     tx_bind (get_pool_for_sponsor sponsor) (\<lambda>existing.
     tx_bind (tx_unless (existing = None) (app_error ConflictError)) (\<lambda>_.
     tx_bind (get_account_by_user_id sponsor) (\<lambda>found.
     case found of None \<Rightarrow> tx_raise (app_error NotFoundError) | Some sponsor_acc \<Rightarrow>
     tx_bind (fresh_ulid E) (\<lambda>pool_id.
     tx_bind (fresh_ulid E) (\<lambda>pool_account_id.
     tx_bind (create_subaccount pool_account_id (Some sponsor) OVERDRAFT_POOL
                (''POOL-'' @ last_chars 12 pool_id) (code (mcurrency amount)) now) (\<lambda>_.
     tx_bind (create_pool_row pool_id sponsor pool_account_id (code (mcurrency amount)) now) (\<lambda>_.
     tx_bind (execute_transfer E (fund_command E sponsor (acc_id sponsor_acc) pool_account_id pool_id amount
                (''pool-fund:'' @ pool_id) ''Fund Spot-Me pool'' request_id ''INTERNAL:/overdraft/fund'')) (\<lambda>funding.
     tx_bind (tx_return
        [(''poolId'', JStr pool_id), (''poolAccountId'', JStr pool_account_id), (''status'', JStr ''ACTIVE''),
         (''balanceMinor'', JInt (minor amount)), (''currency'', JStr (code (mcurrency amount))),
         (''fundingTransferId'', JStr (tr_id funding))]) (\<lambda>body.
     tx_bind (overdraft_complete sponsor POOLS_ENDPOINT key pool_id body now 201) (\<lambda>_.
     tx_bind (overdraft_audit E sponsor ''OVERDRAFT_POOL_CREATED'' pool_id request_id
        [(''amountMinor'', JInt (minor amount))]) (\<lambda>_.
       tx_return body)))))))))))))"

definition fund_pool :: "env \<Rightarrow> string \<Rightarrow> money \<Rightarrow> string \<Rightarrow> string option \<Rightarrow> dict tx" where
  "fund_pool E sponsor amount key request_id =
     tx_bind (get_pool_for_sponsor sponsor) (\<lambda>found.
     case found of None \<Rightarrow> tx_raise (app_error NotFoundError) | Some pool \<Rightarrow>
     tx_bind (tx_unless (p_status pool = PoolActive) (app_error NotFoundError)) (\<lambda>_.
     tx_bind (get_account_by_user_id sponsor) (\<lambda>found.
     case found of None \<Rightarrow> tx_raise (app_error NotFoundError) | Some sponsor_acc \<Rightarrow>
     tx_bind (execute_transfer E (fund_command E sponsor (acc_id sponsor_acc) (p_account pool) (p_id pool) amount
                key ''Top up Spot-Me pool'' request_id
                (''POST:/api/v1/overdraft/pools/'' @ p_id pool @ ''/fund''))) (\<lambda>transfer.
     tx_bind (get_account_by_id (p_account pool)) (\<lambda>acc.
       tx_return
         [(''poolId'', JStr (p_id pool)), (''status'', JStr (pool_status_str (p_status pool))),
          (''balanceMinor'', JInt (case acc of None \<Rightarrow> 0 | Some a \<Rightarrow> minor (acc_balance a))),
          (''currency'', JStr (code (mcurrency amount))),
          (''fundingTransferId'', JStr (tr_id transfer)), (''replayed'', JBool (tr_replayed transfer))])))))"

definition GRANTS_ENDPOINT :: string where
  "GRANTS_ENDPOINT = ''POST:/api/v1/overdraft/grants''"

definition grant_access :: "env \<Rightarrow> string \<Rightarrow> string \<Rightarrow> int \<Rightarrow> string \<Rightarrow> string option \<Rightarrow> dict tx" where
  "grant_access E sponsor beneficiary_phone max_draw key request_id =
     tx_bind (clock_now E) (\<lambda>now.
     tx_bind (reserve_or_replay sponsor GRANTS_ENDPOINT key
        (fingerprint_request (sha256 E)
          [(''beneficiaryPhone'', JStr beneficiary_phone), (''maxDrawMinor'', JInt max_draw)]) now) (\<lambda>replay.
     case replay of Some body \<Rightarrow> tx_return (dict_set body ''replayed'' (JBool True)) | None \<Rightarrow>
     tx_bind (get_pool_for_sponsor sponsor) (\<lambda>found_pool.
     tx_bind (get_user_by_phone beneficiary_phone) (\<lambda>found_user.
     case found_pool of None \<Rightarrow> tx_raise (app_error NotFoundError) | Some pool \<Rightarrow>
     tx_bind (tx_unless (p_status pool = PoolActive) (app_error NotFoundError)) (\<lambda>_.
     case found_user of None \<Rightarrow> tx_raise (app_error NotFoundError) | Some beneficiary \<Rightarrow>
     tx_bind (tx_unless (u_status beneficiary = UserActive) (app_error NotFoundError)) (\<lambda>_.
     tx_bind (tx_unless (u_id beneficiary \<noteq> sponsor) (app_error SelfTransferError)) (\<lambda>_.
     tx_bind (tx_unless (max_draw \<le> overdraft_max_draw_minor E) (app_error ConflictError)) (\<lambda>_.
     tx_bind (get_grant (p_id pool) (u_id beneficiary)) (\<lambda>existing.
     tx_bind (tx_unless (existing = None) (app_error ConflictError)) (\<lambda>_.
     tx_bind (fresh_ulid E) (\<lambda>grant_id.
     tx_bind (create_grant_row grant_id (p_id pool) (u_id beneficiary) max_draw now) (\<lambda>_.
     tx_bind (tx_return
        [(''grantId'', JStr grant_id), (''poolId'', JStr (p_id pool)),
         (''beneficiaryName'', JStr (u_display_name beneficiary)),
         (''beneficiaryPhone'', JStr (u_phone beneficiary)), (''maxDrawMinor'', JInt max_draw),
         (''status'', JStr ''ACTIVE'')]) (\<lambda>body.
     tx_bind (overdraft_complete sponsor GRANTS_ENDPOINT key grant_id body now 201) (\<lambda>_.
     tx_bind (overdraft_audit E sponsor ''OVERDRAFT_ACCESS_GRANTED'' grant_id request_id
        [(''beneficiaryUserId'', JStr (u_id beneficiary)), (''maxDrawMinor'', JInt max_draw)]) (\<lambda>_.
       tx_return body)))))))))))))))"


section \<open>Send with automatic shortfall\<close>

definition send_fingerprint :: "env \<Rightarrow> string \<Rightarrow> string \<Rightarrow> money \<Rightarrow> string option \<Rightarrow> string" where
  "send_fingerprint E sender receiver amount note =
     fingerprint_request (sha256 E)
       [(''senderAccountId'', JStr sender), (''receiverAccountId'', JStr receiver),
        (''amountMinor'', JInt (minor amount)), (''currency'', JStr (code (mcurrency amount))),
        (''note'', opt_json JStr note)]"

definition client_key_digest :: "env \<Rightarrow> string \<Rightarrow> string" where
  "client_key_digest E key = fingerprint_request (sha256 E) [(''clientKey'', JStr key)]"

text \<open>The first grant that covers the shortfall; the pool's balance is that of the locked row.\<close>

fun select_grant ::
  "int \<Rightarrow> (string \<times> account) list \<Rightarrow> borrower_grant list \<Rightarrow> exn + borrower_grant option" where
  "select_grant shortfall locked [] = Inr None"
| "select_grant shortfall locked (gr # grants) =
     (if shortfall \<le> bg_max_draw gr then
        (case map_of locked (bg_pool_account gr) of
           None \<Rightarrow> Inl (PyError ''KeyError'')
         | Some pool \<Rightarrow> if shortfall \<le> minor (acc_balance pool) then Inr (Some gr)
                        else select_grant shortfall locked grants)
      else select_grant shortfall locked grants)"

definition draw_command ::
  "env \<Rightarrow> string \<Rightarrow> string \<Rightarrow> borrower_grant \<Rightarrow> money \<Rightarrow> string \<Rightarrow> string option \<Rightarrow> transfer_command" where
  "draw_command E borrower borrower_account gr draw_amount key request_id =
     (base_command (bg_sponsor gr) (bg_pool_account gr) borrower_account draw_amount
        (''spot-draw:'' @ client_key_digest E key)
        (fingerprint_request (sha256 E)
           [(''poolId'', JStr (bg_pool gr)), (''borrowerUserId'', JStr borrower),
            (''amountMinor'', JInt (minor draw_amount))]))
     \<lparr>c_kind := OVERDRAFT_DRAW, c_note := Some ''Automatic Spot-Me shortfall'',
      c_request_id := request_id, c_enforce_limits := False, c_endpoint := ''INTERNAL:/overdraft/draw''\<rparr>"

definition cover_shortfall ::
  "env \<Rightarrow> string \<Rightarrow> account \<Rightarrow> money \<Rightarrow> int \<Rightarrow> (string \<times> account) list \<Rightarrow> borrower_grant list
   \<Rightarrow> string \<Rightarrow> string option \<Rightarrow> int \<Rightarrow> json tx" where
  "cover_shortfall E actor sender amount shortfall locked grants key request_id now =
     tx_bind (tx_lift (select_grant shortfall locked grants)) (\<lambda>selected.
     tx_bind (tx_unless (selected \<noteq> None \<and> shortfall \<le> overdraft_max_draw_minor E)
        (AppError InsufficientFundsError
          [(''availableMinor'', JInt (minor (acc_balance sender))), (''requestedMinor'', JInt (minor amount)),
           (''shortfallMinor'', JInt shortfall), (''spotMeAvailable'', JBool False)])) (\<lambda>_.
     case selected of None \<Rightarrow> tx_raise (PyError ''TypeError'') | Some gr \<Rightarrow>
     tx_bind (execute_transfer E (draw_command E actor (acc_id sender) gr
                (mk_money shortfall (mcurrency amount)) key request_id)) (\<lambda>draw.
     tx_bind (create_loan E (bg_pool gr) actor (tr_id draw) shortfall (code (mcurrency amount)) now) (\<lambda>loan_id.
       tx_return (JObj [(''loanId'', JStr loan_id), (''poolId'', JStr (bg_pool gr)),
                        (''drawTransferId'', JStr (tr_id draw)), (''amountMinor'', JInt shortfall)])))))"

definition send_once ::
  "env \<Rightarrow> string \<Rightarrow> string \<Rightarrow> string \<Rightarrow> money \<Rightarrow> string \<Rightarrow> string option \<Rightarrow> string option \<Rightarrow> int
   \<Rightarrow> (string \<times> dict) tx" where
  "send_once E actor sender_id receiver_id amount key note request_id now =
     tx_bind (active_grants_for_borrower actor) (\<lambda>grants.
     tx_bind (lock_accounts_for_update
        (sender_id # PENDING_SETTLEMENT_ACCOUNT_ID # map bg_pool_account grants)) (\<lambda>locked.
     case map_of locked sender_id of None \<Rightarrow> tx_raise (app_error NotFoundError) | Some sender \<Rightarrow>
     tx_bind (tx_lift (ensure_owned_by sender actor)) (\<lambda>_.
     tx_bind (tx_return (max 0 (minor amount - minor (acc_balance sender)))) (\<lambda>shortfall.
     tx_bind (if shortfall \<noteq> 0
              then tx_bind (cover_shortfall E actor sender amount shortfall locked grants key request_id now)
                     (\<lambda>d. tx_return (Some d))
              else tx_return None) (\<lambda>draw_body.
     tx_bind (undoable_send E actor sender_id receiver_id amount (''undo-hold:'' @ client_key_digest E key)
                note request_id ''INTERNAL:/transfers/undo-hold'') (\<lambda>hold.
       tx_return (tr_id hold,
         to_response hold @
         [(''undoExpiresAt'', JTime (undo_deadline hold)), (''overdraftUsed'', JBool (draw_body \<noteq> None)),
          (''overdraft'', case draw_body of None \<Rightarrow> JNull | Some d \<Rightarrow> d), (''replayed'', JBool False)])))))))"

definition overdraft_send ::
  "env \<Rightarrow> string \<Rightarrow> string \<Rightarrow> string \<Rightarrow> money \<Rightarrow> string \<Rightarrow> string option \<Rightarrow> string option \<Rightarrow> dict tx" where
  "overdraft_send E actor sender_id receiver_id amount key note request_id =
     tx_bind (clock_now E) (\<lambda>now.
     tx_bind (reserve_or_replay actor TRANSFER_ENDPOINT key
                (send_fingerprint E sender_id receiver_id amount note) now) (\<lambda>replay.
       case replay of
         Some body \<Rightarrow> tx_return (dict_set body ''replayed'' (JBool True))
       | None \<Rightarrow>
           tx_bind (send_once E actor sender_id receiver_id amount key note request_id now) (\<lambda>(rid, body).
           tx_bind (overdraft_complete actor TRANSFER_ENDPOINT key rid body now 201) (\<lambda>_.
             tx_return body))))"


section \<open>Read model\<close>

definition overdraft_summary :: "string \<Rightarrow> dict tx" where
  "overdraft_summary user_id = tx_gets (\<lambda>s.
     let sponsored = [(p, a). p \<leftarrow> overdraft_pools s, a \<leftarrow> accounts s,
                        a_id a = p_account p, p_sponsor p = user_id];
         grants = sql_order_by_desc (\<lambda>(g, u). g_created_at g)
                    [(g, u). g \<leftarrow> overdraft_grants s, p \<leftarrow> overdraft_pools s, u \<leftarrow> users s,
                       p_id p = g_pool g, u_id u = g_beneficiary g, p_sponsor p = user_id];
         debts = sql_order_by_desc (\<lambda>(l, u). l_created_at l)
                    [(l, u). l \<leftarrow> overdraft_loans s, p \<leftarrow> overdraft_pools s, u \<leftarrow> users s,
                       p_id p = l_pool l, u_id u = p_sponsor p, l_borrower l = user_id]
     in [(''sponsoredPool'', case sponsored of [] \<Rightarrow> JNull | (p, a) # _ \<Rightarrow>
            JObj [(''poolId'', JStr (p_id p)), (''status'', JStr (pool_status_str (p_status p))),
                  (''balanceMinor'', JInt (a_balance a)), (''currency'', JStr (py_strip (p_currency p)))]),
         (''grants'', JArr (map (\<lambda>(g, u).
            JObj [(''grantId'', JStr (g_id g)), (''poolId'', JStr (g_pool g)),
                  (''beneficiaryName'', JStr (u_display_name u)), (''beneficiaryPhone'', JStr (u_phone u)),
                  (''maxDrawMinor'', JInt (g_max_draw g)), (''status'', JStr (grant_status_str (g_status g)))]) grants)),
         (''debts'', JArr (map (\<lambda>(l, u).
            JObj [(''loanId'', JStr (l_id l)), (''poolId'', JStr (l_pool l)),
                  (''sponsorName'', JStr (u_display_name u)), (''principalMinor'', JInt (l_principal l)),
                  (''outstandingMinor'', JInt (l_outstanding l)), (''currency'', JStr (py_strip (l_currency l))),
                  (''status'', JStr (loan_status_str (l_status l))), (''createdAt'', JTime (l_created_at l))]) debts))])"


section \<open>Every command keeps the books\<close>

lemma evolves_overdraft_helpers [tx_rel_intros]:
  "tx_rel evolves (overdraft_complete a ep key i body now st)"
  "tx_rel evolves (overdraft_audit E a act i rq md)"
  unfolding overdraft_complete_def overdraft_audit_def by (intro evo.rel_rules tx_rel_intros)+

lemma evolves_cover_shortfall [tx_rel_intros]:
  "tx_rel evolves (cover_shortfall E a sn amt sf lk gs key rq now)"
  unfolding cover_shortfall_def by (intro evo.rel_rules tx_rel_intros)

lemma evolves_send_once [tx_rel_intros]: "tx_rel evolves (send_once E a sn rc amt key nt rq now)"
  unfolding send_once_def by (intro evo.rel_rules tx_rel_intros)

lemma overdraft_evolves [tx_rel_intros]:
  "tx_rel evolves (create_pool E sp amt key rq)"
  "tx_rel evolves (fund_pool E sp amt key rq)"
  "tx_rel evolves (grant_access E sp ph md key rq)"
  "tx_rel evolves (overdraft_send E a sn rc amt key nt rq)"
  unfolding create_pool_def fund_pool_def grant_access_def overdraft_send_def
  by (intro evo.rel_rules tx_rel_intros)+

end
