(* ===== verification/Requests.thy ===== *)
theory Requests
  imports Latch Transfer_Props
begin

text \<open>
  Money requests: \<open>modules/money_request/adapters/persistence/repositories.py\<close> and
  \<open>modules/money_request/application/money_request_service.py\<close>.  A request is paid by the
  transfer use case; its own state is a latch that leaves \<open>PENDING\<close> once.
\<close>

section \<open>Repository\<close>

definition request_row_ok :: "money_request_row \<Rightarrow> (string \<times> bool) list" where
  "request_row_ok r =
     [(''ck_money_requests_amount_positive'', 0 < m_amount r),
      (''ck_money_requests_requester_differs_from_payer'', m_requester r \<noteq> m_payer r),
      (''ck_money_requests_transfer_only_when_accepted'',
         (m_status r = ReqAccepted \<and> m_transfer_id r \<noteq> None)
         \<or> (m_status r \<noteq> ReqAccepted \<and> m_transfer_id r = None))]"

definition insert_request :: "money_request_row \<Rightarrow> unit tx" where
  "insert_request r =
     tx_bind (require_bigint [m_amount r]) (\<lambda>_.
     tx_bind (require_constraints (\<lambda>s. request_row_ok r @
        [(''pk_money_requests'', m_id r \<notin> m_id ` set (money_requests s)),
         (''uq_money_requests_reference'', m_reference r \<notin> m_reference ` set (money_requests s)),
         (''fk_money_requests_requester_account_id'', m_requester r \<in> a_id ` set (accounts s)),
         (''fk_money_requests_payer_account_id'', m_payer r \<in> a_id ` set (accounts s)),
         (''uq_money_requests_transfer_id'',
            m_transfer_id r = None \<or> m_transfer_id r \<notin> m_transfer_id ` set (money_requests s)),
         (''fk_money_requests_transfer_id'', opt_in (m_transfer_id r) (map t_id (transfers s)))])) (\<lambda>_.
       tx_modify (\<lambda>s. s\<lparr>money_requests := money_requests s @ [r]\<rparr>)))"

definition create_request_row ::
  "string \<Rightarrow> string \<Rightarrow> string \<Rightarrow> string \<Rightarrow> money \<Rightarrow> string option \<Rightarrow> int \<Rightarrow> int \<Rightarrow> unit tx" where
  "create_request_row rid reference requester payer amount note expires_at now =
     insert_request \<lparr>m_id = rid, m_reference = reference, m_requester = requester, m_payer = payer,
        m_amount = minor amount, m_currency = code (mcurrency amount), m_note = note,
        m_status = ReqPending, m_transfer_id = None, m_expires_at = expires_at,
        m_responded_at = None, m_created_at = now, m_updated_at = now\<rparr>"

definition get_request :: "string \<Rightarrow> money_request_row option tx" where
  "get_request rid = tx_gets (\<lambda>s. sql_get m_id rid (money_requests s))"

definition lock_request :: "string \<Rightarrow> money_request_row option tx" where
  "lock_request rid =
     tx_bind (tx_gets (\<lambda>s. filter (\<lambda>r. m_id r = rid) (money_requests s)))
       (\<lambda>rs. tx_lift (one_or_none rs))"

text \<open>An UPDATE of the pending row: the new rows are checked, then written; the row count is returned.\<close>

definition update_requests ::
  "(money_request_row \<Rightarrow> bool) \<Rightarrow> (money_request_row \<Rightarrow> money_request_row)
   \<Rightarrow> (db \<Rightarrow> (string \<times> bool) list) \<Rightarrow> nat tx" where
  "update_requests P f extra =
     tx_bind (require_constraints (\<lambda>s.
        concat (map (\<lambda>r. request_row_ok (f r)) (filter P (money_requests s)))
        @ (if filter P (money_requests s) = [] then [] else extra s))) (\<lambda>_.
     tx_bind (tx_gets (\<lambda>s. sql_rowcount P (money_requests s))) (\<lambda>n.
     tx_bind (tx_modify (\<lambda>s. s\<lparr>money_requests := sql_update P f (money_requests s)\<rparr>)) (\<lambda>_.
       tx_return n)))"

definition mark_accepted :: "string \<Rightarrow> string \<Rightarrow> int \<Rightarrow> nat tx" where
  "mark_accepted rid transfer_id now =
     update_requests (\<lambda>r. m_id r = rid \<and> m_status r = ReqPending)
       (\<lambda>r. r\<lparr>m_status := ReqAccepted, m_transfer_id := Some transfer_id, m_responded_at := Some now,
               m_updated_at := now\<rparr>)
       (\<lambda>s. [(''uq_money_requests_transfer_id'',
                \<forall>r \<in> set (money_requests s). m_transfer_id r \<noteq> Some transfer_id),
              (''fk_money_requests_transfer_id'', transfer_id \<in> t_id ` set (transfers s))])"

definition mark_terminal :: "string \<Rightarrow> request_status \<Rightarrow> int \<Rightarrow> nat tx" where
  "mark_terminal rid st now =
     update_requests (\<lambda>r. m_id r = rid \<and> m_status r = ReqPending)
       (\<lambda>r. r\<lparr>m_status := st, m_responded_at := Some now, m_updated_at := now\<rparr>) (\<lambda>s. [])"

definition expire_due_rows :: "int \<Rightarrow> nat tx" where
  "expire_due_rows now =
     update_requests (\<lambda>r. m_status r = ReqPending \<and> m_expires_at r \<le> now)
       (\<lambda>r. r\<lparr>m_status := ReqExpired, m_updated_at := now\<rparr>) (\<lambda>s. [])"

definition request_to_dict :: "money_request_row \<Rightarrow> dict" where
  "request_to_dict r =
     [(''requestId'', JStr (m_id r)), (''reference'', JStr (m_reference r)),
      (''requesterAccountId'', JStr (m_requester r)), (''payerAccountId'', JStr (m_payer r)),
      (''amountMinor'', JInt (m_amount r)), (''currency'', JStr (py_strip (m_currency r))),
      (''note'', opt_json JStr (m_note r)), (''status'', JStr (request_status_str (m_status r))),
      (''transferId'', opt_json JStr (m_transfer_id r)), (''expiresAt'', JTime (m_expires_at r)),
      (''createdAt'', JTime (m_created_at r)), (''respondedAt'', opt_json JTime (m_responded_at r))]"

definition list_for_account ::
  "string \<Rightarrow> string \<Rightarrow> string option \<Rightarrow> nat \<Rightarrow> string option \<Rightarrow> dict list tx" where
  "list_for_account account_id direction st limit cursor =
     tx_gets (\<lambda>s. map request_to_dict (take limit (sql_order_by_desc m_id
       (filter (\<lambda>r. (if direction = ''incoming'' then m_payer r else m_requester r) = account_id
                   \<and> (case st of None \<Rightarrow> True | Some v \<Rightarrow> v = [] \<or> request_status_str (m_status r) = v)
                   \<and> (case cursor of None \<Rightarrow> True | Some c \<Rightarrow> c = [] \<or> m_id r < c)) (money_requests s)))))"


section \<open>Service\<close>

record money_request_result =
  mr_id :: string
  mr_reference :: string
  mr_status :: string
  mr_transfer_reference :: "string option"

definition create_request ::
  "env \<Rightarrow> string \<Rightarrow> string \<Rightarrow> money \<Rightarrow> string option \<Rightarrow> string option \<Rightarrow> money_request_result tx" where
  "create_request E requester_user payer_phone amount note request_id =
     tx_bind (clock_now E) (\<lambda>now.
     tx_bind (get_account_by_user_id requester_user) (\<lambda>found.
     case found of None \<Rightarrow> tx_raise (app_error NotFoundError) | Some requester \<Rightarrow>
     tx_bind (get_account_by_phone payer_phone) (\<lambda>found.
     case found of None \<Rightarrow> tx_raise (app_error NotFoundError) | Some payer \<Rightarrow>
     tx_bind (tx_unless (acc_id payer \<noteq> acc_id requester) (app_error SelfTransferError)) (\<lambda>_.
     tx_bind (tx_lift (ensure_active requester)) (\<lambda>_.
     tx_bind (tx_lift (ensure_active payer)) (\<lambda>_.
     tx_bind (tx_unless (mcurrency (acc_balance requester) = mcurrency (acc_balance payer))
        (app_error ValidationError)) (\<lambda>_.
     tx_bind (fresh_ulid E) (\<lambda>rid.
     tx_bind (fresh_reference E ''REQ'' now) (\<lambda>reference.
     tx_bind (create_request_row rid reference (acc_id requester) (acc_id payer) amount note
                (now + money_request_expiry_hours E * hour_us) now) (\<lambda>_.
     tx_bind (outbox_append E (money_request_event ''money_request.created.v1'' rid now
        [(''requestId'', JStr rid), (''reference'', JStr reference),
         (''requesterUserId'', JStr requester_user), (''payerUserId'', opt_json JStr (acc_user_id payer)),
         (''amountMinor'', JInt (minor amount)), (''currency'', JStr (code (mcurrency amount))),
         (''note'', opt_json JStr note)]) request_id) (\<lambda>_.
     tx_bind (audit_record E (Some requester_user) ''MONEY_REQUEST_CREATED'' ''money_request'' (Some rid)
        request_id (Some [(''amountMinor'', JInt (minor amount)), (''reference'', JStr reference)]) now) (\<lambda>_.
       tx_return \<lparr>mr_id = rid, mr_reference = reference, mr_status = ''PENDING'',
                  mr_transfer_reference = None\<rparr>))))))))))))"

definition require_payable :: "string \<Rightarrow> string \<Rightarrow> int \<Rightarrow> money_request_row tx" where
  "require_payable rid payer_user now =
     tx_bind (lock_request rid) (\<lambda>found.
     case found of None \<Rightarrow> tx_raise (app_error NotFoundError) | Some record \<Rightarrow>
     tx_bind (get_account_by_id (m_payer record)) (\<lambda>acc.
     tx_bind (tx_unless (case acc of None \<Rightarrow> False | Some a \<Rightarrow> acc_user_id a = Some payer_user)
        (app_error NotFoundError)) (\<lambda>_.
     tx_bind (tx_unless (m_status record = ReqPending)
        (AppError StateConflictError [(''status'', JStr (request_status_str (m_status record)))])) (\<lambda>_.
       if m_expires_at record \<le> now
       then tx_bind (mark_terminal rid ReqExpired now) (\<lambda>_. tx_raise (app_error StateConflictError))
       else tx_return record))))"

definition accept_command ::
  "env \<Rightarrow> money_request_row \<Rightarrow> string \<Rightarrow> string \<Rightarrow> string option \<Rightarrow> transfer_command" where
  "accept_command E record payer_user key api_request_id =
     (base_command payer_user (m_payer record) (m_requester record) (mk_money (m_amount record) BDT) key
        (fingerprint_request (sha256 E)
           [(''moneyRequestId'', JStr (m_id record)), (''amountMinor'', JInt (m_amount record))]))
     \<lparr>c_kind := REQUEST_SETTLEMENT, c_note := m_note record, c_request_id := api_request_id,
      c_money_request_id := Some (m_id record)\<rparr>"

definition accept_request ::
  "env \<Rightarrow> string \<Rightarrow> string \<Rightarrow> string \<Rightarrow> string option \<Rightarrow> money_request_result tx" where
  "accept_request E rid payer_user key api_request_id =
     tx_bind (clock_now E) (\<lambda>now.
     tx_bind (require_payable rid payer_user now) (\<lambda>record.
     tx_bind (execute_transfer E (accept_command E record payer_user key api_request_id)) (\<lambda>transfer.
     tx_bind (mark_accepted rid (tr_id transfer) now) (\<lambda>updated.
     tx_bind (tx_unless (updated = 1) (app_error StateConflictError)) (\<lambda>_.
     tx_bind (outbox_append E (money_request_event ''money_request.accepted.v1'' rid now
        [(''requestId'', JStr rid), (''transferId'', JStr (tr_id transfer)),
         (''transferReference'', JStr (tr_reference transfer)), (''payerUserId'', JStr payer_user),
         (''amountMinor'', JInt (m_amount record))]) api_request_id) (\<lambda>_.
     tx_bind (audit_record E (Some payer_user) ''MONEY_REQUEST_ACCEPTED'' ''money_request'' (Some rid)
        api_request_id (Some [(''transferId'', JStr (tr_id transfer))]) now) (\<lambda>_.
       tx_return \<lparr>mr_id = rid, mr_reference = m_reference record, mr_status = ''ACCEPTED'',
                  mr_transfer_reference = Some (tr_reference transfer)\<rparr>)))))))"

datatype request_role = Payer | Requester

definition terminate_request ::
  "env \<Rightarrow> string \<Rightarrow> string \<Rightarrow> request_status \<Rightarrow> request_role \<Rightarrow> string option \<Rightarrow> money_request_result tx" where
  "terminate_request E rid actor new_status role api_request_id =
     tx_bind (clock_now E) (\<lambda>now.
     tx_bind (lock_request rid) (\<lambda>found.
     case found of None \<Rightarrow> tx_raise (app_error NotFoundError) | Some record \<Rightarrow>
     tx_bind (get_account_by_id (if role = Payer then m_payer record else m_requester record)) (\<lambda>acc.
     tx_bind (tx_unless (case acc of None \<Rightarrow> False | Some a \<Rightarrow> acc_user_id a = Some actor)
        (app_error AuthorizationError)) (\<lambda>_.
     tx_bind (mark_terminal rid new_status now) (\<lambda>updated.
     tx_bind (tx_unless (updated = 1)
        (AppError StateConflictError [(''status'', JStr (request_status_str (m_status record)))])) (\<lambda>_.
     tx_bind (if new_status = ReqRejected
              then outbox_append E (money_request_event ''money_request.rejected.v1'' rid now
                     [(''requestId'', JStr rid), (''payerUserId'', JStr actor)]) api_request_id
              else tx_return ()) (\<lambda>_.
     tx_bind (audit_record E (Some actor) (''MONEY_REQUEST_'' @ request_status_str new_status)
        ''money_request'' (Some rid) api_request_id None now) (\<lambda>_.
       tx_return \<lparr>mr_id = rid, mr_reference = m_reference record,
                  mr_status = request_status_str new_status, mr_transfer_reference = None\<rparr>))))))))"

definition reject_request :: "env \<Rightarrow> string \<Rightarrow> string \<Rightarrow> string option \<Rightarrow> money_request_result tx" where
  "reject_request E rid payer_user api_request_id =
     terminate_request E rid payer_user ReqRejected Payer api_request_id"

definition cancel_request :: "env \<Rightarrow> string \<Rightarrow> string \<Rightarrow> string option \<Rightarrow> money_request_result tx" where
  "cancel_request E rid requester_user api_request_id =
     terminate_request E rid requester_user ReqCancelled Requester api_request_id"

definition list_requests_for_user ::
  "string \<Rightarrow> string \<Rightarrow> string option \<Rightarrow> nat \<Rightarrow> string option \<Rightarrow> dict list tx" where
  "list_requests_for_user user_id direction st limit cursor =
     tx_bind (get_account_by_user_id user_id) (\<lambda>found.
     case found of None \<Rightarrow> tx_raise (app_error NotFoundError)
     | Some acc \<Rightarrow> list_for_account (acc_id acc) direction st limit cursor)"

definition expire_requests :: "env \<Rightarrow> nat tx" where
  "expire_requests E = tx_bind (clock_now E) expire_due_rows"



section \<open>Every command keeps the books\<close>

lemma evolves_request_ops [tx_rel_intros]:
  "tx_rel evolves (insert_request r)" "tx_rel evolves (create_request_row i rf rq py amt nt ex now)"
  "tx_rel evolves (lock_request i)" "tx_rel evolves (update_requests P f extra)"
  "tx_rel evolves (mark_accepted i tid now)" "tx_rel evolves (mark_terminal i st now)"
  "tx_rel evolves (expire_due_rows now)"
  unfolding insert_request_def create_request_row_def lock_request_def update_requests_def mark_accepted_def
    mark_terminal_def expire_due_rows_def
  by (intro evolves_frame tx_frame_bind tx_frame_basic tx_frame_modify frame_require; simp)+

lemma requests_evolve [tx_rel_intros]:
  "tx_rel evolves (create_request E u ph amt nt rq)"
  "tx_rel evolves (accept_request E i u key rq)"
  "tx_rel evolves (terminate_request E i u st role rq)"
  "tx_rel evolves (reject_request E i u rq)"
  "tx_rel evolves (cancel_request E i u rq)"
  "tx_rel evolves (expire_requests E)"
  unfolding create_request_def accept_request_def require_payable_def reject_request_def cancel_request_def
    terminate_request_def expire_requests_def
  by (intro evo.rel_rules tx_rel_intros)+

end
