(* ===== verification/Unit_Of_Work.thy ===== *)
theory Unit_Of_Work
  imports Identity
begin

text \<open>
  Transactions and retries, \<open>platform_/database/unit_of_work.py\<close>.

  A handler runs on a session that starts at the database's transaction time; success commits its
  session, any exception restores every table.  The \<open>tick\<close> counter, which numbers the reads of
  clock and entropy, is not part of the database and keeps counting.  What the database may do to
  an attempt is a parameter: \<open>Aborted\<close> is an error that arrives instead of a commit,
  \<open>Unacknowledged\<close> an error that arrives although the commit took effect (a connection lost while
  the acknowledgement was on its way).
\<close>

datatype fault = Aborted string | Unacknowledged string

definition RETRYABLE_SQLSTATES :: "string list" where
  "RETRYABLE_SQLSTATES = [''40001'', ''40P01'']"

definition UNAVAILABLE_SQLSTATES :: "string list" where
  "UNAVAILABLE_SQLSTATES =
     [''08000'', ''08001'', ''08003'', ''08004'', ''08006'', ''57P01'', ''57P02'', ''57P03'']"

text \<open>
  Only errors of the driver carry a SQLSTATE; that of a violated constraint is one of class 23,
  which is in neither set.
\<close>

fun sqlstate_of :: "exn \<Rightarrow> string option" where
  "sqlstate_of (DatabaseError st) = Some st"
| "sqlstate_of (IntegrityError c) = Some ''23000''"
| "sqlstate_of (AppError c d) = None"
| "sqlstate_of (PyError c) = None"

definition begin_txn :: "env \<Rightarrow> db \<Rightarrow> db" where
  "begin_txn E s = s\<lparr>tick := Suc (tick s), txn_now := db_clock E (tick s)\<rparr>"

definition transaction :: "env \<Rightarrow> fault option \<Rightarrow> 'a tx \<Rightarrow> 'a tx" where
  "transaction E fault operation = (\<lambda>s.
     case (operation (begin_txn E s), fault) of
       ((Inl e, t), _) \<Rightarrow> (Inl e, s\<lparr>tick := tick t\<rparr>)
     | ((Inr x, t), None) \<Rightarrow> (Inr x, t)
     | ((Inr x, t), Some (Aborted st)) \<Rightarrow> (Inl (DatabaseError st), s\<lparr>tick := tick t\<rparr>)
     | ((Inr x, t), Some (Unacknowledged st)) \<Rightarrow> (Inl (DatabaseError st), t))"

text \<open>The retry loop; \<open>faults\<close> gives what the database does to each attempt.\<close>

fun uow_loop :: "env \<Rightarrow> (nat \<Rightarrow> fault option) \<Rightarrow> nat \<Rightarrow> nat \<Rightarrow> 'a tx \<Rightarrow> 'a tx" where
  "uow_loop E faults attempt 0 operation = tx_raise (app_error DependencyUnavailableError)"
| "uow_loop E faults attempt (Suc left) operation = (\<lambda>s.
     case transaction E (faults attempt) operation s of
       (Inr x, t) \<Rightarrow> (Inr x, t)
     | (Inl e, t) \<Rightarrow>
         (case sqlstate_of e of
            None \<Rightarrow> (Inl e, t)
          | Some st \<Rightarrow>
              if st \<in> set UNAVAILABLE_SQLSTATES then (Inl (app_error DependencyUnavailableError), t)
              else if st \<notin> set RETRYABLE_SQLSTATES then (Inl e, t)
              else uow_loop E faults (Suc attempt) left operation t))"

definition uow_run :: "env \<Rightarrow> (nat \<Rightarrow> fault option) \<Rightarrow> 'a tx \<Rightarrow> 'a tx" where
  "uow_run E faults operation = uow_loop E faults 1 (transaction_max_attempts E) operation"

text \<open>\<open>run_pin_protected\<close>: the refusal is raised only after the attempt counter is committed.\<close>

definition run_pin_protected :: "env \<Rightarrow> (nat \<Rightarrow> fault option) \<Rightarrow> string \<Rightarrow> string \<Rightarrow> 'a tx \<Rightarrow> 'a tx" where
  "run_pin_protected E faults user_id pin operation =
     tx_bind (uow_run E faults (pin_protected E user_id pin operation)) tx_lift"


text \<open>
  What the code relies on of PostgreSQL: a conflict reported with a retryable SQLSTATE means that the
  transaction did not commit.
\<close>

definition sound_faults :: "(nat \<Rightarrow> fault option) \<Rightarrow> bool" where
  "sound_faults faults \<longleftrightarrow>
     (\<forall>k st. faults k = Some (Unacknowledged st) \<longrightarrow> st \<notin> set RETRYABLE_SQLSTATES)"


section \<open>Tables\<close>

text \<open>Equality of everything but the bookkeeping of the session.\<close>

definition same_tables :: "db \<Rightarrow> db \<Rightarrow> bool" where
  "same_tables s t \<longleftrightarrow> s\<lparr>tick := 0, txn_now := 0\<rparr> = t\<lparr>tick := 0, txn_now := 0\<rparr>"

lemma same_tables_simps [simp]:
  "same_tables s s" "same_tables s (s\<lparr>tick := n\<rparr>)" "same_tables s (begin_txn E s)"
  by (simp_all add: same_tables_def begin_txn_def)

lemma same_tables_trans [trans]: "same_tables s t \<Longrightarrow> same_tables t u \<Longrightarrow> same_tables s u"
  by (simp add: same_tables_def)

lemma same_tables_sym: "same_tables s t \<Longrightarrow> same_tables t s"
  by (simp add: same_tables_def)

lemma same_tables_sel:
  assumes "same_tables s t"
  shows "idempotency_records s = idempotency_records t" "history_of s = history_of t"
    "ledger_entries s = ledger_entries t" "login_sessions s = login_sessions t"
proof -
  note eq = assms [unfolded same_tables_def]
  show "idempotency_records s = idempotency_records t" using arg_cong [OF eq, of idempotency_records] by simp
  show "history_of s = history_of t" using arg_cong [OF eq, of history_of] by simp
  show "ledger_entries s = ledger_entries t" using arg_cong [OF eq, of ledger_entries] by simp
  show "login_sessions s = login_sessions t" using arg_cong [OF eq, of login_sessions] by simp
qed

lemma transaction_cases:
  obtains (committed) x t where "operation (begin_txn E s) = (Inr x, t)" "fault = None"
      "transaction E fault operation s = (Inr x, t)"
  | (raised) e t where "operation (begin_txn E s) = (Inl e, t)"
      "transaction E fault operation s = (Inl e, s\<lparr>tick := tick t\<rparr>)"
  | (aborted) x t st where "operation (begin_txn E s) = (Inr x, t)" "fault = Some (Aborted st)"
      "transaction E fault operation s = (Inl (DatabaseError st), s\<lparr>tick := tick t\<rparr>)"
  | (lost) x t st where "operation (begin_txn E s) = (Inr x, t)" "fault = Some (Unacknowledged st)"
      "transaction E fault operation s = (Inl (DatabaseError st), t)"
proof -
  obtain r t where op: "operation (begin_txn E s) = (r, t)" by (cases "operation (begin_txn E s)")
  show thesis
  proof (cases r)
    case (Inl e)
    with op show thesis by (intro raised) (auto simp: transaction_def)
  next
    case (Inr x)
    consider "fault = None" | st where "fault = Some (Aborted st)" | st where "fault = Some (Unacknowledged st)"
      by (metis fault.exhaust option.exhaust)
    then show thesis
      using op Inr committed [of x t] aborted [of x t] lost [of x t]
      by cases (simp_all add: transaction_def)
  qed
qed


section \<open>Atomicity\<close>

lemma transaction_effect:
  "case transaction E fault operation s of
     (Inr x, t) \<Rightarrow> (\<exists>u. same_tables s u \<and> operation u = (Inr x, t))
   | (Inl e, t) \<Rightarrow> same_tables s t
       \<or> (\<exists>u x st. fault = Some (Unacknowledged st) \<and> e = DatabaseError st
            \<and> same_tables s u \<and> operation u = (Inr x, t))"
  by (cases rule: transaction_cases [of operation E s fault]) (auto intro: same_tables_simps)

lemma uow_loop_effect:
  assumes "sound_faults faults"
  shows "case uow_loop E faults k left operation s of
     (Inr x, t) \<Rightarrow> (\<exists>u. same_tables s u \<and> operation u = (Inr x, t))
   | (Inl e, t) \<Rightarrow> same_tables s t
       \<or> (\<exists>k u x st. faults k = Some (Unacknowledged st) \<and> same_tables s u \<and> operation u = (Inr x, t))"
proof (induction left arbitrary: k s)
  case 0
  then show ?case by (simp add: tx_run)
next
  case (Suc left)
  obtain r t where tr: "transaction E (faults k) operation s = (r, t)"
    by (cases "transaction E (faults k) operation s")
  show ?case
  proof (cases r)
    case (Inr x)
    with tr transaction_effect [where E = E and fault = "faults k" and operation = operation and s = s] show ?thesis by simp
  next
    case (Inl e)
    have here: "same_tables s t \<or> (\<exists>u x st. faults k = Some (Unacknowledged st) \<and> e = DatabaseError st
            \<and> same_tables s u \<and> operation u = (Inr x, t))"
      using transaction_effect [where E = E and fault = "faults k" and operation = operation and s = s] tr Inl by simp
    show ?thesis
    proof (cases "\<exists>st. sqlstate_of e = Some st \<and> st \<notin> set UNAVAILABLE_SQLSTATES \<and> st \<in> set RETRYABLE_SQLSTATES")
      case True
      then have "same_tables s t" using here assms by (auto simp: sound_faults_def)
      moreover have "uow_loop E faults k (Suc left) operation s = uow_loop E faults (Suc k) left operation t"
        using True tr Inl by auto
      ultimately show ?thesis
        using Suc.IH [where k = "Suc k" and s = t]
        by (auto split: prod.splits sum.splits intro: same_tables_trans dest: same_tables_trans [of s t])
    next
      case False
      then have "\<exists>e'. uow_loop E faults k (Suc left) operation s = (Inl e', t)"
        using tr Inl by (cases "sqlstate_of e") auto
      then obtain e' where run: "uow_loop E faults k (Suc left) operation s = (Inl e', t)" by blast
      from here have "same_tables s t \<or> (\<exists>k u x st. faults k = Some (Unacknowledged st)
          \<and> same_tables s u \<and> operation u = (Inr x, t))" by blast
      then show ?thesis unfolding run by simp
    qed
  qed
qed

lemma uow_run_effect:
  assumes "sound_faults faults"
    and "uow_run E faults operation s = (r, t)"
  shows "(\<forall>x. r = Inr x \<longrightarrow> (\<exists>u. same_tables s u \<and> operation u = (Inr x, t)))
    \<and> (isl r \<longrightarrow> same_tables s t
        \<or> (\<exists>k u x st. faults k = Some (Unacknowledged st) \<and> same_tables s u \<and> operation u = (Inr x, t)))"
proof -
  note eff = uow_loop_effect [where faults = faults and E = E and k = 1 and operation = operation
      and left = "transaction_max_attempts E" and s = s, OF assms(1)]
  from assms(2) have "uow_loop E faults 1 (transaction_max_attempts E) operation s = (r, t)"
    by (simp add: uow_run_def)
  with eff show ?thesis by (cases r) simp_all
qed

text \<open>
  C6: a unit of work is atomic and at most once.  Whatever the database does to its attempts,
  provided a conflict it reports as retryable means the attempt did not commit: when the run returns,
  exactly one execution of the operation, started from the tables the run found, is what was
  committed; when it raises, the tables are untouched, unless the acknowledgement of the one commit
  was lost.
\<close>

theorem uow_atomic:
  assumes "sound_faults faults"
    and "uow_run E faults operation s = (r, t)"
  shows "(\<forall>x. r = Inr x \<longrightarrow> (\<exists>u. same_tables s u \<and> operation u = (Inr x, t)))
    \<and> (isl r \<longrightarrow> same_tables s t
        \<or> (\<exists>k u x st. faults k = Some (Unacknowledged st) \<and> same_tables s u \<and> operation u = (Inr x, t)))"
  using assms by (rule uow_run_effect)

text \<open>Two conflicts, then success: the third attempt is the one that commits.\<close>

definition demo_faults :: "nat \<Rightarrow> fault option" where
  "demo_faults k = (if k < 3 then Some (Aborted ''40P01'') else None)"

theorem uow_atomic_witness:
  "\<exists>x t. uow_run demo_env demo_faults (set_user_status ''alice'' UserSuspended) demo_db = (Inr x, t)
     \<and> (\<exists>u. same_tables demo_db u \<and> set_user_status ''alice'' UserSuspended u = (Inr x, t))"
proof -
  have sound: "sound_faults demo_faults" by (simp add: sound_faults_def demo_faults_def)
  have "\<exists>x t. uow_run demo_env demo_faults (set_user_status ''alice'' UserSuspended) demo_db = (Inr x, t)"
    by (simp add: uow_run_def demo_env_def transaction_def begin_txn_def set_user_status_def update_user_def
        tx_bind_app tx_run demo_faults_def eval_nat_numeral UNAVAILABLE_SQLSTATES_def RETRYABLE_SQLSTATES_def)
  then obtain x t where run: "uow_run demo_env demo_faults (set_user_status ''alice'' UserSuspended) demo_db = (Inr x, t)"
    by blast
  with uow_atomic [OF sound run] show ?thesis by blast
qed

text \<open>
  Every outcome of a unit of work, a raised error included, respects what its operation respects.
\<close>

locale committed_preorder = session_preorder R for R :: "db \<Rightarrow> db \<Rightarrow> bool" +
  assumes tables: "same_tables s t \<Longrightarrow> R s t"
begin

lemma transaction_rel:
  assumes "tx_rel R operation"
  shows "R s (snd (transaction E fault operation s))"
proof -
  have started: "R s t" if "operation (begin_txn E s) = (Inr x, t)" for x t
    using tx_relD [OF assms that] tables [of s "begin_txn E s"] R_trans by simp
  show ?thesis
    by (cases rule: transaction_cases [of operation E s fault]) (auto intro: tables started)
qed

lemma uow_loop_rel:
  assumes "tx_rel R operation"
  shows "R s (snd (uow_loop E faults k left operation s))"
proof (induction left arbitrary: k s)
  case 0
  then show ?case by (simp add: tx_run R_refl)
next
  case (Suc left)
  obtain r t where "transaction E (faults k) operation s = (r, t)"
    by (cases "transaction E (faults k) operation s")
  with transaction_rel [OF assms, of s E "faults k"] Suc.IH [of t "Suc k"] show ?case
    by (auto split: sum.splits option.splits intro: R_trans)
qed

lemma uow_run_rel: "tx_rel R operation \<Longrightarrow> R s (snd (uow_run E faults operation s))"
  by (simp add: uow_run_def uow_loop_rel)

end

interpretation committed: committed_preorder evolves
  by unfold_locales (auto intro: evolves_same_history same_tables_sel)


section \<open>Retrying clients\<close>

text \<open>A client that keeps sending the same command, each time under its own faults.\<close>

fun client_tries :: "env \<Rightarrow> (nat \<Rightarrow> fault option) list \<Rightarrow> 'a tx \<Rightarrow> db \<Rightarrow> (exn + 'a) list \<times> db" where
  "client_tries E [] operation s = ([], s)"
| "client_tries E (faults # fss) operation s =
     (let (r, t) = uow_run E faults operation s; (rs, u) = client_tries E fss operation t in (r # rs, u))"

definition executed_once :: "env \<Rightarrow> transfer_command \<Rightarrow> db \<Rightarrow> db \<Rightarrow> bool" where
  "executed_once E cmd s t \<longleftrightarrow>
     (\<exists>u v r. same_tables s u \<and> execute_transfer E cmd u = (Inr r, v) \<and> same_tables v t)"

lemma execute_replayed_same:
  assumes "execute_transfer E cmd u = (Inr r, v)" "tr_replayed r"
  shows "same_tables u v"
  using assms(1) [unfolded execute_transfer_def']
proof (cases rule: execute_with_okD)
  case (replay row n)
  then show ?thesis by simp
next
  case (fresh now s0)
  have "\<not> tr_replayed r"
    using fresh(4)
  proof (rule settle_transfer_effect)
    show "snd (additional_lock_ids i (c_receiver cmd) (c_kind cmd) s0) = s0"
      if "Some (lien E (execute_depth E 0)) = Some i" for i using that by (rule lien_locks_ok)
  qed (simp add: fresh_effect_def)
  with assms(2) show ?thesis by simp
qed

text \<open>Running the command again after it was executed changes no table.\<close>

lemma execute_again_same:
  assumes "executed_once E cmd s t" "same_tables t u" "execute_transfer E cmd u = (Inr r, v)"
  shows "executed_once E cmd s v"
proof -
  from assms(1) obtain u0 v0 r0 where first: "same_tables s u0" "execute_transfer E cmd u0 = (Inr r0, v0)"
    "same_tables v0 t" by (auto simp: executed_once_def)
  show ?thesis
  proof (cases "tr_replayed r0")
    case True
    then have "same_tables s u"
      using execute_replayed_same [OF first(2)] first(1,3) assms(2) same_tables_trans by blast
    with assms(3) show ?thesis by (auto simp: executed_once_def)
  next
    case False
    have "idempotency_records u = idempotency_records v0"
      using same_tables_sel(1) first(3) assms(2) by metis
    with execute_transfer_replays [OF first(2) False, of u E] assms(3) have "same_tables u v" by auto
    with first(3) assms(2) have "same_tables v0 v" by (blast intro: same_tables_trans)
    with first(1,2) show ?thesis unfolding executed_once_def by blast
  qed
qed

lemma uow_run_once:
  assumes "sound_faults faults"
    and "uow_run E faults (execute_transfer E cmd) t = (r, t')"
    and "same_tables s t \<or> executed_once E cmd s t"
  shows "(isl r \<and> same_tables t t') \<or> executed_once E cmd s t'"
proof -
  have again: "executed_once E cmd s t'" if "same_tables t u" "execute_transfer E cmd u = (Inr x, t')" for u x
    using assms(3)
  proof
    assume "same_tables s t"
    then have "same_tables s u" using that(1) by (rule same_tables_trans)
    with that(2) show ?thesis unfolding executed_once_def by (meson same_tables_simps(1))
  next
    assume "executed_once E cmd s t"
    then show ?thesis using that by (rule execute_again_same)
  qed
  note at = uow_run_effect [OF assms(1,2)]
  show ?thesis
  proof (cases r)
    case (Inl e)
    with at again show ?thesis by auto
  next
    case (Inr x)
    with at again show ?thesis by auto
  qed
qed

lemma executed_once_tables: "executed_once E cmd s t \<Longrightarrow> same_tables t u \<Longrightarrow> executed_once E cmd s u"
  unfolding executed_once_def by (blast intro: same_tables_trans)

lemma client_tries_executed:
  assumes "list_all sound_faults fss"
    and "client_tries E fss (execute_transfer E cmd) t = (rs, t')" "executed_once E cmd s t"
  shows "executed_once E cmd s t'"
  using assms
proof (induction fss arbitrary: t rs)
  case (Cons faults fss)
  obtain r u qs where run: "uow_run E faults (execute_transfer E cmd) t = (r, u)"
    "client_tries E fss (execute_transfer E cmd) u = (qs, t')" "rs = r # qs"
    using Cons.prems(2) by (auto split: prod.splits)
  have nolost: "sound_faults faults"
    using Cons.prems(1) by simp
  have "executed_once E cmd s u"
    using uow_run_once [OF nolost run(1) disjI2 [OF Cons.prems(3)]] executed_once_tables [OF Cons.prems(3)] by blast
  with Cons.IH [OF _ run(2)] Cons.prems(1) show ?case by simp
qed simp

lemma client_tries_inv:
  assumes "list_all sound_faults fss"
    and "client_tries E fss (execute_transfer E cmd) t = (rs, t')" "same_tables s t"
  shows "executed_once E cmd s t' \<or> (same_tables s t' \<and> list_all isl rs)"
  using assms
proof (induction fss arbitrary: t rs)
  case (Cons faults fss)
  obtain r u qs where run: "uow_run E faults (execute_transfer E cmd) t = (r, u)"
    "client_tries E fss (execute_transfer E cmd) u = (qs, t')" "rs = r # qs"
    using Cons.prems(2) by (auto split: prod.splits)
  have nolost: "sound_faults faults"
    and rest: "list_all sound_faults fss"
    using Cons.prems(1) by simp_all
  from uow_run_once [OF nolost run(1) disjI1 [OF Cons.prems(3)]]
  consider "isl r" "same_tables t u" | "executed_once E cmd s u" by auto
  then show ?case
  proof cases
    case 1
    with Cons.IH [OF rest run(2)] Cons.prems(3) run(3) show ?thesis by (auto dest: same_tables_trans)
  next
    case 2
    with client_tries_executed [OF rest run(2)] show ?thesis by blast
  qed
qed simp

text \<open>
  C7: retrying is safe.  However often a client sends the same transfer command, and whatever
  faults each try meets, lost acknowledgements included, the database ends up as after at most one
  execution of it, and as after exactly one if any try reported success.
\<close>

theorem retries_execute_once:
  assumes "list_all sound_faults fss"
    and "client_tries E fss (execute_transfer E cmd) s = (rs, t)"
  shows "(same_tables s t \<or> (\<exists>u v r. same_tables s u \<and> execute_transfer E cmd u = (Inr r, v) \<and> same_tables v t))
    \<and> (\<not> list_all isl rs \<longrightarrow>
        (\<exists>u v r. same_tables s u \<and> execute_transfer E cmd u = (Inr r, v) \<and> same_tables v t))"
  using client_tries_inv [OF assms same_tables_simps(1)] unfolding executed_once_def by blast

text \<open>The first acknowledgement is lost, the client sends the command again.\<close>

theorem retries_execute_once_witness:
  "let (rs, t) = client_tries demo_env [\<lambda>k. Some (Unacknowledged ''08006''), \<lambda>k. None]
       (execute_transfer demo_env demo_grant) demo_db
   in same_tables demo_db t
     \<or> (\<exists>u v r. same_tables demo_db u \<and> execute_transfer demo_env demo_grant u = (Inr r, v) \<and> same_tables v t)"
proof -
  let ?fss = "[\<lambda>k. Some (Unacknowledged ''08006''), \<lambda>k. None]"
  obtain rs t where run: "client_tries demo_env ?fss (execute_transfer demo_env demo_grant) demo_db = (rs, t)"
    by (cases "client_tries demo_env ?fss (execute_transfer demo_env demo_grant) demo_db")
  have "list_all sound_faults ?fss" by (simp add: sound_faults_def RETRYABLE_SQLSTATES_def)
  from retries_execute_once [OF this run] show ?thesis unfolding run by simp
qed


definition demo_session :: "string \<Rightarrow> int option \<Rightarrow> session_row" where
  "demo_session sid revoked = \<lparr>s_id = sid, s_user_id = ''alice'', s_refresh_token_hash = sid, s_rotated_to_id = None,
     s_issued_at = 0, s_expires_at = 604800000000, s_revoked_at = revoked, s_user_agent = None, s_ip_address = None\<rparr>"


end
