(* ===== verification/Lifecycle.thy ===== *)
theory Lifecycle
  imports Overdraft Requests Unit_Of_Work
begin

text \<open>
  The state machines of the program: transfers in a holding account, money requests, SafePay orders
  and Spot-Me loans.  Each is a table whose rows are updated by guarded statements only.
  \<open>progresses\<close> says that every row that exists keeps its identity and moves forward in its state
  machine, and that the row constraints keep holding; every handler respects it.
\<close>

section \<open>Growing tables\<close>

definition table_grows :: "('r \<Rightarrow> 'r \<Rightarrow> bool) \<Rightarrow> 'r list \<Rightarrow> 'r list \<Rightarrow> bool" where
  "table_grows step xs ys \<longleftrightarrow> (\<exists>us vs. ys = us @ vs \<and> list_all2 step xs us)"

locale row_steps =
  fixes step :: "'r \<Rightarrow> 'r \<Rightarrow> bool"
  assumes step_refl: "step x x"
    and step_trans: "step x y \<Longrightarrow> step y z \<Longrightarrow> step x z"
begin

lemma grows_refl: "table_grows step xs xs"
  unfolding table_grows_def by (intro exI [of _ xs] exI [of _ "[]"]) (simp add: list_all2_refl step_refl)

lemma grows_append: "table_grows step xs (xs @ ys)"
  unfolding table_grows_def by (intro exI [of _ xs] exI [of _ ys]) (simp add: list_all2_refl step_refl)

lemma grows_prefix: "prefix xs ys \<Longrightarrow> table_grows step xs ys"
  by (auto simp: prefix_def grows_append)

lemma grows_trans:
  assumes "table_grows step xs ys" "table_grows step ys zs"
  shows "table_grows step xs zs"
proof -
  from assms obtain us vs us' vs' where
    1: "ys = us @ vs" "list_all2 step xs us" and 2: "zs = us' @ vs'" "list_all2 step ys us'"
    by (auto simp: table_grows_def)
  from 1(1) 2(2) obtain a b where ab: "us' = a @ b" "list_all2 step us a"
    by (auto simp: list_all2_append1)
  have "list_all2 step xs a" using 1(2) ab(2) by (rule list_all2_trans [rotated 1, OF _ _]) (rule step_trans)
  with 2(1) ab(1) show ?thesis unfolding table_grows_def by auto
qed

lemma grows_update: "(\<And>r. r \<in> set xs \<Longrightarrow> P r \<Longrightarrow> step r (f r)) \<Longrightarrow> table_grows step xs (sql_update P f xs)"
  unfolding table_grows_def sql_update_def
  by (intro exI [of _ "map (\<lambda>r. if P r then f r else r) xs"] exI [of _ "[]"])
     (auto simp: list_all2_map2 list_all2_same step_refl)

end

lemma list_all2_in_set: "list_all2 R xs us \<Longrightarrow> x \<in> set xs \<Longrightarrow> \<exists>u \<in> set us. R x u"
  by (induction rule: list_all2_induct) auto

lemma table_grows_lookup:
  assumes "table_grows step xs ys" "x \<in> set xs"
  shows "\<exists>y \<in> set ys. step x y"
proof -
  from assms(1) obtain us vs where "ys = us @ vs" "list_all2 step xs us" by (auto simp: table_grows_def)
  with list_all2_in_set [OF _ assms(2)] show ?thesis by fastforce
qed

text \<open>A nullable UNIQUE column, stated over the key of its table.\<close>

definition column_unique :: "('r \<Rightarrow> 'k) \<Rightarrow> ('r \<Rightarrow> 'v option) \<Rightarrow> 'r list \<Rightarrow> bool" where
  "column_unique k v t \<longleftrightarrow> (\<forall>a b w. (a, Some w) \<in> set (map (\<lambda>r. (k r, v r)) t)
     \<and> (b, Some w) \<in> set (map (\<lambda>r. (k r, v r)) t) \<longrightarrow> a = b)"

lemma column_unique_append_None:
  assumes "column_unique k v t" "v r = None"
  shows "column_unique k v (t @ [r])"
proof -
  have "(a, Some w) \<in> set (map (\<lambda>r. (k r, v r)) (t @ [r])) \<longleftrightarrow> (a, Some w) \<in> set (map (\<lambda>r. (k r, v r)) t)" for a w
    using assms(2) by auto
  with assms(1) show ?thesis by (simp only: column_unique_def)
qed

lemma column_unique_update_same:
  assumes "column_unique k v t" "\<And>r. v (f r) = v r" "\<And>r. k (f r) = k r"
  shows "column_unique k v (sql_update P f t)"
proof -
  have "map (\<lambda>r. (k r, v r)) (sql_update P f t) = map (\<lambda>r. (k r, v r)) t"
    by (rule map_sql_update_same) (simp add: assms)
  with assms(1) show ?thesis by (simp only: column_unique_def)
qed

lemma column_unique_update_new:
  assumes uniq: "column_unique k v t" and f: "\<And>r. v (f r) = Some w" "\<And>r. k (f r) = k r"
    and P: "\<And>r. P r \<Longrightarrow> k r = c" and new: "\<And>r. r \<in> set t \<Longrightarrow> v r \<noteq> Some w"
  shows "column_unique k v (sql_update P f t)"
proof -
  have sub: "(a, Some x) \<in> set (map (\<lambda>r. (k r, v r)) t) \<and> x \<noteq> w \<or> a = c \<and> x = w"
    if mem: "(a, Some x) \<in> set (map (\<lambda>r. (k r, v r)) (sql_update P f t))" for a x
  proof -
    from mem obtain r where r: "r \<in> set (sql_update P f t)" "a = k r" "v r = Some x" by auto
    from r(1) consider r0 where "r = f r0" "P r0" | "r \<in> set t" unfolding set_sql_update by blast
    then show ?thesis
    proof cases
      case 1
      then show ?thesis using r(2,3) f P by auto
    next
      case 2
      then have "(a, Some x) \<in> set (map (\<lambda>r. (k r, v r)) t)" "x \<noteq> w"
        using r(2,3) new by (auto simp: image_iff)
      then show ?thesis by blast
    qed
  qed
  show ?thesis
    unfolding column_unique_def using sub uniq [unfolded column_unique_def] by blast
qed



section \<open>The state machines\<close>

definition transfer_moves :: "transfer_row \<Rightarrow> transfer_row \<Rightarrow> bool" where
  "transfer_moves a b \<longleftrightarrow> transfer_core a = transfer_core b
     \<and> (t_status b = t_status a
        \<or> t_status a \<in> {PENDING_UNDO, HELD} \<and> t_status b \<in> {SUCCEEDED, REFUNDED})"

definition request_core where
  "request_core r = (m_id r, m_reference r, m_requester r, m_payer r, m_amount r, m_currency r, m_note r,
     m_expires_at r, m_created_at r)"

definition request_moves :: "money_request_row \<Rightarrow> money_request_row \<Rightarrow> bool" where
  "request_moves a b \<longleftrightarrow> request_core a = request_core b \<and> (m_status a = ReqPending \<or> b = a)"

text \<open>Order of the statuses of an order; the last three are final.\<close>

fun escrow_rank :: "escrow_status \<Rightarrow> nat" where
  "escrow_rank AwaitingShipment = 0"
| "escrow_rank Shipped = 1"
| "escrow_rank Delivered = 2"
| "escrow_rank EscrowDisputed = 3"
| "escrow_rank Released = 4"
| "escrow_rank EscrowRefunded = 4"
| "escrow_rank EscrowCancelled = 4"

definition escrow_core where
  "escrow_core r = (e_id r, e_reference r, e_hold_transfer r, e_buyer r, e_seller r, e_amount r, e_currency r,
     e_code_hash r, e_created_at r)"

definition escrow_moves :: "escrow_row \<Rightarrow> escrow_row \<Rightarrow> bool" where
  "escrow_moves a b \<longleftrightarrow> escrow_core a = escrow_core b
     \<and> (e_status b = e_status a \<or> escrow_rank (e_status a) < escrow_rank (e_status b))
     \<and> (e_settlement_transfer a \<noteq> None \<longrightarrow> e_settlement_transfer b = e_settlement_transfer a)"

definition loan_core where
  "loan_core l = (l_id l, l_pool l, l_borrower l, l_draw_transfer l, l_principal l, l_currency l, l_created_at l)"

definition loan_moves :: "loan_row \<Rightarrow> loan_row \<Rightarrow> bool" where
  "loan_moves a b \<longleftrightarrow> loan_core a = loan_core b \<and> l_outstanding b \<le> l_outstanding a
     \<and> (l_status a = LoanOutstanding \<or> b = a)"

interpretation transfer_rows: row_steps transfer_moves
  by unfold_locales (auto simp: transfer_moves_def)

interpretation request_rows: row_steps request_moves
  by unfold_locales (auto simp: request_moves_def)

interpretation escrow_rows: row_steps escrow_moves
  by unfold_locales (auto simp: escrow_moves_def)

interpretation loan_rows: row_steps loan_moves
  by unfold_locales (auto simp: loan_moves_def)

text \<open>The constraints of these tables.\<close>

definition requests_ok :: "money_request_row list \<Rightarrow> bool" where
  "requests_ok rs \<longleftrightarrow> keys_distinct m_id rs \<and> (\<forall>r \<in> set rs. list_all snd (request_row_ok r))
     \<and> column_unique m_id m_transfer_id rs"

definition escrows_ok :: "escrow_row list \<Rightarrow> bool" where
  "escrows_ok es \<longleftrightarrow> keys_distinct e_id es \<and> keys_distinct e_hold_transfer es
     \<and> (\<forall>r \<in> set es. list_all snd (escrow_row_ok r)) \<and> column_unique e_id e_settlement_transfer es"

definition loans_ok :: "loan_row list \<Rightarrow> bool" where
  "loans_ok ls \<longleftrightarrow> keys_distinct l_id ls \<and> (\<forall>l \<in> set ls. list_all snd (loan_row_ok l))"

definition rows_ok :: "db \<Rightarrow> bool" where
  "rows_ok s \<longleftrightarrow> requests_ok (money_requests s) \<and> escrows_ok (safepay_escrows s)
     \<and> loans_ok (overdraft_loans s) \<and> tasks_ok (scheduled_tasks s) \<and> users_keyed s"

definition moves :: "db \<Rightarrow> db \<Rightarrow> bool" where
  "moves s t \<longleftrightarrow> table_grows transfer_moves (transfers s) (transfers t)
     \<and> table_grows request_moves (money_requests s) (money_requests t)
     \<and> table_grows escrow_moves (safepay_escrows s) (safepay_escrows t)
     \<and> table_grows loan_moves (overdraft_loans s) (overdraft_loans t)"

definition progresses :: "db \<Rightarrow> db \<Rightarrow> bool" where
  "progresses s t \<longleftrightarrow> (rows_ok s \<longrightarrow> rows_ok t \<and> moves s t)"

lemma moves_refl: "moves s s"
  by (simp add: moves_def transfer_rows.grows_refl request_rows.grows_refl escrow_rows.grows_refl
      loan_rows.grows_refl)

lemma moves_trans: "moves s t \<Longrightarrow> moves t u \<Longrightarrow> moves s u"
  unfolding moves_def
  by (blast intro: transfer_rows.grows_trans request_rows.grows_trans escrow_rows.grows_trans
      loan_rows.grows_trans)

interpretation prog: session_preorder progresses
  by unfold_locales (auto simp: progresses_def moves_refl intro: moves_trans)

text \<open>The parts of the session \<open>progresses\<close> reads.\<close>

definition lifecycle_of where
  "lifecycle_of s = (transfers s, money_requests s, safepay_escrows s, overdraft_loans s, scheduled_tasks s,
     map u_id (users s))"

lemma progresses_same: "lifecycle_of s = lifecycle_of t \<Longrightarrow> progresses s t"
  by (simp add: progresses_def lifecycle_of_def rows_ok_def moves_def users_keyed_def transfer_rows.grows_refl
      request_rows.grows_refl escrow_rows.grows_refl loan_rows.grows_refl)

lemma progresses_frame: "tx_frame lifecycle_of m \<Longrightarrow> tx_rel progresses m"
  by (erule tx_rel_frame) (rule progresses_same)

lemma lifecycle_of_ignores [simp]:
  "lifecycle_of (s\<lparr>tick := n\<rparr>) = lifecycle_of s"
  "lifecycle_of (s\<lparr>txn_now := x1\<rparr>) = lifecycle_of s"
  "lifecycle_of (s\<lparr>accounts := x2\<rparr>) = lifecycle_of s"
  "lifecycle_of (s\<lparr>ledger_transactions := x3\<rparr>) = lifecycle_of s"
  "lifecycle_of (s\<lparr>ledger_entries := x4\<rparr>) = lifecycle_of s"
  "lifecycle_of (s\<lparr>idempotency_records := x5\<rparr>) = lifecycle_of s"
  "lifecycle_of (s\<lparr>outbox_events := x6\<rparr>) = lifecycle_of s"
  "lifecycle_of (s\<lparr>audit_logs := x7\<rparr>) = lifecycle_of s"
  "lifecycle_of (s\<lparr>overdraft_pools := x8\<rparr>) = lifecycle_of s"
  "lifecycle_of (s\<lparr>overdraft_grants := x9\<rparr>) = lifecycle_of s"
  "lifecycle_of (s\<lparr>overdraft_repayments := x10\<rparr>) = lifecycle_of s"
  "lifecycle_of (s\<lparr>login_sessions := x11\<rparr>) = lifecycle_of s"
  "lifecycle_of (s\<lparr>consumer_inbox := x12\<rparr>) = lifecycle_of s"
  by (simp_all add: lifecycle_of_def)

interpretation committed_progress: committed_preorder progresses
  by unfold_locales (auto intro!: progresses_same dest!: arg_cong [of _ _ lifecycle_of] simp: same_tables_def)



section \<open>The operations\<close>

named_theorems prog_intros \<open>operations that progress\<close>

lemma progress_feeds [prog_intros]:
  "tx_rel progresses (clock_now E)" "tx_rel progresses (fresh_ulid E)"
  "tx_rel progresses (fresh_reference E p now)" "tx_rel progresses (hash_secret E sec)"
  "tx_rel progresses (issue_refresh_token E)"
  "tx_rel progresses (require_constraints cs)" "tx_rel progresses (require_bigint vs)"
  unfolding hash_secret_def issue_refresh_token_def
  by (intro progresses_frame tx_frame_feeds tx_frame_bind tx_frame_basic tx_frame_tick frame_require; simp)+

lemma progress_core_ops [prog_intros]:
  "tx_rel progresses (get_account_by_id k)" "tx_rel progresses (get_account_by_user_id k)"
  "tx_rel progresses (get_account_by_phone k)" "tx_rel progresses (lock_accounts_for_update ids)"
  "tx_rel progresses (get_transfer k)"
  "tx_rel progresses (outbox_append E ev tr)" "tx_rel progresses (audit_record E oa act ty rid req md now)"
  "tx_rel progresses (idem_reserve a ep key fp now)" "tx_rel progresses (idem_complete a ep key rid2 st body now)"
  "tx_rel progresses (get_pool_for_sponsor u)" "tx_rel progresses (get_pool p)" "tx_rel progresses (get_grant p u)"
  "tx_rel progresses (active_grants_for_borrower u)" "tx_rel progresses (outstanding_loans u)"
  by (intro progresses_frame frames; simp)+

lemma progress_core_writes [prog_intros]:
  "tx_rel progresses (insert_account acc)" "tx_rel progresses (set_account_status i st)"
  "tx_rel progresses (create_account i u nm cur now)" "tx_rel progresses (create_subaccount i ou ty nm cur now)"
  "tx_rel progresses (create_pool_row i2 sp pa cur now)" "tx_rel progresses (create_grant_row i3 p b m now)"
  "tx_rel progresses (create_session sid u h ex now ua ip)" "tx_rel progresses (get_session_by_token_hash h)"
  "tx_rel progresses (revoke_session sid now)" "tx_rel progresses (revoke_all_for_user u now)"
  "tx_rel progresses (mark_rotated sid su now)"
  "tx_rel progresses (get_user_by_phone ph)" "tx_rel progresses (get_user_by_id u)" "tx_rel progresses (lock_user u)"
  "tx_rel progresses (get_escrow i4)" "tx_rel progresses (lock_escrow i4)" "tx_rel progresses (find_by_tracking co tn)"
  "tx_rel progresses (lock_request i5)"
  unfolding insert_account_def set_account_status_def create_account_def create_subaccount_def create_pool_row_def
    create_grant_row_def create_session_def get_session_by_token_hash_def revoke_session_def revoke_all_for_user_def
    mark_rotated_def get_user_by_phone_def get_user_by_id_def lock_user_def get_escrow_def lock_escrow_def
    find_by_tracking_def lock_request_def
  by (intro progresses_frame tx_frame_bind tx_frame_basic tx_frame_modify frame_require; simp)+

lemma frame_update_user:
  assumes "\<And>u. u_id (f u) = u_id u"
  shows "tx_frame lifecycle_of (update_user i f)"
proof -
  have "map u_id (sql_update P (\<lambda>u. (f u)\<lparr>u_updated_at := w\<rparr>) us) = map u_id us" for P w us
    by (rule map_sql_update_same) (simp add: assms)
  then show ?thesis
    unfolding update_user_def by (intro tx_frame_modify) (simp add: lifecycle_of_def)
qed

lemmas progress_update_user = progresses_frame [OF frame_update_user]

lemma progress_users [prog_intros]:
  "tx_rel progresses (record_pin_failure i att lk)" "tx_rel progresses (reset_pin_failures i)"
  "tx_rel progresses (update_password_hash i h)" "tx_rel progresses (set_user_status i st)"
  unfolding record_pin_failure_def reset_pin_failures_def update_password_hash_def set_user_status_def
  by (intro prog.rel_rules progress_update_user; simp)+

lemma progress_create_user [prog_intros]:
  "tx_rel progresses (create_user_row u)" "tx_rel progresses (create_user i ph nm h1 h2 now)"
proof -
  show row: "tx_rel progresses (create_user_row u)" for u
  proof (rule tx_relI)
    fix s x t
    assume "create_user_row u s = (Inr x, t)"
    then have "u_id u \<notin> u_id ` set (users s)" "t = s\<lparr>users := users s @ [u]\<rparr>"
      by (simp_all add: create_user_row_def tx_okD)
    then show "progresses s t"
      by (simp add: progresses_def rows_ok_def users_keyed_def moves_def transfer_rows.grows_refl
          request_rows.grows_refl escrow_rows.grows_refl loan_rows.grows_refl)
  qed
  show "tx_rel progresses (create_user i ph nm h1 h2 now)" unfolding create_user_def by (rule row)
qed

text \<open>Statements on a single table of the lifecycle.\<close>

lemma progresses_tasks:
  assumes "tasks_ok (scheduled_tasks s) \<Longrightarrow> tasks_ok ks"
  shows "progresses s (s\<lparr>tick := n, scheduled_tasks := ks\<rparr>)"
  using assms
  by (simp add: progresses_def rows_ok_def users_keyed_def moves_def transfer_rows.grows_refl
      request_rows.grows_refl escrow_rows.grows_refl loan_rows.grows_refl)

lemma progress_schedule [prog_intros]: "tx_rel progresses (schedule_task E ty rid d)"
proof (rule tx_relI)
  fix s i t
  assume "schedule_task E ty rid d s = (Inr i, t)"
  from schedule_task_okD [OF this] show "progresses s t"
  proof (elim exE disjE conjE)
    fix n
    assume "t = s\<lparr>tick := n\<rparr>"
    then show ?thesis by (intro progresses_same) simp
  next
    fix n
    assume new: "\<forall>k \<in> set (scheduled_tasks s). \<not> (k_type k = ty \<and> k_resource_id k = rid)"
      "i \<notin> k_id ` set (scheduled_tasks s)"
      and t: "t = s\<lparr>tick := n, scheduled_tasks := scheduled_tasks s @
            [\<lparr>k_id = i, k_type = ty, k_resource_id = rid,
              k_due_at = txn_now s + d * second_us, k_status = TaskPending,
              k_attempt_count = 0, k_last_error = None, k_created_at = txn_now s,
              k_completed_at = None\<rparr>]\<rparr>"
    show ?thesis unfolding t by (rule progresses_tasks) (use new in \<open>auto simp: tasks_ok_def\<close>)
  qed
qed

lemma progress_tasks [prog_intros]:
  "tx_rel progresses (complete_task tid)" "tx_rel progresses (cancel_task ty rid)"
  "tx_rel progresses (record_task_failure tid a e m)" "tx_rel progresses (claim_due b)"
proof -
  have upd: "tx_rel progresses (tx_modify (\<lambda>s. s\<lparr>scheduled_tasks := sql_update P (f s) (scheduled_tasks s)\<rparr>))"
    if "\<And>s k. k_id (f s k) = k_id k \<and> k_type (f s k) = k_type k \<and> k_resource_id (f s k) = k_resource_id k" for P f
  proof (rule tx_relI)
    fix s x t
    assume "tx_modify (\<lambda>s. s\<lparr>scheduled_tasks := sql_update P (f s) (scheduled_tasks s)\<rparr>) s = (Inr x, t)"
    then have "t = s\<lparr>tick := tick s, scheduled_tasks := sql_update P (f s) (scheduled_tasks s)\<rparr>"
      by (simp add: tx_okD)
    then show "progresses s t" using that progresses_tasks tasks_ok_update by metis
  qed
  show "tx_rel progresses (complete_task tid)" "tx_rel progresses (cancel_task ty rid)"
    "tx_rel progresses (record_task_failure tid a e m)" "tx_rel progresses (claim_due b)"
    unfolding complete_task_def cancel_task_def record_task_failure_def claim_due_def
    by (intro prog.rel_rules upd; simp)+
qed

lemmas grows_refls = transfer_rows.grows_refl request_rows.grows_refl escrow_rows.grows_refl loan_rows.grows_refl

text \<open>One table changes: it has to grow by steps and keep its constraints.\<close>

lemma progresses_transfers:
  "table_grows transfer_moves (transfers s) ts \<Longrightarrow> progresses s (s\<lparr>transfers := ts\<rparr>)"
  by (simp add: progresses_def rows_ok_def users_keyed_def moves_def grows_refls)

lemma progresses_requests:
  "(requests_ok (money_requests s) \<Longrightarrow> requests_ok rs \<and> table_grows request_moves (money_requests s) rs)
   \<Longrightarrow> progresses s (s\<lparr>money_requests := rs\<rparr>)"
  by (auto simp: progresses_def rows_ok_def users_keyed_def moves_def grows_refls)

lemma progresses_escrows:
  "(escrows_ok (safepay_escrows s) \<Longrightarrow> escrows_ok es \<and> table_grows escrow_moves (safepay_escrows s) es)
   \<Longrightarrow> progresses s (s\<lparr>safepay_escrows := es\<rparr>)"
  by (auto simp: progresses_def rows_ok_def users_keyed_def moves_def grows_refls)

lemma progresses_loans:
  "(loans_ok (overdraft_loans s) \<Longrightarrow> loans_ok ls \<and> table_grows loan_moves (overdraft_loans s) ls)
   \<Longrightarrow> progresses s (s\<lparr>overdraft_loans := ls\<rparr>)"
  by (auto simp: progresses_def rows_ok_def users_keyed_def moves_def grows_refls)

lemma progress_transition [prog_intros]:
  assumes "fs \<in> {PENDING_UNDO, HELD}" "ts \<in> {SUCCEEDED, REFUNDED}"
  shows "tx_rel progresses (try_transition_status tid fs ts)"
proof (rule tx_relI)
  fix s n t
  assume "try_transition_status tid fs ts s = (Inr n, t)"
  then have "t = s\<lparr>transfers := sql_update (\<lambda>x. t_id x = tid \<and> t_status x = fs)
          (\<lambda>x. x\<lparr>t_status := ts, t_completed_at := Some (txn_now s)\<rparr>) (transfers s)\<rparr>"
    by (simp add: try_transition_okD)
  then show "progresses s t"
    using assms
    by (auto intro!: progresses_transfers transfer_rows.grows_update simp: transfer_moves_def transfer_core_def)
qed

subsection \<open>Money requests\<close>

lemma progress_create_request [prog_intros]: "tx_rel progresses (create_request_row i rf rq py amt nt ex now)"
proof -
  have "tx_rel progresses (insert_request row)" if "m_transfer_id row = None" for row
  proof (rule tx_relI)
    fix s x t
    assume "insert_request row s = (Inr x, t)"
    then have row: "m_id row \<notin> m_id ` set (money_requests s)" "list_all snd (request_row_ok row)"
        "t = s\<lparr>money_requests := money_requests s @ [row]\<rparr>"
      unfolding insert_request_def by (auto simp: tx_okD)
    show "progresses s t"
      unfolding row(3)
      by (rule progresses_requests)
         (use row(1,2) that in \<open>auto simp: requests_ok_def request_rows.grows_append column_unique_append_None\<close>)
  qed
  then show ?thesis by (simp add: create_request_row_def)
qed

lemma update_requests_okD:
  "update_requests P f extra s = (Inr n, t) \<longleftrightarrow>
     (\<forall>r \<in> set (money_requests s). P r \<longrightarrow> list_all snd (request_row_ok (f r)))
     \<and> ((\<exists>r \<in> set (money_requests s). P r) \<longrightarrow> list_all snd (extra s))
     \<and> n = sql_rowcount P (money_requests s)
     \<and> t = s\<lparr>money_requests := sql_update P f (money_requests s)\<rparr>"
  unfolding update_requests_def
  by (auto simp: tx_okD list_all_iff filter_empty_conv split: if_splits)

lemma progress_update_requests:
  assumes "\<And>r. request_core (f r) = request_core r" "\<And>r. P r \<Longrightarrow> m_status r = ReqPending"
    and "\<And>s n t. update_requests P f extra s = (Inr n, t) \<Longrightarrow> requests_ok (money_requests s)
           \<Longrightarrow> column_unique m_id m_transfer_id (sql_update P f (money_requests s))"
  shows "tx_rel progresses (update_requests P f extra)"
proof (rule tx_relI)
  fix s n t
  assume run: "update_requests P f extra s = (Inr n, t)"
  then have checks: "\<And>r. r \<in> set (money_requests s) \<Longrightarrow> P r \<Longrightarrow> list_all snd (request_row_ok (f r))"
    and t: "t = s\<lparr>money_requests := sql_update P f (money_requests s)\<rparr>"
    by (auto simp: update_requests_okD)
  show "progresses s t"
    unfolding t
  proof (rule progresses_requests)
    assume ok: "requests_ok (money_requests s)"
    have ids: "map m_id (sql_update P f (money_requests s)) = map m_id (money_requests s)"
      by (rule map_sql_update_same) (use assms(1) in \<open>simp add: request_core_def\<close>)
    have "list_all snd (request_row_ok r)" if "r \<in> set (sql_update P f (money_requests s))" for r
      using that ok checks unfolding set_sql_update requests_ok_def by blast
    with ids assms(3) [OF run ok] ok have "requests_ok (sql_update P f (money_requests s))"
      by (simp add: requests_ok_def)
    moreover have "table_grows request_moves (money_requests s) (sql_update P f (money_requests s))"
      by (rule request_rows.grows_update) (simp add: request_moves_def assms(1,2))
    ultimately show "requests_ok (sql_update P f (money_requests s))
      \<and> table_grows request_moves (money_requests s) (sql_update P f (money_requests s))" ..
  qed
qed

lemma progress_mark_accepted [prog_intros]: "tx_rel progresses (mark_accepted i tid now)"
  unfolding mark_accepted_def
proof (rule progress_update_requests)
  let ?P = "\<lambda>r. m_id r = i \<and> m_status r = ReqPending"
  let ?f = "\<lambda>r. r\<lparr>m_status := ReqAccepted, m_transfer_id := Some tid, m_responded_at := Some now, m_updated_at := now\<rparr>"
  fix s n t
  assume run: "update_requests ?P ?f (\<lambda>s. [(''uq_money_requests_transfer_id'',
                \<forall>r \<in> set (money_requests s). m_transfer_id r \<noteq> Some tid),
              (''fk_money_requests_transfer_id'', tid \<in> t_id ` set (transfers s))]) s = (Inr n, t)"
    and ok: "requests_ok (money_requests s)"
  show "column_unique m_id m_transfer_id (sql_update ?P ?f (money_requests s))"
  proof (cases "\<exists>r \<in> set (money_requests s). ?P r")
    case True
    with run have fresh: "\<And>r. r \<in> set (money_requests s) \<Longrightarrow> m_transfer_id r \<noteq> Some tid"
      by (simp add: update_requests_okD)
    show ?thesis
      by (rule column_unique_update_new [where w = tid and c = i])
         (use ok fresh in \<open>simp_all add: requests_ok_def\<close>)
  next
    case False
    then have "sql_update ?P ?f (money_requests s) = money_requests s" by (intro sql_update_none) blast
    with ok show ?thesis by (simp add: requests_ok_def)
  qed
qed (simp_all add: request_core_def)

lemma progress_mark_terminal [prog_intros]:
  "tx_rel progresses (mark_terminal i st now)" "tx_rel progresses (expire_due_rows now)"
  unfolding mark_terminal_def expire_due_rows_def
  by (rule progress_update_requests; simp add: request_core_def requests_ok_def column_unique_update_same)+


subsection \<open>SafePay orders\<close>

lemma progress_create_escrow [prog_intros]:
  "tx_rel progresses (create_escrow i rf h b v amt cur d ch now)"
proof -
  have "tx_rel progresses (insert_escrow row)" if "e_settlement_transfer row = None" for row
  proof (rule tx_relI)
    fix s x t
    assume "insert_escrow row s = (Inr x, t)"
    then have row: "e_id row \<notin> e_id ` set (safepay_escrows s)" "list_all snd (escrow_row_ok row)"
        "e_hold_transfer row \<notin> e_hold_transfer ` set (safepay_escrows s)"
        "t = s\<lparr>safepay_escrows := safepay_escrows s @ [row]\<rparr>"
      unfolding insert_escrow_def by (auto simp: tx_okD)
    show "progresses s t"
      unfolding row(4)
      by (rule progresses_escrows)
         (use row(1-3) that in \<open>auto simp: escrows_ok_def escrow_rows.grows_append column_unique_append_None\<close>)
  qed
  then show ?thesis by (simp add: create_escrow_def)
qed

lemma update_escrows_okD:
  "update_escrows P f extra s = (Inr n, t) \<longleftrightarrow>
     (\<forall>r \<in> set (safepay_escrows s). P r \<longrightarrow> list_all snd (escrow_row_ok (f r)))
     \<and> ((\<exists>r \<in> set (safepay_escrows s). P r) \<longrightarrow> list_all snd (extra s))
     \<and> n = sql_rowcount P (safepay_escrows s)
     \<and> t = s\<lparr>safepay_escrows := sql_update P f (safepay_escrows s)\<rparr>"
  unfolding update_escrows_def
  by (auto simp: tx_okD list_all_iff filter_empty_conv split: if_splits)

lemma progress_update_escrows:
  assumes "\<And>r. escrow_core (f r) = escrow_core r" "\<And>r. P r \<Longrightarrow> escrow_moves r (f r)"
    and "\<And>s n t. update_escrows P f extra s = (Inr n, t) \<Longrightarrow> escrows_ok (safepay_escrows s)
           \<Longrightarrow> column_unique e_id e_settlement_transfer (sql_update P f (safepay_escrows s))"
  shows "tx_rel progresses (update_escrows P f extra)"
proof (rule tx_relI)
  fix s n t
  assume run: "update_escrows P f extra s = (Inr n, t)"
  then have checks: "\<And>r. r \<in> set (safepay_escrows s) \<Longrightarrow> P r \<Longrightarrow> list_all snd (escrow_row_ok (f r))"
    and t: "t = s\<lparr>safepay_escrows := sql_update P f (safepay_escrows s)\<rparr>"
    by (auto simp: update_escrows_okD)
  show "progresses s t"
    unfolding t
  proof (rule progresses_escrows)
    assume ok: "escrows_ok (safepay_escrows s)"
    have ids: "map e_id (sql_update P f (safepay_escrows s)) = map e_id (safepay_escrows s)"
      "map e_hold_transfer (sql_update P f (safepay_escrows s)) = map e_hold_transfer (safepay_escrows s)"
      by (rule map_sql_update_same, use assms(1) in \<open>simp add: escrow_core_def\<close>)+
    have "list_all snd (escrow_row_ok r)" if "r \<in> set (sql_update P f (safepay_escrows s))" for r
      using that ok checks unfolding set_sql_update escrows_ok_def by blast
    with ids assms(3) [OF run ok] ok have "escrows_ok (sql_update P f (safepay_escrows s))"
      by (simp add: escrows_ok_def)
    moreover have "table_grows escrow_moves (safepay_escrows s) (sql_update P f (safepay_escrows s))"
      by (rule escrow_rows.grows_update) (rule assms(2))
    ultimately show "escrows_ok (sql_update P f (safepay_escrows s))
      \<and> table_grows escrow_moves (safepay_escrows s) (sql_update P f (safepay_escrows s))" ..
  qed
qed

lemma progress_escrow_updates [prog_intros]:
  "tx_rel progresses (mark_shipped_row i v co tn now)" "tx_rel progresses (mark_delivered i now ar)"
  "tx_rel progresses (mark_disputed i b rs now)" "tx_rel progresses (record_code_failure i att lk now)"
  unfolding mark_shipped_row_def mark_delivered_def mark_disputed_def record_code_failure_def
  by (intro prog.rel_rules progress_update_escrows;
      auto simp: escrow_core_def escrow_moves_def escrows_ok_def column_unique_update_same)+

lemma progress_mark_settled [prog_intros]:
  assumes "\<And>st. st \<in> set fr \<Longrightarrow> escrow_rank st < escrow_rank to"
  shows "tx_rel progresses (mark_settled i fr to tid now nt)"
  unfolding mark_settled_def
proof (rule progress_update_escrows)
  let ?P = "\<lambda>r. e_id r = i \<and> e_status r \<in> set fr \<and> e_settlement_transfer r = None"
  let ?f = "\<lambda>r. r\<lparr>e_status := to, e_settlement_transfer := Some tid, e_settled_at := Some now,
               e_resolved_by := None, e_resolution_note := nt, e_code_attempts := 0,
               e_code_locked_until := None, e_updated_at := now\<rparr>"
  show "escrow_moves r (?f r)" if "?P r" for r
    using that assms by (auto simp: escrow_moves_def escrow_core_def)
  fix s n t
  assume run: "update_escrows ?P ?f (\<lambda>s. [(''uq_safepay_escrows_settlement_transfer_id'',
                \<forall>r \<in> set (safepay_escrows s). e_settlement_transfer r \<noteq> Some tid),
              (''fk_safepay_escrows_settlement_transfer_id'', tid \<in> t_id ` set (transfers s))]) s = (Inr n, t)"
    and ok: "escrows_ok (safepay_escrows s)"
  show "column_unique e_id e_settlement_transfer (sql_update ?P ?f (safepay_escrows s))"
  proof (cases "\<exists>r \<in> set (safepay_escrows s). ?P r")
    case True
    with run have fresh: "\<And>r. r \<in> set (safepay_escrows s) \<Longrightarrow> e_settlement_transfer r \<noteq> Some tid"
      by (auto simp: update_escrows_okD)
    show ?thesis
      by (rule column_unique_update_new [where w = tid and c = i])
         (use ok fresh in \<open>simp_all add: escrows_ok_def\<close>)
  next
    case False
    then have "sql_update ?P ?f (safepay_escrows s) = safepay_escrows s" by (intro sql_update_none) blast
    with ok show ?thesis by (simp add: escrows_ok_def)
  qed
qed (simp_all add: escrow_core_def)


subsection \<open>Loans\<close>

lemma progress_create_loan [prog_intros]: "tx_rel progresses (create_loan E p b tid amt cur now)"
proof (rule tx_relI)
  fix s x t
  assume run: "create_loan E p b tid amt cur now s = (Inr x, t)"
  define row where "row = \<lparr>l_id = x, l_pool = p, l_borrower = b, l_draw_transfer = tid,
           l_principal = amt, l_outstanding = amt, l_currency = cur,
           l_status = LoanOutstanding, l_created_at = now, l_repaid_at = None\<rparr>"
  from run have row: "l_id row \<notin> l_id ` set (overdraft_loans s)" "list_all snd (loan_row_ok row)"
      "\<exists>n. t = s\<lparr>tick := n, overdraft_loans := overdraft_loans s @ [row]\<rparr>"
    unfolding create_loan_def row_def by (auto simp: tx_okD loan_row_ok_def)
  from row(3) obtain n where t: "t = s\<lparr>tick := n, overdraft_loans := overdraft_loans s @ [row]\<rparr>" ..
  have "progresses s (s\<lparr>tick := n\<rparr>)" by (rule progresses_same) simp
  moreover have "progresses (s\<lparr>tick := n\<rparr>) t"
    unfolding t
    by (rule progresses_loans) (use row(1,2) in \<open>auto simp: loans_ok_def loan_rows.grows_append\<close>)
  ultimately show "progresses s t" by (rule prog.R_trans)
qed

lemma apply_repayment_okD:
  assumes "apply_repayment E lid tid amt trg now s = (Inr u, t)"
  shows "t = s \<or> (\<exists>loan n rows. sql_get l_id lid (overdraft_loans s) = Some loan \<and> l_status loan = LoanOutstanding
      \<and> 0 < amt
      \<and> (\<forall>l \<in> set (overdraft_loans s). l_id l = lid \<and> l_status l = LoanOutstanding \<longrightarrow>
           list_all snd (loan_row_ok (repaid_loan (max 0 (l_outstanding loan - amt)) now l)))
      \<and> t = s\<lparr>tick := n, overdraft_repayments := rows,
             overdraft_loans := sql_update (\<lambda>l. l_id l = lid \<and> l_status l = LoanOutstanding)
               (repaid_loan (max 0 (l_outstanding loan - amt)) now) (overdraft_loans s)\<rparr>)"
proof -
  consider "t = s" | loan where "sql_get l_id lid (overdraft_loans s) = Some loan" "l_status loan = LoanOutstanding"
    using assms unfolding apply_repayment_def by (auto simp: tx_okD split: option.splits if_splits)
  then show ?thesis
  proof cases
    case 2
    let ?P = "\<lambda>l. l_id l = lid \<and> l_status l = LoanOutstanding"
    let ?f = "repaid_loan (max 0 (l_outstanding loan - amt)) now"
    let ?s1 = "s\<lparr>overdraft_loans := sql_update ?P ?f (overdraft_loans s)\<rparr>"
    from assms 2 obtain rid s2 where
      chk: "list_all snd (concat (map (\<lambda>l. loan_row_ok (?f l)) (filter ?P (overdraft_loans s))))"
      and ul: "fresh_ulid E ?s1 = (Inr rid, s2)"
      and ins: "insert_repayment \<lparr>r_id = rid, r_loan = lid, r_transfer = tid, r_amount = amt,
               r_triggered_by = Some trg, r_created_at = now\<rparr> s2 = (Inr u, t)"
      unfolding apply_repayment_def by (auto simp: tx_okD)
    have "s2 = ?s1\<lparr>tick := Suc (tick s)\<rparr>" using ul by (simp add: fresh_ulid_okD)
    moreover from ins have "0 < amt" "\<exists>rows. t = s2\<lparr>overdraft_repayments := rows\<rparr>"
      by (auto simp: insert_repayment_def tx_okD)
    moreover have "\<forall>l \<in> set (overdraft_loans s). ?P l \<longrightarrow> list_all snd (loan_row_ok (?f l))"
      using chk by (auto simp: list_all_iff)
    ultimately show ?thesis using 2
      by (intro disjI2 exI [of _ loan] exI [of _ "Suc (tick s)"] exI [of _ "overdraft_repayments t"] conjI) auto
  qed simp
qed

lemma progress_apply_repayment [prog_intros]: "tx_rel progresses (apply_repayment E lid tid amt trg now)"
proof (rule tx_relI)
  fix s u t
  assume "apply_repayment E lid tid amt trg now s = (Inr u, t)"
  from apply_repayment_okD [OF this] show "progresses s t"
  proof (elim disjE exE conjE)
    fix loan :: loan_row and n rows
    let ?P = "\<lambda>l. l_id l = lid \<and> l_status l = LoanOutstanding"
    let ?new = "max 0 (l_outstanding loan - amt)"
    let ?f = "repaid_loan ?new now"
    assume loan: "sql_get l_id lid (overdraft_loans s) = Some loan" "l_status loan = LoanOutstanding" "0 < amt"
      and chk: "\<forall>l \<in> set (overdraft_loans s). ?P l \<longrightarrow> list_all snd (loan_row_ok (?f l))"
      and t: "t = s\<lparr>tick := n, overdraft_repayments := rows,
             overdraft_loans := sql_update ?P ?f (overdraft_loans s)\<rparr>"
    note mem = sql_get_Some [OF loan(1)]
    have "loans_ok (sql_update ?P ?f (overdraft_loans s))
        \<and> table_grows loan_moves (overdraft_loans s) (sql_update ?P ?f (overdraft_loans s))"
      if ok: "loans_ok (overdraft_loans s)"
    proof
      have ids: "map l_id (sql_update ?P ?f (overdraft_loans s)) = map l_id (overdraft_loans s)"
        by (rule map_sql_update_same) (simp add: repaid_loan_def)
      have "list_all snd (loan_row_ok r)" if "r \<in> set (sql_update ?P ?f (overdraft_loans s))" for r
        using that ok chk unfolding set_sql_update loans_ok_def by blast
      with ids ok show "loans_ok (sql_update ?P ?f (overdraft_loans s))" by (simp add: loans_ok_def)
      have nonneg: "0 \<le> l_outstanding loan" using ok mem by (auto simp: loans_ok_def loan_row_ok_def)
      show "table_grows loan_moves (overdraft_loans s) (sql_update ?P ?f (overdraft_loans s))"
      proof (rule loan_rows.grows_update)
        fix r
        assume r: "r \<in> set (overdraft_loans s)" "?P r"
        then have "r = loan" using keys_distinct_eq [of l_id "overdraft_loans s" r loan] ok mem
          by (simp add: loans_ok_def)
        with r(2) nonneg loan(3) show "loan_moves r (?f r)"
          by (auto simp: loan_moves_def loan_core_def repaid_loan_def)
      qed
    qed
    then have "progresses (s\<lparr>tick := n, overdraft_repayments := rows\<rparr>) t"
      unfolding t by (intro progresses_loans) simp
    moreover have "progresses s (s\<lparr>tick := n, overdraft_repayments := rows\<rparr>)" by (rule progresses_same) simp
    ultimately show ?thesis by (blast intro: prog.R_trans)
  qed (simp add: prog.R_refl)
qed

interpretation transfer_progress: transfer_preorder progresses
proof
  fix mv s n
  assume "movement_ok mv (books_of s)"
  show "progresses s (s\<lparr>tick := n, accounts := b_accounts (post_books mv (books_of s)),
            transfers := transfers s @ [mv_transfer mv],
            ledger_transactions := ledger_transactions s @ [mv_ledger mv],
            ledger_entries := ledger_entries s @ [mv_debit mv, mv_credit mv]\<rparr>)" (is "progresses s ?t")
  proof -
    have "progresses s (s\<lparr>transfers := transfers s @ [mv_transfer mv]\<rparr>)"
      by (rule progresses_transfers) (rule transfer_rows.grows_append)
    moreover have "progresses (s\<lparr>transfers := transfers s @ [mv_transfer mv]\<rparr>) ?t"
      by (rule progresses_same) (simp add: lifecycle_of_def)
    ultimately show ?thesis by (rule prog.R_trans)
  qed
qed (intro prog_intros)+

lemmas progress_execute [prog_intros] = transfer_progress.execute_transfer_rel


section \<open>The handlers\<close>

lemma progress_holding [prog_intros]:
  "tx_rel progresses (open_account E u m n now rq)"
  "tx_rel progresses (hold_money E a p h amt k st key note rq lim intd ep)"
  "fs \<in> {PENDING_UNDO, HELD} \<Longrightarrow> ts \<in> {SUCCEEDED, REFUNDED}
     \<Longrightarrow> tx_rel progresses (settle_hold E i rf fs ts b hh am kk ac nt rq)"
  "tx_rel progresses (reserve_or_replay a ep key fp now)"
  unfolding open_account_def hold_money_def settle_hold_def reserve_or_replay_def
  by (intro prog.rel_rules prog_intros; assumption?)+

lemma progress_undo [prog_intros]:
  "tx_rel progresses (undoable_send E a sn rc amt key note rq ep)"
  "tx_rel progresses (undo E i a key rq)"
  "tx_rel progresses (settle_undo E i)"
  unfolding undoable_send_def undo_def undo_once_def require_hold_def settle_undo_def
  by (intro prog.rel_rules prog_intros; simp)+

lemma progress_safepay_helpers [prog_intros]:
  "tx_rel progresses (complete_body a ep key i body now st)"
  "tx_rel progresses (safepay_audit E a act i rq md)"
  "(\<And>now. tx_rel progresses (ex now)) \<Longrightarrow> tx_rel progresses (state_command E a ep key pl ex)"
  unfolding complete_body_def safepay_audit_def state_command_def
  by (intro prog.rel_rules prog_intros; assumption?)+

lemma progress_escrow_settlement [prog_intros]:
  "tx_rel progresses (release_locked E r a rs rq nt)" "tx_rel progresses (refund_locked E r rs rq nn)"
  unfolding release_locked_def refund_locked_def by (intro prog.rel_rules prog_intros; auto)+

lemma progress_safepay_steps [prog_intros]:
  "tx_rel progresses (mark_shipped_once E i v co tn rq now)" "tx_rel progresses (wrong_code r now)"
  "tx_rel progresses (buyer_release_once E i b rq)" "tx_rel progresses (dispute_once E i b rs rq now)"
  "tx_rel progresses (apply_delivery E co im r now)" "tx_rel progresses (ban_buyer E b)"
  unfolding mark_shipped_once_def wrong_code_def buyer_release_once_def dispute_once_def apply_delivery_def
    ban_buyer_def
  by (intro prog.rel_rules prog_intros)+

lemma progress_safepay_once [prog_intros]:
  "tx_rel progresses (release_with_code_once E i v en rq now)" "tx_rel progresses (resolve_once E i de nt bn rq)"
  unfolding release_with_code_once_def resolve_once_def by (intro prog.rel_rules prog_intros)+

lemma progress_safepay [prog_intros]:
  "tx_rel progresses (create_safepay E b ba v va amt d key rq)"
  "tx_rel progresses (mark_shipped E i v co tn key rq)"
  "tx_rel progresses (release_with_code E i v en key rq)"
  "tx_rel progresses (confirm_received E i b key rq)"
  "tx_rel progresses (dispute E i b rs key rq)"
  "tx_rel progresses (courier_delivered E co tn ev im)"
  "tx_rel progresses (auto_release E i)"
  "tx_rel progresses (resolve_dispute E i de nt bn key rq)"
  unfolding create_safepay_def mark_shipped_def release_with_code_def confirm_received_def dispute_def
    courier_delivered_def auto_release_def resolve_dispute_def
  by (intro prog.rel_rules prog_intros)+

lemma progress_overdraft [prog_intros]:
  "tx_rel progresses (create_pool E sp amt key rq)"
  "tx_rel progresses (fund_pool E sp amt key rq)"
  "tx_rel progresses (grant_access E sp ph md key rq)"
  "tx_rel progresses (overdraft_send E a sn rc amt key nt rq)"
  unfolding create_pool_def fund_pool_def grant_access_def overdraft_send_def send_once_def cover_shortfall_def
    overdraft_complete_def overdraft_audit_def
  by (intro prog.rel_rules prog_intros)+

lemma progress_requests [prog_intros]:
  "tx_rel progresses (create_request E u ph amt nt rq)"
  "tx_rel progresses (accept_request E i u key rq)"
  "tx_rel progresses (reject_request E i u rq)"
  "tx_rel progresses (cancel_request E i u rq)"
  "tx_rel progresses (expire_requests E)"
  unfolding create_request_def accept_request_def require_payable_def reject_request_def cancel_request_def
    terminate_request_def expire_requests_def
  by (intro prog.rel_rules prog_intros)+

lemma frame_lifecycle_verify_pin: "tx_frame lifecycle_of (verify_pin E uid pin)"
  unfolding verify_pin_def lock_user_def record_pin_failure_def reset_pin_failures_def
  by (auto intro!: tx_frame_bind tx_frame_basic tx_frame_feeds frame_update_user split: option.splits)

lemma progress_identity [prog_intros]:
  "tx_rel progresses (register E ph nm pw pin rq ua ip)"
  "tx_rel progresses (login E ph pw ua ip)"
  "tx_rel progresses (refresh E tok ua ip)"
  "tx_rel progresses (logout E tok)"
  unfolding register_def login_def refresh_def logout_def start_session_def
  by (intro prog.rel_rules prog_intros rel_catch_reraise duplicate_user_raises)+

lemma progress_pin_protected [prog_intros]:
  assumes "tx_rel progresses m"
  shows "tx_rel progresses (pin_protected E uid pin m)"
proof -
  have fr: "tx_frame lifecycle_of (tx_bind (verify_pin E uid pin) (\<lambda>_. tx_return (Inr ())))"
    by (intro tx_frame_bind frame_lifecycle_verify_pin tx_frame_basic)
  have checked: "tx_rel progresses (tx_catch (tx_bind (verify_pin E uid pin) (\<lambda>_. tx_return (Inr ()))) pin_outcome)"
  proof (rule prog.rel_catch)
    show "progresses s t" if "tx_bind (verify_pin E uid pin) (\<lambda>_. tx_return (Inr ())) s = (Inl e, t)" for s e t
      using that fr progresses_same unfolding tx_frame_def by (metis snd_conv)
    show "tx_rel progresses (tx_bind (verify_pin E uid pin) (\<lambda>_. tx_return (Inr ())))"
      using fr by (rule progresses_frame)
    show "tx_rel progresses (pin_outcome e)" for e
      by (cases e rule: pin_outcome.cases) (auto intro: prog.rel_rules)
  qed
  show ?thesis
    unfolding pin_protected_def
    by (rule prog.rel_bind [OF checked]) (auto intro!: prog.rel_rules assms split: sum.splits)
qed

end
