(* ===== verification/Reconciliation.thy ===== *)
theory Reconciliation
  imports Lifecycle
begin

text \<open>
  The integrity report, \<open>modules/reconciliation/service.py\<close>, and the proof that it comes out
  balanced on every database that satisfies the invariants.
\<close>

section \<open>The report\<close>

record mismatch =
  mm_account :: string
  mm_number :: string
  mm_recorded :: int
  mm_derived :: int
  mm_drift :: int

record reconciliation_report =
  unbalanced_ledger_transactions :: nat
  balance_mismatches :: nat
  negative_user_accounts :: nat
  succeeded_transfers_without_ledger :: nat
  transfers_with_wrong_entry_count :: nat
  accepted_requests_without_transfer :: nat
  duplicate_transfer_references :: nat
  system_wide_ledger_sum_minor :: int
  total_user_balance_minor :: int
  issuance_balance_minor :: int
  money_in_circulation_minor :: int
  total_held_minor :: int
  balance_by_account_type :: "(account_type \<times> int) list"
  accounts_checked :: nat
  ledger_entries_checked :: nat
  transfers_checked :: nat
  mismatch_details :: "mismatch list"

definition all_account_balance_sum_minor :: "reconciliation_report \<Rightarrow> int" where
  "all_account_balance_sum_minor r = sum_list (map snd (balance_by_account_type r))"

definition is_balanced :: "reconciliation_report \<Rightarrow> bool" where
  "is_balanced r \<longleftrightarrow>
     unbalanced_ledger_transactions r = 0 \<and> balance_mismatches r = 0 \<and> negative_user_accounts r = 0
     \<and> succeeded_transfers_without_ledger r = 0 \<and> transfers_with_wrong_entry_count r = 0
     \<and> accepted_requests_without_transfer r = 0 \<and> duplicate_transfer_references r = 0
     \<and> system_wide_ledger_sum_minor r = 0 \<and> all_account_balance_sum_minor r = 0"

text \<open>\<open>GROUP BY k\<close>: the groups, each with its key, in the order their keys first occur.\<close>

definition sql_group_by :: "('r \<Rightarrow> 'k) \<Rightarrow> 'r list \<Rightarrow> ('k \<times> 'r list) list" where
  "sql_group_by k t = map (\<lambda>v. (v, filter (\<lambda>r. k r = v) t)) (remdups (map k t))"

definition mismatches :: "db \<Rightarrow> mismatch list" where
  "mismatches s =
     map (\<lambda>a. \<lparr>mm_account = a_id a, mm_number = a_number a, mm_recorded = a_balance a,
               mm_derived = ledger_balance (a_id a) (ledger_entries s),
               mm_drift = a_balance a - ledger_balance (a_id a) (ledger_entries s)\<rparr>)
       (filter (\<lambda>a. a_balance a \<noteq> ledger_balance (a_id a) (ledger_entries s)) (accounts s))"

text \<open>
  The join of check 5 pairs each ledger transaction with its entries, so a transaction without any
  entry forms no group.
\<close>

definition reconcile :: "bool \<Rightarrow> reconciliation_report tx" where
  "reconcile include_details = tx_gets (\<lambda>s.
     let by_type = map (\<lambda>(ty, as). (ty, sql_sum a_balance as)) (sql_group_by a_type (accounts s));
         issuance = sql_sum a_balance (filter (\<lambda>a. a_type a = SYSTEM_ISSUANCE) (accounts s))
     in \<lparr>unbalanced_ledger_transactions =
           length (filter (\<lambda>(i, es). sql_sum le_amount es \<noteq> 0) (sql_group_by le_txn (ledger_entries s))),
         balance_mismatches = length (mismatches s),
         negative_user_accounts = sql_rowcount (\<lambda>a. a_type a = USER \<and> a_balance a < 0) (accounts s),
         succeeded_transfers_without_ledger =
           sql_rowcount (\<lambda>t. t_status t = SUCCEEDED
             \<and> (\<forall>l \<in> set (ledger_transactions s). lt_transfer_id l \<noteq> t_id t)) (transfers s),
         transfers_with_wrong_entry_count =
           length (filter (\<lambda>(i, rows). length rows \<noteq> 2) (sql_group_by fst
             [(lt_id l, e). l \<leftarrow> ledger_transactions s, e \<leftarrow> ledger_entries s, le_txn e = lt_id l])),
         accepted_requests_without_transfer =
           sql_rowcount (\<lambda>r. m_status r = ReqAccepted \<and> m_transfer_id r = None) (money_requests s),
         duplicate_transfer_references =
           length (filter (\<lambda>(i, ts). 1 < length ts) (sql_group_by t_reference (transfers s))),
         system_wide_ledger_sum_minor = sql_sum le_amount (ledger_entries s),
         total_user_balance_minor = sql_sum a_balance (filter (\<lambda>a. a_type a = USER) (accounts s)),
         issuance_balance_minor = issuance,
         money_in_circulation_minor = - issuance,
         total_held_minor = sum_list (map snd (filter (\<lambda>(ty, b). ty \<notin> {USER, SYSTEM_ISSUANCE}) by_type)),
         balance_by_account_type = by_type,
         accounts_checked = length (accounts s),
         ledger_entries_checked = length (ledger_entries s),
         transfers_checked = length (transfers s),
         mismatch_details = (if include_details then mismatches s else [])\<rparr>)"


section \<open>Grouping\<close>

lemma sum_list_group_one:
  "distinct ids \<Longrightarrow> c \<in> set ids \<Longrightarrow> sum_list (map (\<lambda>i. if c = i then (x :: int) else 0) ids) = x"
proof (induction ids)
  case (Cons a ids)
  show ?case
  proof (cases "c = a")
    case True
    with Cons.prems have "sum_list (map (\<lambda>i. if c = i then x else 0) ids) = 0"
      by (induction ids) auto
    with True show ?thesis by simp
  next
    case False
    with Cons show ?thesis by simp
  qed
qed simp

lemma sql_sum_by_group:
  assumes "distinct ids" "\<And>r. r \<in> set t \<Longrightarrow> k r \<in> set ids"
  shows "sql_sum g t = sum_list (map (\<lambda>i. sql_sum g (filter (\<lambda>r. k r = i) t)) ids)"
  using assms(2)
proof (induction t)
  case Nil
  then show ?case by (induction ids) simp_all
next
  case (Cons r t)
  have "sum_list (map (\<lambda>i. sql_sum g (filter (\<lambda>x. k x = i) (r # t))) ids)
      = sum_list (map (\<lambda>i. (if k r = i then g r else 0) + sql_sum g (filter (\<lambda>x. k x = i) t)) ids)"
    by (intro arg_cong [of _ _ sum_list] map_cong) auto
  also have "\<dots> = g r + sql_sum g t"
    using sum_list_group_one [OF assms(1), of "k r" "g r"] Cons by (simp add: sum_list_addf)
  finally show ?case by simp
qed

lemma sql_group_by_sum:
  "sum_list (map snd (map (\<lambda>(i, rs). (i, sql_sum g rs)) (sql_group_by k t))) = sql_sum g t"
proof -
  have "sql_sum g t = sum_list (map (\<lambda>i. sql_sum g (filter (\<lambda>r. k r = i) t)) (remdups (map k t)))"
    by (rule sql_sum_by_group) auto
  then show ?thesis by (simp add: sql_group_by_def comp_def)
qed



section \<open>The invariants reconcile\<close>

lemma list_all2_in_set2: "list_all2 P xs ys \<Longrightarrow> y \<in> set ys \<Longrightarrow> \<exists>x \<in> set xs. P x y"
  by (induction rule: list_all2_induct) auto

lemma ledger_posted:
  assumes "books_ok s" "l \<in> set (ledger_transactions s)"
  shows "\<exists>x y. filter (\<lambda>e. le_txn e = lt_id l) (ledger_entries s) = [x, y] \<and> le_amount x + le_amount y = 0"
proof -
  have "list_all2 (posted_pair (ledger_entries s)) (transfers s) (ledger_transactions s)"
    using posted_all [of "books_of s"] assms(1) by (simp add: books_ok_def)
  from list_all2_in_set2 [OF this assms(2)] show ?thesis by (auto simp: posted_pair_def)
qed

lemma transaction_sum_zero:
  assumes "books_ok s" "e \<in> set (ledger_entries s)"
  shows "sql_sum le_amount (filter (\<lambda>x. le_txn x = le_txn e) (ledger_entries s)) = 0"
proof -
  have "le_txn e \<in> lt_id ` set (ledger_transactions s)"
    using entry_refs [of "books_of s" e] assms by (simp add: books_ok_def)
  then obtain l where "l \<in> set (ledger_transactions s)" "lt_id l = le_txn e" by auto
  with ledger_posted [OF assms(1), of l] show ?thesis by auto
qed

lemma ledger_sum_zero:
  assumes "books_ok s"
  shows "sql_sum le_amount (ledger_entries s) = 0"
proof -
  let ?ids = "remdups (map le_txn (ledger_entries s))"
  have "sql_sum le_amount (ledger_entries s)
      = sum_list (map (\<lambda>i. sql_sum le_amount (filter (\<lambda>e. le_txn e = i) (ledger_entries s))) ?ids)"
    by (rule sql_sum_by_group) auto
  also have "\<dots> = sum_list (map (\<lambda>i. 0) ?ids)"
    using transaction_sum_zero [OF assms] by (intro arg_cong [of _ _ sum_list] map_cong) auto
  finally show ?thesis by simp
qed

lemma balances_sum_zero:
  assumes "books_ok s"
  shows "sql_sum a_balance (accounts s) = 0"
proof -
  have key: "keys_distinct a_id (accounts s)"
    and refs: "\<And>e. e \<in> set (ledger_entries s) \<Longrightarrow> le_account e \<in> set (map a_id (accounts s))"
    and bal: "\<And>a. a \<in> set (accounts s) \<Longrightarrow> a_balance a = ledger_balance (a_id a) (ledger_entries s)"
    using accounts_key [of "books_of s"] entry_refs [of "books_of s"] balance_is_ledger [of "books_of s"] assms
    by (auto simp: books_ok_def)
  have "sql_sum a_balance (accounts s) = sql_sum (\<lambda>a. ledger_balance (a_id a) (ledger_entries s)) (accounts s)"
    using bal by (rule sql_sum_cong)
  also have "\<dots> = sum_list (map (\<lambda>i. sql_sum le_amount (filter (\<lambda>e. le_account e = i) (ledger_entries s)))
      (map a_id (accounts s)))"
    by (simp add: sql_sum_def ledger_balance_def entries_of_def comp_def)
  also have "\<dots> = sql_sum le_amount (ledger_entries s)"
    by (rule sql_sum_by_group [symmetric, OF key refs])
  finally show ?thesis by (simp add: ledger_sum_zero [OF assms])
qed

text \<open>Check 5: the join lists the entries of each transaction, transaction by transaction.\<close>

lemma filter_join:
  "keys_distinct lt_id ls \<Longrightarrow> l \<in> set ls \<Longrightarrow>
   length (filter (\<lambda>p. fst p = lt_id l) [(lt_id l, e). l \<leftarrow> ls, e \<leftarrow> es, le_txn e = lt_id l])
   = length (filter (\<lambda>e. le_txn e = lt_id l) es)"
proof (induction ls)
  case (Cons a ls)
  let ?row = "\<lambda>l. concat (map (\<lambda>e. if le_txn e = lt_id l then [(lt_id l, e)] else []) es)"
  have row: "length (filter (\<lambda>p. fst p = i) (?row l)) = (if lt_id l = i then length (filter (\<lambda>e. le_txn e = i) es) else 0)"
    for l i by (induction es) auto
  have other: "filter (\<lambda>p. fst p = i) (concat (map ?row ls)) = []" if "i \<notin> lt_id ` set ls" for i
    using that by (auto simp: filter_empty_conv)
  show ?case
  proof (cases "lt_id l = lt_id a")
    case True
    with Cons.prems have "lt_id l \<notin> lt_id ` set ls" by simp
    with True row [of "lt_id l" a] other [of "lt_id l"] show ?thesis by simp
  next
    case False
    with Cons row [of "lt_id l" a] show ?thesis by auto
  qed
qed simp

lemma entry_counts:
  assumes "books_ok s"
  shows "filter (\<lambda>(i, rows). length rows \<noteq> 2) (sql_group_by fst
     [(lt_id l, e). l \<leftarrow> ledger_transactions s, e \<leftarrow> ledger_entries s, le_txn e = lt_id l]) = []"
proof -
  let ?join = "[(lt_id l, e). l \<leftarrow> ledger_transactions s, e \<leftarrow> ledger_entries s, le_txn e = lt_id l]"
  have key: "keys_distinct lt_id (ledger_transactions s)"
    using ledger_key [of "books_of s"] assms by (simp add: books_ok_def)
  have "length (filter (\<lambda>p. fst p = i) ?join) = 2" if "i \<in> set (map fst ?join)" for i
  proof -
    from that obtain l where l: "l \<in> set (ledger_transactions s)" "i = lt_id l" by auto
    from ledger_posted [OF assms l(1)] filter_join [OF key l(1), of "ledger_entries s"] l(2) show ?thesis by auto
  qed
  then show ?thesis by (auto simp: sql_group_by_def filter_empty_conv)
qed

lemma distinct_group_le_1:
  assumes "keys_distinct k t"
  shows "filter (\<lambda>(i, rs). 1 < length rs) (sql_group_by k t) = []"
proof -
  have "length (filter (\<lambda>r. k r = i) t) \<le> 1" for i
    using sql_rowcount_key_le [OF assms, of i "\<lambda>r. True"] by (simp add: sql_rowcount_def)
  then show ?thesis by (auto simp: sql_group_by_def filter_empty_conv not_less)
qed

lemma reconcile_run: "reconcile d s = (Inr (projr (fst (reconcile d s))), s)"
  by (simp add: reconcile_def tx_run)

lemma reconcile_balanced:
  assumes "books_ok s" "rows_ok s"
  shows "\<exists>r. reconcile d s = (Inr r, s) \<and> is_balanced r"
proof -
  let ?r = "projr (fst (reconcile d s))"
  have "filter (\<lambda>(i, es). sql_sum le_amount es \<noteq> 0) (sql_group_by le_txn (ledger_entries s)) = []"
    using transaction_sum_zero [OF assms(1)] by (auto simp: sql_group_by_def filter_empty_conv)
  then have 1: "unbalanced_ledger_transactions ?r = 0" by (simp add: reconcile_def tx_run Let_def)
  have "mismatches s = []"
    using balance_is_ledger [of "books_of s"] assms(1) by (auto simp: mismatches_def books_ok_def filter_empty_conv)
  then have 2: "balance_mismatches ?r = 0" by (simp add: reconcile_def tx_run Let_def)
  have "\<not> (a_type a = USER \<and> a_balance a < 0)" if "a \<in> set (accounts s)" for a
    using account_checks [of "books_of s" a] assms(1) that by (auto simp: books_ok_def account_row_ok_def)
  then have 3: "negative_user_accounts ?r = 0" by (simp add: reconcile_def tx_run Let_def sql_rowcount_0)
  have pairs: "list_all2 (posted_pair (ledger_entries s)) (transfers s) (ledger_transactions s)"
    using posted_all [of "books_of s"] assms(1) by (simp add: books_ok_def)
  have "\<exists>l \<in> set (ledger_transactions s). lt_transfer_id l = t_id t" if "t \<in> set (transfers s)" for t
    using list_all2_in_set [OF pairs that] by (auto simp: posted_pair_def)
  then have 4: "succeeded_transfers_without_ledger ?r = 0"
    by (auto simp: reconcile_def tx_run Let_def sql_rowcount_0)
  have 5: "transfers_with_wrong_entry_count ?r = 0"
    using entry_counts [OF assms(1)] by (simp add: reconcile_def tx_run Let_def)
  have 6: "accepted_requests_without_transfer ?r = 0"
    using assms(2)
    by (auto simp: reconcile_def tx_run Let_def sql_rowcount_0 rows_ok_def requests_ok_def request_row_ok_def)
  have 7: "duplicate_transfer_references ?r = 0"
    using distinct_group_le_1 [of t_reference "transfers s"] references_key [of "books_of s"] assms(1)
    by (simp add: reconcile_def tx_run Let_def books_ok_def)
  have 8: "system_wide_ledger_sum_minor ?r = 0"
    using ledger_sum_zero [OF assms(1)] by (simp add: reconcile_def tx_run Let_def)
  have 9: "all_account_balance_sum_minor ?r = 0"
    using balances_sum_zero [OF assms(1)] sql_group_by_sum [of a_balance a_type "accounts s"]
    by (simp add: reconcile_def tx_run Let_def all_account_balance_sum_minor_def)
  from 1 2 3 4 5 6 7 8 9 have "is_balanced ?r" by (simp add: is_balanced_def)
  with reconcile_run show ?thesis by blast
qed

lemma demo_invariants: "books_ok demo_db" "rows_ok demo_db"
proof -
  show "books_ok demo_db"
    by (simp add: books_ok_def books_inv_def books_of_def demo_db_def demo_account_def account_row_ok_def
        SYSTEM_ISSUANCE_ACCOUNT_ID_def ESCROW_ACCOUNT_ID_def PENDING_SETTLEMENT_ACCOUNT_ID_def
        USER_OWNED_ACCOUNT_TYPES_def UNOWNED_ACCOUNT_TYPES_def)
  show "rows_ok demo_db"
    by (simp add: rows_ok_def requests_ok_def escrows_ok_def loans_ok_def tasks_ok_def users_keyed_def
        column_unique_def demo_db_def demo_user_def)
qed

text \<open>
  The report overlooks a posting without entries.  Check 5 is documented as every transfer
  having exactly two entries, but its inner join drops a ledger transaction that has none: a database
  with a succeeded transfer whose ledger transaction is empty reconciles as balanced.
\<close>

lemma empty_posting_reconciles:
  "\<exists>r. reconcile True (demo_db\<lparr>transfers := [demo_hold\<lparr>t_status := SUCCEEDED\<rparr>],
        ledger_transactions := [\<lparr>lt_id = ''L'', lt_transfer_id = ''H'', lt_type = P2P_SEND,
                                  lt_description = None, lt_posted_at = 0\<rparr>]\<rparr>)
     = (Inr r, demo_db\<lparr>transfers := [demo_hold\<lparr>t_status := SUCCEEDED\<rparr>],
        ledger_transactions := [\<lparr>lt_id = ''L'', lt_transfer_id = ''H'', lt_type = P2P_SEND,
                                  lt_description = None, lt_posted_at = 0\<rparr>]\<rparr>)
     \<and> is_balanced r \<and> ledger_entries_checked r = 0"
  by (simp add: reconcile_def tx_run Let_def is_balanced_def all_account_balance_sum_minor_def sql_group_by_def
      mismatches_def demo_db_def demo_account_def demo_hold_def sql_sum_def ledger_balance_def entries_of_def)

end
