(* ===== verification/Web.thy ===== *)
theory Web
  imports Unit_Of_Work
begin

text \<open>
  The HTTP edge: rate limiting (\<open>platform_/web/rate_limit.py\<close>), the dependencies every route resolves
  first (\<open>apps/api/dependencies.py\<close>), the field patterns of the request models (\<open>apps/api/schemas.py\<close>)
  and the response envelope with the mapping of exceptions (\<open>platform_/web/envelope.py\<close>,
  \<open>platform_/web/middleware.py\<close>).
\<close>

section \<open>Rate limiting\<close>

record rate_limit_policy =
  rl_name :: string
  rl_limit :: int
  rl_window_seconds :: int
  rl_fail_closed :: bool

definition POLICIES :: "(string \<times> rate_limit_policy) list" where
  "POLICIES =
     [(''login'', \<lparr>rl_name = ''login'', rl_limit = 5, rl_window_seconds = 60, rl_fail_closed = True\<rparr>),
      (''register'', \<lparr>rl_name = ''register'', rl_limit = 5, rl_window_seconds = 300, rl_fail_closed = True\<rparr>),
      (''transfer'', \<lparr>rl_name = ''transfer'', rl_limit = 10, rl_window_seconds = 60, rl_fail_closed = True\<rparr>),
      (''money_request'', \<lparr>rl_name = ''money_request'', rl_limit = 20, rl_window_seconds = 60, rl_fail_closed = False\<rparr>),
      (''lookup'', \<lparr>rl_name = ''lookup'', rl_limit = 60, rl_window_seconds = 60, rl_fail_closed = False\<rparr>),
      (''read'', \<lparr>rl_name = ''read'', rl_limit = 120, rl_window_seconds = 60, rl_fail_closed = False\<rparr>)]"

text \<open>The Redis commands the script calls; the server and its state are parameters.\<close>

record 'r redis_server =
  redis_incr :: "string \<Rightarrow> 'r \<Rightarrow> int \<times> 'r"
  redis_expire :: "string \<Rightarrow> int \<Rightarrow> 'r \<Rightarrow> 'r"
  redis_ttl :: "string \<Rightarrow> 'r \<Rightarrow> int"

definition fixed_window :: "'r redis_server \<Rightarrow> string \<Rightarrow> int \<Rightarrow> 'r \<Rightarrow> (int \<times> int) \<times> 'r" where
  "fixed_window R key window st =
     (let (current, st1) = redis_incr R key st;
          st2 = (if current = 1 then redis_expire R key window st1 else st1)
      in ((current, redis_ttl R key st2), st2))"

text \<open>The quota check; \<open>Limited\<close> carries \<open>retry_after_seconds\<close> and the details of the error raised.\<close>

datatype rate_verdict = Allowed | Limited int dict

definition rate_key :: "rate_limit_policy \<Rightarrow> string \<Rightarrow> string" where
  "rate_key p identifier = ''ratelimit:'' @ rl_name p @ '':'' @ identifier"

definition rate_check :: "'r redis_server \<Rightarrow> bool \<Rightarrow> string \<Rightarrow> string \<Rightarrow> 'r \<Rightarrow> rate_verdict \<times> 'r" where
  "rate_check R reachable policy_name identifier st =
     (case map_of POLICIES policy_name of
        None \<Rightarrow> (Allowed, st)
      | Some p \<Rightarrow>
          if \<not> reachable then (if rl_fail_closed p then (Limited 5 [], st) else (Allowed, st))
          else
            (let ((current, ttl), st') = fixed_window R (rate_key p identifier) (rl_window_seconds p) st in
             if rl_limit p < current
             then (Limited (max ttl 1)
                     [(''limit'', JInt (rl_limit p)), (''windowSeconds'', JInt (rl_window_seconds p))], st')
             else (Allowed, st')))"

text \<open>
  What the limiter relies on of Redis while a window lasts: \<open>INCR\<close> adds one to the counter of its key and
  answers the new value, \<open>EXPIRE\<close> changes no counter.
\<close>

definition redis_counts :: "'r redis_server \<Rightarrow> (string \<Rightarrow> 'r \<Rightarrow> int) \<Rightarrow> bool" where
  "redis_counts R counter \<longleftrightarrow>
     (\<forall>k st. fst (redis_incr R k st) = counter k st + 1)
     \<and> (\<forall>k k' st. counter k' (snd (redis_incr R k st)) = (if k' = k then counter k st + 1 else counter k' st))
     \<and> (\<forall>k k' w st. counter k' (redis_expire R k w st) = counter k' st)"

fun rate_checks :: "'r redis_server \<Rightarrow> string \<Rightarrow> string list \<Rightarrow> 'r \<Rightarrow> (string \<times> rate_verdict) list \<times> 'r" where
  "rate_checks R policy_name [] st = ([], st)"
| "rate_checks R policy_name (i # callers) st =
     (let (v, st') = rate_check R True policy_name i st; (vs, st'') = rate_checks R policy_name callers st' in
      ((i, v) # vs, st''))"

definition allowed_of :: "string \<Rightarrow> (string \<times> rate_verdict) list \<Rightarrow> nat" where
  "allowed_of i vs = length (filter (\<lambda>(j, v). j = i \<and> v = Allowed) vs)"

lemma rate_check_counts:
  assumes "redis_counts R counter" "map_of POLICIES policy_name = Some p"
  shows "fst (rate_check R True policy_name i st) = Allowed \<longleftrightarrow> counter (rate_key p i) st < rl_limit p"
    and "counter k (snd (rate_check R True policy_name i st))
         = (if k = rate_key p i then counter k st + 1 else counter k st)"
proof -
  let ?k = "rate_key p i"
  obtain current st1 where inc: "redis_incr R ?k st = (current, st1)" by (cases "redis_incr R ?k st")
  define st2 where "st2 = (if current = 1 then redis_expire R ?k (rl_window_seconds p) st1 else st1)"
  have law: "current = counter ?k st + 1" "\<And>k'. counter k' st1 = (if k' = ?k then counter ?k st + 1 else counter k' st)"
    "\<And>k'. counter k' st2 = counter k' st1"
  proof -
    from assms(1) have *: "fst (redis_incr R ?k st) = counter ?k st + 1"
      "\<And>k'. counter k' (snd (redis_incr R ?k st)) = (if k' = ?k then counter ?k st + 1 else counter k' st)"
      "\<And>k' w st. counter k' (redis_expire R ?k w st) = counter k' st"
      by (simp_all add: redis_counts_def)
    show "current = counter ?k st + 1" using *(1) by (simp add: inc)
    show "counter k' st1 = (if k' = ?k then counter ?k st + 1 else counter k' st)" for k' using *(2) [of k'] by (simp add: inc)
    show "counter k' st2 = counter k' st1" for k' by (simp add: st2_def *(3))
  qed
  have run: "rate_check R True policy_name i st =
      (if rl_limit p < current
       then (Limited (max (redis_ttl R ?k st2) 1)
               [(''limit'', JInt (rl_limit p)), (''windowSeconds'', JInt (rl_window_seconds p))], st2)
       else (Allowed, st2))"
    using assms(2) inc by (simp add: rate_check_def fixed_window_def st2_def Let_def)
  show "fst (rate_check R True policy_name i st) = Allowed \<longleftrightarrow> counter ?k st < rl_limit p"
    unfolding run using law(1) by auto
  show "counter k (snd (rate_check R True policy_name i st)) = (if k = ?k then counter k st + 1 else counter k st)"
    unfolding run using law(2,3) by simp
qed

lemma rate_checks_allowed:
  assumes "redis_counts R counter" "map_of POLICIES policy_name = Some p"
  shows "allowed_of i (fst (rate_checks R policy_name callers st))
       = min (count_list callers i) (nat (rl_limit p - counter (rate_key p i) st))"
proof (induction callers arbitrary: st)
  case Nil
  then show ?case by (simp add: allowed_of_def)
next
  case (Cons j js)
  obtain v st' where ck: "rate_check R True policy_name j st = (v, st')"
    by (cases "rate_check R True policy_name j st")
  obtain vs st'' where rest: "rate_checks R policy_name js st' = (vs, st'')"
    by (cases "rate_checks R policy_name js st'")
  note IH = Cons.IH [of st', unfolded rest fst_conv]
  note cnt = rate_check_counts [OF assms, where i = j and st = st, unfolded ck fst_conv snd_conv]
  have inj: "rate_key p i = rate_key p j \<longleftrightarrow> i = j" by (simp add: rate_key_def)
  have "allowed_of i (fst (rate_checks R policy_name (j # js) st))
      = (if j = i \<and> v = Allowed then 1 else 0) + allowed_of i vs"
    using ck rest by (simp add: allowed_of_def)
  with IH cnt(1) cnt(2) [where k = "rate_key p i"] inj show ?case by (cases "i = j") auto
qed

text \<open>
  C32: a quota holds across interleaved callers.  Within a window, of any sequence of requests under a
  policy, with any interleaving of identifiers, exactly the first \<open>limit\<close> of each identifier pass; the
  requests of one caller never use up another's quota.
\<close>

theorem rate_limit_quota:
  assumes "redis_counts R counter" "map_of POLICIES policy_name = Some p"
    and "counter (rate_key p i) st = 0"
  shows "allowed_of i (fst (rate_checks R policy_name callers st)) = min (count_list callers i) (nat (rl_limit p))"
  using rate_checks_allowed [OF assms(1,2), where i = i and callers = callers and st = st] assms(3) by simp

definition demo_redis :: "(string \<Rightarrow> int) redis_server" where
  "demo_redis = \<lparr>redis_incr = (\<lambda>k st. (st k + 1, st(k := st k + 1))), redis_expire = (\<lambda>k w st. st),
     redis_ttl = (\<lambda>k st. 60)\<rparr>"

theorem rate_limit_quota_witness:
  "allowed_of ''user:a'' (fst (rate_checks demo_redis ''login'' (replicate 7 ''user:a'' @ [''user:b'']) (\<lambda>k. 0))) = 5"
proof -
  let ?p = "\<lparr>rl_name = ''login'', rl_limit = 5, rl_window_seconds = 60, rl_fail_closed = True\<rparr>"
  have "redis_counts demo_redis (\<lambda>k st. st k)" by (simp add: redis_counts_def demo_redis_def)
  from rate_limit_quota [OF this, where policy_name = "''login''" and p = ?p and i = "''user:a''" and st = "\<lambda>k. 0"
      and callers = "replicate 7 ''user:a'' @ [''user:b'']"]
  show ?thesis by (simp add: POLICIES_def count_list_append numeral_eq_Suc)
qed


section \<open>Requests\<close>

text \<open>
  A request as the routes see it: the raw headers they read, the credentials \<open>HTTPBearer\<close> extracted, the
  identifier the middleware assigned, and the time at which tokens are checked.
\<close>

record http_request =
  h_request_id :: string
  h_authorization :: "string option"
  h_credentials :: "(string \<times> string) option"
  h_idempotency_key :: "string option"
  h_engineering_key :: "string option"
  h_forwarded_for :: "string option"
  h_client_host :: "string option"
  h_user_agent :: "string option"
  h_now :: int

record authenticated_user =
  user_id_of :: string
  session_id_of :: string

definition get_current_user :: "env \<Rightarrow> http_request \<Rightarrow> exn + authenticated_user" where
  "get_current_user E q =
     (case h_credentials q of
        None \<Rightarrow> Inl (app_error AuthenticationError)
      | Some (scheme, credentials) \<Rightarrow>
          if str_lower scheme \<noteq> ''bearer'' then Inl (app_error AuthenticationError)
          else if py_strip credentials = [] then Inl (app_error AuthenticationError)
          else (case verify_access_token E (py_strip credentials) (h_now q) of
                  None \<Rightarrow> Inl (app_error AuthenticationError)
                | Some claims \<Rightarrow> Inr \<lparr>user_id_of = cl_user claims, session_id_of = cl_session claims\<rparr>))"

definition get_idempotency_key :: "http_request \<Rightarrow> exn + string" where
  "get_idempotency_key q =
     (let refused = AppError ValidationError [(''header'', JStr ''Idempotency-Key'')] in
      case h_idempotency_key q of
        None \<Rightarrow> Inl refused
      | Some raw \<Rightarrow>
          if raw = [] then Inl refused
          else let key = py_strip raw in
            if 8 \<le> length key \<and> length key \<le> 128 then Inr key else Inl refused)"

text \<open>\<open>compare_digest\<close> accepts two \<open>str\<close> arguments only when both are ASCII.\<close>

definition compare_digest :: "string \<Rightarrow> string \<Rightarrow> exn + bool" where
  "compare_digest a b =
     (if list_all (\<lambda>c. of_char c < (128 :: nat)) (a @ b) then Inr (a = b) else Inl (PyError ''TypeError''))"

definition require_engineering_key :: "env \<Rightarrow> http_request \<Rightarrow> exn + unit" where
  "require_engineering_key E q =
     (case h_engineering_key q of
        None \<Rightarrow> Inl (app_error AuthorizationError)
      | Some k \<Rightarrow>
          if k = [] then Inl (app_error AuthorizationError)
          else chk_bind (compare_digest k (engineering_api_key E))
                 (\<lambda>same. chk_unless same (app_error AuthorizationError)))"

text \<open>\<open>s.split(",")[0]\<close>.\<close>

definition before_comma :: "string \<Rightarrow> string" where
  "before_comma s = takeWhile (\<lambda>c. c \<noteq> CHR '','') s"

definition client_ip :: "http_request \<Rightarrow> string" where
  "client_ip q =
     (case h_forwarded_for q of
        Some f \<Rightarrow> if f \<noteq> [] then py_strip (before_comma f)
                  else (case h_client_host q of Some h \<Rightarrow> h | None \<Rightarrow> ''unknown'')
      | None \<Rightarrow> (case h_client_host q of Some h \<Rightarrow> h | None \<Rightarrow> ''unknown''))"

definition client_context :: "http_request \<Rightarrow> string option \<times> string option" where
  "client_context q =
     (h_user_agent q,
      case h_forwarded_for q of
        Some f \<Rightarrow> if f \<noteq> [] then Some (py_strip (before_comma f)) else h_client_host q
      | None \<Rightarrow> h_client_host q)"

text \<open>Authenticated callers are limited per user, the others per address.\<close>

definition rate_identifier :: "env \<Rightarrow> http_request \<Rightarrow> string" where
  "rate_identifier E q =
     (let authorization = (case h_authorization q of Some a \<Rightarrow> a | None \<Rightarrow> []);
          by_ip = ''ip:'' @ client_ip q in
      if take 7 (str_lower authorization) = ''bearer ''
      then (case verify_access_token E (py_strip (drop 7 authorization)) (h_now q) of
              Some claims \<Rightarrow> ''user:'' @ cl_user claims | None \<Rightarrow> by_ip)
      else by_ip)"


section \<open>Request models\<close>

definition all_digits :: "string \<Rightarrow> bool" where
  "all_digits s = list_all (\<lambda>c. c \<in> set ''0123456789'') s"

definition valid_phone :: "string \<Rightarrow> bool" where
  "valid_phone s \<longleftrightarrow> length s = 11 \<and> take 2 s = ''01'' \<and> s ! 2 \<in> set ''3456789'' \<and> all_digits (drop 3 s)"

definition valid_pin :: "string \<Rightarrow> bool" where
  "valid_pin s \<longleftrightarrow> 4 \<le> length s \<and> length s \<le> 6 \<and> all_digits s"

definition valid_amount :: "int \<Rightarrow> bool" where
  "valid_amount n \<longleftrightarrow> 0 < n \<and> n \<le> 1000000000000"

definition valid_length :: "nat \<Rightarrow> nat \<Rightarrow> string \<Rightarrow> bool" where
  "valid_length lo hi s \<longleftrightarrow> lo \<le> length s \<and> length s \<le> hi"

definition valid_note :: "string option \<Rightarrow> bool" where
  "valid_note nt = (case nt of None \<Rightarrow> True | Some s \<Rightarrow> length s \<le> 200)"

definition valid_courier :: "string \<Rightarrow> bool" where
  "valid_courier s \<longleftrightarrow> valid_length 2 32 s
     \<and> list_all (\<lambda>c. c \<in> set ''abcdefghijklmnopqrstuvwxyz0123456789-'') s"

definition valid_delivery_code :: "string \<Rightarrow> bool" where
  "valid_delivery_code s \<longleftrightarrow> length s = 6 \<and> all_digits s"

text \<open>FastAPI answers a model that does not validate with \<open>RequestValidationError\<close>.\<close>

definition valid_body :: "bool \<Rightarrow> exn + unit" where
  "valid_body ok = chk_unless ok (PyError ''RequestValidationError'')"


section \<open>Responses\<close>

type_synonym response = "int \<times> json"

definition success_response :: "json \<Rightarrow> int \<Rightarrow> string \<Rightarrow> dict \<Rightarrow> response" where
  "success_response data status request_id meta =
     (status,
      JObj [(''success'', JBool True), (''data'', data),
            (''meta'', JObj ((if request_id \<noteq> [] then [(''requestId'', JStr request_id)] else [])
               @ filter (\<lambda>(k, v). v \<noteq> JNull) meta))])"

definition error_response :: "dict \<Rightarrow> int \<Rightarrow> string \<Rightarrow> response" where
  "error_response error status request_id =
     (status,
      JObj [(''success'', JBool False), (''error'', JObj error),
            (''meta'', JObj (if request_id \<noteq> [] then [(''requestId'', JStr request_id)] else []))])"

text \<open>The exception handlers registered on the application.\<close>

fun exception_response :: "string \<Rightarrow> exn \<Rightarrow> response" where
  "exception_response request_id (AppError c details) =
     error_response (to_payload c details) (error_http_status c) request_id"
| "exception_response request_id e =
     (if e = PyError ''RequestValidationError''
      then error_response [(''code'', JStr ''VALIDATION_ERROR''), (''retryable'', JBool False)] 400 request_id
      else error_response [(''code'', JStr ''INTERNAL_ERROR''), (''retryable'', JBool True)] 500 request_id)"

lemma exception_response_status: "400 \<le> fst (exception_response rid e) \<and> fst (exception_response rid e) < 600"
proof (cases e)
  case (AppError c d)
  then show ?thesis by (cases c) (simp_all add: error_response_def)
qed (simp_all add: error_response_def)

end
