(* ===== verification/Statements.thy ===== *)
theory Statements
  imports Scenario
begin

text \<open>
  Account statements: \<open>SqlStatementRepository\<close> of
  \<open>modules/financial_core/adapters/persistence/repositories.py\<close> and the cursor pagination of
  \<open>GET /transactions\<close> (\<open>apps/api/routes/accounts.py\<close>), with the proof that following the cursors
  visits every entry exactly once.
\<close>

section \<open>The query\<close>

text \<open>The joins are on primary keys, so each entry has at most one transaction and one transfer.\<close>

definition entry_transfer :: "db \<Rightarrow> ledger_entry_row \<Rightarrow> (ledger_entry_row \<times> transfer_row) option" where
  "entry_transfer s e =
     (case sql_get lt_id (le_txn e) (ledger_transactions s) of
        None \<Rightarrow> None
      | Some l \<Rightarrow> map_option (Pair e) (sql_get t_id (lt_transfer_id l) (transfers s)))"

definition holder_name :: "db \<Rightarrow> string \<Rightarrow> string option" where
  "holder_name s account_id =
     (case sql_get a_id account_id (accounts s) of
        None \<Rightarrow> None
      | Some a \<Rightarrow> (case a_user_id a of None \<Rightarrow> None
                   | Some u \<Rightarrow> map_option u_display_name (sql_get u_id u (users s))))"

definition parent_sender_name :: "db \<Rightarrow> transfer_row \<Rightarrow> string option" where
  "parent_sender_name s t =
     (case t_parent t of None \<Rightarrow> None
      | Some p \<Rightarrow> (case sql_get t_id p (transfers s) of None \<Rightarrow> None | Some pt \<Rightarrow> holder_name s (t_sender pt)))"

text \<open>\<open>a or b\<close> on nullable strings.\<close>

definition or_else :: "string option \<Rightarrow> string option \<Rightarrow> string option" where
  "or_else a b = (case a of Some x \<Rightarrow> (if x \<noteq> [] then Some x else b) | None \<Rightarrow> b)"

definition statement_entry :: "db \<Rightarrow> ledger_entry_row \<times> transfer_row \<Rightarrow> dict" where
  "statement_entry s = (\<lambda>(e, t).
     let outgoing = le_amount e < 0;
         intended = (case t_intended_receiver t of None \<Rightarrow> None | Some r \<Rightarrow> holder_name s r);
         counterparty = (if outgoing then or_else intended (holder_name s (t_receiver t))
                         else or_else (parent_sender_name s t) (holder_name s (t_sender t)))
     in [(''entryId'', JStr (le_id e)), (''reference'', JStr (t_reference t)),
         (''direction'', JStr (if outgoing then ''DEBIT'' else ''CREDIT'')),
         (''amountMinor'', JInt \<bar>le_amount e\<bar>), (''signedAmountMinor'', JInt (le_amount e)),
         (''balanceAfterMinor'', JInt (le_balance_after e)), (''currency'', JStr (py_strip (le_currency e))),
         (''kind'', JStr (kind_str (t_kind t))), (''note'', opt_json JStr (t_note t)),
         (''counterpartyName'', JStr (case or_else counterparty None of Some n \<Rightarrow> n | None \<Rightarrow> ''System'')),
         (''createdAt'', JTime (le_created_at e))])"

definition statement_rows :: "db \<Rightarrow> string \<Rightarrow> (ledger_entry_row \<times> transfer_row) list" where
  "statement_rows s account_id =
     sql_order_by_desc (le_id \<circ> fst)
       (List.map_filter (entry_transfer s) (filter (\<lambda>e. le_account e = account_id) (ledger_entries s)))"

text \<open>An empty cursor is no cursor.\<close>

definition after_cursor :: "string option \<Rightarrow> string \<Rightarrow> bool" where
  "after_cursor cursor i = (case cursor of None \<Rightarrow> True | Some c \<Rightarrow> c = [] \<or> i < c)"

definition list_entries :: "string \<Rightarrow> nat \<Rightarrow> string option \<Rightarrow> (string \<times> dict) list tx" where
  "list_entries account_id limit cursor = tx_gets (\<lambda>s.
     map (\<lambda>r. (le_id (fst r), statement_entry s r))
       (take limit (filter (\<lambda>r. after_cursor cursor (le_id (fst r))) (statement_rows s account_id))))"

record page_result =
  pg_entries :: "(string \<times> dict) list"
  pg_next_cursor :: "string option"
  pg_has_more :: bool

definition statement_page :: "string \<Rightarrow> nat \<Rightarrow> string option \<Rightarrow> page_result tx" where
  "statement_page account_id limit cursor =
     tx_bind (list_entries account_id (limit + 1) cursor) (\<lambda>rows.
       let has_more = limit < length rows; page = take limit rows in
       tx_return \<lparr>pg_entries = page,
                  pg_next_cursor = (if has_more \<and> page \<noteq> [] then Some (fst (last page)) else None),
                  pg_has_more = has_more\<rparr>)"

text \<open>A client that follows the cursors, for at most \<open>fuel\<close> pages.\<close>

fun scroll :: "nat \<Rightarrow> string \<Rightarrow> nat \<Rightarrow> string option \<Rightarrow> (string \<times> dict) list tx" where
  "scroll 0 account_id limit cursor = tx_return []"
| "scroll (Suc fuel) account_id limit cursor =
     tx_bind (statement_page account_id limit cursor) (\<lambda>page.
       case pg_next_cursor page of
         None \<Rightarrow> tx_return (pg_entries page)
       | Some c \<Rightarrow> tx_bind (scroll fuel account_id limit (Some c)) (\<lambda>rest. tx_return (pg_entries page @ rest)))"


section \<open>Keyset pagination\<close>

text \<open>In a list with strictly falling keys, the rows after a row are the rows with a smaller key.\<close>

lemma filter_below_key:
  fixes k :: "'a \<Rightarrow> 'k :: linorder"
  assumes "sorted_wrt (\<lambda>x y. k y < k x) xs" "i < length xs"
  shows "filter (\<lambda>x. k x < k (xs ! i)) xs = drop (Suc i) xs"
  using assms
proof (induction xs arbitrary: i)
  case (Cons a xs)
  show ?case
  proof (cases i)
    case 0
    with Cons.prems show ?thesis by (auto simp: filter_id_conv)
  next
    case (Suc j)
    with Cons.prems have "k (xs ! j) < k a" by simp
    then have "\<not> k a < k (xs ! j)" by simp
    with Suc Cons show ?thesis by auto
  qed
qed simp

lemma map_filter_conv: "List.map_filter f xs = map (the \<circ> f) (filter (\<lambda>x. f x \<noteq> None) xs)"
  by (induction xs) (auto simp: List.map_filter_def)

lemma entry_transfer_the: "entry_transfer s e \<noteq> None \<Longrightarrow> fst (the (entry_transfer s e)) = e"
  by (auto simp: entry_transfer_def split: option.splits)

lemma statement_rows_entries:
  "r \<in> set (statement_rows s account_id) \<Longrightarrow> fst r \<in> set (ledger_entries s) \<and> le_account (fst r) = account_id"
  using entry_transfer_the [of s] by (fastforce simp: statement_rows_def map_filter_conv sql_order_by_desc_def)

lemma statement_rows_falling:
  assumes "keys_distinct le_id (ledger_entries s)"
  shows "sorted_wrt (\<lambda>x y. le_id (fst y) < le_id (fst x)) (statement_rows s account_id)"
proof -
  let ?es = "filter (\<lambda>e. le_account e = account_id) (ledger_entries s)"
  let ?rs = "List.map_filter (entry_transfer s) ?es"
  have "map (le_id \<circ> fst) ?rs = map le_id (filter (\<lambda>e. entry_transfer s e \<noteq> None) ?es)"
    unfolding map_filter_conv by (simp add: entry_transfer_the del: not_None_eq)
  then have dist: "distinct (map (le_id \<circ> fst) ?rs)"
    using assms by (simp only: distinct_map_filter)
  have "sorted (map (le_id \<circ> fst) (sort_key (le_id \<circ> fst) ?rs))" by simp
  moreover have "distinct (map (le_id \<circ> fst) (sort_key (le_id \<circ> fst) ?rs))"
    using dist by (simp add: distinct_map inj_on_def)
  ultimately have "sorted_wrt (<) (map (le_id \<circ> fst) (sort_key (le_id \<circ> fst) ?rs))"
    by (simp add: strict_sorted_iff)
  then show ?thesis
    unfolding statement_rows_def sql_order_by_desc_def by (simp add: sorted_wrt_rev sorted_wrt_map o_def)
qed

lemma list_entries_app:
  "list_entries account_id limit cursor s
   = (Inr (map (\<lambda>r. (le_id (fst r), statement_entry s r))
       (take limit (filter (\<lambda>r. after_cursor cursor (le_id (fst r))) (statement_rows s account_id)))), s)"
  by (simp add: list_entries_def tx_run)

lemma scroll_from:
  assumes falling: "sorted_wrt (\<lambda>x y. le_id (fst y) < le_id (fst x)) (statement_rows s account_id)"
    and named: "\<forall>r \<in> set (statement_rows s account_id). le_id (fst r) \<noteq> []"
    and limit: "0 < limit" and fuel: "length (statement_rows s account_id) < fuel + i"
    and at: "filter (\<lambda>r. after_cursor cursor (le_id (fst r))) (statement_rows s account_id)
             = drop i (statement_rows s account_id)"
  shows "scroll fuel account_id limit cursor s
    = (Inr (map (\<lambda>r. (le_id (fst r), statement_entry s r)) (drop i (statement_rows s account_id))), s)"
  using fuel at
proof (induction fuel arbitrary: i cursor)
  case 0
  then show ?case by (simp add: tx_run)
next
  case (Suc fuel)
  let ?rows = "statement_rows s account_id"
  let ?f = "\<lambda>r. (le_id (fst r), statement_entry s r)"
  have rows: "list_entries account_id (limit + 1) cursor s = (Inr (map ?f (take (limit + 1) (drop i ?rows))), s)"
    by (simp only: list_entries_app Suc.prems(2))
  show ?case
  proof (cases "i + limit < length ?rows")
    case True
    let ?j = "i + limit - 1"
    let ?c = "le_id (fst (?rows ! ?j))"
    have page: "take limit (map ?f (take (limit + 1) (drop i ?rows))) = map ?f (take limit (drop i ?rows))"
      by (simp add: take_map)
    have len: "length (take limit (drop i ?rows)) = limit" using True by simp
    have "last (take limit (drop i ?rows)) = ?rows ! ?j"
      using limit True len by (subst last_conv_nth) auto
    then have lst: "fst (last (map ?f (take limit (drop i ?rows)))) = ?c"
      using limit True by (subst last_map) auto
    have "?rows ! ?j \<in> set ?rows" using True limit by simp
    with named have "?c \<noteq> []" by blast
    moreover have "filter (\<lambda>x. le_id (fst x) < ?c) ?rows = drop (i + limit) ?rows"
      using filter_below_key [OF falling, of ?j] True limit by simp
    ultimately have next_at: "filter (\<lambda>r. after_cursor (Some ?c) (le_id (fst r))) ?rows = drop (i + limit) ?rows"
      by (simp add: after_cursor_def)
    have "scroll fuel account_id limit (Some ?c) s = (Inr (map ?f (drop (i + limit) ?rows)), s)"
      using Suc.prems(1) limit by (intro Suc.IH next_at) simp
    moreover have "map ?f (take limit (drop i ?rows)) @ map ?f (drop (i + limit) ?rows) = map ?f (drop i ?rows)"
      by (simp only: map_append [symmetric] drop_drop [symmetric] add.commute [of i] append_take_drop_id)
    moreover have "limit < length (map ?f (take (limit + 1) (drop i ?rows)))" using True by simp
    moreover have "map ?f (take limit (drop i ?rows)) \<noteq> []" using len limit by auto
    ultimately show ?thesis
      by (simp only: scroll.simps statement_page_def tx_bind_app rows prod.case sum.case Let_def page lst
            tx_return_def if_True simp_thms page_result.simps option.case)
  next
    case False
    then have "\<not> limit < length (map ?f (take (limit + 1) (drop i ?rows)))" by simp
    moreover have "take limit (map ?f (take (limit + 1) (drop i ?rows))) = map ?f (drop i ?rows)"
      using False by (simp add: take_map)
    ultimately show ?thesis
      by (simp only: scroll.simps statement_page_def tx_bind_app rows prod.case sum.case Let_def
            tx_return_def if_False simp_thms page_result.simps option.case)
  qed
qed

text \<open>
  C31: paging loses and repeats nothing.  Following the cursors from the start, with any page size,
  returns the account's complete statement, newest first: each ledger entry of the account exactly
  once.  One page more than there are entries is always enough.
\<close>

theorem statement_pages_complete:
  assumes "keys_distinct le_id (ledger_entries s)" "\<forall>e \<in> set (ledger_entries s). le_id e \<noteq> []"
    and "0 < limit" "length (statement_rows s account_id) < fuel"
  shows "scroll fuel account_id limit None s
      = (Inr (map (\<lambda>r. (le_id (fst r), statement_entry s r)) (statement_rows s account_id)), s)
    \<and> sorted_wrt (\<lambda>x y. le_id (fst y) < le_id (fst x)) (statement_rows s account_id)"
proof -
  have named: "\<forall>r \<in> set (statement_rows s account_id). le_id (fst r) \<noteq> []"
    using assms(2) statement_rows_entries by blast
  note falling = statement_rows_falling [OF assms(1), of account_id]
  have "scroll fuel account_id limit None s
      = (Inr (map (\<lambda>r. (le_id (fst r), statement_entry s r)) (drop 0 (statement_rows s account_id))), s)"
    using assms(4) by (intro scroll_from falling named assms(3)) (simp_all add: after_cursor_def)
  with falling show ?thesis by simp
qed

text \<open>Two entries of Alice's account: her bonus and a payment to Bob.\<close>

definition demo_entry :: "string \<Rightarrow> string \<Rightarrow> int \<Rightarrow> int \<Rightarrow> ledger_entry_row" where
  "demo_entry i txn amount after_it = \<lparr>le_id = i, le_txn = txn, le_account = ''A'', le_amount = amount,
     le_currency = ''BDT'', le_balance_after = after_it, le_created_at = 0\<rparr>"

definition demo_history :: db where
  "demo_history = demo_db\<lparr>
     transfers := [\<lparr>t_id = ''T1'', t_reference = ''R1'', t_sender = ''A'', t_receiver = ''B'', t_amount = 2500,
       t_currency = ''BDT'', t_kind = P2P_SEND, t_status = SUCCEEDED, t_note = None,
       t_initiated_by = Some ''alice'', t_request_id = None, t_reversal_of = None, t_parent = None,
       t_intended_receiver = None, t_created_at = 0, t_completed_at = Some 0\<rparr>],
     ledger_transactions := [\<lparr>lt_id = ''L1'', lt_transfer_id = ''T1'', lt_type = P2P_SEND, lt_description = None,
       lt_posted_at = 0\<rparr>],
     ledger_entries := [demo_entry ''E1'' ''L1'' 10000 10000, demo_entry ''E2'' ''L1'' (-2500) 7500]\<rparr>"

lemma demo_history_rows: "map (le_id \<circ> fst) (statement_rows demo_history ''A'') = [''E2'', ''E1'']"
  by code_simp

theorem statement_pages_complete_witness:
  "\<exists>es. scroll 3 ''A'' 1 None demo_history = (Inr es, demo_history) \<and> map fst es = [''E2'', ''E1'']"
proof -
  have "length (map (le_id \<circ> fst) (statement_rows demo_history ''A'')) < 3" by (simp only: demo_history_rows) simp
  then have len: "length (statement_rows demo_history ''A'') < 3" by simp
  have "keys_distinct le_id (ledger_entries demo_history)" "\<forall>e \<in> set (ledger_entries demo_history). le_id e \<noteq> []"
    by (simp_all add: demo_history_def demo_entry_def)
  from statement_pages_complete [OF this, of 1 "''A''" 3] len demo_history_rows
  show ?thesis by (simp add: o_def)
qed

end
