(* ===== verification/Api.thy ===== *)
theory Api
  imports Reconciliation Web Statements
begin

text \<open>
  The HTTP routes of \<open>apps/api/routes/\<close>, one definition per endpoint: the dependencies FastAPI
  resolves before the handler, in the order they are declared, then the validation of the request
  model, then the handler with the unit of work it opens and the reply it builds.  \<open>dispatch\<close> puts the
  rate limiter in front and the exception handlers behind, as the application is assembled.
\<close>

section \<open>Helpers\<close>

type_synonym faults = "nat \<Rightarrow> fault option"

abbreviation resolve :: "exn + 'a \<Rightarrow> ('a \<Rightarrow> 'b tx) \<Rightarrow> 'b tx" where
  "resolve dep handler \<equiv> tx_bind (tx_lift dep) handler"

text \<open>\<open>result.get("replayed")\<close> as a condition and with its default.\<close>

definition dict_true :: "dict \<Rightarrow> string \<Rightarrow> bool" where
  "dict_true d k \<longleftrightarrow> dict_get d k = Some (JBool True)"

definition replay_meta :: "dict \<Rightarrow> dict" where
  "replay_meta result =
     [(''idempotentReplay'', case dict_get result ''replayed'' of Some v \<Rightarrow> v | None \<Rightarrow> JBool False)]"

definition found_or_404 :: "'a option \<Rightarrow> exn + 'a" where
  "found_or_404 found = (case found of Some x \<Rightarrow> Inr x | None \<Rightarrow> Inl (app_error NotFoundError))"

definition reply :: "http_request \<Rightarrow> dict \<Rightarrow> response" where
  "reply q data = success_response (JObj data) 200 (h_request_id q) []"


section \<open>Authentication routes\<close>

definition tokens_dict :: "auth_tokens \<Rightarrow> dict" where
  "tokens_dict tokens =
     [(''accessToken'', JStr (at_access tokens)), (''refreshToken'', JStr (at_refresh tokens)),
      (''expiresIn'', JInt (at_expires_in tokens))]"

definition register_route ::
  "env \<Rightarrow> faults \<Rightarrow> http_request \<Rightarrow> string \<Rightarrow> string \<Rightarrow> string \<Rightarrow> string \<Rightarrow> response tx" where
  "register_route E faults q phone display_name password pin =
     resolve (valid_body (valid_phone phone \<and> valid_length 2 120 display_name
                          \<and> valid_length 8 128 password \<and> valid_pin pin)) (\<lambda>_.
     tx_bind (uow_run E faults (register E phone display_name password pin (Some (h_request_id q))
                (fst (client_context q)) (snd (client_context q)))) (\<lambda>result.
       tx_return (success_response
         (JObj ([(''userId'', JStr (ru_user result)), (''accountId'', JStr (ru_account result)),
                 (''displayName'', JStr (ru_display_name result)), (''phone'', JStr (ru_phone result))]
                @ tokens_dict (ru_tokens result)))
         201 (h_request_id q) [])))"

definition login_route :: "env \<Rightarrow> faults \<Rightarrow> http_request \<Rightarrow> string \<Rightarrow> string \<Rightarrow> response tx" where
  "login_route E faults q phone password =
     resolve (valid_body (valid_phone phone \<and> valid_length 1 128 password)) (\<lambda>_.
     tx_bind (uow_run E faults (login E phone password (fst (client_context q)) (snd (client_context q)))) (\<lambda>(uid, tokens).
       tx_return (reply q ((''userId'', JStr uid) # tokens_dict tokens))))"

definition refresh_route :: "env \<Rightarrow> faults \<Rightarrow> http_request \<Rightarrow> string \<Rightarrow> response tx" where
  "refresh_route E faults q token =
     resolve (valid_body (valid_length 10 512 token)) (\<lambda>_.
     tx_bind (uow_run E faults (refresh E token (fst (client_context q)) (snd (client_context q)))) (\<lambda>tokens.
       tx_return (reply q (tokens_dict tokens))))"

definition logout_route :: "env \<Rightarrow> faults \<Rightarrow> http_request \<Rightarrow> string \<Rightarrow> response tx" where
  "logout_route E faults q token =
     resolve (get_current_user E q) (\<lambda>user.
     resolve (valid_body (valid_length 10 512 token)) (\<lambda>_.
     tx_bind (uow_run E faults (logout E token)) (\<lambda>_.
       tx_return (reply q [(''revoked'', JBool True)]))))"


section \<open>Account routes\<close>

definition my_account :: "string \<Rightarrow> dict tx" where
  "my_account uid =
     tx_bind (get_account_by_user_id uid) (\<lambda>found.
     resolve (found_or_404 found) (\<lambda>account.
     tx_bind (get_user_by_id uid) (\<lambda>user.
       tx_return
         [(''accountId'', JStr (acc_id account)),
          (''displayName'', JStr (case user of Some u \<Rightarrow> u_display_name u | None \<Rightarrow> [])),
          (''phone'', JStr (case user of Some u \<Rightarrow> u_phone u | None \<Rightarrow> [])),
          (''balanceMinor'', JInt (minor (acc_balance account))),
          (''currency'', JStr (code (mcurrency (acc_balance account)))),
          (''status'', JStr (account_status_str (acc_status account)))])))"

definition get_my_account :: "env \<Rightarrow> faults \<Rightarrow> http_request \<Rightarrow> response tx" where
  "get_my_account E faults q =
     resolve (get_current_user E q) (\<lambda>user.
     tx_bind (uow_run E faults (my_account (user_id_of user))) (\<lambda>data. tx_return (reply q data)))"

definition lookup_recipient :: "env \<Rightarrow> faults \<Rightarrow> http_request \<Rightarrow> string \<Rightarrow> response tx" where
  "lookup_recipient E faults q phone =
     resolve (get_current_user E q) (\<lambda>user.
     resolve (valid_body (valid_phone phone)) (\<lambda>_.
     tx_bind (uow_run E faults (tx_bind (search_user phone (user_id_of user)) (\<lambda>found. tx_lift (found_or_404 found))))
       (\<lambda>data. tx_return (reply q data))))"

definition valid_page :: "int \<Rightarrow> string option \<Rightarrow> bool" where
  "valid_page limit cursor \<longleftrightarrow>
     1 \<le> limit \<and> limit \<le> 100 \<and> (case cursor of None \<Rightarrow> True | Some c \<Rightarrow> length c \<le> 26)"

definition list_transactions :: "env \<Rightarrow> faults \<Rightarrow> http_request \<Rightarrow> int \<Rightarrow> string option \<Rightarrow> response tx" where
  "list_transactions E faults q limit cursor =
     resolve (get_current_user E q) (\<lambda>user.
     resolve (valid_body (valid_page limit cursor)) (\<lambda>_.
     tx_bind (uow_run E faults
       (tx_bind (get_account_by_user_id (user_id_of user)) (\<lambda>found.
        resolve (found_or_404 found) (\<lambda>account. statement_page (acc_id account) (nat limit) cursor)))) (\<lambda>page.
       tx_return (reply q
         [(''entries'', JArr (map (JObj \<circ> snd) (pg_entries page))),
          (''nextCursor'', opt_json JStr (pg_next_cursor page)),
          (''hasMore'', JBool (pg_has_more page))]))))"


section \<open>Transfer routes\<close>

definition create_transfer_operation ::
  "env \<Rightarrow> string \<Rightarrow> string \<Rightarrow> money \<Rightarrow> string \<Rightarrow> string option \<Rightarrow> string option \<Rightarrow> dict tx" where
  "create_transfer_operation E uid phone amount key note request_id =
     tx_bind (get_account_by_user_id uid) (\<lambda>found.
     resolve (found_or_404 found) (\<lambda>sender.
     tx_bind (get_account_by_phone phone) (\<lambda>found.
     resolve (found_or_404 found) (\<lambda>recipient.
     tx_bind (tx_unless (acc_id recipient \<noteq> acc_id sender) (app_error SelfTransferError)) (\<lambda>_.
       overdraft_send E uid (acc_id sender) (acc_id recipient) amount key note request_id)))))"

definition create_transfer_route ::
  "env \<Rightarrow> faults \<Rightarrow> http_request \<Rightarrow> string \<Rightarrow> int \<Rightarrow> string \<Rightarrow> string option \<Rightarrow> response tx" where
  "create_transfer_route E faults q phone amount pin note =
     resolve (get_current_user E q) (\<lambda>user.
     resolve (get_idempotency_key q) (\<lambda>key.
     resolve (valid_body (valid_phone phone \<and> valid_amount amount \<and> valid_pin pin \<and> valid_note note)) (\<lambda>_.
     tx_bind (run_pin_protected E faults (user_id_of user) pin
       (create_transfer_operation E (user_id_of user) phone (mk_money amount BDT) key note (Some (h_request_id q)))) (\<lambda>result.
       tx_return (success_response (JObj result) (if dict_true result ''replayed'' then 200 else 201)
         (h_request_id q) (replay_meta result))))))"

definition list_pending_undo :: "env \<Rightarrow> faults \<Rightarrow> http_request \<Rightarrow> response tx" where
  "list_pending_undo E faults q =
     resolve (get_current_user E q) (\<lambda>user.
     tx_bind (uow_run E faults
       (tx_bind (get_account_by_user_id (user_id_of user)) (\<lambda>found.
        resolve (found_or_404 found) (\<lambda>account. list_pending_undo_for_account (acc_id account))))) (\<lambda>rows.
       tx_return (reply q [(''transfers'', JArr (map JObj rows))])))"

definition undo_transfer :: "env \<Rightarrow> faults \<Rightarrow> http_request \<Rightarrow> string \<Rightarrow> response tx" where
  "undo_transfer E faults q transfer_id =
     resolve (get_current_user E q) (\<lambda>user.
     resolve (get_idempotency_key q) (\<lambda>key.
     tx_bind (uow_run E faults (undo E transfer_id (user_id_of user) key (Some (h_request_id q)))) (\<lambda>result.
       tx_return (success_response (JObj result) 200 (h_request_id q) (replay_meta result)))))"

text \<open>A receipt is visible to its two parties only; to anyone else it does not exist.\<close>

definition receipt_query :: "string \<Rightarrow> string \<Rightarrow> dict tx" where
  "receipt_query uid reference =
     tx_bind (get_transfer_by_reference reference) (\<lambda>found.
     resolve (found_or_404 found) (\<lambda>receipt.
     tx_bind (get_account_by_user_id uid) (\<lambda>found.
     resolve (found_or_404 found) (\<lambda>account.
     tx_bind (tx_unless (Some (JStr (acc_id account))
                \<in> {dict_get receipt ''senderAccountId'', dict_get receipt ''receiverAccountId''})
                (app_error NotFoundError)) (\<lambda>_.
       tx_return (dict_set receipt ''direction''
         (JStr (if dict_get receipt ''senderAccountId'' = Some (JStr (acc_id account))
                then ''DEBIT'' else ''CREDIT''))))))))"

definition get_transfer_route :: "env \<Rightarrow> faults \<Rightarrow> http_request \<Rightarrow> string \<Rightarrow> response tx" where
  "get_transfer_route E faults q reference =
     resolve (get_current_user E q) (\<lambda>user.
     tx_bind (uow_run E faults (receipt_query (user_id_of user) reference)) (\<lambda>data. tx_return (reply q data)))"


section \<open>Money request routes\<close>

definition create_request_route ::
  "env \<Rightarrow> faults \<Rightarrow> http_request \<Rightarrow> string \<Rightarrow> int \<Rightarrow> string option \<Rightarrow> response tx" where
  "create_request_route E faults q phone amount note =
     resolve (get_current_user E q) (\<lambda>user.
     resolve (valid_body (valid_phone phone \<and> valid_amount amount \<and> valid_note note)) (\<lambda>_.
     tx_bind (uow_run E faults (create_request E (user_id_of user) phone (mk_money amount BDT) note
                (Some (h_request_id q)))) (\<lambda>result.
       tx_return (success_response
         (JObj [(''requestId'', JStr (mr_id result)), (''reference'', JStr (mr_reference result)),
                (''status'', JStr (mr_status result))]) 201 (h_request_id q) []))))"

definition valid_request_filter :: "string \<Rightarrow> string option \<Rightarrow> bool" where
  "valid_request_filter direction st \<longleftrightarrow>
     direction \<in> {''incoming'', ''outgoing''}
     \<and> (case st of None \<Rightarrow> True
        | Some v \<Rightarrow> v \<in> {''PENDING'', ''ACCEPTED'', ''REJECTED'', ''CANCELLED'', ''EXPIRED''})"

definition list_requests_route ::
  "env \<Rightarrow> faults \<Rightarrow> http_request \<Rightarrow> string \<Rightarrow> string option \<Rightarrow> int \<Rightarrow> string option \<Rightarrow> response tx" where
  "list_requests_route E faults q direction st limit cursor =
     resolve (get_current_user E q) (\<lambda>user.
     resolve (valid_body (valid_request_filter direction st \<and> valid_page limit cursor)) (\<lambda>_.
     tx_bind (uow_run E faults (list_requests_for_user (user_id_of user) direction st (nat limit) cursor)) (\<lambda>rows.
       tx_return (reply q
         [(''requests'', JArr (map JObj rows)),
          (''nextCursor'', if rows = [] then JNull
             else (case dict_get (last rows) ''requestId'' of Some v \<Rightarrow> v | None \<Rightarrow> JNull))]))))"

definition accept_request_route :: "env \<Rightarrow> faults \<Rightarrow> http_request \<Rightarrow> string \<Rightarrow> string \<Rightarrow> response tx" where
  "accept_request_route E faults q rid pin =
     resolve (get_current_user E q) (\<lambda>user.
     resolve (get_idempotency_key q) (\<lambda>key.
     resolve (valid_body (valid_pin pin)) (\<lambda>_.
     tx_bind (run_pin_protected E faults (user_id_of user) pin
       (accept_request E rid (user_id_of user) key (Some (h_request_id q)))) (\<lambda>result.
       tx_return (reply q
         [(''requestId'', JStr (mr_id result)), (''reference'', JStr (mr_reference result)),
          (''status'', JStr (mr_status result)),
          (''transferReference'', opt_json JStr (mr_transfer_reference result))])))))"

definition reject_request_route :: "env \<Rightarrow> faults \<Rightarrow> http_request \<Rightarrow> string \<Rightarrow> response tx" where
  "reject_request_route E faults q rid =
     resolve (get_current_user E q) (\<lambda>user.
     tx_bind (uow_run E faults (reject_request E rid (user_id_of user) (Some (h_request_id q)))) (\<lambda>result.
       tx_return (reply q [(''requestId'', JStr (mr_id result)), (''status'', JStr (mr_status result))])))"

definition cancel_request_route :: "env \<Rightarrow> faults \<Rightarrow> http_request \<Rightarrow> string \<Rightarrow> response tx" where
  "cancel_request_route E faults q rid =
     resolve (get_current_user E q) (\<lambda>user.
     tx_bind (uow_run E faults (cancel_request E rid (user_id_of user) (Some (h_request_id q)))) (\<lambda>result.
       tx_return (reply q [(''requestId'', JStr (mr_id result)), (''status'', JStr (mr_status result))])))"


section \<open>SafePay routes\<close>

definition create_safepay_operation ::
  "env \<Rightarrow> string \<Rightarrow> string \<Rightarrow> money \<Rightarrow> string option \<Rightarrow> string \<Rightarrow> string option \<Rightarrow> dict tx" where
  "create_safepay_operation E uid phone amount description key request_id =
     tx_bind (get_account_by_user_id uid) (\<lambda>buyer.
     tx_bind (get_user_by_phone phone) (\<lambda>seller_user.
     tx_bind (get_account_by_phone phone) (\<lambda>seller.
       case (buyer, seller, seller_user) of
         (Some b, Some v, Some vu) \<Rightarrow>
           tx_bind (tx_unless (acc_id b \<noteq> acc_id v) (app_error SelfTransferError)) (\<lambda>_.
             create_safepay E uid (acc_id b) (u_id vu) (acc_id v) amount description key request_id)
       | _ \<Rightarrow> tx_raise (app_error NotFoundError))))"

definition create_safepay_route ::
  "env \<Rightarrow> faults \<Rightarrow> http_request \<Rightarrow> string \<Rightarrow> int \<Rightarrow> string \<Rightarrow> string option \<Rightarrow> response tx" where
  "create_safepay_route E faults q phone amount pin description =
     resolve (get_current_user E q) (\<lambda>user.
     resolve (get_idempotency_key q) (\<lambda>key.
     resolve (valid_body (valid_phone phone \<and> valid_amount amount \<and> valid_pin pin \<and> valid_note description)) (\<lambda>_.
     tx_bind (run_pin_protected E faults (user_id_of user) pin
       (create_safepay_operation E (user_id_of user) phone (mk_money amount BDT) description key
          (Some (h_request_id q)))) (\<lambda>result.
       tx_return (success_response (JObj result) (if dict_true result ''replayed'' then 200 else 201)
         (h_request_id q) (replay_meta result))))))"

definition list_safepay_route :: "env \<Rightarrow> faults \<Rightarrow> http_request \<Rightarrow> response tx" where
  "list_safepay_route E faults q =
     resolve (get_current_user E q) (\<lambda>user.
     tx_bind (uow_run E faults (list_escrows_for_user (user_id_of user) 50)) (\<lambda>rows.
       tx_return (reply q [(''orders'', JArr (map JObj rows))])))"

definition get_safepay_route :: "env \<Rightarrow> faults \<Rightarrow> http_request \<Rightarrow> string \<Rightarrow> response tx" where
  "get_safepay_route E faults q escrow_id =
     resolve (get_current_user E q) (\<lambda>user.
     tx_bind (uow_run E faults (safepay_detail E escrow_id (user_id_of user))) (\<lambda>data. tx_return (reply q data)))"

definition ship_safepay_route :: "env \<Rightarrow> faults \<Rightarrow> http_request \<Rightarrow> string \<Rightarrow> string \<Rightarrow> string \<Rightarrow> response tx" where
  "ship_safepay_route E faults q escrow_id courier tracking_number =
     resolve (get_current_user E q) (\<lambda>user.
     resolve (get_idempotency_key q) (\<lambda>key.
     resolve (valid_body (valid_courier courier \<and> valid_length 4 64 tracking_number)) (\<lambda>_.
     tx_bind (uow_run E faults (mark_shipped E escrow_id (user_id_of user) courier tracking_number key
                (Some (h_request_id q)))) (\<lambda>data. tx_return (reply q data)))))"

text \<open>The refusals of \<open>release_with_code\<close> are raised after the attempt counter is committed.\<close>

definition raise_code_refusal :: "dict \<Rightarrow> exn + dict" where
  "raise_code_refusal result =
     (case dict_get result ''errorCode'' of
        Some (JStr c) \<Rightarrow>
          if c = ''DELIVERY_CODE_LOCKED'' then Inl (app_error PinLockedError)
          else if c \<noteq> [] then Inl (AppError ValidationError result) else Inr result
      | _ \<Rightarrow> Inr result)"

definition release_code_route :: "env \<Rightarrow> faults \<Rightarrow> http_request \<Rightarrow> string \<Rightarrow> string \<Rightarrow> response tx" where
  "release_code_route E faults q escrow_id entered =
     resolve (get_current_user E q) (\<lambda>user.
     resolve (get_idempotency_key q) (\<lambda>key.
     resolve (valid_body (valid_delivery_code entered)) (\<lambda>_.
     tx_bind (uow_run E faults (release_with_code E escrow_id (user_id_of user) entered key
                (Some (h_request_id q)))) (\<lambda>result.
     resolve (raise_code_refusal result) (\<lambda>data. tx_return (reply q data))))))"

definition confirm_received_route :: "env \<Rightarrow> faults \<Rightarrow> http_request \<Rightarrow> string \<Rightarrow> response tx" where
  "confirm_received_route E faults q escrow_id =
     resolve (get_current_user E q) (\<lambda>user.
     resolve (get_idempotency_key q) (\<lambda>key.
     tx_bind (uow_run E faults (confirm_received E escrow_id (user_id_of user) key (Some (h_request_id q))))
       (\<lambda>data. tx_return (reply q data))))"

definition dispute_route :: "env \<Rightarrow> faults \<Rightarrow> http_request \<Rightarrow> string \<Rightarrow> string \<Rightarrow> response tx" where
  "dispute_route E faults q escrow_id reason =
     resolve (get_current_user E q) (\<lambda>user.
     resolve (get_idempotency_key q) (\<lambda>key.
     resolve (valid_body (valid_length 10 500 reason)) (\<lambda>_.
     tx_bind (uow_run E faults (dispute E escrow_id (user_id_of user) reason key (Some (h_request_id q))))
       (\<lambda>data. tx_return (reply q data)))))"

definition hexdigest :: "nat \<Rightarrow> string" where
  "hexdigest n = map (\<lambda>i. hex_digit (n div 16 ^ (63 - i) mod 16)) [0..<64]"

definition courier_signature :: "env \<Rightarrow> string \<Rightarrow> string \<Rightarrow> string \<Rightarrow> string \<Rightarrow> bool \<Rightarrow> string" where
  "courier_signature E courier event_id tracking_number status release_immediately =
     hexdigest (hmac_sha256 E (jwt_secret E @ '':courier'')
       (courier @ ''|'' @ event_id @ ''|'' @ tracking_number @ ''|'' @ status @ ''|''
        @ (if release_immediately then ''true'' else ''false'')))"

definition courier_webhook ::
  "env \<Rightarrow> faults \<Rightarrow> http_request \<Rightarrow> string \<Rightarrow> string option \<Rightarrow> string \<Rightarrow> string \<Rightarrow> string \<Rightarrow> bool \<Rightarrow> response tx" where
  "courier_webhook E faults q courier signature event_id tracking_number status release_immediately =
     resolve (valid_body (valid_length 8 128 event_id \<and> valid_length 4 64 tracking_number
                          \<and> status = ''DELIVERED'')) (\<lambda>_.
     resolve (case signature of None \<Rightarrow> Inl (app_error AuthorizationError)
              | Some sig \<Rightarrow>
                  if sig = [] then Inl (app_error AuthorizationError)
                  else chk_bind (compare_digest sig
                         (courier_signature E courier event_id tracking_number status release_immediately))
                         (\<lambda>same. chk_unless same (app_error AuthorizationError))) (\<lambda>_.
     tx_bind (uow_run E faults (courier_delivered E courier tracking_number event_id release_immediately))
       (\<lambda>data. tx_return (reply q data))))"

definition resolve_safepay_route ::
  "env \<Rightarrow> faults \<Rightarrow> http_request \<Rightarrow> string \<Rightarrow> string \<Rightarrow> string \<Rightarrow> bool \<Rightarrow> response tx" where
  "resolve_safepay_route E faults q escrow_id decision note ban =
     resolve (require_engineering_key E q) (\<lambda>_.
     resolve (get_idempotency_key q) (\<lambda>key.
     resolve (valid_body (decision \<in> {''RELEASE'', ''REFUND''} \<and> valid_length 10 500 note)) (\<lambda>_.
     tx_bind (uow_run E faults (resolve_dispute E escrow_id decision note ban key (Some (h_request_id q))))
       (\<lambda>data. tx_return (reply q data)))))"

definition list_disputes_route :: "env \<Rightarrow> faults \<Rightarrow> http_request \<Rightarrow> response tx" where
  "list_disputes_route E faults q =
     resolve (require_engineering_key E q) (\<lambda>_.
     tx_bind (uow_run E faults (list_disputed_escrows 100)) (\<lambda>rows.
       tx_return (reply q [(''disputes'', JArr (map JObj rows))])))"


section \<open>Overdraft routes\<close>

definition overdraft_summary_route :: "env \<Rightarrow> faults \<Rightarrow> http_request \<Rightarrow> response tx" where
  "overdraft_summary_route E faults q =
     resolve (get_current_user E q) (\<lambda>user.
     tx_bind (uow_run E faults (overdraft_summary (user_id_of user))) (\<lambda>data. tx_return (reply q data)))"

definition create_pool_route :: "env \<Rightarrow> faults \<Rightarrow> http_request \<Rightarrow> int \<Rightarrow> string \<Rightarrow> response tx" where
  "create_pool_route E faults q amount pin =
     resolve (get_current_user E q) (\<lambda>user.
     resolve (get_idempotency_key q) (\<lambda>key.
     resolve (valid_body (valid_amount amount \<and> valid_pin pin)) (\<lambda>_.
     tx_bind (run_pin_protected E faults (user_id_of user) pin
       (create_pool E (user_id_of user) (mk_money amount BDT) key (Some (h_request_id q)))) (\<lambda>result.
       tx_return (success_response (JObj result) 201 (h_request_id q) [])))))"

definition fund_pool_route :: "env \<Rightarrow> faults \<Rightarrow> http_request \<Rightarrow> int \<Rightarrow> string \<Rightarrow> response tx" where
  "fund_pool_route E faults q amount pin =
     resolve (get_current_user E q) (\<lambda>user.
     resolve (get_idempotency_key q) (\<lambda>key.
     resolve (valid_body (valid_amount amount \<and> valid_pin pin)) (\<lambda>_.
     tx_bind (run_pin_protected E faults (user_id_of user) pin
       (fund_pool E (user_id_of user) (mk_money amount BDT) key (Some (h_request_id q)))) (\<lambda>result.
       tx_return (success_response (JObj result) 200 (h_request_id q) (replay_meta result))))))"

definition create_grant_route :: "env \<Rightarrow> faults \<Rightarrow> http_request \<Rightarrow> string \<Rightarrow> int \<Rightarrow> string \<Rightarrow> response tx" where
  "create_grant_route E faults q phone max_draw pin =
     resolve (get_current_user E q) (\<lambda>user.
     resolve (get_idempotency_key q) (\<lambda>key.
     resolve (valid_body (valid_phone phone \<and> 0 < max_draw \<and> max_draw \<le> 50000 \<and> valid_pin pin)) (\<lambda>_.
     tx_bind (run_pin_protected E faults (user_id_of user) pin
       (grant_access E (user_id_of user) phone max_draw key (Some (h_request_id q)))) (\<lambda>result.
       tx_return (success_response (JObj result) 201 (h_request_id q) [])))))"


section \<open>System routes\<close>

definition liveness :: response where
  "liveness = (200, JObj [(''status'', JStr ''alive'')])"

definition readiness :: "string \<Rightarrow> fault option \<Rightarrow> response" where
  "readiness instance_id fault =
     (case fault of
        Some _ \<Rightarrow> (503, JObj [(''status'', JStr ''not_ready''), (''database'', JStr ''unreachable'')])
      | None \<Rightarrow> (200, JObj [(''status'', JStr ''ready''), (''database'', JStr ''reachable''),
                            (''instance'', JStr instance_id)]))"

definition report_to_dict :: "reconciliation_report \<Rightarrow> dict" where
  "report_to_dict r =
     [(''unbalanced_ledger_transactions'', JInt (int (unbalanced_ledger_transactions r))),
      (''balance_mismatches'', JInt (int (balance_mismatches r))),
      (''negative_user_accounts'', JInt (int (negative_user_accounts r))),
      (''succeeded_transfers_without_ledger'', JInt (int (succeeded_transfers_without_ledger r))),
      (''transfers_with_wrong_entry_count'', JInt (int (transfers_with_wrong_entry_count r))),
      (''accepted_requests_without_transfer'', JInt (int (accepted_requests_without_transfer r))),
      (''duplicate_transfer_references'', JInt (int (duplicate_transfer_references r))),
      (''system_wide_ledger_sum_minor'', JInt (system_wide_ledger_sum_minor r)),
      (''total_user_balance_minor'', JInt (total_user_balance_minor r)),
      (''issuance_balance_minor'', JInt (issuance_balance_minor r)),
      (''money_in_circulation_minor'', JInt (money_in_circulation_minor r)),
      (''total_held_minor'', JInt (total_held_minor r)),
      (''balance_by_account_type'', JObj (map (\<lambda>(ty, b). (account_type_str ty, JInt b)) (balance_by_account_type r))),
      (''accounts_checked'', JInt (int (accounts_checked r))),
      (''ledger_entries_checked'', JInt (int (ledger_entries_checked r))),
      (''transfers_checked'', JInt (int (transfers_checked r))),
      (''mismatch_details'', JArr (map (\<lambda>m.
         JObj [(''accountId'', JStr (mm_account m)), (''accountNumber'', JStr (mm_number m)),
               (''recordedMinor'', JInt (mm_recorded m)), (''derivedMinor'', JInt (mm_derived m)),
               (''driftMinor'', JInt (mm_drift m))]) (mismatch_details r))),
      (''balanced'', JBool (is_balanced r))]"

definition reconcile_route :: "env \<Rightarrow> faults \<Rightarrow> http_request \<Rightarrow> response tx" where
  "reconcile_route E faults q =
     resolve (require_engineering_key E q) (\<lambda>_.
     tx_bind (uow_run E faults (reconcile True)) (\<lambda>report. tx_return (reply q (report_to_dict report))))"

text \<open>Ages are whole microseconds here; the replies carry them as seconds.\<close>

definition outbox_backlog :: "dict tx" where
  "outbox_backlog = tx_gets (\<lambda>s.
     let waiting = filter (\<lambda>r. o_published_at r = None \<and> o_dead_lettered_at r = None) (outbox_events s) in
     [(''pending'', JInt (int (length waiting))),
      (''published'', JInt (int (sql_rowcount (\<lambda>r. o_published_at r \<noteq> None) (outbox_events s)))),
      (''deadLettered'', JInt (int (sql_rowcount (\<lambda>r. o_dead_lettered_at r \<noteq> None) (outbox_events s)))),
      (''oldestPendingSeconds'', JInt (if waiting = [] then 0
         else txn_now s - Min (set (map o_occurred_at waiting))))])"

definition outbox_status :: "env \<Rightarrow> faults \<Rightarrow> http_request \<Rightarrow> response tx" where
  "outbox_status E faults q =
     resolve (require_engineering_key E q) (\<lambda>_.
     tx_bind (uow_run E faults outbox_backlog) (\<lambda>data. tx_return (reply q data)))"

definition scheduler_status :: "env \<Rightarrow> faults \<Rightarrow> http_request \<Rightarrow> response tx" where
  "scheduler_status E faults q =
     resolve (require_engineering_key E q) (\<lambda>_.
     tx_bind (uow_run E faults task_backlog) (\<lambda>b.
       tx_return (reply q
         [(''pending'', JInt (int (bl_pending b))), (''overdue'', JInt (int (bl_overdue b))),
          (''failed'', JInt (int (bl_failed b))), (''done'', JInt (int (bl_done b))),
          (''oldestOverdueSeconds'', JInt (bl_oldest_overdue_us b))])))"


section \<open>The application\<close>

text \<open>One datatype of calls per router, with the values the request carries.\<close>

datatype auth_call =
    Register string string string string
  | Login string string
  | Refresh string
  | Logout string

datatype account_call =
    MyAccount
  | Lookup string
  | ListTransactions int "string option"

datatype transfer_call =
    CreateTransfer string int string "string option"
  | ListPendingUndo
  | UndoTransfer string
  | GetReceipt string

datatype request_call =
    CreateRequest string int "string option"
  | ListRequests string "string option" int "string option"
  | AcceptRequest string string
  | RejectRequest string
  | CancelRequest string

datatype safepay_call =
    CreateSafepay string int string "string option"
  | ListSafepay
  | GetSafepay string
  | ShipSafepay string string string
  | ReleaseCode string string
  | ConfirmReceived string
  | DisputeSafepay string string
  | CourierWebhook string "string option" string string string bool
  | ResolveSafepay string string string bool
  | ListDisputes

datatype overdraft_call =
    OverdraftSummary
  | CreatePool int string
  | FundPool int string
  | CreateGrant string int string

datatype system_call =
    Reconcile
  | OutboxStatus
  | SchedulerStatus

datatype api_call =
    AuthCall auth_call
  | AccountCall account_call
  | TransferCall transfer_call
  | MoneyRequestCall request_call
  | SafepayCall safepay_call
  | OverdraftCall overdraft_call
  | SystemCall system_call

primrec auth_router :: "env \<Rightarrow> faults \<Rightarrow> http_request \<Rightarrow> auth_call \<Rightarrow> response tx" where
  "auth_router E fs q (Register phone name password pin) = register_route E fs q phone name password pin"
| "auth_router E fs q (Login phone password) = login_route E fs q phone password"
| "auth_router E fs q (Refresh token) = refresh_route E fs q token"
| "auth_router E fs q (Logout token) = logout_route E fs q token"

primrec account_router :: "env \<Rightarrow> faults \<Rightarrow> http_request \<Rightarrow> account_call \<Rightarrow> response tx" where
  "account_router E fs q MyAccount = get_my_account E fs q"
| "account_router E fs q (Lookup phone) = lookup_recipient E fs q phone"
| "account_router E fs q (ListTransactions limit cursor) = list_transactions E fs q limit cursor"

primrec transfer_router :: "env \<Rightarrow> faults \<Rightarrow> http_request \<Rightarrow> transfer_call \<Rightarrow> response tx" where
  "transfer_router E fs q (CreateTransfer phone amount pin note) = create_transfer_route E fs q phone amount pin note"
| "transfer_router E fs q ListPendingUndo = list_pending_undo E fs q"
| "transfer_router E fs q (UndoTransfer tid) = undo_transfer E fs q tid"
| "transfer_router E fs q (GetReceipt reference) = get_transfer_route E fs q reference"

primrec request_router :: "env \<Rightarrow> faults \<Rightarrow> http_request \<Rightarrow> request_call \<Rightarrow> response tx" where
  "request_router E fs q (CreateRequest phone amount note) = create_request_route E fs q phone amount note"
| "request_router E fs q (ListRequests direction st limit cursor) = list_requests_route E fs q direction st limit cursor"
| "request_router E fs q (AcceptRequest rid pin) = accept_request_route E fs q rid pin"
| "request_router E fs q (RejectRequest rid) = reject_request_route E fs q rid"
| "request_router E fs q (CancelRequest rid) = cancel_request_route E fs q rid"

primrec safepay_router :: "env \<Rightarrow> faults \<Rightarrow> http_request \<Rightarrow> safepay_call \<Rightarrow> response tx" where
  "safepay_router E fs q (CreateSafepay phone amount pin description) = create_safepay_route E fs q phone amount pin description"
| "safepay_router E fs q ListSafepay = list_safepay_route E fs q"
| "safepay_router E fs q (GetSafepay eid) = get_safepay_route E fs q eid"
| "safepay_router E fs q (ShipSafepay eid courier tracking) = ship_safepay_route E fs q eid courier tracking"
| "safepay_router E fs q (ReleaseCode eid entered) = release_code_route E fs q eid entered"
| "safepay_router E fs q (ConfirmReceived eid) = confirm_received_route E fs q eid"
| "safepay_router E fs q (DisputeSafepay eid reason) = dispute_route E fs q eid reason"
| "safepay_router E fs q (CourierWebhook courier signature event tracking status im) = courier_webhook E fs q courier signature event tracking status im"
| "safepay_router E fs q (ResolveSafepay eid decision note ban) = resolve_safepay_route E fs q eid decision note ban"
| "safepay_router E fs q ListDisputes = list_disputes_route E fs q"

primrec overdraft_router :: "env \<Rightarrow> faults \<Rightarrow> http_request \<Rightarrow> overdraft_call \<Rightarrow> response tx" where
  "overdraft_router E fs q OverdraftSummary = overdraft_summary_route E fs q"
| "overdraft_router E fs q (CreatePool amount pin) = create_pool_route E fs q amount pin"
| "overdraft_router E fs q (FundPool amount pin) = fund_pool_route E fs q amount pin"
| "overdraft_router E fs q (CreateGrant phone max_draw pin) = create_grant_route E fs q phone max_draw pin"

primrec system_router :: "env \<Rightarrow> faults \<Rightarrow> http_request \<Rightarrow> system_call \<Rightarrow> response tx" where
  "system_router E fs q Reconcile = reconcile_route E fs q"
| "system_router E fs q OutboxStatus = outbox_status E fs q"
| "system_router E fs q SchedulerStatus = scheduler_status E fs q"

primrec route :: "env \<Rightarrow> faults \<Rightarrow> http_request \<Rightarrow> api_call \<Rightarrow> response tx" where
  "route E fs q (AuthCall c) = auth_router E fs q c"
| "route E fs q (AccountCall c) = account_router E fs q c"
| "route E fs q (TransferCall c) = transfer_router E fs q c"
| "route E fs q (MoneyRequestCall c) = request_router E fs q c"
| "route E fs q (SafepayCall c) = safepay_router E fs q c"
| "route E fs q (OverdraftCall c) = overdraft_router E fs q c"
| "route E fs q (SystemCall c) = system_router E fs q c"

text \<open>The quota each route declares as its first dependency.\<close>

definition auth_policy :: "auth_call \<Rightarrow> string option" where
  "auth_policy call =
     (case call of
        Register _ _ _ _ \<Rightarrow> Some ''register''
      | Login _ _ \<Rightarrow> Some ''login''
      | _ \<Rightarrow> None)"

definition account_policy :: "account_call \<Rightarrow> string option" where
  "account_policy call =
     (case call of
        Lookup _ \<Rightarrow> Some ''lookup''
      | ListTransactions _ _ \<Rightarrow> Some ''read''
      | _ \<Rightarrow> None)"

definition transfer_policy :: "transfer_call \<Rightarrow> string option" where
  "transfer_policy call =
     (case call of
        CreateTransfer _ _ _ _ \<Rightarrow> Some ''transfer''
      | UndoTransfer _ \<Rightarrow> Some ''transfer''
      | _ \<Rightarrow> None)"

definition request_policy :: "request_call \<Rightarrow> string option" where
  "request_policy call =
     (case call of
        CreateRequest _ _ _ \<Rightarrow> Some ''money_request''
      | AcceptRequest _ _ \<Rightarrow> Some ''transfer''
      | _ \<Rightarrow> None)"

definition safepay_policy :: "safepay_call \<Rightarrow> string option" where
  "safepay_policy call =
     (case call of
        CreateSafepay _ _ _ _ \<Rightarrow> Some ''transfer''
      | ReleaseCode _ _ \<Rightarrow> Some ''transfer''
      | _ \<Rightarrow> None)"

definition overdraft_policy :: "overdraft_call \<Rightarrow> string option" where
  "overdraft_policy call =
     (case call of
        CreatePool _ _ \<Rightarrow> Some ''transfer''
      | FundPool _ _ \<Rightarrow> Some ''transfer''
      | _ \<Rightarrow> None)"

definition rate_policy :: "api_call \<Rightarrow> string option" where
  "rate_policy call =
     (case call of
        AuthCall c \<Rightarrow> auth_policy c
      | AccountCall c \<Rightarrow> account_policy c
      | TransferCall c \<Rightarrow> transfer_policy c
      | MoneyRequestCall c \<Rightarrow> request_policy c
      | SafepayCall c \<Rightarrow> safepay_policy c
      | OverdraftCall c \<Rightarrow> overdraft_policy c
      | SystemCall c \<Rightarrow> None)"

fun verdict_check :: "rate_verdict \<Rightarrow> exn + unit" where
  "verdict_check Allowed = Inr ()"
| "verdict_check (Limited retry_after details) = Inl (AppError RateLimitedError details)"

definition rate_limit :: "'r redis_server \<Rightarrow> bool \<Rightarrow> env \<Rightarrow> http_request \<Rightarrow> api_call \<Rightarrow> 'r \<Rightarrow> rate_verdict \<times> 'r" where
  "rate_limit R reachable E q call st =
     (case rate_policy call of
        None \<Rightarrow> (Allowed, st)
      | Some policy_name \<Rightarrow> rate_check R reachable policy_name (rate_identifier E q) st)"

definition respond :: "env \<Rightarrow> faults \<Rightarrow> http_request \<Rightarrow> api_call \<Rightarrow> rate_verdict \<Rightarrow> db \<Rightarrow> response \<times> db" where
  "respond E fs q call verdict s =
     (case resolve (verdict_check verdict) (\<lambda>_. route E fs q call) s of
        (Inl e, t) \<Rightarrow> (exception_response (h_request_id q) e, t)
      | (Inr r, t) \<Rightarrow> (r, t))"

definition dispatch ::
  "'r redis_server \<Rightarrow> bool \<Rightarrow> env \<Rightarrow> faults \<Rightarrow> http_request \<Rightarrow> api_call \<Rightarrow> db \<times> 'r \<Rightarrow> response \<times> db \<times> 'r" where
  "dispatch R reachable E fs q call = (\<lambda>(s, st).
     let (verdict, st') = rate_limit R reachable E q call st;
         (r, t) = respond E fs q call verdict s
     in (r, t, st'))"
end
