(* ===== verification/Api_Props.thy ===== *)
theory Api_Props
  imports Api
begin

text \<open>
  What holds of every call to the HTTP API: the credentials each endpoint demands, that a reply
  reporting an error means no money moved, that a wrong PIN stops every protected command, that a
  receipt is invisible to strangers, and that no call breaks the invariants of the database.
\<close>

section \<open>Credentials\<close>

text \<open>The endpoints that act for a user, for the operators, and those that take an idempotency key.\<close>

definition needs_user :: "api_call \<Rightarrow> bool" where
  "needs_user call =
     (case call of
        AuthCall c \<Rightarrow> (case c of Logout _ \<Rightarrow> True | _ \<Rightarrow> False)
      | SafepayCall c \<Rightarrow> (case c of CourierWebhook _ _ _ _ _ _ \<Rightarrow> False | ResolveSafepay _ _ _ _ \<Rightarrow> False
                          | ListDisputes \<Rightarrow> False | _ \<Rightarrow> True)
      | SystemCall _ \<Rightarrow> False
      | _ \<Rightarrow> True)"

definition needs_engineering_key :: "api_call \<Rightarrow> bool" where
  "needs_engineering_key call =
     (case call of
        SystemCall _ \<Rightarrow> True
      | SafepayCall c \<Rightarrow> (case c of ResolveSafepay _ _ _ _ \<Rightarrow> True | ListDisputes \<Rightarrow> True | _ \<Rightarrow> False)
      | _ \<Rightarrow> False)"

definition needs_idempotency_key :: "api_call \<Rightarrow> bool" where
  "needs_idempotency_key call =
     (case call of
        TransferCall c \<Rightarrow> (case c of CreateTransfer _ _ _ _ \<Rightarrow> True | UndoTransfer _ \<Rightarrow> True | _ \<Rightarrow> False)
      | MoneyRequestCall c \<Rightarrow> (case c of AcceptRequest _ _ \<Rightarrow> True | _ \<Rightarrow> False)
      | SafepayCall c \<Rightarrow> (case c of ListSafepay \<Rightarrow> False | GetSafepay _ \<Rightarrow> False | ListDisputes \<Rightarrow> False
                          | CourierWebhook _ _ _ _ _ _ \<Rightarrow> False | _ \<Rightarrow> True)
      | OverdraftCall c \<Rightarrow> (case c of OverdraftSummary \<Rightarrow> False | _ \<Rightarrow> True)
      | _ \<Rightarrow> False)"

lemmas route_defs =
  register_route_def login_route_def refresh_route_def logout_route_def get_my_account_def lookup_recipient_def
  list_transactions_def create_transfer_route_def list_pending_undo_def undo_transfer_def get_transfer_route_def
  create_request_route_def list_requests_route_def accept_request_route_def reject_request_route_def
  cancel_request_route_def create_safepay_route_def list_safepay_route_def get_safepay_route_def
  ship_safepay_route_def release_code_route_def confirm_received_route_def dispute_route_def courier_webhook_def
  resolve_safepay_route_def list_disputes_route_def overdraft_summary_route_def create_pool_route_def
  fund_pool_route_def create_grant_route_def reconcile_route_def outbox_status_def scheduler_status_def

lemma resolve_simps [simp]:
  "resolve (Inl e) f s = (Inl e, s)" "resolve (Inr x) f s = f x s"
  by (simp_all add: tx_bind_app tx_run)

lemma get_current_user_refusal: "get_current_user E q = Inl e \<Longrightarrow> e = app_error AuthenticationError"
  by (auto simp: get_current_user_def split: option.splits prod.splits if_splits)

lemma route_unauthenticated:
  assumes "needs_user call" "get_current_user E q = Inl e"
  shows "route E fs q call s = (Inl (app_error AuthenticationError), s)"
proof (cases call)
  case (AuthCall c)
  with assms get_current_user_refusal [OF assms(2)] show ?thesis
    by (cases c) (simp_all add: needs_user_def logout_route_def)
next
  case (AccountCall c)
  with assms get_current_user_refusal [OF assms(2)] show ?thesis
    by (cases c) (simp_all add: get_my_account_def lookup_recipient_def list_transactions_def)
next
  case (TransferCall c)
  with assms get_current_user_refusal [OF assms(2)] show ?thesis
    by (cases c) (simp_all add: create_transfer_route_def list_pending_undo_def undo_transfer_def get_transfer_route_def)
next
  case (MoneyRequestCall c)
  with assms get_current_user_refusal [OF assms(2)] show ?thesis
    by (cases c) (simp_all add: create_request_route_def list_requests_route_def accept_request_route_def
        reject_request_route_def cancel_request_route_def)
next
  case (SafepayCall c)
  with assms get_current_user_refusal [OF assms(2)] show ?thesis
    by (cases c) (simp_all add: needs_user_def create_safepay_route_def list_safepay_route_def get_safepay_route_def
        ship_safepay_route_def release_code_route_def confirm_received_route_def dispute_route_def)
next
  case (OverdraftCall c)
  with assms get_current_user_refusal [OF assms(2)] show ?thesis
    by (cases c) (simp_all add: overdraft_summary_route_def create_pool_route_def fund_pool_route_def create_grant_route_def)
next
  case (SystemCall c)
  with assms show ?thesis by (simp add: needs_user_def)
qed

lemma route_unprivileged:
  assumes "needs_engineering_key call" "require_engineering_key E q = Inl e"
  shows "route E fs q call s = (Inl e, s)"
proof (cases call)
  case (SafepayCall c)
  with assms show ?thesis
    by (cases c) (simp_all add: needs_engineering_key_def resolve_safepay_route_def list_disputes_route_def)
next
  case (SystemCall c)
  with assms show ?thesis by (cases c) (simp_all add: reconcile_route_def outbox_status_def scheduler_status_def)
qed (use assms in \<open>simp_all add: needs_engineering_key_def\<close>)

lemma require_engineering_key_refusal:
  "require_engineering_key E q = Inl e \<Longrightarrow> e \<in> {app_error AuthorizationError, PyError ''TypeError''}"
  by (auto simp: require_engineering_key_def compare_digest_def chk_unless_def split: option.splits if_splits)

lemma route_without_key:
  assumes "needs_idempotency_key call" "get_idempotency_key q = Inl e"
  shows "\<exists>e. route E fs q call s = (Inl e, s)"
proof -
  have by_user: "\<exists>e. resolve (get_current_user E q) (\<lambda>user. resolve (get_idempotency_key q) (f user)) s = (Inl e, s)"
    for f :: "authenticated_user \<Rightarrow> string \<Rightarrow> response tx"
    using assms(2) by (cases "get_current_user E q") simp_all
  have by_operator: "\<exists>e. resolve (require_engineering_key E q) (\<lambda>_. resolve (get_idempotency_key q) f) s = (Inl e, s)"
    for f :: "string \<Rightarrow> response tx"
    using assms(2) by (cases "require_engineering_key E q") simp_all
  show ?thesis
  proof (cases call)
    case (TransferCall c)
    with assms(1) show ?thesis
      by (cases c) (simp_all only: needs_idempotency_key_def api_call.case transfer_call.case route.simps
          transfer_router.simps create_transfer_route_def undo_transfer_def by_user)
  next
    case (MoneyRequestCall c)
    with assms(1) show ?thesis
      by (cases c) (simp_all only: needs_idempotency_key_def api_call.case request_call.case route.simps
          request_router.simps accept_request_route_def by_user)
  next
    case (SafepayCall c)
    with assms(1) show ?thesis
      by (cases c) (simp_all only: needs_idempotency_key_def api_call.case safepay_call.case route.simps
          safepay_router.simps create_safepay_route_def ship_safepay_route_def release_code_route_def
          confirm_received_route_def dispute_route_def resolve_safepay_route_def by_user by_operator)
  next
    case (OverdraftCall c)
    with assms(1) show ?thesis
      by (cases c) (simp_all only: needs_idempotency_key_def api_call.case overdraft_call.case route.simps
          overdraft_router.simps create_pool_route_def fund_pool_route_def create_grant_route_def by_user)
  qed (use assms(1) in \<open>simp_all add: needs_idempotency_key_def\<close>)
qed

lemma dispatch_cases:
  assumes "dispatch R reachable E fs q call (s, st) = (r, t, st')"
  obtains (limited) details where "r = exception_response (h_request_id q) (AppError RateLimitedError details)" "t = s"
  | (failed) e where "route E fs q call s = (Inl e, t)" "r = exception_response (h_request_id q) e"
  | (answered) "route E fs q call s = (Inr r, t)"
proof -
  obtain v where v: "respond E fs q call v s = (r, t)"
    using assms by (auto simp: dispatch_def split: prod.splits)
  show thesis
  proof (cases v)
    case Allowed
    obtain x u where run: "route E fs q call s = (x, u)" by (cases "route E fs q call s")
    with v Allowed show thesis by (cases x) (auto simp: respond_def intro: failed answered)
  next
    case (Limited a d)
    with v show thesis by (intro limited) (auto simp: respond_def)
  qed
qed

lemma credentials_resolved:
  assumes "dispatch R reachable E fs q call (s, st) = (r, t, st')"
  shows "(needs_user call \<and> isl (get_current_user E q) \<longrightarrow> t = s \<and> fst r \<in> {401, 429})
    \<and> (needs_engineering_key call \<and> isl (require_engineering_key E q) \<longrightarrow> t = s \<and> fst r \<in> {403, 429, 500})
    \<and> (needs_idempotency_key call \<and> isl (get_idempotency_key q) \<longrightarrow> t = s \<and> 400 \<le> fst r)"
  using assms
proof (cases rule: dispatch_cases)
  case (limited d)
  then show ?thesis by (auto simp: error_response_def)
next
  case (failed e)
  show ?thesis
  proof (intro conjI impI; elim conjE)
    assume "needs_user call" "isl (get_current_user E q)"
    with failed route_unauthenticated [of call E q _ fs s] show "t = s" "fst r \<in> {401, 429}"
      by (auto simp: isl_def error_response_def)
  next
    assume "needs_engineering_key call" "isl (require_engineering_key E q)"
    with failed route_unprivileged [of call E q _ fs s] require_engineering_key_refusal [of E q]
    show "t = s" "fst r \<in> {403, 429, 500}"
      by (fastforce simp: isl_def error_response_def)+
  next
    assume "needs_idempotency_key call" "isl (get_idempotency_key q)"
    with failed route_without_key [of call q _ E fs s] exception_response_status [of "h_request_id q" e]
    show "t = s" "400 \<le> fst r" by (auto simp: isl_def)
  qed
next
  case answered
  then show ?thesis
    using route_unauthenticated [of call E q _ fs s] route_unprivileged [of call E q _ fs s]
      route_without_key [of call q _ E fs s] by (auto simp: isl_def)
qed

text \<open>What makes each dependency refuse.\<close>

lemma no_token_refused:
  assumes "\<And>scheme token. h_credentials q = Some (scheme, token) \<Longrightarrow>
    str_lower scheme \<noteq> ''bearer'' \<or> verify_access_token E (py_strip token) (h_now q) = None"
  shows "isl (get_current_user E q)"
  using assms by (auto simp: get_current_user_def isl_def split: option.splits)

lemma wrong_key_refused: "h_engineering_key q \<noteq> Some (engineering_api_key E) \<Longrightarrow> isl (require_engineering_key E q)"
  by (auto simp: require_engineering_key_def compare_digest_def chk_unless_def isl_def split: option.splits)

lemma bad_idempotency_key_refused:
  assumes "\<And>k. h_idempotency_key q = Some k \<Longrightarrow> length (py_strip k) < 8 \<or> 128 < length (py_strip k)"
  shows "isl (get_idempotency_key q)"
  using assms by (fastforce simp: get_idempotency_key_def Let_def isl_def split: option.splits)


text \<open>A request that carries no headers at all.\<close>

definition demo_anonymous :: http_request where
  "demo_anonymous = \<lparr>h_request_id = ''q'', h_authorization = None, h_credentials = None, h_idempotency_key = None,
     h_engineering_key = None, h_forwarded_for = None, h_client_host = Some ''10.0.0.1'', h_user_agent = None,
     h_now = 0\<rparr>"



section \<open>An error means no money moved\<close>

text \<open>No acknowledgement of a commit is lost.\<close>

definition lossless :: "faults \<Rightarrow> bool" where
  "lossless fs \<longleftrightarrow> (\<forall>k st. fs k \<noteq> Some (Unacknowledged st))"

text \<open>A handler that leaves the books alone whenever it raises.\<close>

definition quiet :: "'a tx \<Rightarrow> bool" where
  "quiet m \<longleftrightarrow> (\<forall>s e t. m s = (Inl e, t) \<longrightarrow> books_of t = books_of s)"

lemma same_tables_books: "same_tables s t \<Longrightarrow> books_of s = books_of t"
  using same_tables_sel(2) [of s t] by (simp add: history_of_def)

lemma quiet_resolve: "(\<And>x. dep = Inr x \<Longrightarrow> quiet (f x)) \<Longrightarrow> quiet (resolve dep f)"
  by (cases dep) (simp_all add: quiet_def)

lemma quiet_then_return: "quiet m \<Longrightarrow> quiet (tx_bind m (\<lambda>x. tx_return (f x)))"
  by (auto simp: quiet_def tx_bind_app tx_run split: prod.splits sum.splits)

lemma quiet_then_return_pair: "quiet m \<Longrightarrow> quiet (tx_bind m (\<lambda>(x, y). tx_return (f x y)))"
  by (auto simp: quiet_def tx_bind_app tx_run split: prod.splits sum.splits)

lemma lossless_sound: "lossless fs \<Longrightarrow> sound_faults fs"
  by (auto simp: lossless_def sound_faults_def)

lemma uow_run_raised:
  assumes "lossless fs" "uow_run E fs operation s = (Inl e, t)"
  shows "same_tables s t"
  using uow_run_effect [OF lossless_sound [OF assms(1)] assms(2)] assms(1) by (auto simp: lossless_def)

lemma quiet_uow: "lossless fs \<Longrightarrow> quiet (uow_run E fs operation)"
  unfolding quiet_def using uow_run_raised same_tables_books by metis

lemma pin_protected_refused:
  assumes "pin_protected E uid pin m s = (Inr (Inl e), t)"
  shows "history_of t = history_of s"
proof (cases "fst (verify_pin E uid pin s)")
  case (Inr z)
  then obtain u where "verify_pin E uid pin s = (Inr z, u)" by (cases "verify_pin E uid pin s") auto
  with assms show ?thesis
    by (auto simp: pin_protected_def tx_catch_def tx_bind_app tx_run split: prod.splits sum.splits)
next
  case (Inl x)
  then obtain u where v: "verify_pin E uid pin s = (Inl x, u)" by (cases "verify_pin E uid pin s") auto
  have "history_of u = history_of s"
    using frame_verify_pin [of history_of E uid pin] v unfolding tx_frame_def by (metis history_of_ignores(1,9) snd_conv)
  with v assms show ?thesis
    by (cases x rule: pin_outcome.cases) (auto simp: pin_protected_def tx_catch_def tx_bind_app tx_run)
qed

lemma quiet_pin_protected:
  assumes "lossless fs"
  shows "quiet (run_pin_protected E fs uid pin m)"
  unfolding quiet_def
proof (intro allI impI)
  fix s e t
  assume "run_pin_protected E fs uid pin m s = (Inl e, t)"
  then consider "uow_run E fs (pin_protected E uid pin m) s = (Inl e, t)"
    | "uow_run E fs (pin_protected E uid pin m) s = (Inr (Inl e), t)"
    by (auto simp: run_pin_protected_def tx_bind_app tx_run split: prod.splits sum.splits)
  then show "books_of t = books_of s"
  proof cases
    case 1
    with quiet_uow [OF assms] show ?thesis unfolding quiet_def by blast
  next
    case 2
    with uow_run_effect [OF lossless_sound [OF assms] 2] obtain u where
      "same_tables s u" "pin_protected E uid pin m u = (Inr (Inl e), t)" by blast
    with pin_protected_refused [of E uid pin m u e t] same_tables_books [of s u] show ?thesis
      by (simp add: history_of_def)
  qed
qed

text \<open>Every value a handler returns satisfies \<open>P\<close>.\<close>

definition returns :: "('a \<Rightarrow> bool) \<Rightarrow> 'a tx \<Rightarrow> bool" where
  "returns P m \<longleftrightarrow> (\<forall>s x t. m s = (Inr x, t) \<longrightarrow> P x)"

lemma returns_rules:
  "P x \<Longrightarrow> returns P (tx_return x)" "returns P (tx_raise e)"
  "(\<And>y. returns P (f y)) \<Longrightarrow> returns P (tx_bind m f)"
  "returns P n \<Longrightarrow> (\<And>y. returns P (g y)) \<Longrightarrow> returns P (case opt of None \<Rightarrow> n | Some y \<Rightarrow> g y)"
  by (auto simp: returns_def tx_okD split: option.splits)

lemma returns_pair: "(\<And>x y. returns P (f x y)) \<Longrightarrow> returns P (case p of (x, y) \<Rightarrow> f x y)"
  by (cases p) simp

text \<open>A refused delivery code commits its attempt counter and nothing of the books.\<close>

lemma books_of_ignores_side_tables [simp]:
  "books_of (s\<lparr>idempotency_records := x\<rparr>) = books_of s" "books_of (s\<lparr>safepay_escrows := y\<rparr>) = books_of s"
  by (simp_all add: books_of_def)

lemma books_reserve_or_replay: "tx_frame books_of (reserve_or_replay a ep key fp now)"
  unfolding reserve_or_replay_def
  by (intro tx_frame_bind tx_frame_basic) (auto simp: tx_frame_def idem_reserve_def split: option.splits)

lemma books_complete_body: "tx_frame books_of (complete_body a ep key rid body now st)"
  unfolding complete_body_def idem_complete_def by (intro tx_frame_modify) simp

lemma books_wrong_code: "tx_frame books_of (wrong_code r now)"
  unfolding wrong_code_def record_code_failure_def update_escrows_def
  by (auto intro!: tx_frame_bind tx_frame_basic tx_frame_modify frame_require)

lemma release_locked_accepted: "returns (\<lambda>body. raise_code_refusal body = Inr body) (release_locked E r a rs rq nt)"
  unfolding release_locked_def by (intro returns_rules) (simp add: raise_code_refusal_def dict_get_def)

lemma release_once_refused:
  assumes "release_with_code_once E eid v entered rq now s = (Inr (i, body, st), t)" "raise_code_refusal body = Inl e"
  shows "books_of t = books_of s"
proof -
  from assms(1) obtain escrow where
    run: "(if code_locked escrow now
       then tx_return (e_id escrow,
         [(''escrowId'', JStr (e_id escrow)), (''status'', JStr (escrow_status_str (e_status escrow))),
          (''errorCode'', JStr ''DELIVERY_CODE_LOCKED''),
          (''message'', JStr ''Too many incorrect delivery-code attempts. Try later.'')], 423)
       else if \<not> argon2_verify E (e_code_hash escrow) entered
       then tx_bind (wrong_code escrow now) (\<lambda>(body, st). tx_return (e_id escrow, body, st))
       else tx_bind (release_locked E escrow v ''Buyer delivery code verified'' rq None)
              (\<lambda>body. tx_return (e_id escrow, body, 200))) s = (Inr (i, body, st), t)"
    by (auto simp: release_with_code_once_def lock_escrow_def tx_okD split: option.splits)
  have "\<not> (\<exists>u. release_locked E escrow v ''Buyer delivery code verified'' rq None s = (Inr body, u))"
    using release_locked_accepted [of E escrow v "''Buyer delivery code verified''" rq None, unfolded returns_def] assms(2)
    by (metis Inl_Inr_False)
  with run show ?thesis
    by (auto simp: tx_okD split: if_splits prod.splits dest: tx_frameD [OF books_wrong_code])
qed

lemma release_with_code_refused:
  assumes "release_with_code E eid v entered key rq s = (Inr body, t)" "raise_code_refusal body = Inl e"
  shows "books_of t = books_of s"
proof -
  let ?ep = "safepay_endpoint eid ''release-code''"
  from assms(1) obtain now s1 replay s2 where
    reserve: "clock_now E s = (Inr now, s1)"
      "reserve_or_replay v ?ep key (fingerprint_request (sha256 E) [(''deliveryCode'', JStr entered)]) now s1
       = (Inr replay, s2)"
    and rest: "(case replay of Some body \<Rightarrow> tx_return (dict_set body ''replayed'' (JBool True))
       | None \<Rightarrow> tx_bind (release_with_code_once E eid v entered rq now) (\<lambda>(rid, body, st).
           tx_bind (complete_body v ?ep key rid body now st) (\<lambda>_. tx_return body))) s2 = (Inr body, t)"
    by (auto simp: release_with_code_def tx_bind_okD)
  have "books_of s1 = books_of s"
    using reserve(1) by (auto simp: clock_now_def tx_tick_def tx_okD books_of_def)
  moreover have "books_of s2 = books_of s1"
    using reserve(2) by (rule tx_frameD [OF books_reserve_or_replay])
  ultimately have start: "books_of s2 = books_of s" by simp
  show ?thesis
  proof (cases replay)
    case None
    with rest obtain i st s3 where "release_with_code_once E eid v entered rq now s2 = (Inr (i, body, st), s3)"
      "complete_body v ?ep key i body now st s3 = (Inr (), t)" by (auto simp: tx_okD)
    with release_once_refused [OF _ assms(2)] tx_frameD [OF books_complete_body] start show ?thesis by metis
  qed (use rest start in \<open>simp add: tx_okD\<close>)
qed

lemma quiet_release_code:
  assumes "lossless fs"
  shows "quiet (release_code_route E fs q eid entered)"
proof -
  have "quiet (tx_bind (uow_run E fs (release_with_code E eid uid entered key rq)) (\<lambda>result.
      resolve (raise_code_refusal result) (\<lambda>data. tx_return (reply q data))))" (is "quiet ?m") for uid key rq
    unfolding quiet_def
  proof (intro allI impI)
    fix s e t
    assume "?m s = (Inl e, t)"
    then consider "uow_run E fs (release_with_code E eid uid entered key rq) s = (Inl e, t)"
      | body where "uow_run E fs (release_with_code E eid uid entered key rq) s = (Inr body, t)"
          "raise_code_refusal body = Inl e"
      by (auto simp: tx_bind_app tx_run split: prod.splits sum.splits)
    then show "books_of t = books_of s"
    proof cases
      case 1
      with uow_run_raised [OF assms] same_tables_books show ?thesis by metis
    next
      case 2
      with uow_run_effect [OF lossless_sound [OF assms] 2(1)] obtain u where
        "same_tables s u" "release_with_code E eid uid entered key rq u = (Inr body, t)" by blast
      with release_with_code_refused [OF _ 2(2)] same_tables_books show ?thesis by metis
    qed
  qed
  then show ?thesis unfolding release_code_route_def by (intro quiet_resolve)
qed

lemmas quiet_rules = quiet_resolve quiet_then_return quiet_then_return_pair quiet_uow quiet_pin_protected

lemma quiet_route:
  assumes "lossless fs"
  shows "quiet (route E fs q call)"
proof (cases call)
  case (AuthCall c)
  then show ?thesis
    by (cases c) (simp_all only: route.simps auth_router.simps register_route_def login_route_def refresh_route_def
        logout_route_def, (intro quiet_rules assms)+)
next
  case (AccountCall c)
  then show ?thesis
    by (cases c) (simp_all only: route.simps account_router.simps get_my_account_def lookup_recipient_def
        list_transactions_def, (intro quiet_rules assms)+)
next
  case (TransferCall c)
  then show ?thesis
    by (cases c) (simp_all only: route.simps transfer_router.simps create_transfer_route_def list_pending_undo_def
        undo_transfer_def get_transfer_route_def, (intro quiet_rules assms)+)
next
  case (MoneyRequestCall c)
  then show ?thesis
    by (cases c) (simp_all only: route.simps request_router.simps create_request_route_def list_requests_route_def
        accept_request_route_def reject_request_route_def cancel_request_route_def, (intro quiet_rules assms)+)
next
  case (SafepayCall c)
  then show ?thesis
    by (cases c) (simp_all only: route.simps safepay_router.simps create_safepay_route_def list_safepay_route_def
        get_safepay_route_def ship_safepay_route_def confirm_received_route_def dispute_route_def courier_webhook_def
        resolve_safepay_route_def list_disputes_route_def, (intro quiet_rules quiet_release_code assms)+)
next
  case (OverdraftCall c)
  then show ?thesis
    by (cases c) (simp_all only: route.simps overdraft_router.simps overdraft_summary_route_def create_pool_route_def
        fund_pool_route_def create_grant_route_def, (intro quiet_rules assms)+)
next
  case (SystemCall c)
  then show ?thesis
    by (cases c) (simp_all only: route.simps system_router.simps reconcile_route_def outbox_status_def
        scheduler_status_def, (intro quiet_rules assms)+)
qed

text \<open>A handler that returns, returns 200 or 201.\<close>

lemma success_replies:
  "fst (reply q data) \<in> {200, 201}" "fst (success_response d 200 i md) \<in> {200, 201}"
  "fst (success_response d 201 i md) \<in> {200, 201}" "fst (success_response d (if b then 200 else 201) i md) \<in> {200, 201}"
  by (simp_all add: reply_def success_response_def)

lemma route_replies: "returns (\<lambda>r. fst r \<in> {200, 201}) (route E fs q call)"
proof (cases call)
  case (AuthCall c)
  then show ?thesis
    by (cases c) (simp_all only: route.simps auth_router.simps register_route_def login_route_def refresh_route_def
        logout_route_def, (intro returns_rules returns_pair success_replies)+)
next
  case (AccountCall c)
  then show ?thesis
    by (cases c) (simp_all only: route.simps account_router.simps get_my_account_def lookup_recipient_def
        list_transactions_def, (intro returns_rules returns_pair success_replies)+)
next
  case (TransferCall c)
  then show ?thesis
    by (cases c) (simp_all only: route.simps transfer_router.simps create_transfer_route_def list_pending_undo_def
        undo_transfer_def get_transfer_route_def, (intro returns_rules success_replies)+)
next
  case (MoneyRequestCall c)
  then show ?thesis
    by (cases c) (simp_all only: route.simps request_router.simps create_request_route_def list_requests_route_def
        accept_request_route_def reject_request_route_def cancel_request_route_def, (intro returns_rules success_replies)+)
next
  case (SafepayCall c)
  then show ?thesis
    by (cases c) (simp_all only: route.simps safepay_router.simps create_safepay_route_def list_safepay_route_def
        get_safepay_route_def ship_safepay_route_def release_code_route_def confirm_received_route_def
        dispute_route_def courier_webhook_def resolve_safepay_route_def list_disputes_route_def,
        (intro returns_rules success_replies)+)
next
  case (OverdraftCall c)
  then show ?thesis
    by (cases c) (simp_all only: route.simps overdraft_router.simps overdraft_summary_route_def create_pool_route_def
        fund_pool_route_def create_grant_route_def, (intro returns_rules success_replies)+)
next
  case (SystemCall c)
  then show ?thesis
    by (cases c) (simp_all only: route.simps system_router.simps reconcile_route_def outbox_status_def
        scheduler_status_def, (intro returns_rules success_replies)+)
qed

text \<open>
  C4: an error reply means that no money moved.  Whatever the endpoint, the request, the state of the
  rate limiter and the transient database failures along the way, as long as no commit
  acknowledgement is lost: if the reply is an error, every account, transfer, ledger transaction and
  ledger entry is as before.  That includes the two refusals that commit on purpose, a wrong PIN and
  a wrong delivery code.
\<close>

theorem error_moves_no_money:
  assumes "dispatch R reachable E fs q call (s, st) = (r, t, st')" "lossless fs" "400 \<le> fst r"
  shows "books_of t = books_of s"
  using assms(1)
proof (cases rule: dispatch_cases)
  case (failed e)
  with quiet_route [OF assms(2)] show ?thesis unfolding quiet_def by blast
next
  case answered
  with route_replies [of E fs q call] assms(3) show ?thesis unfolding returns_def by fastforce
qed simp

theorem error_moves_no_money_witness:
  "case dispatch demo_redis True demo_env (\<lambda>k. None) demo_anonymous (AuthCall (Login ''01711111111'' ''wrong'')) (demo_db, \<lambda>k. 0) of
     (r, t, st) \<Rightarrow> fst r = 401 \<and> books_of t = books_of demo_db"
proof -
  let ?call = "AuthCall (Login ''01711111111'' ''wrong'')"
  obtain r t st where run: "dispatch demo_redis True demo_env (\<lambda>k. None) demo_anonymous ?call (demo_db, \<lambda>k. 0) = (r, t, st)"
    by (metis prod_cases3)
  have "fst (fst (dispatch demo_redis True demo_env (\<lambda>k. None) demo_anonymous ?call (demo_db, \<lambda>k. 0))) = 401"
    by (simp add: dispatch_def rate_limit_def rate_policy_def auth_policy_def rate_check_def POLICIES_def fixed_window_def
        demo_redis_def respond_def login_route_def valid_body_def valid_phone_def all_digits_def valid_length_def
        uow_run_def eval_nat_numeral transaction_def begin_txn_def login_def get_user_by_phone_def demo_simps monad_simps
        error_response_def rate_key_def)
  with run have st: "fst r = 401" by simp
  with error_moves_no_money [OF run] have "books_of t = books_of demo_db" by (simp add: lossless_def)
  with st show ?thesis unfolding run by simp
qed


section \<open>The PIN\<close>

text \<open>The PIN a protected command carries.\<close>

definition pin_of :: "api_call \<Rightarrow> string option" where
  "pin_of call =
     (case call of
        TransferCall c \<Rightarrow> (case c of CreateTransfer _ _ pin _ \<Rightarrow> Some pin | _ \<Rightarrow> None)
      | MoneyRequestCall c \<Rightarrow> (case c of AcceptRequest _ pin \<Rightarrow> Some pin | _ \<Rightarrow> None)
      | SafepayCall c \<Rightarrow> (case c of CreateSafepay _ _ pin _ \<Rightarrow> Some pin | _ \<Rightarrow> None)
      | OverdraftCall c \<Rightarrow> (case c of CreatePool _ pin \<Rightarrow> Some pin | FundPool _ pin \<Rightarrow> Some pin
                            | CreateGrant _ _ pin \<Rightarrow> Some pin | _ \<Rightarrow> None)
      | _ \<Rightarrow> None)"

text \<open>The stored PIN of the user accepts \<open>pin\<close>.\<close>

definition pin_accepted :: "env \<Rightarrow> db \<Rightarrow> string \<Rightarrow> string \<Rightarrow> bool" where
  "pin_accepted E s uid pin =
     (case sql_get u_id uid (users s) of None \<Rightarrow> False | Some u \<Rightarrow> argon2_verify E (u_pin_hash u) pin)"

text \<open>A handler that, started in \<open>s\<close>, raises and leaves the books alone.\<close>

definition refuses :: "db \<Rightarrow> 'a tx \<Rightarrow> bool" where
  "refuses s m \<longleftrightarrow> isl (fst (m s)) \<and> books_of (snd (m s)) = books_of s"

lemma refuses_resolve: "(\<And>x. dep = Inr x \<Longrightarrow> refuses s (f x)) \<Longrightarrow> refuses s (resolve dep f)"
  by (cases dep) (simp_all add: refuses_def)

lemma refuses_bind: "refuses s m \<Longrightarrow> refuses s (tx_bind m f)"
  by (auto simp: refuses_def tx_bind_app split: prod.splits sum.splits)

lemma pin_protected_wrong:
  assumes "users_keyed s" "\<not> pin_accepted E s uid pin" "pin_protected E uid pin m s = (Inr r, t)"
  shows "isl r \<and> history_of t = history_of s"
proof (cases "fst (verify_pin E uid pin s)")
  case (Inr z)
  then obtain u where "verify_pin E uid pin s = (Inr z, u)" by (cases "verify_pin E uid pin s") auto
  from verify_pin_ok [OF assms(1) this] assms(2) show ?thesis by (auto simp: pin_accepted_def)
next
  case (Inl e)
  then obtain u where "verify_pin E uid pin s = (Inl e, u)" by (cases "verify_pin E uid pin s") auto
  with assms(3) have "isl r"
    by (cases e rule: pin_outcome.cases) (auto simp: pin_protected_def tx_catch_def tx_bind_app tx_run)
  with assms(3) pin_protected_refused [of E uid pin m s "projl r" t] show ?thesis by (cases r) simp_all
qed

lemma refuses_wrong_pin:
  assumes "sound_faults fs" "users_keyed s" "\<not> pin_accepted E s uid pin"
  shows "refuses s (run_pin_protected E fs uid pin m)"
proof -
  have same: "users_keyed u" "\<not> pin_accepted E u uid pin" "books_of u = books_of s" if "same_tables s u" for u
  proof -
    have "users s = users u" using arg_cong [OF that [unfolded same_tables_def], of users] by simp
    with assms(2,3) show "users_keyed u" "\<not> pin_accepted E u uid pin" by (simp_all add: users_keyed_def pin_accepted_def)
    show "books_of u = books_of s" using same_tables_books [OF that] by simp
  qed
  obtain x t where run: "uow_run E fs (pin_protected E uid pin m) s = (x, t)"
    by (cases "uow_run E fs (pin_protected E uid pin m) s")
  have wrong: "isl r \<and> books_of t = books_of s"
    if "same_tables s u" "pin_protected E uid pin m u = (Inr r, t)" for u r
    using pin_protected_wrong [OF same(1,2) [OF that(1)] that(2)] same(3) [OF that(1)] by (simp add: history_of_def)
  note effect = uow_run_effect [OF assms(1) run]
  have "books_of t = books_of s \<and> (\<forall>r. x = Inr r \<longrightarrow> isl r)"
  proof (cases x)
    case (Inl e)
    with effect have "same_tables s t \<or> (\<exists>u r. same_tables s u \<and> pin_protected E uid pin m u = (Inr r, t))" by auto
    with same(3) wrong Inl show ?thesis by blast
  next
    case (Inr r)
    with effect obtain u where "same_tables s u" "pin_protected E uid pin m u = (Inr r, t)" by blast
    with wrong Inr show ?thesis by blast
  qed
  with run show ?thesis
    by (cases x) (auto simp: refuses_def run_pin_protected_def tx_bind_app tx_run)
qed

text \<open>The shape of the protected routes.\<close>

lemma refuses_protected:
  assumes "get_current_user E q = Inr user" "\<not> pin_accepted E s (user_id_of user) pin" "users_keyed s" "sound_faults fs"
  shows "refuses s (resolve (get_current_user E q) (\<lambda>user. resolve (get_idempotency_key q) (\<lambda>key.
    resolve (valid_body ok) (\<lambda>_. tx_bind (run_pin_protected E fs (user_id_of user) pin (m user key)) f))))"
  unfolding assms(1) by (intro refuses_resolve refuses_bind refuses_wrong_pin assms(3,4)) (use assms(2) in simp)

text \<open>
  C8: no money without the PIN.  Sending money, paying a request, opening an escrow and funding or
  granting access to a pool are refused, and the books stay as they are, whenever the PIN in the
  request is not the one of the user the bearer token names, whatever faults the database shows.
\<close>

theorem wrong_pin_moves_no_money:
  assumes "dispatch R reachable E fs q call (s, st) = (r, t, st')"
    and "pin_of call = Some pin" "get_current_user E q = Inr user" "\<not> pin_accepted E s (user_id_of user) pin"
    and "users_keyed s" "sound_faults fs"
  shows "400 \<le> fst r \<and> books_of t = books_of s"
proof -
  note refused = refuses_protected [OF assms(3-6)]
  have "refuses s (route E fs q call)"
  proof (cases call)
    case (TransferCall c)
    with assms(2) show ?thesis
      by (cases c) (simp_all add: pin_of_def create_transfer_route_def refused)
  next
    case (MoneyRequestCall c)
    with assms(2) show ?thesis
      by (cases c) (simp_all add: pin_of_def accept_request_route_def refused)
  next
    case (SafepayCall c)
    with assms(2) show ?thesis
      by (cases c) (simp_all add: pin_of_def create_safepay_route_def refused)
  next
    case (OverdraftCall c)
    with assms(2) show ?thesis
      by (cases c) (simp_all add: pin_of_def create_pool_route_def fund_pool_route_def create_grant_route_def refused)
  qed (use assms(2) in \<open>simp_all add: pin_of_def\<close>)
  then have route: "isl (fst (route E fs q call s))" "books_of (snd (route E fs q call s)) = books_of s"
    by (simp_all add: refuses_def)
  from assms(1) show ?thesis
  proof (cases rule: dispatch_cases)
    case (limited d)
    then show ?thesis by (simp add: error_response_def)
  next
    case (failed e)
    with route exception_response_status [of "h_request_id q" e] show ?thesis by simp
  next
    case answered
    with route show ?thesis by simp
  qed
qed

text \<open>An environment in which a token is the name of its user, and a request that carries Alice's.\<close>

definition demo_api_env :: env where
  "demo_api_env = demo_env\<lparr>jwt_decode := (\<lambda>k tok now. Some [(''sub'', JStr tok), (''iat'', JInt 0),
     (''exp'', JInt 900), (''typ'', JStr ''access'')])\<rparr>"

definition demo_request :: http_request where
  "demo_request = demo_anonymous\<lparr>h_authorization := Some ''Bearer alice'', h_credentials := Some (''Bearer'', ''alice''),
     h_idempotency_key := Some ''key-0001''\<rparr>"

lemma demo_current_user:
  "get_current_user demo_api_env demo_request = Inr \<lparr>user_id_of = ''alice'', session_id_of = []\<rparr>"
proof -
  have "str_lower ''Bearer'' = ''bearer''" "py_strip ''alice'' = ''alice''" by code_simp+
  then show ?thesis
    by (simp add: get_current_user_def demo_request_def demo_api_env_def verify_access_token_def dict_get_def)
qed

theorem wrong_pin_moves_no_money_witness:
  "case dispatch demo_redis True demo_api_env (\<lambda>k. None) demo_request
     (TransferCall (CreateTransfer ''01822222222'' 2500 ''9999'' None)) (demo_db, \<lambda>k. 0) of
     (r, t, st) \<Rightarrow> 400 \<le> fst r \<and> books_of t = books_of demo_db"
proof -
  let ?call = "TransferCall (CreateTransfer ''01822222222'' 2500 ''9999'' None)"
  obtain r t st where run: "dispatch demo_redis True demo_api_env (\<lambda>k. None) demo_request ?call (demo_db, \<lambda>k. 0) = (r, t, st)"
    by (metis prod_cases3)
  have "pin_of ?call = Some ''9999''" "users_keyed demo_db" "sound_faults (\<lambda>k. None)"
    "\<not> pin_accepted demo_api_env demo_db (user_id_of \<lparr>user_id_of = ''alice'', session_id_of = []\<rparr>) ''9999''"
    by (simp_all add: pin_of_def users_keyed_def sound_faults_def pin_accepted_def demo_api_env_def demo_simps)
  from wrong_pin_moves_no_money [OF run this(1) demo_current_user this(4,2,3)] show ?thesis unfolding run by simp
qed


section \<open>Receipts\<close>

lemma uow_run_first_error:
  assumes "m (begin_txn E s) = (Inl e, begin_txn E s)" "n (begin_txn E s) = (Inl e, begin_txn E s)" "sqlstate_of e = None"
  shows "uow_run E fs m s = uow_run E fs n s"
  using assms by (cases "transaction_max_attempts E") (simp_all add: uow_run_def transaction_def)

lemma receipt_hidden:
  assumes "get_account_by_user_id uid s = (Inr found, s)"
    and "\<And>t. t \<in> set (transfers s) \<Longrightarrow> t_reference t = rf
           \<Longrightarrow> \<forall>a. found = Some a \<longrightarrow> acc_id a \<notin> {t_sender t, t_receiver t}"
    and "keys_distinct t_reference (transfers s)"
  shows "receipt_query uid rf s = (Inl (app_error NotFoundError), s)"
proof (cases "sql_get t_reference rf (transfers s)")
  case None
  with filter_key_unique [OF assms(3), of rf] show ?thesis
    by (simp add: receipt_query_def get_transfer_by_reference_def tx_bind_app tx_run found_or_404_def)
next
  case (Some t)
  then have "t \<in> set (transfers s)" "t_reference t = rf" by (simp_all add: sql_get_Some [OF Some])
  with Some filter_key_unique [OF assms(3), of rf] assms(1,2) show ?thesis
    by (cases found) (auto simp: receipt_query_def get_transfer_by_reference_def tx_bind_app tx_run found_or_404_def
        dict_get_def)
qed

text \<open>
  C30: a stranger cannot tell a transfer from no transfer.  To a user whose account is neither its
  sender nor its receiver, asking for a receipt by reference has exactly the outcome, reply and state,
  of asking for a reference that does not exist.
\<close>

theorem receipts_reveal_nothing:
  assumes "get_current_user E q = Inr user" "get_account_by_user_id (user_id_of user) s = (Inr found, s)"
    and "keys_distinct t_reference (transfers s)"
    and "\<And>t a. t \<in> set (transfers s) \<Longrightarrow> t_reference t = secret \<Longrightarrow> found = Some a
           \<Longrightarrow> acc_id a \<notin> {t_sender t, t_receiver t}"
    and "nothing \<notin> t_reference ` set (transfers s)"
  shows "dispatch R reachable E fs q (TransferCall (GetReceipt secret)) (s, st)
       = dispatch R reachable E fs q (TransferCall (GetReceipt nothing)) (s, st)"
proof -
  let ?u = "begin_txn E s"
  have "get_account_by_user_id (user_id_of user) ?u = (Inr found, ?u)"
    using assms(2) by (auto simp: get_account_by_user_id_def begin_txn_def tx_bind_app tx_run split: sum.splits prod.splits)
  moreover have "transfers ?u = transfers s" by (simp add: begin_txn_def)
  ultimately have "receipt_query (user_id_of user) secret ?u = (Inl (app_error NotFoundError), ?u)"
    "receipt_query (user_id_of user) nothing ?u = (Inl (app_error NotFoundError), ?u)"
    using assms(3-5) by (auto intro!: receipt_hidden)
  then have "uow_run E fs (receipt_query (user_id_of user) secret) s = uow_run E fs (receipt_query (user_id_of user) nothing) s"
    by (rule uow_run_first_error) simp
  then show ?thesis
    by (simp add: dispatch_def rate_limit_def rate_policy_def transfer_policy_def respond_def get_transfer_route_def
        assms(1) tx_bind_app tx_run)
qed

text \<open>A transfer between Bob's account and the escrow account, seen by Alice.\<close>

definition demo_hidden :: db where
  "demo_hidden = demo_db\<lparr>transfers := map (\<lambda>t. t\<lparr>t_sender := ''B'', t_receiver := ESCROW_ACCOUNT_ID\<rparr>) (transfers demo_history)\<rparr>"

theorem receipts_reveal_nothing_witness:
  "dispatch demo_redis True demo_api_env (\<lambda>k. None) demo_request (TransferCall (GetReceipt ''R1'')) (demo_hidden, \<lambda>k. 0)
   = dispatch demo_redis True demo_api_env (\<lambda>k. None) demo_request (TransferCall (GetReceipt ''R2'')) (demo_hidden, \<lambda>k. 0)"
proof -
  let ?a = "\<lparr>acc_id = ''A'', acc_user_id = Some ''alice'', acc_type = USER, acc_balance = mk_money 0 BDT,
     acc_status = ACTIVE, acc_version = 0\<rparr>"
  have acc: "get_account_by_user_id (user_id_of \<lparr>user_id_of = ''alice'', session_id_of = []\<rparr>) demo_hidden
      = (Inr (Some ?a), demo_hidden)"
    by (simp add: demo_hidden_def demo_simps account_simps monad_simps)
  show ?thesis
    by (rule receipts_reveal_nothing [OF demo_current_user acc]) (auto simp: demo_hidden_def demo_history_def demo_simps)
qed


section \<open>Every call keeps the invariants\<close>

context committed_preorder
begin

text \<open>A handler whose every outcome, errors included, respects the relation.\<close>

definition keeps :: "'a tx \<Rightarrow> bool" where
  "keeps m \<longleftrightarrow> (\<forall>s. R s (snd (m s)))"

lemma keeps_basic: "keeps (tx_return x)" "keeps (tx_lift r)"
  by (simp_all add: keeps_def tx_run R_refl)

lemma keeps_bind:
  assumes "keeps m" "\<And>x. keeps (f x)"
  shows "keeps (tx_bind m f)"
  unfolding keeps_def
proof
  fix s
  obtain r t where run: "m s = (r, t)" by (cases "m s")
  with assms(1) have "R s t" unfolding keeps_def by (metis snd_conv)
  moreover have "R t (snd (f x t))" for x using assms(2) [of x] unfolding keeps_def by blast
  ultimately show "R s (snd (tx_bind m f s))"
    using run R_trans by (cases r) (auto simp: tx_bind_app)
qed

lemma keeps_pair: "(\<And>x y. keeps (f x y)) \<Longrightarrow> keeps (case p of (x, y) \<Rightarrow> f x y)"
  by (cases p) simp

lemma keeps_uow: "tx_rel R operation \<Longrightarrow> keeps (uow_run E fs operation)"
  unfolding keeps_def by (simp add: uow_run_rel)

lemma keeps_pin: "tx_rel R (pin_protected E uid pin m) \<Longrightarrow> keeps (run_pin_protected E fs uid pin m)"
  unfolding run_pin_protected_def by (intro keeps_bind keeps_uow keeps_basic)

lemmas keeps_rules = keeps_basic keeps_bind keeps_pair keeps_uow keeps_pin

lemma keeps_dispatch:
  assumes "keeps (route E fs q call)" "dispatch Rd reachable E fs q call (s, st) = (r, t, st')"
  shows "R s t"
  using assms(2)
proof (cases rule: dispatch_cases)
  case (failed e)
  with assms(1) show ?thesis unfolding keeps_def by (metis snd_conv)
next
  case answered
  with assms(1) show ?thesis unfolding keeps_def by (metis snd_conv)
qed (simp add: R_refl)

end

text \<open>
  The contract between the routes and the services: every service operation, and the PIN gate around
  it, respects the relation.  The routes then respect it whatever happens.
\<close>

locale api_services = committed_preorder R for R :: "db \<Rightarrow> db \<Rightarrow> bool" +
  assumes identity: "tx_rel R (register E ph nm pw pin rq ua ip)" "tx_rel R (login E ph pw ua ip)"
      "tx_rel R (refresh E tok ua ip)" "tx_rel R (logout E tok)"
    and protection: "\<And>operation :: dict tx. tx_rel R operation \<Longrightarrow> tx_rel R (pin_protected E uid pin operation)"
      "\<And>operation :: money_request_result tx. tx_rel R operation \<Longrightarrow> tx_rel R (pin_protected E uid pin operation)"
    and sending: "tx_rel R (overdraft_send E a sn rc amt key nt rq)" "tx_rel R (undo E i a key rq)"
    and requests: "tx_rel R (create_request E u ph amt nt rq)" "tx_rel R (accept_request E i u key rq)"
      "tx_rel R (reject_request E i u rq)" "tx_rel R (cancel_request E i u rq)"
    and safepay: "tx_rel R (create_safepay E b ba v va amt d key rq)" "tx_rel R (mark_shipped E i v co tn key rq)"
      "tx_rel R (release_with_code E i v en key rq)" "tx_rel R (confirm_received E i b key rq)"
      "tx_rel R (dispute E i b rs key rq)" "tx_rel R (courier_delivered E co tn ev im)"
      "tx_rel R (resolve_dispute E i de nn bn key rq)"
    and overdraft: "tx_rel R (create_pool E sp amt key rq)" "tx_rel R (fund_pool E sp amt key rq)"
      "tx_rel R (grant_access E sp ph md key rq)"
begin

lemma queries_rel:
  "tx_rel R (get_account_by_user_id u)" "tx_rel R (get_account_by_phone ph)" "tx_rel R (get_user_by_phone ph)"
  "tx_rel R (get_user_by_id u)" "tx_rel R (search_user ph u)" "tx_rel R (statement_page acc n cur)"
  "tx_rel R (list_pending_undo_for_account acc)" "tx_rel R (get_transfer_by_reference rf)"
  "tx_rel R (list_for_account acc di st n cur)" "tx_rel R (list_escrows_for_user u n)"
  "tx_rel R (get_escrow i)" "tx_rel R (overdraft_summary u)" "tx_rel R (reconcile b)" "tx_rel R outbox_backlog"
  "tx_rel R task_backlog" "tx_rel R (dispute_to_dict x)"
  unfolding get_account_by_user_id_def get_account_by_phone_def get_user_by_phone_def get_user_by_id_def search_user_def
    statement_page_def list_entries_def list_pending_undo_for_account_def get_transfer_by_reference_def
    list_for_account_def list_escrows_for_user_def get_escrow_def overdraft_summary_def reconcile_def outbox_backlog_def
    task_backlog_def dispute_to_dict_def Let_def
  by (intro rel_rules)+

lemma operations_rel:
  "tx_rel R (my_account u)" "tx_rel R (receipt_query u rf)" "tx_rel R (list_requests_for_user u di st n cur)"
  "tx_rel R (safepay_detail E i u)" "tx_rel R (list_disputed_escrows n)"
  "tx_rel R (create_transfer_operation E u ph amt key nt rq)"
  unfolding my_account_def receipt_query_def list_requests_for_user_def safepay_detail_def list_disputed_escrows_def
    create_transfer_operation_def
  by (intro rel_rules queries_rel sending)+

lemma create_safepay_rel: "tx_rel R (create_safepay_operation E u ph amt d key rq)"
  unfolding create_safepay_operation_def
  by (intro rel_rules queries_rel) (auto intro!: rel_rules safepay split: option.splits)

lemmas service_rules = keeps_rules rel_rules protection identity sending requests safepay overdraft queries_rel
  operations_rel create_safepay_rel

lemma route_keeps: "keeps (route E fs q call)"
proof (cases call)
  case (AuthCall c)
  then show ?thesis
    by (cases c) (simp_all only: route.simps auth_router.simps register_route_def login_route_def refresh_route_def
        logout_route_def, (intro service_rules)+)
next
  case (AccountCall c)
  then show ?thesis
    by (cases c) (simp_all only: route.simps account_router.simps get_my_account_def lookup_recipient_def
        list_transactions_def, (intro service_rules)+)
next
  case (TransferCall c)
  then show ?thesis
    by (cases c) (simp_all only: route.simps transfer_router.simps create_transfer_route_def list_pending_undo_def
        undo_transfer_def get_transfer_route_def, (intro service_rules)+)
next
  case (MoneyRequestCall c)
  then show ?thesis
    by (cases c) (simp_all only: route.simps request_router.simps create_request_route_def list_requests_route_def
        accept_request_route_def reject_request_route_def cancel_request_route_def, (intro service_rules)+)
next
  case (SafepayCall c)
  then show ?thesis
    by (cases c) (simp_all only: route.simps safepay_router.simps create_safepay_route_def list_safepay_route_def
        get_safepay_route_def ship_safepay_route_def release_code_route_def confirm_received_route_def
        dispute_route_def courier_webhook_def resolve_safepay_route_def list_disputes_route_def,
        (intro service_rules)+)
next
  case (OverdraftCall c)
  then show ?thesis
    by (cases c) (simp_all only: route.simps overdraft_router.simps overdraft_summary_route_def create_pool_route_def
        fund_pool_route_def create_grant_route_def, (intro service_rules)+)
next
  case (SystemCall c)
  then show ?thesis
    by (cases c) (simp_all only: route.simps system_router.simps reconcile_route_def outbox_status_def
        scheduler_status_def, (intro service_rules)+)
qed

lemma dispatch_keeps: "dispatch Rd reachable E fs q call (s, st) = (r, t, st') \<Longrightarrow> R s t"
  by (rule keeps_dispatch [OF route_keeps])

end

interpretation api_books: api_services evolves
  by unfold_locales (intro tx_rel_intros; assumption?)+

interpretation api_progress: api_services progresses
  by unfold_locales (intro prog_intros; assumption?)+

end
