(* ===== verification/Workers.thy ===== *)
theory Workers
  imports Lifecycle
begin

text \<open>
  The deferred-settlement worker, \<open>apps/scheduler_worker/main.py\<close>: one iteration claims a batch of
  due tasks and runs each of them inside a savepoint.
\<close>

section \<open>The worker\<close>

definition BATCH_SIZE :: nat where
  "BATCH_SIZE = 50"

definition MAX_ATTEMPTS :: nat where
  "MAX_ATTEMPTS = 8"

text \<open>\<open>with session.begin_nested()\<close>: an exception restores the tables and goes on.\<close>

definition nested :: "'a tx \<Rightarrow> 'a tx" where
  "nested m = (\<lambda>s. case m s of (Inr x, t) \<Rightarrow> (Inr x, t) | (Inl e, t) \<Rightarrow> (Inl e, s\<lparr>tick := tick t\<rparr>))"

definition task_work :: "env \<Rightarrow> task_row \<Rightarrow> unit tx" where
  "task_work E task =
     (case k_type task of
        UndoSettleTask \<Rightarrow> tx_bind (settle_undo E (k_resource_id task)) (\<lambda>_. tx_return ())
      | EscrowAutoReleaseTask \<Rightarrow> tx_bind (auto_release E (k_resource_id task)) (\<lambda>_. tx_return ())
      | MoneyRequestExpiryTask \<Rightarrow> tx_bind (expire_requests E) (\<lambda>_. tx_return ())
      | LinkExpiryTask \<Rightarrow> tx_return ())"

text \<open>One round of the loop body; \<open>describe\<close> is \<open>str(exc)\<close>.\<close>

definition run_task :: "env \<Rightarrow> (exn \<Rightarrow> string) \<Rightarrow> task_row \<Rightarrow> nat tx" where
  "run_task E describe task =
     tx_catch
       (tx_bind (nested (tx_bind (task_work E task) (\<lambda>_. complete_task (k_id task)))) (\<lambda>_. tx_return 1))
       (\<lambda>e. tx_bind (record_task_failure (k_id task) (nat (k_attempt_count task) + 1) (describe e) MAX_ATTEMPTS)
              (\<lambda>_. tx_return 0))"

fun run_claimed :: "env \<Rightarrow> (exn \<Rightarrow> string) \<Rightarrow> task_row list \<Rightarrow> nat tx" where
  "run_claimed E describe [] = tx_return 0"
| "run_claimed E describe (task # tasks) =
     tx_bind (run_task E describe task) (\<lambda>n.
     tx_bind (run_claimed E describe tasks) (\<lambda>m. tx_return (n + m)))"

definition run_due_tasks :: "env \<Rightarrow> (exn \<Rightarrow> string) \<Rightarrow> nat tx" where
  "run_due_tasks E describe = tx_bind (claim_due BATCH_SIZE) (run_claimed E describe)"

text \<open>The body of the polling loop of \<open>main\<close>: a failed iteration is logged and swallowed.\<close>

definition poll :: "env \<Rightarrow> (exn \<Rightarrow> string) \<Rightarrow> fault option \<Rightarrow> db \<Rightarrow> db" where
  "poll E describe fault s = snd (transaction E fault (run_due_tasks E describe) s)"


section \<open>What one task does\<close>

definition done_task :: "int \<Rightarrow> task_row \<Rightarrow> task_row" where
  "done_task now k = k\<lparr>k_status := TaskDone, k_completed_at := Some now\<rparr>"

definition failed_task :: "int \<Rightarrow> string \<Rightarrow> task_row \<Rightarrow> task_row" where
  "failed_task now error k =
     (let attempt = nat (k_attempt_count k) + 1; terminal = MAX_ATTEMPTS \<le> attempt in
      k\<lparr>k_attempt_count := int attempt, k_last_error := Some (take 500 error),
        k_status := (if terminal then TaskFailed else TaskPending),
        k_due_at := (if terminal then k_due_at k else now + failure_delay attempt * second_us)\<rparr>)"

lemma filter_singletonD: "filter P xs = [r] \<Longrightarrow> r \<in> set xs \<and> P r"
  by (metis (mono_tags, lifting) filter_set list.set_intros(1) mem_Collect_eq set_filter)

lemma done_task_fun: "done_task now = (\<lambda>k. k\<lparr>k_status := TaskDone, k_completed_at := Some now\<rparr>)"
  by (rule ext) (simp add: done_task_def)

lemma nested_cases:
  obtains (ok) x t where "m s = (Inr x, t)" "nested m s = (Inr x, t)"
  | (raised) e t where "m s = (Inl e, t)" "nested m s = (Inl e, s\<lparr>tick := tick t\<rparr>)"
proof -
  obtain r t where m: "m s = (r, t)" by (cases "m s")
  show thesis
  proof (cases r)
    case (Inl e)
    with m show thesis by (intro raised) (auto simp: nested_def)
  next
    case (Inr x)
    with m show thesis by (intro ok) (auto simp: nested_def)
  qed
qed

text \<open>Settling a hold leaves the queue and the transaction time alone.\<close>

definition queue_of :: "db \<Rightarrow> task_row list \<times> int" where
  "queue_of s = (scheduled_tasks s, txn_now s)"

definition queue_kept :: "db \<Rightarrow> db \<Rightarrow> bool" where
  "queue_kept s t \<longleftrightarrow> queue_of s = queue_of t"

interpretation queue: session_preorder queue_kept
  by unfold_locales (simp_all add: queue_kept_def)

lemma queue_kept_frame: "tx_frame queue_of m \<Longrightarrow> tx_rel queue_kept m"
  by (erule tx_rel_frame) (simp add: queue_kept_def)

lemma queue_kept_execute: "tx_rel queue_kept (execute_transfer E cmd)"
  by (rule tx_rel_mono [OF execute_transfer_tstep])
     (simp add: transfer_step_def others_of_def queue_kept_def queue_of_def)

lemma queue_kept_ops:
  "tx_rel queue_kept (clock_now E)" "tx_rel queue_kept (get_transfer i)"
  "tx_rel queue_kept (try_transition_status i a b)" "tx_rel queue_kept (lock_escrow i)"
  "tx_rel queue_kept (mark_settled i fr to tid now nt)" "tx_rel queue_kept (expire_due_rows now)"
  "tx_rel queue_kept (audit_record E oa act ty rid req md now)"
  unfolding try_transition_status_def lock_escrow_def mark_settled_def update_escrows_def expire_due_rows_def
    update_requests_def
  by (intro queue_kept_frame tx_frame_bind tx_frame_basic tx_frame_modify tx_frame_feeds frame_require frames;
      simp add: queue_of_def)+

lemma queue_kept_settle: "tx_rel queue_kept (settle_hold E i rf fs ts b hh am kk ac nt rq)"
  unfolding settle_hold_def by (intro queue.rel_rules queue_kept_ops queue_kept_execute)

text \<open>The steps of a successful release.\<close>

lemma release_locked_okD:
  assumes "release_locked E r a rs rq nt s = (Inr body, t)"
  obtains hold beneficiary settlement now s1 s2 s3 s4 m where
    "sql_get t_id (e_hold_transfer r) (transfers s) = Some hold" "t_intended_receiver hold = Some beneficiary"
    "settle_hold E (t_id hold) (t_reference hold) HELD SUCCEEDED beneficiary ESCROW_ACCOUNT_ID
       (mk_money (e_amount r) BDT) ESCROW_RELEASE a (Some rs) rq s = (Inr settlement, s1)"
    "clock_now E s1 = (Inr now, s2)"
    "mark_settled (e_id r) [AwaitingShipment, Shipped, Delivered, EscrowDisputed] Released
       (tr_id settlement) now nt s2 = (Inr 1, s3)"
    "cancel_task EscrowAutoReleaseTask (e_id r) s3 = (Inr m, s4)"
    "safepay_audit E a ''SAFEPAY_RELEASED'' (e_id r) rq
       [(''settlementTransferId'', JStr (tr_id settlement)), (''reason'', JStr rs)] s4 = (Inr (), t)"
proof -
  from assms obtain hold where hold: "sql_get t_id (e_hold_transfer r) (transfers s) = Some hold"
    by (cases "sql_get t_id (e_hold_transfer r) (transfers s)")
       (simp_all add: release_locked_def get_transfer_def tx_bind_app tx_run)
  with assms obtain beneficiary where ben: "t_intended_receiver hold = Some beneficiary"
    by (cases "t_intended_receiver hold")
       (simp_all add: release_locked_def get_transfer_def tx_bind_app tx_run)
  show thesis
    using assms hold ben that
    unfolding release_locked_def get_transfer_def
    by (auto simp: tx_bind_okD tx_basic_okD)
qed

text \<open>Releasing an order cancels its own timer.\<close>

lemma release_locked_queue:
  assumes "release_locked E r a rs rq nt s = (Inr body, t)"
  shows "scheduled_tasks t = sql_update (\<lambda>k. k_type k = EscrowAutoReleaseTask \<and> k_resource_id k = e_id r
             \<and> k_status k = TaskPending)
           (\<lambda>k. k\<lparr>k_status := TaskCancelled, k_completed_at := Some (txn_now s)\<rparr>) (scheduled_tasks s)
    \<and> txn_now t = txn_now s"
  using assms
proof (rule release_locked_okD)
  fix hold beneficiary settlement now s1 s2 s3 s4 m
  assume settle: "settle_hold E (t_id hold) (t_reference hold) HELD SUCCEEDED beneficiary ESCROW_ACCOUNT_ID
       (mk_money (e_amount r) BDT) ESCROW_RELEASE a (Some rs) rq s = (Inr settlement, s1)"
    and clock: "clock_now E s1 = (Inr now, s2)"
    and mark: "mark_settled (e_id r) [AwaitingShipment, Shipped, Delivered, EscrowDisputed] Released
       (tr_id settlement) now nt s2 = (Inr 1, s3)"
    and cancel: "cancel_task EscrowAutoReleaseTask (e_id r) s3 = (Inr m, s4)"
    and audit: "safepay_audit E a ''SAFEPAY_RELEASED'' (e_id r) rq
       [(''settlementTransferId'', JStr (tr_id settlement)), (''reason'', JStr rs)] s4 = (Inr (), t)"
  have "queue_kept s s3"
    using tx_relD [OF queue_kept_settle settle] tx_relD [OF queue_kept_ops(1) clock]
      tx_relD [OF queue_kept_ops(5) mark] by (meson queue.R_trans)
  moreover have "queue_kept s4 t"
    using audit unfolding safepay_audit_def
    by (rule tx_relD [rotated]) (intro queue.rel_rules queue_kept_ops)
  ultimately show ?thesis
    using cancel by (auto simp: queue_kept_def queue_of_def cancel_task_def tx_okD)
qed

text \<open>
  Whatever the work of a task is, completing it leaves the queue with that one row marked done: the
  only task the work itself may touch is its own, which the unique (type, resource) key singles out.
\<close>

lemma task_work_queue:
  assumes ok: "tasks_ok (scheduled_tasks s)" and k: "k \<in> set (scheduled_tasks s)"
    and work: "task_work E k s = (Inr (), t)"
  shows "sql_update (\<lambda>x. k_id x = k_id k) (done_task (txn_now t)) (scheduled_tasks t)
       = sql_update (\<lambda>x. k_id x = k_id k) (done_task (txn_now s)) (scheduled_tasks s)
    \<and> txn_now t = txn_now s"
proof -
  consider "queue_kept s t" | r a rs rq nt body where "k_type k = EscrowAutoReleaseTask"
      "release_locked E r a rs rq nt s = (Inr body, t)" "e_id r = k_resource_id k"
  proof (cases "k_type k")
    case UndoSettleTask
    have "tx_rel queue_kept (task_work E k)"
      unfolding task_work_def UndoSettleTask settle_undo_def
      by (auto intro!: queue.rel_rules queue_kept_ops queue_kept_settle split: option.splits)
    with work show ?thesis using that(1) tx_relD by metis
  next
    case MoneyRequestExpiryTask
    have "tx_rel queue_kept (task_work E k)"
      unfolding task_work_def MoneyRequestExpiryTask expire_requests_def
      by (auto intro!: queue.rel_rules queue_kept_ops)
    with work show ?thesis using that(1) tx_relD by metis
  next
    case LinkExpiryTask
    with work show ?thesis using that(1) by (simp add: task_work_def tx_okD queue.R_refl)
  next
    case EscrowAutoReleaseTask
    then obtain o1 where rel: "auto_release E (k_resource_id k) s = (Inr o1, t)"
      using work by (auto simp: task_work_def tx_okD)
    from rel obtain found where found: "lock_escrow (k_resource_id k) s = (Inr found, s)"
      unfolding auto_release_def lock_escrow_def by (auto simp: tx_bind_okD tx_basic_okD)
    show ?thesis
    proof (cases found)
      case None
      with rel found have "t = s" by (simp add: auto_release_def tx_bind_app tx_run)
      then show ?thesis using that(1) queue.R_refl by simp
    next
      case (Some r)
      with found have "e_id r = k_resource_id k" by (auto simp: lock_escrow_def tx_okD one_or_none_Some dest!: filter_singletonD)
      with rel found Some that EscrowAutoReleaseTask queue.R_refl show ?thesis
        by (cases "e_status r = Delivered") (auto simp: auto_release_def tx_bind_app tx_run split: prod.splits sum.splits)
    qed
  qed
  then show ?thesis
  proof cases
    case 1
    then show ?thesis by (simp add: queue_kept_def queue_of_def)
  next
    case 2
    have own: "x = k" if "x \<in> set (scheduled_tasks s)" "k_type x = EscrowAutoReleaseTask" "k_resource_id x = e_id r" for x
      using keys_distinct_eq [of "\<lambda>k. (k_type k, k_resource_id k)" "scheduled_tasks s" x k] that ok k 2
      by (simp add: tasks_ok_def)
    note q = release_locked_queue [OF 2(2)]
    show ?thesis
      using q own by (auto simp: sql_update_def done_task_def)
  qed
qed

text \<open>The attempt count written is that of the claimed row.\<close>

lemma record_task_failure_app:
  assumes "tasks_ok (scheduled_tasks s)" "k \<in> set (scheduled_tasks s)"
  shows "record_task_failure (k_id k) (Suc (nat (k_attempt_count k))) error MAX_ATTEMPTS s
      = (Inr (), s\<lparr>scheduled_tasks :=
           sql_update (\<lambda>x. k_id x = k_id k) (failed_task (txn_now s) error) (scheduled_tasks s)\<rparr>)"
proof -
  have row: "x = k" if "x \<in> set (scheduled_tasks s)" "k_id x = k_id k" for x
    using keys_distinct_eq [of k_id "scheduled_tasks s" x k] that assms by (simp add: tasks_ok_def)
  have same: "sql_update (\<lambda>x. k_id x = k_id k) F (scheduled_tasks s) = sql_update (\<lambda>x. k_id x = k_id k) G (scheduled_tasks s)"
    if "F k = G k" for F G
    unfolding sql_update_def using row that by (intro map_cong) auto
  show ?thesis
    unfolding record_task_failure_def Let_def tx_run
    by (subst same [of _ "failed_task (txn_now s) error"]) (simp_all add: failed_task_def Let_def)
qed

lemma run_task_raises:
  assumes "tasks_ok (scheduled_tasks s)" "k \<in> set (scheduled_tasks s)" "task_work E k s = (Inl e, u)"
  shows "run_task E describe k s = (Inr 0, s\<lparr>tick := tick u, scheduled_tasks :=
      sql_update (\<lambda>x. k_id x = k_id k) (failed_task (txn_now s) (describe e)) (scheduled_tasks s)\<rparr>)"
  using assms record_task_failure_app [of "s\<lparr>tick := tick u\<rparr>" k "describe e"]
  by (simp add: run_task_def tx_catch_def nested_def tx_bind_app tx_run)

text \<open>A task ends in one of two ways, and never stops the batch.\<close>

lemma run_task_effect:
  assumes ok: "tasks_ok (scheduled_tasks s)" and k: "k \<in> set (scheduled_tasks s)"
  obtains (completed) u t where "task_work E k s = (Inr (), u)" "run_task E describe k s = (Inr 1, t)"
      "txn_now t = txn_now s"
      "scheduled_tasks t = sql_update (\<lambda>x. k_id x = k_id k) (done_task (txn_now s)) (scheduled_tasks s)"
  | (failed) e n where "run_task E describe k s = (Inr 0,
        s\<lparr>tick := n, scheduled_tasks :=
          sql_update (\<lambda>x. k_id x = k_id k) (failed_task (txn_now s) (describe e)) (scheduled_tasks s)\<rparr>)"
proof (cases "task_work E k s")
  case (Pair r u)
  show thesis
  proof (cases r)
    case (Inr x)
    with Pair have work: "task_work E k s = (Inr (), u)" by simp
    let ?t = "u\<lparr>scheduled_tasks := sql_update (\<lambda>x. k_id x = k_id k) (done_task (txn_now u)) (scheduled_tasks u)\<rparr>"
    have "run_task E describe k s = (Inr 1, ?t)"
      using work by (simp add: run_task_def tx_catch_def nested_def tx_bind_app tx_run complete_task_def done_task_fun)
    moreover note q = task_work_queue [OF ok k work]
    moreover have "scheduled_tasks ?t = sql_update (\<lambda>x. k_id x = k_id k) (done_task (txn_now s)) (scheduled_tasks s)"
      using conjunct1 [OF q] by simp
    moreover have "txn_now ?t = txn_now s" using conjunct2 [OF q] by simp
    ultimately show thesis using work by (intro completed [of u ?t])
  next
    case (Inl e)
    with Pair run_task_raises [OF ok k] show thesis by (intro failed [of e "tick u"]) simp
  qed
qed


section \<open>What a batch does\<close>

text \<open>The row a claimed task ends as: \<open>None\<close> stands for success, \<open>Some\<close> for an error.\<close>

definition settled_task :: "int \<Rightarrow> string option \<Rightarrow> task_row \<Rightarrow> task_row" where
  "settled_task now result k = (case result of None \<Rightarrow> done_task now k | Some error \<Rightarrow> failed_task now error k)"

lemma settled_task_keeps [simp]:
  "k_id (settled_task now r k) = k_id k" "k_type (settled_task now r k) = k_type k"
  "k_resource_id (settled_task now r k) = k_resource_id k"
  by (simp_all add: settled_task_def done_task_def failed_task_def Let_def split: option.split)

lemma run_task_settles:
  assumes "tasks_ok (scheduled_tasks s)" "k \<in> set (scheduled_tasks s)"
  obtains r t where "run_task E describe k s = (Inr (if r = None then 1 else 0), t)" "txn_now t = txn_now s"
    "scheduled_tasks t = sql_update (\<lambda>x. k_id x = k_id k) (settled_task (txn_now s) r) (scheduled_tasks s)"
  using assms
proof (cases rule: run_task_effect [of s k E describe])
  case (completed u t)
  then show thesis
    by (intro that [of None t]) (simp_all add: settled_task_def [abs_def])
next
  case (failed e n)
  then show thesis
    by (intro that [of "Some (describe e)" "s\<lparr>tick := n, scheduled_tasks :=
          sql_update (\<lambda>x. k_id x = k_id k) (failed_task (txn_now s) (describe e)) (scheduled_tasks s)\<rparr>"])
       (simp_all add: settled_task_def [abs_def])
qed

text \<open>Updating one row and then a batch of others is updating the larger batch.\<close>

lemma batch_update_Cons:
  assumes "v \<notin> ids" "\<And>r x. k (f r x) = k x"
  shows "map (\<lambda>x. if k x \<in> ids then f (result (k x)) x else x) (sql_update (\<lambda>x. k x = v) (f r) t)
    = map (\<lambda>x. if k x \<in> insert v ids then f ((result(v := r)) (k x)) x else x) t"
  unfolding sql_update_def map_map
  by (rule map_cong [OF refl]) (use assms in \<open>simp split: if_split\<close>)

lemma run_claimed_effect:
  assumes "tasks_ok (scheduled_tasks s)" "set ks \<subseteq> set (scheduled_tasks s)" "distinct (map k_id ks)"
  shows "\<exists>result t. run_claimed E describe ks s
           = (Inr (length (filter (\<lambda>k. result (k_id k) = None) ks)), t)
         \<and> txn_now t = txn_now s
         \<and> scheduled_tasks t = map (\<lambda>k. if k_id k \<in> k_id ` set ks then settled_task (txn_now s) (result (k_id k)) k
                                       else k) (scheduled_tasks s)"
  using assms
proof (induction ks arbitrary: s)
  case Nil
  then show ?case by (simp add: tx_run)
next
  case (Cons k ks)
  have k: "k \<in> set (scheduled_tasks s)" using Cons.prems(2) by simp
  obtain r u where first: "run_task E describe k s = (Inr (if r = None then 1 else 0), u)" "txn_now u = txn_now s"
    "scheduled_tasks u = sql_update (\<lambda>x. k_id x = k_id k) (settled_task (txn_now s) r) (scheduled_tasks s)"
    by (rule run_task_settles [OF Cons.prems(1) k])
  have ok: "tasks_ok (scheduled_tasks u)"
    unfolding first(3) by (rule tasks_ok_update [OF Cons.prems(1)]) simp_all
  have sub: "set ks \<subseteq> set (scheduled_tasks u)"
    unfolding first(3) set_sql_update using Cons.prems(2,3) by (auto simp: image_iff)
  from Cons.IH [OF ok sub] Cons.prems(3) obtain result t where rest:
    "run_claimed E describe ks u = (Inr (length (filter (\<lambda>k. result (k_id k) = None) ks)), t)" "txn_now t = txn_now u"
    "scheduled_tasks t = map (\<lambda>k. if k_id k \<in> k_id ` set ks then settled_task (txn_now u) (result (k_id k)) k
                                       else k) (scheduled_tasks u)" by auto
  let ?result = "result(k_id k := r)"
  have other: "k_id x \<noteq> k_id k" if "x \<in> set ks" for x using that Cons.prems(3) by (auto simp: image_iff)
  have "run_claimed E describe (k # ks) s
      = (Inr (length (filter (\<lambda>k. ?result (k_id k) = None) (k # ks))), t)"
  proof -
    have "filter (\<lambda>k. ?result (k_id k) = None) ks = filter (\<lambda>k. result (k_id k) = None) ks"
      by (rule filter_cong [OF refl]) (simp add: other)
    with first(1) rest(1) show ?thesis by (simp add: tx_bind_app tx_run)
  qed
  moreover have "scheduled_tasks t = map (\<lambda>x. if k_id x \<in> k_id ` set (k # ks)
        then settled_task (txn_now s) (?result (k_id x)) x else x) (scheduled_tasks s)"
    unfolding rest(3) first(2,3) using Cons.prems(3)
      batch_update_Cons [of "k_id k" "k_id ` set ks" k_id "settled_task (txn_now s)" result r "scheduled_tasks s"] by simp
  moreover have "txn_now t = txn_now s" using rest(2) first(2) by simp
  ultimately show ?case by (intro exI [of _ ?result] exI [of _ t] conjI)
qed

definition due_tasks :: "int \<Rightarrow> task_row list \<Rightarrow> task_row list" where
  "due_tasks now ts = take BATCH_SIZE (sql_order_by k_due_at
     (filter (\<lambda>k. k_status k = TaskPending \<and> k_due_at k \<le> now) ts))"

lemma due_tasks_facts:
  assumes "tasks_ok ts"
  shows "set (due_tasks now ts) \<subseteq> {k \<in> set ts. k_status k = TaskPending \<and> k_due_at k \<le> now}"
    and "distinct (map k_id (due_tasks now ts))"
    and "length (due_tasks now ts) \<le> BATCH_SIZE"
proof -
  show "set (due_tasks now ts) \<subseteq> {k \<in> set ts. k_status k = TaskPending \<and> k_due_at k \<le> now}"
    unfolding due_tasks_def by (rule subset_trans [OF set_take_subset]) auto
  have "distinct (map k_id (filter P ts))" for P
    using assms by (simp add: tasks_ok_def distinct_map_filter)
  then show "distinct (map k_id (due_tasks now ts))"
    unfolding due_tasks_def take_map [symmetric] sql_order_by_def
    by (intro distinct_take) (simp add: distinct_map inj_on_def)
  show "length (due_tasks now ts) \<le> BATCH_SIZE" by (simp add: due_tasks_def)
qed

lemma run_due_tasks_effect:
  assumes "tasks_ok (scheduled_tasks s)"
  shows "\<exists>result t. run_due_tasks E describe s
      = (Inr (length (filter (\<lambda>k. result (k_id k) = None) (due_tasks (txn_now s) (scheduled_tasks s)))), t)
    \<and> scheduled_tasks t = map (\<lambda>k. if k \<in> set (due_tasks (txn_now s) (scheduled_tasks s))
                                  then settled_task (txn_now s) (result (k_id k)) k else k) (scheduled_tasks s)"
proof -
  let ?due = "due_tasks (txn_now s) (scheduled_tasks s)"
  note facts = due_tasks_facts [OF assms, of "txn_now s"]
  from facts(1) have "set ?due \<subseteq> set (scheduled_tasks s)" by blast
  from run_claimed_effect [OF assms this facts(2), of E describe] obtain result t where run:
    "run_claimed E describe ?due s = (Inr (length (filter (\<lambda>k. result (k_id k) = None) ?due)), t)"
    "scheduled_tasks t = map (\<lambda>k. if k_id k \<in> k_id ` set ?due then settled_task (txn_now s) (result (k_id k)) k
                                       else k) (scheduled_tasks s)" by blast
  have "k \<in> set ?due" if "k \<in> set (scheduled_tasks s)" "k_id k \<in> k_id ` set ?due" for k
  proof -
    from that(2) obtain k' where k': "k' \<in> set ?due" "k_id k = k_id k'" by blast
    with facts(1) have "k' \<in> set (scheduled_tasks s)" by blast
    with that(1) k' keys_distinct_eq [of k_id "scheduled_tasks s" k k'] assms show ?thesis
      by (simp add: tasks_ok_def)
  qed
  then have "scheduled_tasks t = map (\<lambda>k. if k \<in> set ?due then settled_task (txn_now s) (result (k_id k)) k else k)
      (scheduled_tasks s)"
    unfolding run(2) by (intro map_cong [OF refl] if_cong) auto
  moreover have "run_due_tasks E describe s = run_claimed E describe ?due s"
    by (simp add: run_due_tasks_def claim_due_def due_tasks_def tx_bind_app tx_run)
  ultimately show ?thesis using run(1) by (intro exI [of _ result] exI [of _ t]) simp
qed

text \<open>
  A batch settles the account of every task it claims.  An iteration of the worker never raises;
  it claims at most \<open>BATCH_SIZE\<close> due tasks, each of which ends DONE or is charged exactly one attempt
  (PENDING again with a later due time, FAILED at the eighth), every other task stays as it was, and
  the number returned is the number of tasks done.
\<close>

lemma scheduler_batch:
  assumes "tasks_ok (scheduled_tasks s)"
  shows "\<exists>result t. run_due_tasks E describe s
      = (Inr (length (filter (\<lambda>k. result (k_id k) = None) (due_tasks (txn_now s) (scheduled_tasks s)))), t)
    \<and> scheduled_tasks t = map (\<lambda>k. if k \<in> set (due_tasks (txn_now s) (scheduled_tasks s))
                                  then settled_task (txn_now s) (result (k_id k)) k else k) (scheduled_tasks s)
    \<and> length (due_tasks (txn_now s) (scheduled_tasks s)) \<le> BATCH_SIZE"
  using run_due_tasks_effect [OF assms, of E describe] due_tasks_facts(3) [OF assms] by blast

definition demo_task :: "string \<Rightarrow> task_type \<Rightarrow> task_row" where
  "demo_task rid ty = \<lparr>k_id = ''K'' @ rid, k_type = ty, k_resource_id = rid, k_due_at = 0, k_status = TaskPending,
     k_attempt_count = 0, k_last_error = None, k_created_at = 0, k_completed_at = None\<rparr>"

definition demo_queue :: db where
  "demo_queue = demo_db\<lparr>scheduled_tasks := [demo_task ''T'' UndoSettleTask, demo_task ''E'' EscrowAutoReleaseTask]\<rparr>"

lemma demo_queue_ok: "tasks_ok (scheduled_tasks demo_queue)"
  by (simp add: demo_queue_def tasks_ok_def demo_task_def)

text \<open>
  C26: a failing task takes nothing with it.  When the work of a claimed task raises, whatever it had
  written is undone, its own row is charged the attempt with the error's text, and no other row of any
  table changes; the tasks before and after it in the batch are unaffected.
\<close>

theorem failed_task_isolated:
  assumes "tasks_ok (scheduled_tasks s)" "k \<in> set (scheduled_tasks s)" "task_work E k s = (Inl e, u)"
  shows "run_task E describe k s = (Inr 0, s\<lparr>tick := tick u, scheduled_tasks :=
      sql_update (\<lambda>x. k_id x = k_id k) (failed_task (txn_now s) (describe e)) (scheduled_tasks s)\<rparr>)"
  using assms by (rule run_task_raises)

text \<open>An order whose hold is gone: the release raises, the task is charged.\<close>

definition demo_stuck :: db where
  "demo_stuck = demo_queue\<lparr>safepay_escrows := [\<lparr>e_id = ''E'', e_reference = ''R'', e_hold_transfer = ''H'',
     e_settlement_transfer = None, e_buyer = ''alice'', e_seller = ''bob'', e_amount = 100, e_currency = ''BDT'',
     e_description = None, e_status = Delivered, e_code_hash = ''c'', e_code_attempts = 0, e_code_locked_until = None,
     e_tracking_number = None, e_courier = None, e_shipped_at = None, e_delivered_at = None, e_auto_release_at = None,
     e_settled_at = None, e_dispute_reason = None, e_disputed_at = None, e_resolved_by = None,
     e_resolution_note = None, e_created_at = 0, e_updated_at = 0\<rparr>]\<rparr>"

theorem failed_task_isolated_witness:
  "run_task demo_env (\<lambda>e. ''no hold'') (demo_task ''E'' EscrowAutoReleaseTask) demo_stuck
   = (Inr 0, demo_stuck\<lparr>scheduled_tasks := [demo_task ''T'' UndoSettleTask,
        (demo_task ''E'' EscrowAutoReleaseTask)\<lparr>k_attempt_count := 1, k_last_error := Some ''no hold'',
           k_due_at := 2000000\<rparr>]\<rparr>)"
proof -
  have ok: "tasks_ok (scheduled_tasks demo_stuck)" "demo_task ''E'' EscrowAutoReleaseTask \<in> set (scheduled_tasks demo_stuck)"
    using demo_queue_ok by (simp_all add: demo_stuck_def demo_queue_def)
  have "task_work demo_env (demo_task ''E'' EscrowAutoReleaseTask) demo_stuck = (Inl (app_error StateConflictError), demo_stuck)"
    by (simp add: task_work_def demo_task_def auto_release_def lock_escrow_def release_locked_def get_transfer_def
        demo_stuck_def demo_queue_def demo_db_def tx_bind_app tx_run)
  from failed_task_isolated [OF ok this, of "\<lambda>e. ''no hold''"] show ?thesis
    by (simp add: demo_stuck_def demo_queue_def demo_task_def failed_task_def MAX_ATTEMPTS_def failure_delay_def demo_db_def)
qed


section \<open>The worker keeps the invariants\<close>

context committed_preorder
begin

lemma nested_rel:
  assumes "tx_rel R m"
  shows "tx_rel R (nested m)" and "nested m s = (Inl e, t) \<Longrightarrow> R s t"
proof -
  show "tx_rel R (nested m)"
  proof (rule tx_relI)
    fix s x t
    assume "nested m s = (Inr x, t)"
    then have "m s = (Inr x, t)" by (cases rule: nested_cases [of m s]) simp_all
    then show "R s t" by (rule tx_relD [OF assms])
  qed
  show "R s t" if "nested m s = (Inl e, t)"
    using that by (cases rule: nested_cases [of m s]) (auto intro: tables)
qed

lemma run_task_rel:
  assumes "tx_rel R (task_work E k)" "\<And>i. tx_rel R (complete_task i)" "\<And>i a e m. tx_rel R (record_task_failure i a e m)"
  shows "tx_rel R (run_task E describe k)"
  unfolding run_task_def
proof (rule rel_catch)
  let ?m = "nested (tx_bind (task_work E k) (\<lambda>_. complete_task (k_id k)))"
  have inner: "tx_rel R (tx_bind (task_work E k) (\<lambda>_. complete_task (k_id k)))" by (intro rel_rules assms)
  show "R s t" if "tx_bind ?m (\<lambda>_. tx_return 1) s = (Inl e, t)" for s e t
  proof -
    have "?m s = (Inl e, t)" using that by (auto simp: tx_bind_app tx_run split: prod.splits sum.splits)
    then show ?thesis by (rule nested_rel(2) [OF inner])
  qed
  show "tx_rel R (tx_bind ?m (\<lambda>_. tx_return 1))" by (intro rel_rules nested_rel inner)
qed (intro rel_rules assms)

lemma run_due_tasks_rel:
  assumes "\<And>k. tx_rel R (task_work E k)" "\<And>i. tx_rel R (complete_task i)"
    "\<And>i a e m. tx_rel R (record_task_failure i a e m)" "\<And>n. tx_rel R (claim_due n)"
  shows "tx_rel R (run_due_tasks E describe)"
proof -
  have "tx_rel R (run_claimed E describe ks)" for ks
    by (induction ks) (auto intro!: rel_rules run_task_rel assms)
  then show ?thesis unfolding run_due_tasks_def by (intro rel_rules assms)
qed

end

lemma worker_evolves [tx_rel_intros]: "tx_rel evolves (run_due_tasks E describe)"
proof (rule committed.run_due_tasks_rel)
  show "tx_rel evolves (task_work E k)" for k
    unfolding task_work_def by (cases "k_type k") (auto intro!: evo.rel_rules tx_rel_intros)
qed (intro tx_rel_intros)+

lemma worker_progresses [prog_intros]: "tx_rel progresses (run_due_tasks E describe)"
proof (rule committed_progress.run_due_tasks_rel)
  show "tx_rel progresses (task_work E k)" for k
    unfolding task_work_def by (cases "k_type k") (auto intro!: prog.rel_rules prog_intros)
qed (intro prog_intros)+


section \<open>The queue drains\<close>

text \<open>Attempts a task has left, counting the one that parks it as FAILED.\<close>

definition attempts_left :: "task_row \<Rightarrow> nat" where
  "attempts_left k = (if k_status k = TaskPending then Suc (MAX_ATTEMPTS - 1 - nat (k_attempt_count k)) else 0)"

definition work_left :: "db \<Rightarrow> nat" where
  "work_left s = sum_list (map attempts_left (scheduled_tasks s))"

lemma settled_task_closer:
  assumes "k_status k = TaskPending"
  shows "attempts_left (settled_task now r k) < attempts_left k"
  using assms
  by (auto simp: settled_task_def done_task_def failed_task_def attempts_left_def Let_def MAX_ATTEMPTS_def
      split: option.split)

lemma sum_list_map_less:
  fixes f g :: "'a \<Rightarrow> nat"
  assumes "\<And>x. x \<in> set xs \<Longrightarrow> f x \<le> g x" "x \<in> set xs" "f x < g x"
  shows "sum_list (map f xs) < sum_list (map g xs)"
  using assms
proof (induction xs)
  case (Cons y ys)
  have "sum_list (map f ys) \<le> sum_list (map g ys)" by (rule sum_list_mono) (simp add: Cons.prems(1))
  moreover have "f y \<le> g y" using Cons.prems(1) by simp
  moreover have "x = y \<or> sum_list (map f ys) < sum_list (map g ys)"
    using Cons by auto
  ultimately show ?case using Cons.prems(3) by auto
qed simp

lemma poll_effect:
  assumes "tasks_ok (scheduled_tasks s)"
  shows "tasks_ok (scheduled_tasks (poll E describe None s))"
    and "due_tasks (db_clock E (tick s)) (scheduled_tasks s) = []
         \<Longrightarrow> poll E describe None s = s\<lparr>tick := Suc (tick s), txn_now := db_clock E (tick s)\<rparr>"
    and "due_tasks (db_clock E (tick s)) (scheduled_tasks s) \<noteq> []
         \<Longrightarrow> work_left (poll E describe None s) < work_left s"
proof -
  let ?s = "begin_txn E s"
  have s: "scheduled_tasks ?s = scheduled_tasks s" "txn_now ?s = db_clock E (tick s)"
    by (simp_all add: begin_txn_def)
  let ?due = "due_tasks (db_clock E (tick s)) (scheduled_tasks s)"
  note facts = due_tasks_facts [OF assms, of "db_clock E (tick s)"]
  from run_due_tasks_effect [of ?s E describe, unfolded s] assms obtain result n t where
    run: "run_due_tasks E describe ?s = (Inr n, t)"
    and q: "scheduled_tasks t = map (\<lambda>k. if k \<in> set ?due
        then settled_task (db_clock E (tick s)) (result (k_id k)) k else k) (scheduled_tasks s)"
    by blast
  from run have t: "poll E describe None s = t" by (simp add: poll_def transaction_def)
  have "map k_id (scheduled_tasks t) = map k_id (scheduled_tasks s)"
    "map (\<lambda>k. (k_type k, k_resource_id k)) (scheduled_tasks t) = map (\<lambda>k. (k_type k, k_resource_id k)) (scheduled_tasks s)"
    unfolding q by simp_all
  with assms show "tasks_ok (scheduled_tasks (poll E describe None s))" by (simp add: tasks_ok_def t)
  have "run_due_tasks E describe ?s = run_claimed E describe ?due ?s"
    by (simp add: run_due_tasks_def claim_due_def due_tasks_def tx_bind_app tx_run s)
  then show "poll E describe None s = s\<lparr>tick := Suc (tick s), txn_now := db_clock E (tick s)\<rparr>" if "?due = []"
    using that by (simp add: poll_def transaction_def tx_run) (simp add: begin_txn_def)
  assume "?due \<noteq> []"
  then obtain k where k: "k \<in> set ?due" by (cases ?due) auto
  have pending: "k_status x = TaskPending" if "x \<in> set ?due" for x using that facts(1) by auto
  have "work_left t < work_left s"
    unfolding work_left_def q map_map o_def
  proof (rule sum_list_map_less [where x = k])
    show "k \<in> set (scheduled_tasks s)" using k facts(1) by blast
    show "attempts_left (if k \<in> set ?due then settled_task (db_clock E (tick s)) (result (k_id k)) k else k) < attempts_left k"
      using k settled_task_closer [OF pending [OF k]] by simp
    show "attempts_left (if x \<in> set ?due then settled_task (db_clock E (tick s)) (result (k_id x)) x else x) \<le> attempts_left x" for x
      using less_imp_le [OF settled_task_closer [OF pending]] by simp
  qed
  then show "work_left (poll E describe None s) < work_left s" by (simp add: t)
qed

text \<open>
  Why polling a queue terminates, for any worker: a poll that finds nothing due only lets time pass, a
  poll that finds something lowers the work left, and whatever is pending becomes due.
\<close>

locale draining =
  fixes poll :: "'s \<Rightarrow> 's" and inv :: "'s \<Rightarrow> bool" and content :: "'s \<Rightarrow> 'c" and ticks :: "'s \<Rightarrow> nat"
    and due :: "'s \<Rightarrow> bool" and work :: "'c \<Rightarrow> nat" and pending :: "'c \<Rightarrow> bool"
  assumes poll_inv: "inv s \<Longrightarrow> inv (poll s)"
    and idle_poll: "inv s \<Longrightarrow> \<not> due s \<Longrightarrow> content (poll s) = content s \<and> ticks (poll s) = Suc (ticks s)"
    and busy_poll: "inv s \<Longrightarrow> due s \<Longrightarrow> work (content (poll s)) < work (content s)"
    and becomes_due: "inv s \<Longrightarrow> pending (content s)
          \<Longrightarrow> \<exists>N. \<forall>t. content t = content s \<longrightarrow> N \<le> ticks t \<longrightarrow> due t"
begin

lemma polls_idle:
  assumes "inv s"
  shows "(\<exists>m. inv ((poll ^^ m) s) \<and> work (content ((poll ^^ m) s)) < work (content s))
    \<or> inv ((poll ^^ n) s) \<and> content ((poll ^^ n) s) = content s \<and> ticks ((poll ^^ n) s) = ticks s + n"
proof (induction n)
  case 0
  with assms show ?case by simp
next
  case (Suc n)
  let ?t = "(poll ^^ n) s"
  show ?case
  proof (cases "due ?t")
    case True
    with Suc busy_poll [of ?t] poll_inv [of ?t] show ?thesis
      by (metis funpow.simps(2) comp_apply)
  next
    case False
    with Suc idle_poll [of ?t] poll_inv [of ?t] show ?thesis by auto
  qed
qed

lemma drains: "inv s \<Longrightarrow> \<exists>n. \<not> pending (content ((poll ^^ n) s))"
proof (induction "work (content s)" arbitrary: s rule: less_induct)
  case less
  show ?case
  proof (cases "pending (content s)")
    case True
    from becomes_due [OF less.prems True] obtain N where
      N: "\<And>t. content t = content s \<Longrightarrow> N \<le> ticks t \<Longrightarrow> due t" by blast
    obtain m where m: "inv ((poll ^^ m) s)" "work (content ((poll ^^ m) s)) < work (content s)"
      using polls_idle [OF less.prems, of N]
    proof (elim disjE exE conjE)
      let ?t = "(poll ^^ N) s"
      assume t: "inv ?t" "content ?t = content s" "ticks ?t = ticks s + N"
      with N [of ?t] busy_poll [of ?t] poll_inv [of ?t] show thesis by (intro that [of "Suc N"]) simp_all
    qed (rule that)
    from less.hyps [OF m(2,1)] obtain n where "\<not> pending (content ((poll ^^ n) ((poll ^^ m) s)))" ..
    then have "\<not> pending (content ((poll ^^ (n + m)) s))" by (simp add: funpow_add)
    then show ?thesis ..
  qed (intro exI [of _ 0], simp)
qed

end

definition clock_advances :: "env \<Rightarrow> bool" where
  "clock_advances E \<longleftrightarrow> (\<forall>T. \<exists>N. \<forall>n \<ge> N. T \<le> db_clock E n)"

lemma due_tasks_nonempty:
  assumes "k \<in> set ts" "k_status k = TaskPending" "k_due_at k \<le> now"
  shows "due_tasks now ts \<noteq> []"
proof -
  have "k \<in> set (sql_order_by k_due_at (filter (\<lambda>k. k_status k = TaskPending \<and> k_due_at k \<le> now) ts))"
    using assms by simp
  then have "sql_order_by k_due_at (filter (\<lambda>k. k_status k = TaskPending \<and> k_due_at k \<le> now) ts) \<noteq> []"
    by (cases "sql_order_by k_due_at (filter (\<lambda>k. k_status k = TaskPending \<and> k_due_at k \<le> now) ts)") simp_all
  then show ?thesis by (simp add: due_tasks_def BATCH_SIZE_def)
qed

interpretation scheduler: draining "poll E describe None"
  "\<lambda>s. tasks_ok (scheduled_tasks s) \<and> clock_advances E" "scheduled_tasks :: db \<Rightarrow> task_row list" tick
  "\<lambda>s. due_tasks (db_clock E (tick s)) (scheduled_tasks s) \<noteq> []" "\<lambda>ks. sum_list (map attempts_left ks)"
  "\<lambda>ks. \<exists>k \<in> set ks. k_status k = TaskPending" for E describe
proof
  fix s :: db
  assume inv: "tasks_ok (scheduled_tasks s) \<and> clock_advances E"
  note eff = poll_effect [OF conjunct1 [OF inv], of E describe]
  from eff(1) inv show "tasks_ok (scheduled_tasks (poll E describe None s)) \<and> clock_advances E" by simp
  show "scheduled_tasks (poll E describe None s) = scheduled_tasks s \<and> tick (poll E describe None s) = Suc (tick s)"
    if "\<not> due_tasks (db_clock E (tick s)) (scheduled_tasks s) \<noteq> []"
    using eff(2) that by simp
  show "sum_list (map attempts_left (scheduled_tasks (poll E describe None s))) < sum_list (map attempts_left (scheduled_tasks s))"
    if "due_tasks (db_clock E (tick s)) (scheduled_tasks s) \<noteq> []"
    using eff(3) that by (simp add: work_left_def)
  assume "\<exists>k \<in> set (scheduled_tasks s). k_status k = TaskPending"
  then obtain k where k: "k \<in> set (scheduled_tasks s)" "k_status k = TaskPending" ..
  from inv obtain N where "\<forall>n \<ge> N. k_due_at k \<le> db_clock E n" by (auto simp: clock_advances_def)
  with k show "\<exists>N. \<forall>t. scheduled_tasks t = scheduled_tasks s \<longrightarrow> N \<le> tick t
      \<longrightarrow> due_tasks (db_clock E (tick t)) (scheduled_tasks t) \<noteq> []"
    by (intro exI [of _ N] allI impI due_tasks_nonempty [of k]) auto
qed

text \<open>
  C25: every scheduled task is eventually resolved.  Whatever the tasks do and however often they
  fail, if the database clock keeps advancing, a worker that keeps polling reaches a state in which no
  task is PENDING: each one is DONE, CANCELLED or, after eight attempts, FAILED.
\<close>

theorem scheduler_drains:
  assumes "clock_advances E" "tasks_ok (scheduled_tasks s)"
  shows "\<exists>n. \<forall>k \<in> set (scheduled_tasks ((poll E describe None ^^ n) s)).
    k_status k \<in> {TaskDone, TaskCancelled, TaskFailed}"
proof -
  from scheduler.drains [of s E describe] assms obtain n where
    "\<not> (\<exists>k \<in> set (scheduled_tasks ((poll E describe None ^^ n) s)). k_status k = TaskPending)" by blast
  then show ?thesis by (metis insertCI task_status.exhaust)
qed

lemma demo_clock_advances: "clock_advances demo_env"
  unfolding clock_advances_def
proof
  fix T :: int
  show "\<exists>N. \<forall>n \<ge> N. T \<le> db_clock demo_env n"
    by (intro exI [of _ "nat T"]) (auto simp: demo_env_def)
qed

theorem scheduler_drains_witness:
  "\<exists>n. \<forall>k \<in> set (scheduled_tasks ((poll demo_env (\<lambda>e. ''error'') None ^^ n) demo_stuck)).
     k_status k \<in> {TaskDone, TaskCancelled, TaskFailed}"
proof (rule scheduler_drains)
  show "tasks_ok (scheduled_tasks demo_stuck)" using demo_queue_ok by (simp add: demo_stuck_def)
qed (rule demo_clock_advances)

end
