(* ===== verification/Messaging.thy ===== *)
theory Messaging
  imports Workers
begin

text \<open>
  Events on their way out: the outbox relay, \<open>apps/outbox_relay/main.py\<close>, and the notification
  consumer, \<open>apps/notification_worker/main.py\<close>.

  The broker is a parameter.  \<open>publish\<close> of \<open>platform_/messaging/publisher.py\<close> either returns or raises
  \<open>PublishError\<close>; what the broker did is one of three outcomes, because a message whose confirmation
  was lost may have been stored all the same.
\<close>

section \<open>The relay\<close>

datatype publish_outcome = Confirmed | Refused string | Unconfirmed string

text \<open>The database the relay works on, the messages the broker has stored and the number of attempts made.\<close>

record relay_world =
  w_db :: db
  w_stored :: "(string \<times> dict) list"
  w_tries :: nat

type_synonym 'a relay = "(relay_world, exn, 'a) txm"

definition on_db :: "'a tx \<Rightarrow> 'a relay" where
  "on_db m = (\<lambda>w. case m (w_db w) of (r, t) \<Rightarrow> (r, w\<lparr>w_db := t\<rparr>))"

text \<open>\<open>broker.publish\<close>: \<open>Some\<close> is the text of the \<open>PublishError\<close> it raised.\<close>

definition broker_publish :: "(nat \<Rightarrow> publish_outcome) \<Rightarrow> string \<Rightarrow> dict \<Rightarrow> string option relay" where
  "broker_publish broker routing_key envelope = (\<lambda>w.
     let w' = w\<lparr>w_tries := Suc (w_tries w)\<rparr>; stored = w'\<lparr>w_stored := w_stored w @ [(routing_key, envelope)]\<rparr> in
     case broker (w_tries w) of
       Confirmed \<Rightarrow> (Inr None, stored)
     | Refused e \<Rightarrow> (Inr (Some e), w')
     | Unconfirmed e \<Rightarrow> (Inr (Some e), stored))"

definition claim_batch :: "nat \<Rightarrow> outbox_row list tx" where
  "claim_batch batch_size = tx_gets (\<lambda>s. take batch_size (sql_order_by o_occurred_at
     (filter (\<lambda>r. o_published_at r = None \<and> o_dead_lettered_at r = None
                \<and> (case o_next_attempt_at r of None \<Rightarrow> True | Some at \<Rightarrow> at \<le> txn_now s)) (outbox_events s))))"

definition backoff_delay :: "nat \<Rightarrow> int" where
  "backoff_delay attempt = min (2 ^ attempt) 300"

definition envelope_of :: "outbox_row \<Rightarrow> dict" where
  "envelope_of r =
     [(''eventId'', JStr (o_id r)), (''eventType'', JStr (o_event_type r)),
      (''aggregateType'', JStr (o_aggregate_type r)), (''aggregateId'', JStr (o_aggregate_id r)),
      (''occurredAt'', JTime (o_occurred_at r)), (''traceId'', opt_json JStr (o_trace_id r)),
      (''schemaVersion'', JInt (o_schema_version r)), (''payload'', JObj (o_payload r))]"

definition mark_published :: "string \<Rightarrow> unit tx" where
  "mark_published event_id = tx_modify (\<lambda>s. s\<lparr>outbox_events :=
     sql_update (\<lambda>r. o_id r = event_id) (\<lambda>r. r\<lparr>o_published_at := Some (txn_now s)\<rparr>) (outbox_events s)\<rparr>)"

definition record_publish_failure :: "env \<Rightarrow> outbox_row \<Rightarrow> string \<Rightarrow> nat \<Rightarrow> unit tx" where
  "record_publish_failure E row error max_attempts =
     (let attempt = nat (o_attempt_count row) + 1; dead = max_attempts \<le> attempt in
      tx_bind (clock_now E) (\<lambda>now.
      tx_bind (if dead then tx_bind (clock_now E) (\<lambda>at. tx_return (Some at)) else tx_return None) (\<lambda>dead_at.
        tx_modify (\<lambda>s. s\<lparr>outbox_events := sql_update (\<lambda>r. o_id r = o_id row)
          (\<lambda>r. r\<lparr>o_attempt_count := int attempt, o_last_error := Some (take 500 error),
                  o_next_attempt_at := Some (now + backoff_delay attempt * second_us),
                  o_dead_lettered_at := dead_at\<rparr>) (outbox_events s)\<rparr>))))"

definition publish_row :: "env \<Rightarrow> (nat \<Rightarrow> publish_outcome) \<Rightarrow> nat \<Rightarrow> outbox_row \<Rightarrow> nat relay" where
  "publish_row E broker max_attempts row =
     tx_bind (broker_publish broker (o_event_type row) (envelope_of row)) (\<lambda>failure.
       case failure of
         Some error \<Rightarrow> tx_bind (on_db (record_publish_failure E row error max_attempts)) (\<lambda>_. tx_return 0)
       | None \<Rightarrow> tx_bind (on_db (mark_published (o_id row))) (\<lambda>_. tx_return 1))"

fun publish_rows :: "env \<Rightarrow> (nat \<Rightarrow> publish_outcome) \<Rightarrow> nat \<Rightarrow> outbox_row list \<Rightarrow> nat relay" where
  "publish_rows E broker max_attempts [] = tx_return 0"
| "publish_rows E broker max_attempts (row # rows) =
     tx_bind (publish_row E broker max_attempts row) (\<lambda>n.
     tx_bind (publish_rows E broker max_attempts rows) (\<lambda>m. tx_return (n + m)))"

definition process_batch :: "env \<Rightarrow> (nat \<Rightarrow> publish_outcome) \<Rightarrow> nat \<Rightarrow> nat \<Rightarrow> nat relay" where
  "process_batch E broker batch_size max_attempts =
     tx_bind (on_db (claim_batch batch_size)) (publish_rows E broker max_attempts)"

text \<open>
  One iteration of \<open>main\<close>: the rows are written in one transaction, which the database may refuse to
  commit; what the broker stored stays stored.
\<close>

definition relay_poll :: "env \<Rightarrow> (nat \<Rightarrow> publish_outcome) \<Rightarrow> nat \<Rightarrow> nat \<Rightarrow> fault option \<Rightarrow> relay_world \<Rightarrow> relay_world" where
  "relay_poll E broker batch_size max_attempts fault w =
     (let (r, w') = process_batch E broker batch_size max_attempts (w\<lparr>w_db := begin_txn E (w_db w)\<rparr>);
          rolled_back = w'\<lparr>w_db := (w_db w)\<lparr>tick := tick (w_db w')\<rparr>\<rparr> in
      case (r, fault) of
        (Inl e, _) \<Rightarrow> rolled_back
      | (Inr n, None) \<Rightarrow> w'
      | (Inr n, Some (Aborted st)) \<Rightarrow> rolled_back
      | (Inr n, Some (Unacknowledged st)) \<Rightarrow> w')"


section \<open>The consumer\<close>

definition CONSUMER_NAME :: string where
  "CONSUMER_NAME = ''notification-worker''"

definition claim_event :: "string option \<Rightarrow> bool tx" where
  "claim_event event_id =
     tx_catch
       (tx_bind (require_constraints (\<lambda>s.
          [(''consumer_inbox_event_id_not_null'', event_id \<noteq> None),
           (''pk_consumer_inbox'', \<forall>n \<in> set (consumer_inbox s).
               \<not> (n_consumer n = CONSUMER_NAME \<and> Some (n_event_id n) = event_id))])) (\<lambda>_.
        tx_bind (tx_modify (\<lambda>s. s\<lparr>consumer_inbox := consumer_inbox s @
          [\<lparr>n_consumer = CONSUMER_NAME, n_event_id = the event_id, n_processed_at = txn_now s\<rparr>]\<rparr>)) (\<lambda>_.
          tx_return True)))
       (\<lambda>e. case e of IntegrityError c \<Rightarrow> tx_return False | _ \<Rightarrow> tx_raise e)"

text \<open>What a notification says; the fields are the values interpolated into its text.\<close>

datatype notification =
    TransferCompleted "json option" int
  | RequestReceived "json option" int
  | RequestPaid "json option"
  | RequestDeclined "json option"
  | OtherEvent string

text \<open>\<open>payload.get("amountMinor", 0) / 100\<close> is computed first, whatever the event type.\<close>

definition describe_event :: "string \<Rightarrow> dict \<Rightarrow> exn + notification" where
  "describe_event event_type payload =
     chk_bind (case dict_get payload ''amountMinor'' of
                 None \<Rightarrow> Inr 0
               | Some (JInt n) \<Rightarrow> Inr n
               | Some (JBool b) \<Rightarrow> Inr (if b then 1 else 0)
               | Some _ \<Rightarrow> Inl (PyError ''TypeError'')) (\<lambda>amount.
     Inr (if event_type = ''financial.transfer.succeeded.v1'' then TransferCompleted (dict_get payload ''reference'') amount
          else if event_type = ''money_request.created.v1'' then RequestReceived (dict_get payload ''reference'') amount
          else if event_type = ''money_request.accepted.v1'' then RequestPaid (dict_get payload ''requestId'')
          else if event_type = ''money_request.rejected.v1'' then RequestDeclined (dict_get payload ''requestId'')
          else OtherEvent event_type))"

definition envelope_event_id :: "dict \<Rightarrow> exn + string option" where
  "envelope_event_id envelope =
     (case dict_get envelope ''eventId'' of
        None \<Rightarrow> Inr None | Some JNull \<Rightarrow> Inr None | Some (JStr i) \<Rightarrow> Inr (Some i)
      | Some _ \<Rightarrow> Inl (DatabaseError ''42804''))"

definition envelope_event_type :: "dict \<Rightarrow> string" where
  "envelope_event_type envelope =
     (case dict_get envelope ''eventType'' of Some (JStr ty) \<Rightarrow> ty | _ \<Rightarrow> ''unknown'')"

definition envelope_payload :: "dict \<Rightarrow> exn + dict" where
  "envelope_payload envelope =
     (case dict_get envelope ''payload'' of
        None \<Rightarrow> Inr [] | Some (JObj d) \<Rightarrow> Inr d | Some _ \<Rightarrow> Inl (PyError ''AttributeError''))"

text \<open>The event a message announces, \<open>None\<close> for a duplicate.\<close>

definition handle_message :: "dict \<Rightarrow> (string \<times> notification) option tx" where
  "handle_message envelope =
     tx_bind (tx_lift (envelope_event_id envelope)) (\<lambda>event_id.
     tx_bind (claim_event event_id) (\<lambda>fresh.
       if \<not> fresh then tx_return None
       else
         tx_bind (tx_lift (chk_bind (envelope_payload envelope) (describe_event (envelope_event_type envelope)))) (\<lambda>d.
           tx_return (Some (the event_id, d)))))"

text \<open>
  The consumer's loop: a message is acknowledged after the commit, a message whose handling raised goes
  to the dead-letter queue.  The notification leaves before the commit.
\<close>

record consumer_world =
  c_db :: db
  c_notified :: "(string \<times> notification) list"
  c_dead_letters :: "dict list"

definition consume :: "env \<Rightarrow> dict \<Rightarrow> fault option \<Rightarrow> consumer_world \<Rightarrow> consumer_world" where
  "consume E envelope fault w =
     (let sent = (case fst (handle_message envelope (begin_txn E (c_db w))) of Inr (Some n) \<Rightarrow> [n] | _ \<Rightarrow> []);
          (r, t) = transaction E fault (handle_message envelope) (c_db w) in
      w\<lparr>c_db := t, c_notified := c_notified w @ sent,
        c_dead_letters := c_dead_letters w @ (case r of Inl e \<Rightarrow> [envelope] | Inr _ \<Rightarrow> [])\<rparr>)"

fun consume_all :: "env \<Rightarrow> dict list \<Rightarrow> consumer_world \<Rightarrow> consumer_world" where
  "consume_all E [] w = w"
| "consume_all E (m # ms) w = consume_all E ms (consume E m None w)"


section \<open>What a batch does\<close>

text \<open>
  The row an event ends as: \<open>None\<close> stands for a confirmed publication, \<open>Some\<close> for a failure with its
  error, the time of the next attempt and the time it was dead-lettered, if it was.
\<close>

definition relayed_row :: "int \<Rightarrow> (string \<times> int \<times> int option) option \<Rightarrow> outbox_row \<Rightarrow> outbox_row" where
  "relayed_row now result r =
     (case result of
        None \<Rightarrow> r\<lparr>o_published_at := Some now\<rparr>
      | Some (error, next_at, dead_at) \<Rightarrow>
          r\<lparr>o_attempt_count := int (Suc (nat (o_attempt_count r))), o_last_error := Some (take 500 error),
            o_next_attempt_at := Some next_at, o_dead_lettered_at := dead_at\<rparr>)"

definition relay_result_ok :: "nat \<Rightarrow> outbox_row \<Rightarrow> (string \<times> int \<times> int option) option \<Rightarrow> bool" where
  "relay_result_ok max_attempts r result \<longleftrightarrow>
     (case result of None \<Rightarrow> True
      | Some (error, next_at, dead_at) \<Rightarrow> (dead_at \<noteq> None) = (max_attempts \<le> Suc (nat (o_attempt_count r))))"

lemma relayed_row_keeps [simp]:
  "o_id (relayed_row now res r) = o_id r" "o_event_type (relayed_row now res r) = o_event_type r"
  "envelope_of (relayed_row now res r) = envelope_of r"
  by (auto simp: relayed_row_def envelope_of_def split: option.split)

abbreviation message_of :: "outbox_row \<Rightarrow> string \<times> dict" where
  "message_of r \<equiv> (o_event_type r, envelope_of r)"

abbreviation outbox :: "relay_world \<Rightarrow> outbox_row list" where
  "outbox w \<equiv> outbox_events (w_db w)"

lemma on_db_app: "on_db m w = (case m (w_db w) of (r, t) \<Rightarrow> (r, w\<lparr>w_db := t\<rparr>))"
  by (simp add: on_db_def)

lemma record_publish_failure_app:
  assumes "keys_distinct o_id (outbox_events s)" "row \<in> set (outbox_events s)"
  obtains next_at dead_at n where "relay_result_ok max_attempts row (Some (error, next_at, dead_at))"
    "record_publish_failure E row error max_attempts s = (Inr (), s\<lparr>tick := n, outbox_events :=
       sql_update (\<lambda>r. o_id r = o_id row) (relayed_row (txn_now s) (Some (error, next_at, dead_at))) (outbox_events s)\<rparr>)"
proof -
  have row: "x = row" if "x \<in> set (outbox_events s)" "o_id x = o_id row" for x
    using keys_distinct_eq [of o_id "outbox_events s" x row] that assms by simp
  have same: "sql_update (\<lambda>x. o_id x = o_id row) F (outbox_events s) = sql_update (\<lambda>x. o_id x = o_id row) G (outbox_events s)"
    if "F row = G row" for F G
    unfolding sql_update_def using row that by (intro map_cong) auto
  define attempt where "attempt = Suc (nat (o_attempt_count row))"
  define dead where "dead \<longleftrightarrow> max_attempts \<le> attempt"
  define next_at where "next_at = clock_feed E (tick s) + backoff_delay attempt * second_us"
  define dead_at where "dead_at = (if dead then Some (clock_feed E (Suc (tick s))) else None)"
  have "record_publish_failure E row error max_attempts s = (Inr (), s\<lparr>tick := (if dead then Suc (Suc (tick s)) else Suc (tick s)),
      outbox_events := sql_update (\<lambda>r. o_id r = o_id row)
          (\<lambda>r. r\<lparr>o_attempt_count := int attempt, o_last_error := Some (take 500 error),
                  o_next_attempt_at := Some next_at, o_dead_lettered_at := dead_at\<rparr>) (outbox_events s)\<rparr>)"
    unfolding record_publish_failure_def next_at_def dead_at_def dead_def attempt_def
    by (simp add: Let_def clock_now_def tx_tick_def tx_bind_app tx_run)
  moreover have "sql_update (\<lambda>r. o_id r = o_id row)
          (\<lambda>r. r\<lparr>o_attempt_count := int attempt, o_last_error := Some (take 500 error),
                  o_next_attempt_at := Some next_at, o_dead_lettered_at := dead_at\<rparr>) (outbox_events s)
      = sql_update (\<lambda>r. o_id r = o_id row) (relayed_row (txn_now s) (Some (error, next_at, dead_at))) (outbox_events s)"
    by (rule same) (simp add: relayed_row_def attempt_def)
  moreover have "relay_result_ok max_attempts row (Some (error, next_at, dead_at))"
    by (simp add: relay_result_ok_def dead_at_def dead_def attempt_def)
  ultimately show thesis by (intro that) simp_all
qed

lemma broker_publish_cases:
  obtains (confirmed) "broker_publish broker key env w
      = (Inr None, w\<lparr>w_tries := Suc (w_tries w), w_stored := w_stored w @ [(key, env)]\<rparr>)"
  | (failed) e stored where "broker_publish broker key env w
      = (Inr (Some e), w\<lparr>w_tries := Suc (w_tries w), w_stored := stored\<rparr>)"
      "stored = w_stored w \<or> stored = w_stored w @ [(key, env)]"
proof (cases "broker (w_tries w)")
  case Confirmed
  then show thesis by (intro confirmed) (simp add: broker_publish_def Let_def)
next
  case (Refused e)
  then show thesis by (intro failed [of e "w_stored w"]) (simp_all add: broker_publish_def Let_def)
next
  case (Unconfirmed e)
  then show thesis by (intro failed [of e "w_stored w @ [(key, env)]"]) (simp_all add: broker_publish_def Let_def)
qed

lemma publish_row_effect:
  assumes "keys_distinct o_id (outbox w)" "row \<in> set (outbox w)"
  obtains res w' where "publish_row E broker max_attempts row w = (Inr (if res = None then 1 else 0), w')"
    "relay_result_ok max_attempts row res" "txn_now (w_db w') = txn_now (w_db w)"
    "outbox w' = sql_update (\<lambda>r. o_id r = o_id row) (relayed_row (txn_now (w_db w)) res) (outbox w)"
    "w_stored w' = w_stored w \<or> w_stored w' = w_stored w @ [message_of row]"
    "res = None \<Longrightarrow> w_stored w' = w_stored w @ [message_of row]"
proof (cases rule: broker_publish_cases [of broker "o_event_type row" "envelope_of row" w])
  case confirmed
  let ?w = "w\<lparr>w_tries := Suc (w_tries w), w_stored := w_stored w @ [message_of row],
    w_db := (w_db w)\<lparr>outbox_events := sql_update (\<lambda>r. o_id r = o_id row)
       (\<lambda>r. r\<lparr>o_published_at := Some (txn_now (w_db w))\<rparr>) (outbox w)\<rparr>\<rparr>"
  have "publish_row E broker max_attempts row w = (Inr 1, ?w)"
    using confirmed by (simp add: publish_row_def tx_bind_app on_db_app mark_published_def tx_run)
  then show thesis by (intro that [of None ?w]) (simp_all add: relay_result_ok_def relayed_row_def [abs_def])
next
  case (failed e stored)
  from record_publish_failure_app [OF assms, of max_attempts e E] obtain next_at dead_at n where
    ok: "relay_result_ok max_attempts row (Some (e, next_at, dead_at))"
    and rec: "record_publish_failure E row e max_attempts (w_db w) = (Inr (), (w_db w)\<lparr>tick := n, outbox_events :=
       sql_update (\<lambda>r. o_id r = o_id row) (relayed_row (txn_now (w_db w)) (Some (e, next_at, dead_at))) (outbox w)\<rparr>)" .
  let ?w = "w\<lparr>w_tries := Suc (w_tries w), w_stored := stored, w_db := (w_db w)\<lparr>tick := n, outbox_events :=
       sql_update (\<lambda>r. o_id r = o_id row) (relayed_row (txn_now (w_db w)) (Some (e, next_at, dead_at))) (outbox w)\<rparr>\<rparr>"
  have "publish_row E broker max_attempts row w = (Inr 0, ?w)"
    using failed(1) rec by (simp add: publish_row_def tx_bind_app on_db_app tx_run)
  with ok failed(2) show thesis by (intro that [of "Some (e, next_at, dead_at)" ?w]) simp_all
qed

text \<open>What the broker gets from a batch is messages of the rows of the batch, each confirmed one among them.\<close>

definition relay_outcome ::
  "nat \<Rightarrow> int \<Rightarrow> outbox_row list \<Rightarrow> (string \<Rightarrow> (string \<times> int \<times> int option) option) \<Rightarrow> relay_world \<Rightarrow> relay_world \<Rightarrow> bool" where
  "relay_outcome max_attempts now rows result w w' \<longleftrightarrow>
     (\<forall>r \<in> set rows. relay_result_ok max_attempts r (result (o_id r)))
     \<and> outbox w' = map (\<lambda>r. if o_id r \<in> o_id ` set rows then relayed_row now (result (o_id r)) r else r) (outbox w)
     \<and> (\<exists>sent. w_stored w' = w_stored w @ sent \<and> set sent \<subseteq> message_of ` set rows
          \<and> (\<forall>r \<in> set rows. result (o_id r) = None \<longrightarrow> message_of r \<in> set sent))"

lemma publish_rows_effect:
  assumes "keys_distinct o_id (outbox w)" "set rows \<subseteq> set (outbox w)" "keys_distinct o_id rows"
  shows "\<exists>result w'. publish_rows E broker max_attempts rows w
           = (Inr (length (filter (\<lambda>r. result (o_id r) = None) rows)), w')
         \<and> txn_now (w_db w') = txn_now (w_db w)
         \<and> relay_outcome max_attempts (txn_now (w_db w)) rows result w w'"
  using assms
proof (induction rows arbitrary: w)
  case Nil
  then show ?case by (simp add: tx_run relay_outcome_def)
next
  case (Cons row rows)
  have row: "row \<in> set (outbox w)" using Cons.prems(2) by simp
  obtain r u where first: "publish_row E broker max_attempts row w = (Inr (if r = None then 1 else 0), u)"
    "relay_result_ok max_attempts row r" "txn_now (w_db u) = txn_now (w_db w)"
    "outbox u = sql_update (\<lambda>x. o_id x = o_id row) (relayed_row (txn_now (w_db w)) r) (outbox w)"
    "w_stored u = w_stored w \<or> w_stored u = w_stored w @ [message_of row]"
    "r = None \<Longrightarrow> w_stored u = w_stored w @ [message_of row]"
    using publish_row_effect [OF Cons.prems(1) row, of E broker max_attempts] by blast
  have ok: "keys_distinct o_id (outbox u)"
    unfolding first(4) using Cons.prems(1) by (subst map_sql_update_same) simp_all
  have sub: "set rows \<subseteq> set (outbox u)"
    unfolding first(4) set_sql_update using Cons.prems(2,3) by (auto simp: image_iff)
  from Cons.IH [OF ok sub] Cons.prems(3) obtain result w' where rest:
    "publish_rows E broker max_attempts rows u = (Inr (length (filter (\<lambda>r. result (o_id r) = None) rows)), w')"
    "txn_now (w_db w') = txn_now (w_db u)"
    "relay_outcome max_attempts (txn_now (w_db w)) rows result u w'" by (auto simp: first(3))
  let ?result = "result(o_id row := r)"
  have other: "o_id x \<noteq> o_id row" if "x \<in> set rows" for x using that Cons.prems(3) by (auto simp: image_iff)
  have "filter (\<lambda>x. ?result (o_id x) = None) rows = filter (\<lambda>x. result (o_id x) = None) rows"
    by (rule filter_cong [OF refl]) (simp add: other)
  with first(1) rest(1) have "publish_rows E broker max_attempts (row # rows) w
      = (Inr (length (filter (\<lambda>x. ?result (o_id x) = None) (row # rows))), w')"
    by (simp add: tx_bind_app tx_run)
  moreover have "relay_outcome max_attempts (txn_now (w_db w)) (row # rows) ?result w w'"
    unfolding relay_outcome_def
  proof (intro conjI)
    show "\<forall>x \<in> set (row # rows). relay_result_ok max_attempts x (?result (o_id x))"
      using first(2) rest(3) other by (auto simp: relay_outcome_def)
    show "outbox w' = map (\<lambda>x. if o_id x \<in> o_id ` set (row # rows) then relayed_row (txn_now (w_db w)) (?result (o_id x)) x else x) (outbox w)"
      using rest(3) Cons.prems(3)
        batch_update_Cons [of "o_id row" "o_id ` set rows" o_id "relayed_row (txn_now (w_db w))" result r "outbox w"]
      by (simp add: relay_outcome_def first(4))
    from rest(3) obtain sent where sent: "w_stored w' = w_stored u @ sent" "set sent \<subseteq> message_of ` set rows"
      "\<forall>x \<in> set rows. result (o_id x) = None \<longrightarrow> message_of x \<in> set sent" unfolding relay_outcome_def by blast
    from first(5,6) obtain mine where mine: "w_stored u = w_stored w @ mine" "set mine \<subseteq> {message_of row}"
      "r = None \<Longrightarrow> message_of row \<in> set mine" by (cases "r = None") force+
    show "\<exists>sent. w_stored w' = w_stored w @ sent \<and> set sent \<subseteq> message_of ` set (row # rows)
          \<and> (\<forall>x \<in> set (row # rows). ?result (o_id x) = None \<longrightarrow> message_of x \<in> set sent)"
      using sent mine other by (intro exI [of _ "mine @ sent"]) (auto simp: fun_upd_def)
  qed
  moreover have "txn_now (w_db w') = txn_now (w_db w)" using rest(2) first(3) by simp
  ultimately show ?case by (intro exI [of _ ?result] exI [of _ w'] conjI)
qed

definition due_events :: "nat \<Rightarrow> int \<Rightarrow> outbox_row list \<Rightarrow> outbox_row list" where
  "due_events batch_size now rs = take batch_size (sql_order_by o_occurred_at
     (filter (\<lambda>r. o_published_at r = None \<and> o_dead_lettered_at r = None
                \<and> (case o_next_attempt_at r of None \<Rightarrow> True | Some at \<Rightarrow> at \<le> now)) rs))"

lemma due_events_facts:
  assumes "keys_distinct o_id rs"
  shows "set (due_events n now rs) \<subseteq> {r \<in> set rs. o_published_at r = None \<and> o_dead_lettered_at r = None}"
    and "keys_distinct o_id (due_events n now rs)"
proof -
  show "set (due_events n now rs) \<subseteq> {r \<in> set rs. o_published_at r = None \<and> o_dead_lettered_at r = None}"
    unfolding due_events_def by (rule subset_trans [OF set_take_subset]) auto
  have "keys_distinct o_id (filter P rs)" for P using assms by (simp add: distinct_map_filter)
  then show "keys_distinct o_id (due_events n now rs)"
    unfolding due_events_def take_map [symmetric] sql_order_by_def
    by (intro distinct_take) (simp add: distinct_map inj_on_def)
qed

lemma claim_batch_app: "claim_batch n s = (Inr (due_events n (txn_now s) (outbox_events s)), s)"
  by (simp add: claim_batch_def due_events_def tx_run)

lemma process_batch_effect:
  assumes "keys_distinct o_id (outbox w)"
  shows "\<exists>result w' n. process_batch E broker batch_size max_attempts w = (Inr n, w')
    \<and> relay_outcome max_attempts (txn_now (w_db w)) (due_events batch_size (txn_now (w_db w)) (outbox w)) result w w'"
proof -
  let ?rows = "due_events batch_size (txn_now (w_db w)) (outbox w)"
  note facts = due_events_facts [OF assms, of batch_size "txn_now (w_db w)"]
  have "set ?rows \<subseteq> set (outbox w)" using facts(1) by blast
  moreover have "process_batch E broker batch_size max_attempts w = publish_rows E broker max_attempts ?rows w"
    by (simp add: process_batch_def claim_batch_app tx_bind_app on_db_app)
  ultimately show ?thesis using publish_rows_effect [OF assms _ facts(2), of E broker max_attempts] by metis
qed

text \<open>Either the batch was committed, or only the broker and the clock have moved.\<close>

lemma relay_poll_cases:
  assumes "keys_distinct o_id (outbox w)"
  obtains (committed) result where
      "relay_outcome max_attempts (db_clock E (tick (w_db w)))
        (due_events batch_size (db_clock E (tick (w_db w))) (outbox w)) result w
        (relay_poll E broker batch_size max_attempts fault w)"
  | (rolled_back) sent n where "fault \<noteq> None"
      "w_db (relay_poll E broker batch_size max_attempts fault w) = (w_db w)\<lparr>tick := n\<rparr>"
      "w_stored (relay_poll E broker batch_size max_attempts fault w) = w_stored w @ sent"
      "set sent \<subseteq> message_of ` set (outbox w)"
proof -
  let ?w = "w\<lparr>w_db := begin_txn E (w_db w)\<rparr>"
  let ?rows = "due_events batch_size (db_clock E (tick (w_db w))) (outbox w)"
  have w: "outbox ?w = outbox w" "txn_now (w_db ?w) = db_clock E (tick (w_db w))" "w_stored ?w = w_stored w"
    by (simp_all add: begin_txn_def)
  from process_batch_effect [of ?w E broker batch_size max_attempts] assms obtain result w' n where
    run: "process_batch E broker batch_size max_attempts ?w = (Inr n, w')"
    and out: "relay_outcome max_attempts (db_clock E (tick (w_db w))) ?rows result ?w w'"
    by (auto simp: begin_txn_def)
  have out': "relay_outcome max_attempts (db_clock E (tick (w_db w))) ?rows result w w'"
    using out w unfolding relay_outcome_def by simp
  consider "fault = None" | st where "fault = Some (Aborted st)" | st where "fault = Some (Unacknowledged st)"
    by (metis fault.exhaust option.exhaust)
  then show thesis
  proof cases
    case 2
    from out' obtain sent where "w_stored w' = w_stored w @ sent" "set sent \<subseteq> message_of ` set ?rows"
      unfolding relay_outcome_def by blast
    moreover have "set ?rows \<subseteq> set (outbox w)" using due_events_facts(1) [OF assms] by blast
    ultimately show thesis using run 2
      by (intro rolled_back [of "tick (w_db w')" sent]) (auto simp: relay_poll_def)
  qed (use run out' in \<open>auto intro!: committed simp: relay_poll_def\<close>)
qed

text \<open>The invariant of the relay: what is marked published was stored by the broker, and nothing else was sent.\<close>

definition relay_ok :: "relay_world \<Rightarrow> bool" where
  "relay_ok w \<longleftrightarrow> keys_distinct o_id (outbox w)
     \<and> (\<forall>r \<in> set (outbox w). o_published_at r \<noteq> None \<longrightarrow> message_of r \<in> set (w_stored w))
     \<and> set (w_stored w) \<subseteq> message_of ` set (outbox w)"

lemma relay_outcome_keeps:
  assumes "relay_outcome max_attempts now rows result w w'" "set rows \<subseteq> set (outbox w)" "relay_ok w"
  shows "relay_ok w'"
proof -
  let ?f = "\<lambda>r. if o_id r \<in> o_id ` set rows then relayed_row now (result (o_id r)) r else r"
  from assms(1) obtain sent where
    out: "outbox w' = map ?f (outbox w)" and st: "w_stored w' = w_stored w @ sent"
    and sent: "set sent \<subseteq> message_of ` set rows" "\<forall>r \<in> set rows. result (o_id r) = None \<longrightarrow> message_of r \<in> set sent"
    unfolding relay_outcome_def by blast
  have same: "message_of (?f r) = message_of r" "o_id (?f r) = o_id r" for r by simp_all
  have msgs: "message_of ` set (outbox w') = message_of ` set (outbox w)"
    unfolding out set_map image_image same(1) ..
  have "map o_id (outbox w') = map o_id (outbox w)" unfolding out map_map o_def same(2) ..
  then have keys: "keys_distinct o_id (outbox w')" using assms(3) by (simp add: relay_ok_def)
  have "message_of r' \<in> set (w_stored w')" if "r' \<in> set (outbox w')" "o_published_at r' \<noteq> None" for r'
  proof -
    from that(1) obtain r where r: "r \<in> set (outbox w)" "r' = ?f r" unfolding out by auto
    show ?thesis
    proof (cases "o_id r \<in> o_id ` set rows \<and> result (o_id r) = None")
      case True
      then obtain row where "row \<in> set rows" "o_id r = o_id row" by blast
      moreover from this assms(2,3) r(1) have "row = r"
        using keys_distinct_eq [of o_id "outbox w" row r] by (auto simp: relay_ok_def)
      ultimately show ?thesis using True sent(2) r(2) st same(1) by auto
    next
      case False
      then have "o_published_at r \<noteq> None" using that(2) r(2)
        by (auto simp: relayed_row_def split: if_splits option.splits)
      with assms(3) r st same(1) show ?thesis by (auto simp: relay_ok_def)
    qed
  qed
  moreover have "set (w_stored w') \<subseteq> message_of ` set (outbox w')"
    unfolding msgs st using sent(1) assms(2,3) by (auto simp: relay_ok_def)
  ultimately show ?thesis using keys by (simp add: relay_ok_def)
qed

lemma relay_poll_keeps:
  assumes "relay_ok w"
  shows "relay_ok (relay_poll E broker batch_size max_attempts fault w)"
proof -
  have keys: "keys_distinct o_id (outbox w)" using assms by (simp add: relay_ok_def)
  show ?thesis
    using keys
  proof (cases rule: relay_poll_cases [where max_attempts = max_attempts and E = E and batch_size = batch_size
        and broker = broker and fault = fault])
    case (committed result)
    have "set (due_events batch_size (db_clock E (tick (w_db w))) (outbox w)) \<subseteq> set (outbox w)"
      using due_events_facts(1) [OF keys] by blast
    then show ?thesis by (rule relay_outcome_keeps [OF committed _ assms])
  next
    case (rolled_back sent n)
    with assms show ?thesis by (auto simp: relay_ok_def)
  qed
qed

text \<open>
  C27: at-least-once publication.  Whatever the broker answers and whatever the database does to the
  commit, an iteration of the relay keeps: an event marked published has been stored by the broker, and
  every message the broker holds is the envelope of an event of the outbox.  An event is neither lost by
  a crash between publishing and committing nor invented.
\<close>

theorem relay_at_least_once:
  assumes "relay_ok w"
  shows "relay_ok (relay_poll E broker batch_size max_attempts fault w)"
  using assms by (rule relay_poll_keeps)

definition demo_event :: "string \<Rightarrow> outbox_row" where
  "demo_event i = \<lparr>o_id = i, o_aggregate_type = ''transfer'', o_aggregate_id = ''T'',
     o_event_type = ''financial.transfer.succeeded.v1'', o_payload = [(''amountMinor'', JInt 2500)], o_trace_id = None,
     o_schema_version = 1, o_occurred_at = 0, o_published_at = None, o_attempt_count = 0, o_next_attempt_at = None,
     o_last_error = None, o_dead_lettered_at = None\<rparr>"

definition demo_relay :: relay_world where
  "demo_relay = \<lparr>w_db = demo_db\<lparr>outbox_events := [demo_event ''E1'', demo_event ''E2'']\<rparr>, w_stored = [], w_tries = 0\<rparr>"

lemma demo_relay_ok: "relay_ok demo_relay"
  by (simp add: relay_ok_def demo_relay_def demo_event_def)

theorem relay_at_least_once_witness:
  "relay_ok (relay_poll demo_env (\<lambda>n. if n = 0 then Confirmed else Unconfirmed ''reset'') 100 8
     (Some (Aborted ''08006'')) demo_relay)"
  using demo_relay_ok by (rule relay_at_least_once)

subsection \<open>The outbox drains\<close>

definition publish_attempts_left :: "nat \<Rightarrow> outbox_row \<Rightarrow> nat" where
  "publish_attempts_left max_attempts r =
     (if o_published_at r = None \<and> o_dead_lettered_at r = None
      then Suc (max_attempts - 1 - nat (o_attempt_count r)) else 0)"

lemma relayed_row_closer:
  assumes "o_published_at r = None" "o_dead_lettered_at r = None" "relay_result_ok max_attempts r res"
  shows "publish_attempts_left max_attempts (relayed_row now res r) < publish_attempts_left max_attempts r"
  using assms
  by (auto simp: relayed_row_def relay_result_ok_def publish_attempts_left_def split: option.splits)

lemma due_events_nonempty:
  assumes "r \<in> set rs" "o_published_at r = None" "o_dead_lettered_at r = None"
    "case o_next_attempt_at r of None \<Rightarrow> True | Some at \<Rightarrow> at \<le> now" "0 < n"
  shows "due_events n now rs \<noteq> []"
proof -
  let ?l = "sql_order_by o_occurred_at (filter (\<lambda>r. o_published_at r = None \<and> o_dead_lettered_at r = None
                \<and> (case o_next_attempt_at r of None \<Rightarrow> True | Some at \<Rightarrow> at \<le> now)) rs)"
  have "r \<in> set ?l" using assms by simp
  then have "?l \<noteq> []" by (cases ?l) simp_all
  with assms(5) show ?thesis by (simp add: due_events_def)
qed

lemma relay_poll_effect:
  fixes E :: env and broker :: "nat \<Rightarrow> publish_outcome" and batch_size max_attempts :: nat
  assumes keys: "keys_distinct o_id (outbox w)"
  defines "due \<equiv> due_events batch_size (db_clock E (tick (w_db w))) (outbox w)"
    and "w' \<equiv> relay_poll E broker batch_size max_attempts None w"
  shows "keys_distinct o_id (outbox w')"
    and "due = [] \<Longrightarrow> outbox w' = outbox w \<and> tick (w_db w') = Suc (tick (w_db w))"
    and "due \<noteq> [] \<Longrightarrow> sum_list (map (publish_attempts_left max_attempts) (outbox w'))
           < sum_list (map (publish_attempts_left max_attempts) (outbox w))"
proof -
  note facts = due_events_facts [OF keys, of batch_size "db_clock E (tick (w_db w))"]
  obtain result where "relay_outcome max_attempts (db_clock E (tick (w_db w))) due result w w'"
    using relay_poll_cases [OF keys, of max_attempts E batch_size broker None] unfolding due_def w'_def by blast
  then have res: "\<forall>r \<in> set due. relay_result_ok max_attempts r (result (o_id r))"
    and out: "outbox w' = map (\<lambda>r. if o_id r \<in> o_id ` set due
        then relayed_row (db_clock E (tick (w_db w))) (result (o_id r)) r else r) (outbox w)"
    unfolding relay_outcome_def by blast+
  have "map o_id (outbox w') = map o_id (outbox w)" unfolding out by simp
  with keys show "keys_distinct o_id (outbox w')" by simp
  show "outbox w' = outbox w \<and> tick (w_db w') = Suc (tick (w_db w))" if "due = []"
  proof -
    have "process_batch E broker batch_size max_attempts (w\<lparr>w_db := begin_txn E (w_db w)\<rparr>)
        = publish_rows E broker max_attempts due (w\<lparr>w_db := begin_txn E (w_db w)\<rparr>)"
      by (simp add: process_batch_def claim_batch_app tx_bind_app on_db_app due_def begin_txn_def)
    with that show ?thesis by (simp add: w'_def relay_poll_def tx_run begin_txn_def)
  qed
  assume "due \<noteq> []"
  then obtain r where r: "r \<in> set due" by (cases due) auto
  have mine: "x \<in> set due" if "x \<in> set (outbox w)" "o_id x \<in> o_id ` set due" for x
  proof -
    from that(2) obtain y where y: "y \<in> set due" "o_id x = o_id y" by blast
    with facts(1) have "y \<in> set (outbox w)" unfolding due_def by blast
    with that(1) y keys_distinct_eq [OF keys, of x y] show ?thesis by simp
  qed
  have closer: "publish_attempts_left max_attempts (relayed_row (db_clock E (tick (w_db w))) (result (o_id x)) x)
      < publish_attempts_left max_attempts x" if "x \<in> set due" for x
    using that facts(1) res unfolding due_def by (intro relayed_row_closer) auto
  show "sum_list (map (publish_attempts_left max_attempts) (outbox w'))
           < sum_list (map (publish_attempts_left max_attempts) (outbox w))"
    unfolding out map_map o_def
  proof (rule sum_list_map_less [where x = r])
    show "r \<in> set (outbox w)" using r facts(1) unfolding due_def by blast
    show "publish_attempts_left max_attempts (if o_id x \<in> o_id ` set due
        then relayed_row (db_clock E (tick (w_db w))) (result (o_id x)) x else x) \<le> publish_attempts_left max_attempts x"
      if "x \<in> set (outbox w)" for x
      using closer mine [OF that] by (simp add: less_imp_le)
    show "publish_attempts_left max_attempts (if o_id r \<in> o_id ` set due
        then relayed_row (db_clock E (tick (w_db w))) (result (o_id r)) r else r) < publish_attempts_left max_attempts r"
      using closer [OF r] r by simp
  qed
qed

interpretation relay: draining "relay_poll E broker batch_size max_attempts None"
  "\<lambda>w. keys_distinct o_id (outbox w) \<and> clock_advances E \<and> 0 < batch_size" "\<lambda>w. outbox w" "\<lambda>w. tick (w_db w)"
  "\<lambda>w. due_events batch_size (db_clock E (tick (w_db w))) (outbox w) \<noteq> []"
  "\<lambda>rs. sum_list (map (publish_attempts_left max_attempts) rs)"
  "\<lambda>rs. \<exists>r \<in> set rs. o_published_at r = None \<and> o_dead_lettered_at r = None"
  for E broker batch_size max_attempts
proof
  fix w
  assume inv: "keys_distinct o_id (outbox w) \<and> clock_advances E \<and> 0 < batch_size"
  note eff = relay_poll_effect [OF conjunct1 [OF inv], where E = E and broker = broker and batch_size = batch_size
      and max_attempts = max_attempts]
  let ?w = "relay_poll E broker batch_size max_attempts None w"
  from eff(1) inv show "keys_distinct o_id (outbox ?w) \<and> clock_advances E \<and> 0 < batch_size" by simp
  show "outbox ?w = outbox w \<and> tick (w_db ?w) = Suc (tick (w_db w))"
    if "\<not> due_events batch_size (db_clock E (tick (w_db w))) (outbox w) \<noteq> []"
    using eff(2) that by simp
  show "sum_list (map (publish_attempts_left max_attempts) (outbox ?w))
      < sum_list (map (publish_attempts_left max_attempts) (outbox w))"
    if "due_events batch_size (db_clock E (tick (w_db w))) (outbox w) \<noteq> []"
    using eff(3) that by simp
  assume "\<exists>r \<in> set (outbox w). o_published_at r = None \<and> o_dead_lettered_at r = None"
  then obtain r where r: "r \<in> set (outbox w)" "o_published_at r = None" "o_dead_lettered_at r = None" by blast
  from inv obtain N where N: "\<forall>n \<ge> N. (case o_next_attempt_at r of None \<Rightarrow> 0 | Some at \<Rightarrow> at) \<le> db_clock E n"
    by (auto simp: clock_advances_def)
  show "\<exists>N. \<forall>t. outbox t = outbox w \<longrightarrow> N \<le> tick (w_db t)
      \<longrightarrow> due_events batch_size (db_clock E (tick (w_db t))) (outbox t) \<noteq> []"
    using r inv N by (intro exI [of _ N] allI impI due_events_nonempty [of r]) (auto split: option.splits)
qed

text \<open>
  Every event leaves the outbox.  Whatever the broker does, if the database clock keeps
  advancing, a relay that keeps polling reaches a state in which each event is either published or,
  after \<open>outbox_max_attempts\<close> failures, dead-lettered.
\<close>

lemma relay_drains:
  assumes "clock_advances E" "0 < batch_size" "keys_distinct o_id (outbox_events (w_db w))"
  shows "\<exists>n. \<forall>r \<in> set (outbox_events (w_db ((relay_poll E broker batch_size max_attempts None ^^ n) w))).
    o_published_at r \<noteq> None \<or> o_dead_lettered_at r \<noteq> None"
proof -
  from relay.drains [of w E batch_size broker max_attempts] assms obtain n where
    "\<not> (\<exists>r \<in> set (outbox ((relay_poll E broker batch_size max_attempts None ^^ n) w)).
        o_published_at r = None \<and> o_dead_lettered_at r = None)" by blast
  then show ?thesis by (intro exI [of _ n]) auto
qed


section \<open>Notifications\<close>

definition inbox_ids :: "db \<Rightarrow> string set" where
  "inbox_ids s = n_event_id ` {n \<in> set (consumer_inbox s). n_consumer n = CONSUMER_NAME}"

text \<open>A message the consumer can turn into a notification, and the event it is about.\<close>

definition amount_ok :: "dict \<Rightarrow> bool" where
  "amount_ok payload = (case dict_get payload ''amountMinor'' of
     None \<Rightarrow> True | Some (JInt n) \<Rightarrow> True | Some (JBool b) \<Rightarrow> True | Some _ \<Rightarrow> False)"

definition message_id :: "dict \<Rightarrow> string" where
  "message_id m = (case envelope_event_id m of Inr (Some i) \<Rightarrow> i | _ \<Rightarrow> [])"

definition readable :: "dict \<Rightarrow> bool" where
  "readable m = ((case envelope_event_id m of Inr (Some i) \<Rightarrow> True | _ \<Rightarrow> False)
     \<and> (case envelope_payload m of Inr p \<Rightarrow> amount_ok p | _ \<Rightarrow> False))"

lemma describe_event_ok: "amount_ok p \<Longrightarrow> \<exists>d. describe_event ty p = Inr d"
  unfolding amount_ok_def describe_event_def by (auto split: option.splits json.splits)

lemma readable_describe:
  assumes "readable m"
  obtains d where "envelope_event_id m = Inr (Some (message_id m))"
    "chk_bind (envelope_payload m) (describe_event (envelope_event_type m)) = Inr d"
proof -
  from assms have "envelope_event_id m = Inr (Some (message_id m))"
    by (auto simp: readable_def message_id_def split: sum.splits option.splits)
  moreover from assms obtain p where "envelope_payload m = Inr p" "amount_ok p"
    by (auto simp: readable_def split: sum.splits)
  ultimately show thesis using describe_event_ok [of p "envelope_event_type m"] that by auto
qed

lemma inbox_ids_append:
  "inbox_ids (s\<lparr>consumer_inbox := consumer_inbox s @ [n]\<rparr>)
   = (if n_consumer n = CONSUMER_NAME then insert (n_event_id n) (inbox_ids s) else inbox_ids s)"
  by (auto simp: inbox_ids_def)

lemma claim_event_app:
  "claim_event (Some i) s =
     (if i \<in> inbox_ids s then (Inr False, s)
      else (Inr True, s\<lparr>consumer_inbox := consumer_inbox s @
              [\<lparr>n_consumer = CONSUMER_NAME, n_event_id = i, n_processed_at = txn_now s\<rparr>]\<rparr>))"
proof -
  have "(\<forall>n \<in> set (consumer_inbox s). n_consumer n = CONSUMER_NAME \<longrightarrow> n_event_id n \<noteq> i) \<longleftrightarrow> i \<notin> inbox_ids s"
    by (auto simp: inbox_ids_def)
  then show ?thesis
    by (auto simp: claim_event_def tx_catch_def tx_bind_app require_constraints_def tx_run)
qed

lemma consume_effect:
  assumes "readable m"
  obtains (duplicate) "message_id m \<in> inbox_ids (c_db w)" "consume E m None w = w\<lparr>c_db := begin_txn E (c_db w)\<rparr>"
  | (fresh) d t where "message_id m \<notin> inbox_ids (c_db w)"
      "consume E m None w = w\<lparr>c_db := t, c_notified := c_notified w @ [(message_id m, d)]\<rparr>"
      "inbox_ids t = insert (message_id m) (inbox_ids (c_db w))"
proof -
  obtain d where m: "envelope_event_id m = Inr (Some (message_id m))"
    "chk_bind (envelope_payload m) (describe_event (envelope_event_type m)) = Inr d"
    using assms by (rule readable_describe)
  let ?s = "begin_txn E (c_db w)"
  have ids: "inbox_ids ?s = inbox_ids (c_db w)" by (simp add: inbox_ids_def begin_txn_def)
  show thesis
  proof (cases "message_id m \<in> inbox_ids (c_db w)")
    case True
    then have "handle_message m ?s = (Inr None, ?s)"
      by (simp add: handle_message_def tx_bind_app tx_run m claim_event_app ids)
    with True show thesis by (intro duplicate) (simp_all add: consume_def transaction_def)
  next
    case False
    let ?t = "?s\<lparr>consumer_inbox := consumer_inbox ?s @
        [\<lparr>n_consumer = CONSUMER_NAME, n_event_id = message_id m, n_processed_at = txn_now ?s\<rparr>]\<rparr>"
    have "handle_message m ?s = (Inr (Some (message_id m, d)), ?t)"
      using False by (simp add: handle_message_def tx_bind_app tx_run m claim_event_app ids)
    moreover have "inbox_ids ?t = insert (message_id m) (inbox_ids (c_db w))"
      by (simp add: inbox_ids_append ids)
    ultimately show thesis using False
      by (intro fresh [of d ?t]) (simp_all add: consume_def transaction_def)
  qed
qed

lemma count_list_distinct: "distinct xs \<Longrightarrow> x \<in> set xs \<Longrightarrow> count_list xs x = 1"
  by (induction xs) (auto simp: count_notin)

lemma consume_all_effect:
  assumes "list_all readable ms"
  shows "\<exists>new. c_notified (consume_all E ms w) = c_notified w @ new
    \<and> distinct (map fst new) \<and> set (map fst new) = message_id ` set ms - inbox_ids (c_db w)
    \<and> c_dead_letters (consume_all E ms w) = c_dead_letters w"
  using assms
proof (induction ms arbitrary: w)
  case (Cons m ms)
  from Cons.prems have m: "readable m" and ms: "list_all readable ms" by simp_all
  from m show ?case
  proof (cases rule: consume_effect [where E = E and w = w])
    case duplicate
    have "inbox_ids (begin_txn E (c_db w)) = inbox_ids (c_db w)" by (simp add: inbox_ids_def begin_txn_def)
    with Cons.IH [OF ms, of "consume E m None w"] duplicate show ?thesis by auto
  next
    case (fresh d t)
    from Cons.IH [OF ms, of "consume E m None w"] obtain new where
      new: "c_notified (consume_all E (m # ms) w) = c_notified w @ (message_id m, d) # new"
      "distinct (map fst new)" "set (map fst new) = message_id ` set ms - insert (message_id m) (inbox_ids (c_db w))"
      "c_dead_letters (consume_all E (m # ms) w) = c_dead_letters w"
      unfolding fresh(2) by (auto simp: fresh(2,3))
    then show ?thesis using fresh(1) by (intro exI [of _ "(message_id m, d) # new"]) auto
  qed
qed simp



end
