(* ===== verification/System.thy ===== *)
theory System
  imports Api_Props Messaging
begin

text \<open>
  The deployed system: API replicas, scheduler worker, outbox relay and notification consumer, all
  working on one database, with the broker and the rate limiter's store beside it.  A step is one
  request or one iteration of a worker; any interleaving of them is a run.
\<close>

section \<open>Runs\<close>

record 'r system =
  sy_db :: db
  sy_redis :: 'r
  sy_stored :: "(string \<times> dict) list"
  sy_tries :: nat
  sy_notified :: "(string \<times> notification) list"
  sy_dead_letters :: "dict list"

abbreviation relay_view :: "'r system \<Rightarrow> relay_world" where
  "relay_view w \<equiv> \<lparr>w_db = sy_db w, w_stored = sy_stored w, w_tries = sy_tries w\<rparr>"

abbreviation consumer_view :: "'r system \<Rightarrow> consumer_world" where
  "consumer_view w \<equiv> \<lparr>c_db = sy_db w, c_notified = sy_notified w, c_dead_letters = sy_dead_letters w\<rparr>"

text \<open>
  The broker redelivers what it stored as often as it likes.  Configuration, faults, the broker's
  answers and the clients' requests are arbitrary in every step.
\<close>

inductive system_step :: "'r redis_server \<Rightarrow> env \<Rightarrow> 'r system \<Rightarrow> 'r system \<Rightarrow> bool" for R E where
  request: "dispatch R reachable E fs q call (sy_db w, sy_redis w) = (r, t, st)
    \<Longrightarrow> system_step R E w (w\<lparr>sy_db := t, sy_redis := st\<rparr>)"
| scheduled: "system_step R E w (w\<lparr>sy_db := poll E describe fault (sy_db w)\<rparr>)"
| relayed: "relay_poll E broker batch_size max_attempts fault (relay_view w) = v
    \<Longrightarrow> system_step R E w (w\<lparr>sy_db := w_db v, sy_stored := w_stored v, sy_tries := w_tries v\<rparr>)"
| delivered: "(key, envelope) \<in> set (sy_stored w) \<Longrightarrow> consume E envelope fault (consumer_view w) = v
    \<Longrightarrow> system_step R E w (w\<lparr>sy_db := c_db v, sy_notified := c_notified v, sy_dead_letters := c_dead_letters v\<rparr>)"

abbreviation system_run :: "'r redis_server \<Rightarrow> env \<Rightarrow> 'r system \<Rightarrow> 'r system \<Rightarrow> bool" where
  "system_run R E \<equiv> (system_step R E)\<^sup>*\<^sup>*"


section \<open>What a step does to the database\<close>

text \<open>The tables the relay does not write.\<close>

definition settled_of where
  "settled_of s = (books_of s, audit_logs s, idempotency_records s, lifecycle_of s)"

lemma settled_of_ignores [simp]:
  "settled_of (s\<lparr>tick := n\<rparr>) = settled_of s" "settled_of (s\<lparr>outbox_events := x\<rparr>) = settled_of s"
  "settled_of (s\<lparr>txn_now := y\<rparr>) = settled_of s"
  by (simp_all add: settled_of_def books_of_def)

lemma frame_on_db: "tx_frame v m \<Longrightarrow> tx_frame (v \<circ> w_db) (on_db m)"
  by (auto simp: tx_frame_def on_db_app split: prod.splits) (metis snd_conv)

lemma frame_broker: "tx_frame (v \<circ> w_db) (broker_publish broker key envelope)"
  by (auto simp: tx_frame_def broker_publish_def Let_def split: publish_outcome.splits)

lemma frame_process_batch: "tx_frame (settled_of \<circ> w_db) (process_batch E broker n m)"
proof -
  have "tx_frame settled_of (record_publish_failure E row err m)" "tx_frame settled_of (mark_published i)" for row err i
    unfolding record_publish_failure_def mark_published_def Let_def clock_now_def
    by (auto intro!: tx_frame_bind tx_frame_basic tx_frame_modify tx_frame_tick)
  then have "tx_frame (settled_of \<circ> w_db) (publish_row E broker m row)" for row
    unfolding publish_row_def
    by (auto intro!: tx_frame_bind tx_frame_basic frame_broker frame_on_db split: option.splits)
  then have "tx_frame (settled_of \<circ> w_db) (publish_rows E broker m rows)" for rows
    by (induction rows) (auto intro!: tx_frame_bind tx_frame_basic)
  then show ?thesis
    unfolding process_batch_def claim_batch_def by (intro tx_frame_bind frame_on_db tx_frame_basic)
qed

lemma relay_poll_settled: "settled_of (w_db (relay_poll E broker n m fault w)) = settled_of (w_db w)"
proof -
  obtain r w' where run: "process_batch E broker n m (w\<lparr>w_db := begin_txn E (w_db w)\<rparr>) = (r, w')"
    by (cases "process_batch E broker n m (w\<lparr>w_db := begin_txn E (w_db w)\<rparr>)")
  from tx_frameD [OF frame_process_batch run] have "settled_of (w_db w') = settled_of (w_db w)"
    by (simp add: begin_txn_def)
  with run show ?thesis by (auto simp: relay_poll_def Let_def split: sum.splits option.splits fault.splits)
qed

lemma consumer_frames:
  assumes "\<And>s x. v (s\<lparr>consumer_inbox := x\<rparr>) = v s"
  shows "tx_frame v (handle_message m)"
proof -
  have "tx_frame v (claim_event i)" for i
    by (auto simp: tx_frame_def claim_event_def tx_catch_def tx_bind_app require_constraints_def tx_run assms
        split: option.splits)
  then show ?thesis unfolding handle_message_def by (auto intro!: tx_frame_bind tx_frame_basic)
qed

text \<open>
  The relation every step respects: both invariants are kept, rows only move along their state
  machines, and history grows at its end.
\<close>

definition durable :: "db \<Rightarrow> db \<Rightarrow> bool" where
  "durable s t \<longleftrightarrow> (books_ok s \<longrightarrow> books_ok t) \<and> progresses s t
     \<and> prefix (ledger_entries s) (ledger_entries t) \<and> prefix (ledger_transactions s) (ledger_transactions t)
     \<and> prefix (audit_logs s) (audit_logs t)
     \<and> prefix (map transfer_core (transfers s)) (map transfer_core (transfers t))
     \<and> prefix (map account_core (accounts s)) (map account_core (accounts t))"

lemma durable_settled: "settled_of s = settled_of t \<Longrightarrow> durable s t"
  using progresses_same [of s t] by (auto simp: durable_def settled_of_def books_ok_def books_of_def)

lemma durable_evolves: "evolves s t \<Longrightarrow> progresses s t \<Longrightarrow> durable s t"
  by (auto simp: durable_def evolves_def)

interpretation durability: session_preorder durable
  by unfold_locales (auto simp: durable_def prog.R_refl intro: prog.R_trans prefix_order.trans)

text \<open>The four kinds of step: what the database, the broker and the outbox see of each.\<close>

lemma poll_rel: "evolves s (poll E describe fault s)" "progresses s (poll E describe fault s)"
  unfolding poll_def
  by (rule committed.transaction_rel [OF worker_evolves]) (rule committed_progress.transaction_rel [OF worker_progresses])

lemma consume_rel: "evolves (c_db w) (c_db (consume E m fault w))" "progresses (c_db w) (c_db (consume E m fault w))"
proof -
  have ev: "tx_rel evolves (handle_message m)" by (intro evolves_frame consumer_frames) simp
  have pr: "tx_rel progresses (handle_message m)" by (intro progresses_frame consumer_frames) simp
  show "evolves (c_db w) (c_db (consume E m fault w))"
    using committed.transaction_rel [OF ev, of "c_db w" E fault] by (auto simp: consume_def Let_def split: prod.splits)
  show "progresses (c_db w) (c_db (consume E m fault w))"
    using committed_progress.transaction_rel [OF pr, of "c_db w" E fault] by (auto simp: consume_def Let_def split: prod.splits)
qed

lemma system_step_durable: "system_step R E w w' \<Longrightarrow> durable (sy_db w) (sy_db w')"
proof (induction rule: system_step.induct)
  case (request reachable fs q call w r t st)
  from api_books.dispatch_keeps [OF request] api_progress.dispatch_keeps [OF request] show ?case
    by (simp add: durable_evolves)
next
  case (scheduled w describe fault)
  from poll_rel [of "sy_db w" E describe fault] show ?case by (simp add: durable_evolves)
next
  case (relayed broker n m fault w v)
  from relay_poll_settled [of E broker n m fault "relay_view w"] relayed show ?case by (auto intro!: durable_settled)
next
  case (delivered key envelope w fault v)
  from consume_rel [of "consumer_view w" E envelope fault] delivered(2) show ?case by (auto intro: durable_evolves)
qed

lemma system_run_durable: "system_run R E w w' \<Longrightarrow> durable (sy_db w) (sy_db w')"
  by (induction rule: rtranclp_induct)
     (auto intro: durability.R_refl durability.R_trans system_step_durable)

text \<open>
  C2: no interleaving breaks the books.  Starting from a database that satisfies the accounting
  invariant and the row constraints, after any sequence of API calls and worker iterations, with any
  retries, faults, broker answers and redeliveries, the integrity report comes out balanced.
\<close>

theorem system_always_balanced:
  assumes "system_run R E w w'" "books_ok (sy_db w)" "rows_ok (sy_db w)"
  shows "\<exists>r. reconcile d (sy_db w') = (Inr r, sy_db w') \<and> is_balanced r"
proof -
  from system_run_durable [OF assms(1)] assms(2,3) have "books_ok (sy_db w')" "rows_ok (sy_db w')"
    by (auto simp: durable_def progresses_def)
  then show ?thesis by (rule reconcile_balanced)
qed

text \<open>A deployment around a database, and a run: a failed login, then a poll of the scheduler.\<close>

definition demo_system :: "db \<Rightarrow> (string \<Rightarrow> int) system" where
  "demo_system s = \<lparr>sy_db = s, sy_redis = (\<lambda>k. 0), sy_stored = [], sy_tries = 0, sy_notified = [], sy_dead_letters = []\<rparr>"

lemma demo_run:
  "\<exists>w'. system_run demo_redis demo_env (demo_system s) w' \<and> sy_redis w' ''ratelimit:login:ip:10.0.0.1'' = 1"
proof -
  let ?w = "demo_system s"
  let ?call = "AuthCall (Login ''01711111111'' ''wrong'')"
  obtain r t st where run: "dispatch demo_redis True demo_env (\<lambda>k. None) demo_anonymous ?call (sy_db ?w, sy_redis ?w) = (r, t, st)"
    by (metis prod_cases3)
  have "snd (snd (dispatch demo_redis True demo_env (\<lambda>k. None) demo_anonymous ?call (sy_db ?w, sy_redis ?w)))
      ''ratelimit:login:ip:10.0.0.1'' = 1"
    by (simp add: dispatch_def rate_limit_def rate_policy_def auth_policy_def rate_check_def POLICIES_def fixed_window_def
        demo_redis_def rate_key_def rate_identifier_def client_ip_def demo_anonymous_def demo_system_def str_lower_def Let_def split: prod.splits)
  with run have st: "st ''ratelimit:login:ip:10.0.0.1'' = 1" by simp
  have "system_step demo_redis demo_env ?w (?w\<lparr>sy_db := t, sy_redis := st\<rparr>)" using run by (rule system_step.request)
  then have "system_run demo_redis demo_env ?w
      (?w\<lparr>sy_db := t, sy_redis := st\<rparr>\<lparr>sy_db := poll demo_env (\<lambda>e. ''error'') None (sy_db (?w\<lparr>sy_db := t, sy_redis := st\<rparr>))\<rparr>)"
    by (rule converse_rtranclp_into_rtranclp) (rule r_into_rtranclp, rule system_step.scheduled)
  moreover have "sy_redis (w\<lparr>sy_db := x, sy_redis := st\<rparr>\<lparr>sy_db := y\<rparr>) = st" for w :: "(string \<Rightarrow> int) system" and x y
    by (cases w) simp
  ultimately show ?thesis using st by metis
qed

theorem system_always_balanced_witness:
  "\<exists>w' r. system_run demo_redis demo_env (demo_system demo_db) w' \<and> sy_redis w' ''ratelimit:login:ip:10.0.0.1'' = 1
     \<and> reconcile True (sy_db w') = (Inr r, sy_db w') \<and> is_balanced r"
proof -
  obtain w' where run: "system_run demo_redis demo_env (demo_system demo_db) w'" "sy_redis w' ''ratelimit:login:ip:10.0.0.1'' = 1"
    using demo_run by blast
  from system_always_balanced [OF run(1), of True] demo_invariants run show ?thesis by (auto simp: demo_system_def)
qed

text \<open>
  C10: history is append-only.  No run changes or removes a ledger entry, a ledger transaction or an
  audit record, nor the parties, the amount, the kind or the reference of a transfer, nor the owner,
  the type or the currency of an account; it only adds to them.
\<close>

theorem system_history_append_only:
  assumes "system_run R E w w'"
  shows "prefix (ledger_entries (sy_db w)) (ledger_entries (sy_db w'))
    \<and> prefix (ledger_transactions (sy_db w)) (ledger_transactions (sy_db w'))
    \<and> prefix (audit_logs (sy_db w)) (audit_logs (sy_db w'))
    \<and> prefix (map transfer_core (transfers (sy_db w))) (map transfer_core (transfers (sy_db w')))
    \<and> prefix (map account_core (accounts (sy_db w))) (map account_core (accounts (sy_db w')))"
  using system_run_durable [OF assms] by (auto simp: durable_def)

theorem system_history_append_only_witness:
  "\<exists>w'. system_run demo_redis demo_env (demo_system demo_history) w'
     \<and> prefix [demo_entry ''E1'' ''L1'' 10000 10000, demo_entry ''E2'' ''L1'' (-2500) 7500] (ledger_entries (sy_db w'))"
proof -
  obtain w' where run: "system_run demo_redis demo_env (demo_system demo_history) w'" using demo_run by blast
  from system_history_append_only [OF run] run show ?thesis by (auto simp: demo_system_def demo_history_def)
qed


section \<open>State machines\<close>

lemma run_lookup:
  assumes "table_grows step xs ys" "keys_distinct k ys" "\<And>x y. step x y \<Longrightarrow> k x = k y" "sql_get k i xs = Some x"
  shows "\<exists>y. sql_get k i ys = Some y \<and> step x y"
proof -
  from assms(4) have x: "x \<in> set xs" "k x = i" by (simp_all add: sql_get_Some [OF assms(4)])
  from table_grows_lookup [OF assms(1) x(1)] obtain y where y: "y \<in> set ys" "step x y" ..
  with sql_get_unique [OF assms(2) y(1)] assms(3) x(2) show ?thesis by auto
qed

lemma column_uniqueD:
  assumes "column_unique k v t" "r \<in> set t" "r' \<in> set t" "v r \<noteq> None" "v r = v r'"
  shows "k r = k r'"
proof -
  from assms(4) obtain x where "v r = Some x" by blast
  with assms(5) have "v r' = Some x" by simp
  with \<open>v r = Some x\<close> assms(2,3) have "(k r, Some x) \<in> set (map (\<lambda>r. (k r, v r)) t)"
    "(k r', Some x) \<in> set (map (\<lambda>r. (k r, v r)) t)" by force+
  with assms(1) show ?thesis unfolding column_unique_def by blast
qed

lemma moves_keys:
  "transfer_moves a b \<Longrightarrow> t_id a = t_id b" "request_moves m n \<Longrightarrow> m_id m = m_id n"
  "escrow_moves e f \<Longrightarrow> e_id e = e_id f" "loan_moves l k \<Longrightarrow> l_id l = l_id k"
  by (simp_all add: transfer_moves_def transfer_core_def request_moves_def request_core_def escrow_moves_def
      escrow_core_def loan_moves_def loan_core_def)

lemma movesD:
  assumes "moves s t"
  shows "table_grows transfer_moves (transfers s) (transfers t)"
    "table_grows request_moves (money_requests s) (money_requests t)"
    "table_grows escrow_moves (safepay_escrows s) (safepay_escrows t)"
    "table_grows loan_moves (overdraft_loans s) (overdraft_loans t)"
  using assms by (simp_all add: moves_def)

lemma run_moves:
  assumes "system_run R E w w'" "rows_ok (sy_db w)"
  shows "rows_ok (sy_db w')" "moves (sy_db w) (sy_db w')"
  using system_run_durable [OF assms(1)] assms(2) by (auto simp: durable_def progresses_def)

text \<open>
  C11: a money request is decided once.  Once it is accepted, rejected, cancelled or expired, no run
  changes its row again; it refers to a transfer exactly when it was accepted, and no two requests
  refer to the same transfer.
\<close>

theorem request_decided_once:
  assumes "system_run R E w w'" "rows_ok (sy_db w)" "sql_get m_id i (money_requests (sy_db w)) = Some m"
  shows "(m_status m \<noteq> ReqPending \<longrightarrow> sql_get m_id i (money_requests (sy_db w')) = Some m)
    \<and> (\<forall>r \<in> set (money_requests (sy_db w')). m_status r = ReqAccepted \<longleftrightarrow> m_transfer_id r \<noteq> None)
    \<and> (\<forall>r \<in> set (money_requests (sy_db w')). \<forall>r' \<in> set (money_requests (sy_db w')).
         m_transfer_id r \<noteq> None \<and> m_transfer_id r = m_transfer_id r' \<longrightarrow> r = r')"
proof -
  note after = run_moves [OF assms(1,2)]
  have keys: "keys_distinct m_id (money_requests (sy_db w'))" and col: "column_unique m_id m_transfer_id (money_requests (sy_db w'))"
    and rows: "\<forall>r \<in> set (money_requests (sy_db w')). list_all snd (request_row_ok r)"
    using after(1) by (simp_all add: rows_ok_def requests_ok_def)
  have "\<exists>y. sql_get m_id i (money_requests (sy_db w')) = Some y \<and> request_moves m y"
    by (rule run_lookup [OF movesD(2) [OF after(2)] keys moves_keys(2) assms(3)])
  then have "m_status m \<noteq> ReqPending \<longrightarrow> sql_get m_id i (money_requests (sy_db w')) = Some m"
    by (auto simp: request_moves_def)
  moreover have "m_status r = ReqAccepted \<longleftrightarrow> m_transfer_id r \<noteq> None" if "r \<in> set (money_requests (sy_db w'))" for r
    using rows that by (auto simp: request_row_ok_def)
  moreover have "r = r'" if "r \<in> set (money_requests (sy_db w'))" "r' \<in> set (money_requests (sy_db w'))"
    "m_transfer_id r \<noteq> None" "m_transfer_id r = m_transfer_id r'" for r r'
  proof -
    from that have "m_id r = m_id r'" using column_uniqueD [OF col that(1,2)] by simp
    then show ?thesis using keys_distinct_eq [OF keys that(1,2)] by simp
  qed
  ultimately show ?thesis by blast
qed

text \<open>A rejected request, a released order and a loan of which half is repaid.\<close>

definition demo_rows :: db where
  "demo_rows = demo_db\<lparr>
     money_requests := [\<lparr>m_id = ''M'', m_reference = ''R'', m_requester = ''A'', m_payer = ''B'', m_amount = 5, m_currency = ''BDT'',
       m_note = None, m_status = ReqRejected, m_transfer_id = None, m_expires_at = 9, m_responded_at = Some 1,
       m_created_at = 0, m_updated_at = 0\<rparr>],
     safepay_escrows := [\<lparr>e_id = ''E'', e_reference = ''S'', e_hold_transfer = ''H'', e_settlement_transfer = Some ''T'',
       e_buyer = ''alice'', e_seller = ''bob'', e_amount = 5, e_currency = ''BDT'', e_description = None, e_status = Released,
       e_code_hash = ''c'', e_code_attempts = 0, e_code_locked_until = None, e_tracking_number = None, e_courier = None,
       e_shipped_at = None, e_delivered_at = None, e_auto_release_at = None, e_settled_at = Some 3, e_dispute_reason = None,
       e_disputed_at = None, e_resolved_by = None, e_resolution_note = None, e_created_at = 0, e_updated_at = 3\<rparr>],
     overdraft_loans := [\<lparr>l_id = ''L'', l_pool = ''P'', l_borrower = ''bob'', l_draw_transfer = ''D'', l_principal = 10,
       l_outstanding = 5, l_currency = ''BDT'', l_status = LoanOutstanding, l_created_at = 0, l_repaid_at = None\<rparr>]\<rparr>"

lemma demo_rows_ok: "rows_ok demo_rows" "books_ok demo_rows"
proof -
  show "rows_ok demo_rows"
    by (simp add: rows_ok_def requests_ok_def escrows_ok_def loans_ok_def tasks_ok_def users_keyed_def
        column_unique_def demo_rows_def demo_db_def demo_user_def request_row_ok_def escrow_row_ok_def loan_row_ok_def)
  have "books_of demo_rows = books_of demo_db" by (simp add: demo_rows_def books_of_def)
  with demo_invariants(1) show "books_ok demo_rows" by (simp add: books_ok_def)
qed

theorem request_decided_once_witness:
  "\<exists>w'. system_run demo_redis demo_env (demo_system demo_rows) w'
     \<and> sql_get m_id ''M'' (money_requests (sy_db w')) = sql_get m_id ''M'' (money_requests demo_rows)"
proof -
  let ?m = "hd (money_requests demo_rows)"
  obtain w' where run: "system_run demo_redis demo_env (demo_system demo_rows) w'" using demo_run by blast
  have m: "sql_get m_id ''M'' (money_requests demo_rows) = Some ?m" "m_status ?m \<noteq> ReqPending"
    by (simp_all add: demo_rows_def)
  from request_decided_once [OF run, of "''M''" ?m] demo_rows_ok(1) m
  have "sql_get m_id ''M'' (money_requests (sy_db w')) = Some ?m" by (auto simp: demo_system_def)
  with run m(1) show ?thesis by auto
qed

text \<open>
  C12: an order is settled once.  A released, refunded or cancelled escrow keeps its status and its
  settlement leg for ever; no two escrows share a settlement leg or the hold that funds them; and a
  transfer that left its holding state never changes status again.
\<close>

theorem escrow_settled_once:
  assumes "system_run R E w w'" "rows_ok (sy_db w)" "books_ok (sy_db w)"
  shows "(sql_get e_id i (safepay_escrows (sy_db w)) = Some e \<and> e_status e \<in> {Released, EscrowRefunded, EscrowCancelled}
      \<longrightarrow> (\<exists>e'. sql_get e_id i (safepay_escrows (sy_db w')) = Some e' \<and> e_status e' = e_status e
            \<and> e_settlement_transfer e' = e_settlement_transfer e \<and> e_amount e' = e_amount e))
    \<and> (\<forall>r \<in> set (safepay_escrows (sy_db w')). \<forall>r' \<in> set (safepay_escrows (sy_db w')).
         e_hold_transfer r = e_hold_transfer r'
         \<or> e_settlement_transfer r \<noteq> None \<and> e_settlement_transfer r = e_settlement_transfer r' \<longrightarrow> r = r')
    \<and> (sql_get t_id j (transfers (sy_db w)) = Some h \<and> t_status h \<notin> {PENDING_UNDO, HELD}
      \<longrightarrow> (\<exists>h'. sql_get t_id j (transfers (sy_db w')) = Some h' \<and> t_status h' = t_status h \<and> t_amount h' = t_amount h))"
proof -
  note after = run_moves [OF assms(1,2)]
  have keys: "keys_distinct e_id (safepay_escrows (sy_db w'))" "keys_distinct e_hold_transfer (safepay_escrows (sy_db w'))"
    and col: "column_unique e_id e_settlement_transfer (safepay_escrows (sy_db w'))"
    and rows: "\<forall>r \<in> set (safepay_escrows (sy_db w')). list_all snd (escrow_row_ok r)"
    using after(1) by (simp_all add: rows_ok_def escrows_ok_def)
  have tkeys: "keys_distinct t_id (transfers (sy_db w'))"
    using system_run_durable [OF assms(1)] assms(3) transfers_key [of "books_of (sy_db w')"]
    by (simp add: durable_def books_ok_def)
  have "\<exists>e'. sql_get e_id i (safepay_escrows (sy_db w')) = Some e' \<and> e_status e' = e_status e
      \<and> e_settlement_transfer e' = e_settlement_transfer e \<and> e_amount e' = e_amount e"
    if got: "sql_get e_id i (safepay_escrows (sy_db w)) = Some e" and final: "e_status e \<in> {Released, EscrowRefunded, EscrowCancelled}"
  proof -
    obtain e' where e': "sql_get e_id i (safepay_escrows (sy_db w')) = Some e'" "escrow_moves e e'"
      using run_lookup [OF movesD(3) [OF after(2)] keys(1) moves_keys(3) got] by blast
    have "escrow_rank (e_status e') \<le> 4" by (cases "e_status e'") simp_all
    with e'(2) final have st: "e_status e' = e_status e" by (auto simp: escrow_moves_def)
    have "e \<in> set (safepay_escrows (sy_db w))" using sql_get_Some [OF got] by simp
    then have ok: "list_all snd (escrow_row_ok e)" using assms(2) by (auto simp: rows_ok_def escrows_ok_def)
    have "list_all snd (escrow_row_ok e')" using rows sql_get_Some [OF e'(1)] by blast
    with ok st e'(2) have "e_settlement_transfer e' = e_settlement_transfer e"
      by (auto simp: escrow_moves_def escrow_row_ok_def)
    with e' st show ?thesis by (auto simp: escrow_moves_def escrow_core_def)
  qed
  moreover have "r = r'" if "r \<in> set (safepay_escrows (sy_db w'))" "r' \<in> set (safepay_escrows (sy_db w'))"
    "e_hold_transfer r = e_hold_transfer r' \<or> e_settlement_transfer r \<noteq> None \<and> e_settlement_transfer r = e_settlement_transfer r'" for r r'
    using that(3)
  proof
    assume "e_hold_transfer r = e_hold_transfer r'"
    then show ?thesis by (rule keys_distinct_eq [OF keys(2) that(1,2)])
  next
    assume "e_settlement_transfer r \<noteq> None \<and> e_settlement_transfer r = e_settlement_transfer r'"
    then have "e_id r = e_id r'" using column_uniqueD [OF col that(1,2)] by blast
    then show ?thesis by (rule keys_distinct_eq [OF keys(1) that(1,2)])
  qed
  moreover have "\<exists>h'. sql_get t_id j (transfers (sy_db w')) = Some h' \<and> t_status h' = t_status h \<and> t_amount h' = t_amount h"
    if "sql_get t_id j (transfers (sy_db w)) = Some h" "t_status h \<notin> {PENDING_UNDO, HELD}"
    using run_lookup [OF movesD(1) [OF after(2)] tkeys moves_keys(1) that(1)] that(2)
    by (auto simp: transfer_moves_def transfer_core_def)
  ultimately show ?thesis by blast
qed

theorem escrow_settled_once_witness:
  "\<exists>w' e. system_run demo_redis demo_env (demo_system demo_rows) w'
     \<and> sql_get e_id ''E'' (safepay_escrows (sy_db w')) = Some e \<and> e_status e = Released \<and> e_settlement_transfer e = Some ''T''"
proof -
  let ?e = "hd (safepay_escrows demo_rows)"
  obtain w' where run: "system_run demo_redis demo_env (demo_system demo_rows) w'" using demo_run by blast
  have e: "sql_get e_id ''E'' (safepay_escrows demo_rows) = Some ?e" "e_status ?e = Released" "e_settlement_transfer ?e = Some ''T''"
    by (simp_all add: demo_rows_def)
  have start: "sy_db (demo_system demo_rows) = demo_rows" by (simp add: demo_system_def)
  note settled = escrow_settled_once [OF run, unfolded start, OF demo_rows_ok, of "''E''" ?e, THEN conjunct1]
  from settled e obtain e' where "sql_get e_id ''E'' (safepay_escrows (sy_db w')) = Some e'" "e_status e' = Released"
    "e_settlement_transfer e' = Some ''T''" by auto
  with run show ?thesis by blast
qed

text \<open>
  C13: debts only shrink.  A Spot-Me loan never disappears and its terms never change; what is
  outstanding never grows and never becomes negative, and a loan that was repaid stays exactly as it is.
\<close>

theorem loans_only_shrink:
  assumes "system_run R E w w'" "rows_ok (sy_db w)" "sql_get l_id i (overdraft_loans (sy_db w)) = Some l"
  shows "\<exists>l'. sql_get l_id i (overdraft_loans (sy_db w')) = Some l' \<and> loan_core l' = loan_core l
    \<and> 0 \<le> l_outstanding l' \<and> l_outstanding l' \<le> l_outstanding l \<and> l_outstanding l' \<le> l_principal l
    \<and> (l_status l \<noteq> LoanOutstanding \<longrightarrow> l' = l)"
proof -
  note after = run_moves [OF assms(1,2)]
  have keys: "keys_distinct l_id (overdraft_loans (sy_db w'))"
    and rows: "\<forall>r \<in> set (overdraft_loans (sy_db w')). list_all snd (loan_row_ok r)"
    using after(1) by (simp_all add: rows_ok_def loans_ok_def)
  obtain l' where l': "sql_get l_id i (overdraft_loans (sy_db w')) = Some l'" "loan_moves l l'"
    using run_lookup [OF movesD(4) [OF after(2)] keys moves_keys(4) assms(3)] by blast
  have "list_all snd (loan_row_ok l')" using rows sql_get_Some [OF l'(1)] by blast
  with l' show ?thesis by (auto simp: loan_moves_def loan_row_ok_def loan_core_def)
qed

theorem loans_only_shrink_witness:
  "\<exists>w' l. system_run demo_redis demo_env (demo_system demo_rows) w'
     \<and> sql_get l_id ''L'' (overdraft_loans (sy_db w')) = Some l \<and> 0 \<le> l_outstanding l \<and> l_outstanding l \<le> 5"
proof -
  let ?l = "hd (overdraft_loans demo_rows)"
  obtain w' where run: "system_run demo_redis demo_env (demo_system demo_rows) w'" using demo_run by blast
  have l: "sql_get l_id ''L'' (overdraft_loans demo_rows) = Some ?l" "l_outstanding ?l = 5" by (simp_all add: demo_rows_def)
  from loans_only_shrink [OF run, of "''L''" ?l] demo_rows_ok(1) l
  obtain l' where "sql_get l_id ''L'' (overdraft_loans (sy_db w')) = Some l'" "0 \<le> l_outstanding l'" "l_outstanding l' \<le> 5"
    by (auto simp: demo_system_def)
  with run show ?thesis by blast
qed


section \<open>Notifications\<close>

text \<open>
  Every notification stems from an event of the outbox that the broker stored, and what the outbox
  calls published the broker has.
\<close>

definition genuine :: "'r system \<Rightarrow> bool" where
  "genuine w \<longleftrightarrow> relay_ok (relay_view w)
     \<and> (\<forall>(i, n) \<in> set (sy_notified w). \<exists>r \<in> set (outbox_events (sy_db w)). o_id r = i \<and> message_of r \<in> set (sy_stored w))"

lemma genuine_evolves:
  assumes "genuine w" "evolves (sy_db w) t"
  shows "genuine (w\<lparr>sy_db := t, sy_redis := st\<rparr>)"
proof -
  from assms(2) obtain new where new: "outbox_events t = outbox_events (sy_db w) @ new"
    "\<forall>r \<in> set new. o_published_at r = None"
    "keys_distinct o_id (outbox_events (sy_db w)) \<longrightarrow> keys_distinct o_id (outbox_events t)"
    by (auto simp: evolves_def outbox_grows_def)
  with assms(1) have "relay_ok (relay_view (w\<lparr>sy_db := t, sy_redis := st\<rparr>))"
    unfolding genuine_def relay_ok_def by auto
  with assms(1) new(1) show ?thesis by (fastforce simp: genuine_def)
qed

lemma relay_poll_rows:
  assumes "keys_distinct o_id (outbox w)" "r \<in> set (outbox w)" "message_of r \<in> set (w_stored w)"
  shows "\<exists>r' \<in> set (outbox (relay_poll E broker n m fault w)). o_id r' = o_id r
    \<and> message_of r' \<in> set (w_stored (relay_poll E broker n m fault w))"
  using assms(1)
proof (cases rule: relay_poll_cases [where max_attempts = m and E = E and batch_size = n and broker = broker and fault = fault])
  case (committed result)
  let ?w = "relay_poll E broker n m fault w"
  let ?now = "db_clock E (tick (w_db w))"
  let ?f = "\<lambda>r. if o_id r \<in> o_id ` set (due_events n ?now (outbox w)) then relayed_row ?now (result (o_id r)) r else r"
  from committed obtain sent where "outbox ?w = map ?f (outbox w)" "w_stored ?w = w_stored w @ sent"
    unfolding relay_outcome_def by blast
  with assms(2,3) show ?thesis by (intro bexI [of _ "?f r"]) auto
next
  case (rolled_back sent k)
  with assms(2,3) show ?thesis by (intro bexI [of _ r]) auto
qed

lemma handle_message_event:
  "fst (handle_message envelope s) = Inr (Some (i, d)) \<Longrightarrow> \<exists>j. envelope_event_id envelope = Inr j \<and> i = the j"
  by (auto simp: handle_message_def tx_bind_app tx_run split: prod.splits sum.splits if_splits)

lemma consume_notifies:
  assumes "(i, d) \<in> set (c_notified (consume E (envelope_of r) fault w))"
  shows "(i, d) \<in> set (c_notified w) \<or> i = o_id r"
proof -
  have "envelope_event_id (envelope_of r) = Inr (Some (o_id r))"
    by (simp add: envelope_event_id_def envelope_of_def dict_get_def)
  with handle_message_event [of "envelope_of r" "begin_txn E (c_db w)" i d]
  have "fst (handle_message (envelope_of r) (begin_txn E (c_db w))) = Inr (Some (i, d)) \<Longrightarrow> i = o_id r" by auto
  moreover have "(i, d) \<in> set (c_notified w) \<or> fst (handle_message (envelope_of r) (begin_txn E (c_db w))) = Inr (Some (i, d))"
    using assms by (auto simp: consume_def Let_def split: prod.splits sum.splits option.splits)
  ultimately show ?thesis by blast
qed

lemma genuine_step: "system_step R E w w' \<Longrightarrow> genuine w \<Longrightarrow> genuine w'"
proof (induction rule: system_step.induct)
  case (request reachable fs q call w r t st)
  from request(2) api_books.dispatch_keeps [OF request(1)] show ?case by (rule genuine_evolves)
next
  case (scheduled w describe fault)
  from genuine_evolves [OF scheduled poll_rel(1) [of "sy_db w" E describe fault], where st = "sy_redis w"] show ?case by simp
next
  case (relayed broker n m fault w v)
  have "relay_ok v" using relay_poll_keeps relayed by (metis genuine_def)
  moreover have "keys_distinct o_id (outbox (relay_view w))" using relayed(2) by (simp add: genuine_def relay_ok_def)
  note rows = relay_poll_rows [OF this, of _ E broker n m fault, unfolded relayed(1)]
  ultimately show ?case
    using relayed(2) rows by (fastforce simp: genuine_def relay_ok_def)
next
  case (delivered key envelope w fault v)
  let ?w = "consumer_view w"
  from delivered(1,3) obtain r where r: "r \<in> set (outbox_events (sy_db w))" "envelope = envelope_of r" "message_of r \<in> set (sy_stored w)"
    by (auto simp: genuine_def relay_ok_def)
  from genuine_evolves [OF delivered(3), where t = "c_db v" and st = "sy_redis w"] consume_rel(1) [of ?w E envelope fault] delivered(2)
  have base: "genuine (w\<lparr>sy_db := c_db v\<rparr>)" by auto
  have "r \<in> set (outbox_events (c_db v))"
    using consume_rel(1) [of ?w E envelope fault] r(1) delivered(2) by (auto simp: evolves_def outbox_grows_def)
  moreover have "(i, d) \<in> set (sy_notified w) \<or> i = o_id r" if "(i, d) \<in> set (c_notified v)" for i d
    using consume_notifies [of i d E r fault ?w] that delivered(2) r(2) by auto
  ultimately show ?case using base r(3) by (fastforce simp: genuine_def)
qed

text \<open>
  C14: no notification is invented.  From a fresh broker on, whatever the interleaving of requests,
  relay iterations, crashes and redeliveries, every notification that went out is of an event that is in
  the outbox and that the broker stored, and every event the outbox calls published is stored.
\<close>

theorem notifications_genuine:
  assumes "system_run R E w w'" "sy_stored w = []" "sy_notified w = []" "keys_distinct o_id (outbox_events (sy_db w))"
    and "\<forall>r \<in> set (outbox_events (sy_db w)). o_published_at r = None"
  shows "(\<forall>(i, n) \<in> set (sy_notified w'). \<exists>r \<in> set (outbox_events (sy_db w')). o_id r = i \<and> message_of r \<in> set (sy_stored w'))
    \<and> (\<forall>r \<in> set (outbox_events (sy_db w')). o_published_at r \<noteq> None \<longrightarrow> message_of r \<in> set (sy_stored w'))"
proof -
  have "genuine w" using assms(2-5) by (simp add: genuine_def relay_ok_def)
  with assms(1) have "genuine w'"
    by (induction rule: rtranclp_induct) (auto intro: genuine_step)
  then show ?thesis by (simp add: genuine_def relay_ok_def)
qed

text \<open>The relay hands both events of the demonstration outbox to the broker.\<close>

theorem notifications_genuine_witness:
  "\<exists>w'. system_run demo_redis demo_env (demo_system (w_db demo_relay)) w'
     \<and> (\<forall>r \<in> set (outbox_events (sy_db w')). o_published_at r \<noteq> None \<longrightarrow> message_of r \<in> set (sy_stored w'))"
proof -
  let ?w = "demo_system (w_db demo_relay)"
  let ?v = "relay_poll demo_env (\<lambda>n. Confirmed) 100 8 None (relay_view ?w)"
  let ?u = "?w\<lparr>sy_db := w_db ?v, sy_stored := w_stored ?v, sy_tries := w_tries ?v\<rparr>"
  have "system_step demo_redis demo_env ?w ?u" by (rule system_step.relayed [OF refl])
  then have run: "system_run demo_redis demo_env ?w ?u" by (rule r_into_rtranclp)
  have "sy_stored ?w = []" "sy_notified ?w = []" "keys_distinct o_id (outbox_events (sy_db ?w))"
    "\<forall>r \<in> set (outbox_events (sy_db ?w)). o_published_at r = None"
    by (simp_all add: demo_system_def demo_relay_def demo_event_def)
  from notifications_genuine [OF run this] run show ?thesis by blast
qed

end
