(* ===== verification/Custody.thy ===== *)
theory Custody
  imports Workers
begin

text \<open>
  Money in custody.  A SafePay order parks the buyer's money in the escrow account, a send with an
  undo window parks it in the pending-settlement account.  The invariant \<open>custody\<close> says that both
  accounts belong to nobody, that each of them holds at least what is parked in it, and that every
  order that is not settled is backed by a hold of exactly its amount.  Every handler keeps it,
  although the settlement of an order breaks it between two of its statements.
\<close>

section \<open>The invariant\<close>

definition held_sum :: "transfer_status \<Rightarrow> transfer_row list \<Rightarrow> int" where
  "held_sum st ts = sql_sum t_amount (filter (\<lambda>x. t_status x = st) ts)"

text \<open>The account a parked transfer of each status stands in.\<close>

definition holding_account :: "transfer_status \<Rightarrow> string" where
  "holding_account st = (if st = HELD then ESCROW_ACCOUNT_ID else PENDING_SETTLEMENT_ACCOUNT_ID)"

abbreviation parked :: "transfer_status set" where
  "parked \<equiv> {HELD, PENDING_UNDO}"

definition house :: "db \<Rightarrow> bool" where
  "house s \<longleftrightarrow> (\<forall>st \<in> parked. \<exists>a \<in> set (accounts s). a_id a = holding_account st \<and> a_user_id a = None)"

definition solvent :: "db \<Rightarrow> bool" where
  "solvent s \<longleftrightarrow> (\<forall>st \<in> parked. held_sum st (transfers s) \<le> balance_of s (holding_account st))"

definition backed :: "db \<Rightarrow> bool" where
  "backed s \<longleftrightarrow> (\<forall>e \<in> set (safepay_escrows s). e_settlement_transfer e = None \<longrightarrow>
     (\<exists>x \<in> set (transfers s). t_id x = e_hold_transfer e \<and> t_status x = HELD \<and> t_amount x = e_amount e))"

abbreviation hold_endpoint :: string where
  "hold_endpoint \<equiv> ''INTERNAL:/safepay/hold''"

definition hold_key :: "string \<Rightarrow> string" where
  "hold_key escrow_id = ''safepay-hold:'' @ escrow_id"

text \<open>The key of a hold is used up by the order it was made for.\<close>

definition used_keys :: "db \<Rightarrow> string set" where
  "used_keys s = {k. \<exists>a. (a, hold_endpoint, k) \<in> set (map idem_key (idempotency_records s))}"

definition keyed :: "db \<Rightarrow> bool" where
  "keyed s \<longleftrightarrow> used_keys s \<subseteq> hold_key ` e_id ` set (safepay_escrows s)"

definition custody :: "db \<Rightarrow> bool" where
  "custody s \<longleftrightarrow> house s \<and> solvent s \<and> backed s \<and> keyed s"

definition sound :: "db \<Rightarrow> bool" where
  "sound s \<longleftrightarrow> books_ok s \<and> rows_ok s \<and> custody s"

lemma held_sum_simps [simp]:
  "held_sum st [] = 0"
  "held_sum st (x # ts) = (if t_status x = st then t_amount x + held_sum st ts else held_sum st ts)"
  "held_sum st (ts @ us) = held_sum st ts + held_sum st us"
  by (simp_all add: held_sum_def)

lemma held_sum_other: "(\<And>x. x \<in> set ts \<Longrightarrow> t_status x \<noteq> st) \<Longrightarrow> held_sum st ts = 0"
  by (induction ts) auto

text \<open>Settling the one transfer under a key.\<close>

lemma held_sum_settled:
  assumes "keys_distinct t_id ts" "x \<in> set ts" "t_status x = fs" "ns \<noteq> fs"
  shows "held_sum st (sql_update (\<lambda>y. t_id y = t_id x \<and> t_status y = fs)
           (\<lambda>y. y\<lparr>t_status := ns, t_completed_at := w\<rparr>) ts)
    = held_sum st ts - (if st = fs then t_amount x else 0) + (if st = ns then t_amount x else 0)"
  using assms
proof (induction ts)
  case (Cons y ts)
  show ?case
  proof (cases "y = x")
    case True
    with Cons.prems have "sql_update (\<lambda>y. t_id y = t_id x \<and> t_status y = fs)
           (\<lambda>y. y\<lparr>t_status := ns, t_completed_at := w\<rparr>) ts = ts"
      by (intro sql_update_none) (auto simp: image_iff)
    with True Cons.prems show ?thesis by (auto simp: sql_update_def)
  next
    case False
    with Cons show ?thesis by (auto simp: sql_update_def rev_image_eqI)
  qed
qed simp

lemma house_evolves:
  assumes "evolves s t" "house s"
  shows "house t"
  unfolding house_def
proof
  fix st
  assume "st \<in> parked"
  with assms(2) obtain a where "a \<in> set (accounts s)" "a_id a = holding_account st" "a_user_id a = None"
    unfolding house_def by blast
  moreover from assms(1) have "set (map account_core (accounts s)) \<subseteq> set (map account_core (accounts t))"
    by (simp only: evolves_def set_mono_prefix)
  ultimately have "account_core a \<in> account_core ` set (accounts t)" by auto
  then obtain b where "b \<in> set (accounts t)" "account_core a = account_core b" by auto
  with \<open>a_id a = holding_account st\<close> \<open>a_user_id a = None\<close>
  show "\<exists>b \<in> set (accounts t). a_id b = holding_account st \<and> a_user_id b = None"
    by (intro bexI [of _ b]) (simp_all add: account_core_def)
qed

text \<open>An account that somebody owns is not a holding account.\<close>

lemma owned_not_house:
  assumes "house s" "books_ok s" "a \<in> set (accounts s)" "a_user_id a \<noteq> None" "st \<in> parked"
  shows "a_id a \<noteq> holding_account st"
proof
  assume eq: "a_id a = holding_account st"
  from assms(1,5) obtain b where b: "b \<in> set (accounts s)" "a_id b = holding_account st" "a_user_id b = None"
    unfolding house_def by blast
  have "keys_distinct a_id (accounts s)"
    using accounts_key [of "books_of s"] assms(2) by (simp add: books_ok_def)
  from keys_distinct_eq [OF this assms(3) b(1)] eq b assms(4) show False by simp
qed


section \<open>The relation\<close>

text \<open>
  A handler that has read an order knows its immutable columns from then on; \<open>K\<close> is the set of
  what it knows.
\<close>

definition custodial where
  "custodial K s t \<longleftrightarrow> evolves s t \<and> progresses s t
     \<and> (sound s \<and> K \<subseteq> escrow_core ` set (safepay_escrows s) \<longrightarrow> solvent t \<and> backed t \<and> keyed t)"

lemma custodial_sound:
  assumes "custodial K s t" "sound s" "K \<subseteq> escrow_core ` set (safepay_escrows s)"
  shows "sound t" "K \<subseteq> escrow_core ` set (safepay_escrows t)"
proof -
  from assms have e: "evolves s t" and p: "progresses s t" and c: "solvent t" "backed t" "keyed t"
    by (auto simp: custodial_def)
  from e assms(2) have "books_ok t" by (simp add: evolves_def sound_def)
  moreover from p assms(2) have "rows_ok t" and m: "moves s t" by (auto simp: progresses_def sound_def)
  moreover from house_evolves [OF e] assms(2) have "house t" by (simp add: sound_def custody_def)
  ultimately show "sound t" using c by (simp add: sound_def custody_def)
  have "escrow_core x \<in> escrow_core ` set (safepay_escrows t)" if x: "x \<in> set (safepay_escrows s)" for x
  proof -
    from m have "table_grows escrow_moves (safepay_escrows s) (safepay_escrows t)" by (simp add: moves_def)
    from table_grows_lookup [OF this x] obtain y where "y \<in> set (safepay_escrows t)" "escrow_moves x y" by blast
    then show ?thesis by (auto simp: escrow_moves_def)
  qed
  with assms(3) show "K \<subseteq> escrow_core ` set (safepay_escrows t)" by blast
qed

interpretation cust: session_preorder "custodial K" for K
proof
  show "custodial K s s" for s
    by (auto simp: custodial_def evo.R_refl prog.R_refl sound_def custody_def)
  show "custodial K s u" if "custodial K s t" "custodial K t u" for s t u
    using that custodial_sound [OF that(1)] evo.R_trans prog.R_trans unfolding custodial_def by blast
qed

lemma custodialI:
  assumes "tx_rel evolves m" "tx_rel progresses m"
    and "\<And>s x t. m s = (Inr x, t) \<Longrightarrow> sound s \<Longrightarrow> K \<subseteq> escrow_core ` set (safepay_escrows s)
           \<Longrightarrow> solvent t \<and> backed t \<and> keyed t"
  shows "tx_rel (custodial K) m"
  using assms by (auto simp: tx_rel_def custodial_def)

text \<open>The tables the invariant reads.\<close>

definition vault_of where
  "vault_of (s :: db) = (transfers s, ledger_entries s, safepay_escrows s, map idem_key (idempotency_records s))"

lemma vault_used_keys: "vault_of s = vault_of t \<Longrightarrow> used_keys s = used_keys t"
proof -
  assume "vault_of s = vault_of t"
  then have "map idem_key (idempotency_records s) = map idem_key (idempotency_records t)" by (simp add: vault_of_def)
  then show ?thesis by (simp only: used_keys_def)
qed

lemma vault_same:
  assumes "vault_of s = vault_of t"
  shows "solvent s \<longleftrightarrow> solvent t" "backed s \<longleftrightarrow> backed t" "keyed s \<longleftrightarrow> keyed t"
  using assms vault_used_keys [OF assms]
  by (simp_all add: vault_of_def solvent_def backed_def balance_of_def keyed_def)

lemma custodial_frame:
  assumes "tx_rel evolves m" "tx_rel progresses m" "tx_frame vault_of m"
  shows "tx_rel (custodial K) m"
proof (rule custodialI [OF assms(1,2)])
  fix s x t
  assume "m s = (Inr x, t)" "sound s"
  with tx_frameD [OF assms(3)] vault_same [of s t] show "solvent t \<and> backed t \<and> keyed t"
    by (simp add: sound_def custody_def)
qed

lemma vault_of_ignores [simp]:
  "vault_of (s\<lparr>tick := n\<rparr>) = vault_of s" "vault_of (s\<lparr>txn_now := x1\<rparr>) = vault_of s"
  "vault_of (s\<lparr>accounts := x2\<rparr>) = vault_of s" "vault_of (s\<lparr>ledger_transactions := x3\<rparr>) = vault_of s"
  "vault_of (s\<lparr>outbox_events := x4\<rparr>) = vault_of s" "vault_of (s\<lparr>audit_logs := x5\<rparr>) = vault_of s"
  "vault_of (s\<lparr>overdraft_pools := x6\<rparr>) = vault_of s" "vault_of (s\<lparr>overdraft_grants := x7\<rparr>) = vault_of s"
  "vault_of (s\<lparr>overdraft_loans := x8\<rparr>) = vault_of s" "vault_of (s\<lparr>overdraft_repayments := x9\<rparr>) = vault_of s"
  "vault_of (s\<lparr>users := y1\<rparr>) = vault_of s" "vault_of (s\<lparr>login_sessions := y2\<rparr>) = vault_of s"
  "vault_of (s\<lparr>scheduled_tasks := y3\<rparr>) = vault_of s" "vault_of (s\<lparr>money_requests := y4\<rparr>) = vault_of s"
  "vault_of (s\<lparr>consumer_inbox := y5\<rparr>) = vault_of s"
  by (simp_all add: vault_of_def)

lemma vault_same_tables: "same_tables s t \<Longrightarrow> vault_of s = vault_of t"
  by (auto dest!: arg_cong [of _ _ vault_of] simp: same_tables_def)

interpretation committed_custody: committed_preorder "custodial K" for K
proof
  fix s t
  assume same: "same_tables s t"
  from vault_same [OF vault_same_tables [OF same]] committed.tables [OF same] committed_progress.tables [OF same]
  show "custodial K s t" by (auto simp: custodial_def sound_def custody_def)
qed


section \<open>The operations\<close>

named_theorems cust_intros \<open>operations that keep custody\<close>

lemma vault_feeds:
  "tx_frame vault_of (clock_now E)" "tx_frame vault_of (fresh_ulid E)"
  "tx_frame vault_of (fresh_reference E p now)" "tx_frame vault_of (hash_secret E sec)"
  "tx_frame vault_of (issue_refresh_token E)"
  "tx_frame vault_of (require_constraints cs)" "tx_frame vault_of (require_bigint vs)"
  unfolding hash_secret_def issue_refresh_token_def
  by (intro tx_frame_feeds tx_frame_bind tx_frame_basic tx_frame_tick frame_require; simp)+

lemma vault_core_ops:
  "tx_frame vault_of (get_account_by_id k)" "tx_frame vault_of (get_account_by_user_id k)"
  "tx_frame vault_of (get_account_by_phone k)" "tx_frame vault_of (lock_accounts_for_update ids)"
  "tx_frame vault_of (get_transfer k)"
  "tx_frame vault_of (outbox_append E ev tr)" "tx_frame vault_of (audit_record E oa act ty rid req md now)"
  "tx_frame vault_of (get_pool_for_sponsor u)" "tx_frame vault_of (get_pool p)" "tx_frame vault_of (get_grant p u)"
  "tx_frame vault_of (active_grants_for_borrower u)" "tx_frame vault_of (outstanding_loans u)"
  "tx_frame vault_of (schedule_task E kt rs d)" "tx_frame vault_of (complete_task tid)"
  "tx_frame vault_of (cancel_task kt rs)" "tx_frame vault_of (record_task_failure tid a e m)"
  "tx_frame vault_of (claim_due b)"
  by (intro frames; simp)+

lemma vault_writes:
  "tx_frame vault_of (set_account_status i st)"
  "tx_frame vault_of (create_account i u nm cur now)" "tx_frame vault_of (create_subaccount i ou ty nm cur now)"
  "tx_frame vault_of (create_pool_row i2 sp pa cur now)" "tx_frame vault_of (create_grant_row i3 p b m now)"
  "tx_frame vault_of (create_loan E p2 b2 tid amt cur now)" "tx_frame vault_of (apply_repayment E lid tid amt trg now)"
  "tx_frame vault_of (create_session sid u h ex now ua ip)" "tx_frame vault_of (get_session_by_token_hash h)"
  "tx_frame vault_of (revoke_session sid now)" "tx_frame vault_of (revoke_all_for_user u now)"
  "tx_frame vault_of (mark_rotated sid su now)"
  "tx_frame vault_of (get_user_by_phone ph)" "tx_frame vault_of (get_user_by_id u)" "tx_frame vault_of (lock_user u)"
  "tx_frame vault_of (create_user uid ph nm h1 h2 now)"
  "tx_frame vault_of (update_password_hash uid h1)" "tx_frame vault_of (set_user_status uid ust)"
  "tx_frame vault_of (get_escrow i4)" "tx_frame vault_of (lock_escrow i4)" "tx_frame vault_of (find_by_tracking co tn)"
  unfolding insert_account_def set_account_status_def create_account_def create_subaccount_def create_pool_row_def
    create_grant_row_def create_loan_def apply_repayment_def insert_repayment_def create_session_def
    get_session_by_token_hash_def revoke_session_def revoke_all_for_user_def mark_rotated_def get_user_by_phone_def
    get_user_by_id_def lock_user_def create_user_def create_user_row_def update_password_hash_def set_user_status_def
    update_user_def get_escrow_def lock_escrow_def find_by_tracking_def
  by (auto intro!: tx_frame_bind tx_frame_basic tx_frame_modify tx_frame_feeds frame_require split: option.splits)

lemma vault_requests:
  "tx_frame vault_of (create_request_row i rf rq py amt nt ex now)" "tx_frame vault_of (lock_request i)"
  "tx_frame vault_of (mark_accepted i tid now)" "tx_frame vault_of (mark_terminal i st now)"
  "tx_frame vault_of (expire_due_rows now)"
  unfolding create_request_row_def insert_request_def lock_request_def mark_accepted_def mark_terminal_def
    expire_due_rows_def update_requests_def
  by (auto intro!: tx_frame_bind tx_frame_basic tx_frame_modify frame_require)

lemmas vault_frames = vault_feeds vault_core_ops vault_writes vault_requests

lemma cust_ops [cust_intros]:
  "tx_rel (custodial K) (clock_now E)" "tx_rel (custodial K) (fresh_ulid E)"
  "tx_rel (custodial K) (fresh_reference E pre now)" "tx_rel (custodial K) (hash_secret E sec)"
  "tx_rel (custodial K) (issue_refresh_token E)"
  "tx_rel (custodial K) (get_account_by_id k)" "tx_rel (custodial K) (get_account_by_user_id k)"
  "tx_rel (custodial K) (get_account_by_phone k)" "tx_rel (custodial K) (lock_accounts_for_update ids)"
  "tx_rel (custodial K) (get_transfer k)"
  "tx_rel (custodial K) (outbox_append E ev tr)" "tx_rel (custodial K) (audit_record E oa act ty rid req md now)"
  "tx_rel (custodial K) (get_pool_for_sponsor u)" "tx_rel (custodial K) (get_pool p)"
  "tx_rel (custodial K) (get_grant p u)" "tx_rel (custodial K) (active_grants_for_borrower u)"
  "tx_rel (custodial K) (outstanding_loans u)"
  "tx_rel (custodial K) (schedule_task E kt rs d)" "tx_rel (custodial K) (complete_task tid)"
  "tx_rel (custodial K) (cancel_task kt rs)" "tx_rel (custodial K) (record_task_failure tid a e m)"
  "tx_rel (custodial K) (claim_due n)"
  by (intro custodial_frame vault_frames tx_rel_intros prog_intros)+

lemma cust_writes [cust_intros]:
  "tx_rel (custodial K) (set_account_status i st)"
  "tx_rel (custodial K) (create_account i u nm cur now)" "tx_rel (custodial K) (create_subaccount i ou ty nm cur now)"
  "tx_rel (custodial K) (create_pool_row i2 sp pa cur now)" "tx_rel (custodial K) (create_grant_row i3 p b m now)"
  "tx_rel (custodial K) (create_loan E p2 b2 tid amt cur now)"
  "tx_rel (custodial K) (create_session sid u h ex now ua ip)" "tx_rel (custodial K) (get_session_by_token_hash h)"
  "tx_rel (custodial K) (revoke_session sid now)" "tx_rel (custodial K) (revoke_all_for_user u now)"
  "tx_rel (custodial K) (mark_rotated sid su now)"
  "tx_rel (custodial K) (get_user_by_phone ph)" "tx_rel (custodial K) (get_user_by_id u)"
  "tx_rel (custodial K) (lock_user u)" "tx_rel (custodial K) (create_user uid ph nm h1 h2 now)"
  "tx_rel (custodial K) (update_password_hash uid h1)" "tx_rel (custodial K) (set_user_status uid ust)"
  "tx_rel (custodial K) (get_escrow i4)" "tx_rel (custodial K) (lock_escrow i4)"
  "tx_rel (custodial K) (find_by_tracking co tn)"
  "tx_rel (custodial K) (create_request_row i5 rf rq py mny nt ex now)" "tx_rel (custodial K) (lock_request i5)"
  "tx_rel (custodial K) (mark_accepted i5 tid now)" "tx_rel (custodial K) (mark_terminal i5 rst now)"
  "tx_rel (custodial K) (expire_due_rows now)"
  by (intro custodial_frame vault_frames tx_rel_intros prog_intros)+


lemma vault_idem_complete: "tx_frame vault_of (idem_complete a ep key rid st body now)"
proof -
  have "map idem_key (sql_update P (\<lambda>r. r\<lparr>i_status := COMPLETED, i_resource_id := Some rid, i_http_status := Some st,
      i_response := Some body, i_completed_at := Some now\<rparr>) rs) = map idem_key rs" for P rs
    by (rule map_sql_update_same) (simp add: idem_key_def)
  then show ?thesis unfolding idem_complete_def by (intro tx_frame_modify) (simp add: vault_of_def)
qed

lemma cust_complete [cust_intros]: "tx_rel (custodial K) (idem_complete a ep key rid st body now)"
  by (intro custodial_frame vault_idem_complete tx_rel_intros prog_intros)

lemma cust_reserve:
  assumes "ep \<noteq> hold_endpoint"
  shows "tx_rel (custodial K) (idem_reserve a ep key fp now)"
proof (rule custodialI)
  fix s x t
  assume run: "idem_reserve a ep key fp now s = (Inr x, t)" and ok: "sound s"
  from run show "solvent t \<and> backed t \<and> keyed t"
    by (rule idem_reserve_okD)
       (use ok assms in \<open>auto simp: sound_def custody_def solvent_def backed_def keyed_def used_keys_def idem_key_def balance_of_def\<close>)
qed (intro tx_rel_intros prog_intros)+

lemma cust_reserve_or_replay [cust_intros]:
  "ep \<noteq> hold_endpoint \<Longrightarrow> tx_rel (custodial K) (reserve_or_replay a ep key fp now)"
  unfolding reserve_or_replay_def by (intro cust.rel_rules cust_reserve)

text \<open>Statements on orders that leave their hold, amount and settlement alone.\<close>

lemma backed_update_escrows:
  assumes "update_escrows P f extra s = (Inr n, t)" "\<And>r. escrow_core (f r) = escrow_core r"
    "\<And>r. e_settlement_transfer (f r) = None \<Longrightarrow> e_settlement_transfer r = None"
    "sound s"
  shows "solvent t \<and> backed t \<and> keyed t"
proof -
  have t: "t = s\<lparr>safepay_escrows := sql_update P f (safepay_escrows s)\<rparr>"
    using assms(1) by (simp add: update_escrows_okD)
  have core: "e_id (f r) = e_id r" "e_hold_transfer (f r) = e_hold_transfer r" "e_amount (f r) = e_amount r" for r
    using assms(2) [of r] by (simp_all add: escrow_core_def)
  have "solvent t" using assms(4) by (simp add: t sound_def custody_def solvent_def balance_of_def)
  moreover have "backed t"
    using assms(3,4) core unfolding sound_def custody_def backed_def t by (auto dest!: in_sql_updateD)
  moreover have "e_id ` set (sql_update P f (safepay_escrows s)) = e_id ` set (safepay_escrows s)"
    by (metis (no_types, lifting) core(1) image_set map_sql_update_same)
  then have "keyed t"
    using assms(4) by (simp add: sound_def custody_def keyed_def used_keys_def t)
  ultimately show ?thesis by blast
qed

lemma cust_escrow_updates [cust_intros]:
  "tx_rel (custodial K) (mark_shipped_row i v co tn now)" "tx_rel (custodial K) (mark_delivered i now ar)"
  "tx_rel (custodial K) (mark_disputed i b rs now)"
proof -
  have upd: "tx_rel (custodial K) (update_escrows P f extra)"
    if "tx_rel progresses (update_escrows P f extra)" "\<And>r. escrow_core (f r) = escrow_core r"
      "\<And>r. e_settlement_transfer (f r) = e_settlement_transfer r" for P f extra
  proof (rule custodialI)
    show "solvent t \<and> backed t \<and> keyed t" if "update_escrows P f extra s = (Inr n, t)" "sound s" for s n t
      by (rule backed_update_escrows [OF that(1)]) (simp_all add: \<open>sound s\<close> \<open>\<And>r. escrow_core (f r) = escrow_core r\<close>
          \<open>\<And>r. e_settlement_transfer (f r) = e_settlement_transfer r\<close>)
  qed (intro tx_rel_intros that(1))+
  show "tx_rel (custodial K) (mark_shipped_row i v co tn now)" "tx_rel (custodial K) (mark_delivered i now ar)"
    "tx_rel (custodial K) (mark_disputed i b rs now)"
    using progress_escrow_updates(1-3) unfolding mark_shipped_row_def mark_delivered_def mark_disputed_def
    by (auto intro!: upd simp: escrow_core_def)
qed

lemma cust_code_failure [cust_intros]: "tx_rel (custodial K) (record_code_failure i att lk now)"
proof (rule custodialI)
  fix s x t
  assume "record_code_failure i att lk now s = (Inr x, t)" "sound s"
  then show "solvent t \<and> backed t \<and> keyed t"
    unfolding record_code_failure_def
    by (auto simp: tx_bind_okD tx_basic_okD escrow_core_def dest!: backed_update_escrows)
qed (intro tx_rel_intros prog_intros)+


section \<open>Transfers\<close>

text \<open>What the sweep after a credit leaves behind: settled transfers, under keys of its own.\<close>

definition swept :: "db \<Rightarrow> db \<Rightarrow> bool" where
  "swept s t \<longleftrightarrow> (\<exists>new. transfers t = transfers s @ new \<and> (\<forall>x \<in> set new. t_status x = SUCCEEDED))
     \<and> used_keys t \<subseteq> used_keys s"

lemma swept_trans: "swept s t \<Longrightarrow> swept t u \<Longrightarrow> swept s u"
  unfolding swept_def by fastforce

interpretation sweep: session_preorder swept
proof
  show "swept s s" for s by (simp add: swept_def)
qed (rule swept_trans)

lemma swept_frame: "tx_frame vault_of m \<Longrightarrow> tx_rel swept m"
proof (erule tx_rel_frame)
  fix s t
  assume same: "vault_of s = vault_of t"
  from vault_used_keys [OF same] same show "swept s t" by (simp add: swept_def vault_of_def)
qed

lemma plain_swept:
  assumes "c_initial_status cmd = SUCCEEDED" "c_endpoint cmd \<noteq> hold_endpoint"
  shows "tx_rel swept (execute_depth E 0 cmd)"
proof (rule tx_relI)
  fix s r t
  assume "execute_depth E 0 cmd s = (Inr r, t)"
  from this [unfolded execute_depth.simps] show "swept s t"
  proof (cases rule: execute_with_okD)
    case (replay row n)
    then show ?thesis by (simp add: swept_def used_keys_def)
  next
    case (fresh now s0)
    from fresh(4) show ?thesis
    proof (rule settle_transfer_effect)
      fix mv u v sender receiver ur
      assume fe: "fresh_effect E cmd now mv r s0 u"
        and v: "(case None of None \<Rightarrow> tx_return ()
          | Some i \<Rightarrow> after_credit i (tr_id r) ur (c_amount cmd) (c_kind cmd) (c_request_id cmd)) u = (Inr (), v)"
        and t: "idem_complete (c_actor cmd) (c_endpoint cmd) (c_key cmd) (tr_id r) 201 (to_response r) now v
          = (Inr (), t)"
      from fe have "transfers u = transfers s @ [mv_transfer mv]" "t_status (mv_transfer mv) = SUCCEEDED"
        "idempotency_records u = idempotency_records s0"
        using assms(1) by (auto simp: fresh_effect_def fresh(3))
      then have "swept s u" using assms(2) by (auto simp: swept_def used_keys_def idem_key_def fresh(3))
      moreover have "v = u" using v by (simp add: tx_okD)
      moreover have "swept v t" using tx_relD [OF swept_frame [OF vault_idem_complete] t] .
      ultimately show ?thesis by (blast intro: swept_trans)
    qed simp
  qed
qed

lemma lien_swept: "tx_rel swept (lien_after_credit E (execute_depth E 0) inc rcv amount k rq)"
proof -
  have exec: "tx_rel swept (execute_depth E 0 (lien_command E inc rcv uid cur rq l amt))" for uid cur l amt
    by (rule plain_swept) (simp_all add: lien_command_def base_command_def lien_endpoint_def)
  have "tx_rel swept (lien_sweep E (execute_depth E 0) inc rcv uid cur rq budget loans)" for uid cur budget loans
    by (induction loans arbitrary: budget)
       (auto intro!: sweep.rel_rules exec swept_frame [OF vault_feeds(1)] swept_frame [OF vault_writes(7)]
         simp del: execute_depth.simps)
  then show ?thesis
    unfolding lien_after_credit_def
    by (auto intro!: sweep.rel_rules swept_frame [OF vault_core_ops(12)] split: option.splits
        simp del: execute_depth.simps)
qed

lemma lien_spares:
  assumes "lien_after_credit E (execute_depth E 0) inc rcv amount k rq s = (Inr u, t)" "x \<noteq> acc_id rcv"
  shows "balance_of s x \<le> balance_of t x"
proof (cases "0 \<le> minor amount * overdraft_lien_sweep_basis_points E")
  case True
  from lien_after_credit_bounds [OF assms(1) True] assms(2) show ?thesis by blast
next
  case False
  then have "minor amount * overdraft_lien_sweep_basis_points E div 10000 \<le> 0" by simp
  with assms(1) have "t = s"
    by (auto simp: lien_after_credit_def tx_okD split: option.splits if_splits)
  then show ?thesis by simp
qed

text \<open>
  A fresh transfer as the holding accounts see it: one row of the given status, then settled rows;
  a holding account gains what it is credited, and loses nothing but what it pays itself.
\<close>

lemma fresh_transfer_custody:
  assumes run: "execute_transfer E cmd s = (Inr r, t)" "\<not> tr_replayed r" and ok: "house s" "books_ok s"
  obtains x new where
    "transfers t = transfers s @ x # new" "\<forall>y \<in> set new. t_status y = SUCCEEDED"
    "t_id x = tr_id r" "t_status x = c_initial_status cmd" "t_amount x = minor (c_amount cmd)"
    "0 < minor (c_amount cmd)" "c_sender cmd \<noteq> c_receiver cmd"
    "\<And>st. st \<in> parked \<Longrightarrow> move (c_sender cmd) (c_receiver cmd) (minor (c_amount cmd)) (balance_of s) (holding_account st)
       \<le> balance_of t (holding_account st)"
    "\<And>st. st \<in> parked \<Longrightarrow> c_kind cmd \<notin> set SYSTEM_INITIATED_KINDS \<Longrightarrow> c_sender cmd \<noteq> holding_account st"
    "sql_get idem_key (c_actor cmd, c_endpoint cmd, c_key cmd) (idempotency_records s) = None"
    "used_keys t \<subseteq> used_keys s \<union> (if c_endpoint cmd = hold_endpoint then {c_key cmd} else {})"
  using run
proof (cases rule: execute_transfer_fresh)
  case (1 mv now s0 u v sender receiver ur)
  from 1(6) obtain ra where ra: "ra \<in> set (accounts s)" "a_id ra = c_sender cmd" "account_to_domain ra = Inr sender"
    by blast
  from 1(7) obtain rb where rb: "rb \<in> set (accounts s)" "a_id rb = c_receiver cmd" "account_to_domain rb = Inr receiver"
    by blast
  have x: "transfers u = transfers s @ [mv_transfer mv]" "t_id (mv_transfer mv) = tr_id r"
    "t_status (mv_transfer mv) = c_initial_status cmd" "t_amount (mv_transfer mv) = minor (c_amount cmd)"
    "0 < minor (c_amount cmd)" "c_sender cmd \<noteq> c_receiver cmd" "idempotency_records u = idempotency_records s0"
    using 1(4) by (auto simp: fresh_effect_def movement_ok_def 1(3))
  have "swept u t"
    using tx_relD [OF lien_swept 1(11)] tx_relD [OF swept_frame [OF vault_idem_complete] 1(12)] swept_trans by blast
  then obtain new where new: "transfers t = transfers u @ new" "\<forall>y \<in> set new. t_status y = SUCCEEDED"
    and keys: "used_keys t \<subseteq> used_keys u"
    unfolding swept_def by blast
  have bal: "balance_of u = move (c_sender cmd) (c_receiver cmd) (minor (c_amount cmd)) (balance_of s)"
    by (rule fresh_effect_balance [OF 1(4)]) (simp add: 1(3))
  have tv: "balance_of t = balance_of v" using 1(12) by (intro balance_of_frame) (simp add: tx_okD)
  show thesis
  proof (rule that)
    show "transfers t = transfers s @ mv_transfer mv # new" by (simp add: new(1) x(1))
    show "\<forall>y \<in> set new. t_status y = SUCCEEDED" by (rule new(2))
    show "t_id (mv_transfer mv) = tr_id r" "t_status (mv_transfer mv) = c_initial_status cmd"
      "t_amount (mv_transfer mv) = minor (c_amount cmd)" "0 < minor (c_amount cmd)" "c_sender cmd \<noteq> c_receiver cmd"
      by (rule x)+
    show "sql_get idem_key (c_actor cmd, c_endpoint cmd, c_key cmd) (idempotency_records s) = None" by (rule 1(1))
  next
    fix st
    assume st: "st \<in> parked"
    show "move (c_sender cmd) (c_receiver cmd) (minor (c_amount cmd)) (balance_of s) (holding_account st)
       \<le> balance_of t (holding_account st)"
    proof (cases "holding_account st = c_receiver cmd")
      case True
      then have "a_user_id rb = None" using owned_not_house [OF ok rb(1) _ st] rb(2) by metis
      then have "acc_user_id ur = None" using account_to_domain_okD [OF rb(3)] 1(10) by simp
      with 1(11) have "v = u" by (intro lien_after_credit_idle) auto
      then show ?thesis by (simp add: tv bal)
    next
      case False
      with lien_spares [OF 1(11)] show ?thesis by (simp add: tv bal [symmetric] 1(8))
    qed
    show "c_sender cmd \<noteq> holding_account st" if "c_kind cmd \<notin> set SYSTEM_INITIATED_KINDS"
    proof -
      from validate_transfer_okD [OF 1(5)] that have "acc_user_id sender = Some (c_actor cmd)"
        by (auto simp: transfer_authorize_def ensure_owned_by_def split: if_splits)
      with owned_not_house [OF ok ra(1) _ st] ra(2) account_to_domain_okD [OF ra(3)] show ?thesis by (metis option.distinct(1))
    qed
  next
    show "used_keys t \<subseteq> used_keys s \<union> (if c_endpoint cmd = hold_endpoint then {c_key cmd} else {})"
      by (rule order_trans [OF keys]) (auto simp: used_keys_def idem_key_def x(7) 1(3))
  qed
qed


text \<open>
  Which transfers are safe for the holding accounts: parked money goes to its holding account, and
  money leaves a holding account only under a system-initiated kind.
\<close>

definition safe_command :: "transfer_command \<Rightarrow> bool" where
  "safe_command cmd \<longleftrightarrow>
     (c_initial_status cmd \<in> parked \<longrightarrow> c_receiver cmd = holding_account (c_initial_status cmd))
     \<and> (c_kind cmd \<in> set SYSTEM_INITIATED_KINDS \<longrightarrow> (\<forall>st \<in> parked. c_sender cmd \<noteq> holding_account st))"

lemma holding_accounts_differ [simp]:
  "st \<in> parked \<Longrightarrow> st' \<in> parked \<Longrightarrow> holding_account st = holding_account st' \<longleftrightarrow> st = st'"
  by (auto simp: holding_account_def ESCROW_ACCOUNT_ID_def PENDING_SETTLEMENT_ACCOUNT_ID_def)

lemma execute_escrows: "execute_transfer E cmd s = (Inr r, t) \<Longrightarrow> safepay_escrows t = safepay_escrows s"
  using tx_relD [OF execute_transfer_tstep] by (fastforce simp: transfer_step_def others_of_def)

lemma execute_solvent:
  assumes "execute_transfer E cmd s = (Inr r, t)" "house s" "books_ok s" "solvent s" "backed s" "safe_command cmd"
  shows "solvent t \<and> backed t
    \<and> used_keys t \<subseteq> used_keys s \<union> (if c_endpoint cmd = hold_endpoint then {c_key cmd} else {})
    \<and> (\<not> tr_replayed r \<longrightarrow> (\<exists>x \<in> set (transfers t). t_id x = tr_id r \<and> t_status x = c_initial_status cmd
         \<and> t_amount x = minor (c_amount cmd)))"
proof (cases "tr_replayed r")
  case True
  with vault_same_tables [OF execute_replayed_same [OF assms(1)]] have "vault_of s = vault_of t" by blast
  from vault_same [OF this] vault_used_keys [OF this] assms(4,5) True show ?thesis by simp
next
  case False
  with assms(1) show ?thesis
    using assms(2,3)
  proof (cases rule: fresh_transfer_custody)
    case (1 x new)
    have "held_sum q (transfers t) \<le> balance_of t (holding_account q)" if q: "q \<in> parked" for q
    proof -
      have "held_sum q new = 0" using 1(2) q by (intro held_sum_other) auto
      then have "held_sum q (transfers t)
          = held_sum q (transfers s) + (if c_initial_status cmd = q then minor (c_amount cmd) else 0)"
        by (simp add: 1(1,4,5))
      moreover have "held_sum q (transfers s) \<le> balance_of s (holding_account q)"
        using assms(4) q by (auto simp: solvent_def)
      moreover have "c_sender cmd \<noteq> holding_account q" using assms(6) q 1(9) [OF q] by (metis safe_command_def)
      moreover have "c_initial_status cmd = q \<Longrightarrow> c_receiver cmd = holding_account q"
        using assms(6) q by (metis safe_command_def)
      moreover note 1(8) [OF q] 1(6)
      ultimately show ?thesis by (auto simp: move_def split: if_splits)
    qed
    then have "solvent t" unfolding solvent_def by blast
    moreover have "backed t"
      using assms(5) by (fastforce simp: backed_def 1(1) execute_escrows [OF assms(1)])
    ultimately show ?thesis using 1(1,3-5,11) by auto
  qed
qed


lemma replayed_key:
  assumes "execute_transfer E cmd s = (Inr r, t)" "tr_replayed r"
  shows "(c_actor cmd, c_endpoint cmd, c_key cmd) \<in> idem_key ` set (idempotency_records s)"
proof (rule ccontr)
  assume new: "\<not> ?thesis"
  from assms(1) [unfolded execute_transfer_def'] show False
  proof (cases rule: execute_with_okD)
    case (replay row n)
    with sql_get_Some [OF replay(1)] new show ?thesis by force
  next
    case (fresh now s0)
    show ?thesis
      by (rule settle_transfer_effect [OF fresh(4)])
         (use assms(2) lien_locks_ok in \<open>auto simp: fresh_effect_def\<close>)
  qed
qed

lemma cust_execute:
  assumes "safe_command cmd" "c_endpoint cmd \<noteq> hold_endpoint"
  shows "tx_rel (custodial K) (execute_transfer E cmd)"
proof (rule custodialI)
  fix s r t
  assume run: "execute_transfer E cmd s = (Inr r, t)" and ok: "sound s"
  from execute_solvent [OF run] ok assms execute_escrows [OF run] show "solvent t \<and> backed t \<and> keyed t"
    by (auto simp: sound_def custody_def keyed_def)
qed (intro tx_rel_intros prog_intros)+

lemma books_transfer_positive:
  assumes "books_ok s" "x \<in> set (transfers s)"
  shows "0 < t_amount x"
proof -
  have "list_all2 (posted_pair (ledger_entries s)) (transfers s) (ledger_transactions s)"
    using posted_all [of "books_of s"] assms(1) by (simp add: books_ok_def)
  from list_all2_in_set [OF this assms(2)] show ?thesis by (auto simp: posted_pair_def)
qed

text \<open>Settling a hold pays out exactly what was parked.\<close>

lemma settle_hold_custody:
  assumes run: "settle_hold E hid rf fs ns ben (holding_account fs) amt kind actor note rq s = (Inr r, t)"
    and st: "fs \<in> parked" "ns \<in> {SUCCEEDED, REFUNDED}" and ok: "house s" "books_ok s" "solvent s"
    and x: "x \<in> set (transfers s)" "t_id x = hid" "minor amt = t_amount x"
  shows "solvent t \<and> used_keys t \<subseteq> used_keys s \<and> safepay_escrows t = safepay_escrows s
    \<and> (\<forall>y \<in> set (transfers s). t_id y \<noteq> hid \<or> t_status y \<noteq> fs \<longrightarrow> y \<in> set (transfers t))"
proof -
  let ?P = "\<lambda>y. t_id y = hid \<and> t_status y = fs"
  let ?cmd = "settle_command E hid ns ben (holding_account fs) amt kind actor note rq"
  define s1 where "s1 = s\<lparr>transfers := sql_update ?P
      (\<lambda>y. y\<lparr>t_status := ns, t_completed_at := Some (txn_now s)\<rparr>) (transfers s)\<rparr>"
  from run have tr: "try_transition_status hid fs ns s = (Inr 1, s1)" and ex: "execute_transfer E ?cmd s1 = (Inr r, t)"
    unfolding settle_hold_def s1_def by (auto simp: tx_okD try_transition_okD)
  have dist: "keys_distinct t_id (transfers s)" using transfers_key [of "books_of s"] ok(2) by (simp add: books_ok_def)
  from tr have "0 < sql_rowcount ?P (transfers s)" by (simp add: try_transition_okD)
  then obtain y where "y \<in> set (transfers s)" "?P y" by (auto simp: sql_rowcount_pos)
  with keys_distinct_eq [OF dist] x(1,2) have fs: "t_status x = fs" by metis
  have "ns \<notin> parked" "ns \<noteq> fs" using st by auto
  with held_sum_settled [OF dist x(1) fs, of ns] x(2)
  have held: "held_sum q (transfers s1) = held_sum q (transfers s) - (if q = fs then t_amount x else 0)"
    if "q \<in> parked" for q using that by (auto simp: s1_def)
  have bal: "balance_of s1 = balance_of s" by (rule balance_of_frame) (simp add: s1_def)
  have ok1: "house s1" "books_ok s1"
    using ok tx_relD [OF evolves_try_transition_status tr] by (simp_all add: s1_def house_def evolves_def)
  have keep: "y \<in> set (transfers s1)" if "y \<in> set (transfers s)" "t_id y \<noteq> hid \<or> t_status y \<noteq> fs" for y
    using that by (auto simp: s1_def set_sql_update)
  have same: "used_keys s1 = used_keys s" "safepay_escrows s1 = safepay_escrows s" by (simp_all add: s1_def used_keys_def)
  have cmd: "c_sender ?cmd = holding_account fs" "c_receiver ?cmd = ben" "c_amount ?cmd = amt"
      "c_initial_status ?cmd = SUCCEEDED" "c_endpoint ?cmd \<noteq> hold_endpoint"
    by (simp_all add: settle_command_def base_command_def)
  show ?thesis
  proof (cases "tr_replayed r")
    case True
    with vault_same_tables [OF execute_replayed_same [OF ex]] have v: "vault_of s1 = vault_of t" by blast
    from x(1) books_transfer_positive [OF ok(2)] have "0 < t_amount x" by blast
    with held ok(3) have "solvent s1" unfolding solvent_def bal by fastforce
    with vault_same [OF v] vault_used_keys [OF v] v keep same show ?thesis by (auto simp: vault_of_def)
  next
    case False
    from ex False ok1 show ?thesis
    proof (cases rule: fresh_transfer_custody)
      case (1 z new)
      have "held_sum q (z # new) = 0" if "q \<in> parked" for q
        using 1(2,4) cmd(4) that by (intro held_sum_other) auto
      with held 1(1) have held': "held_sum q (transfers t) = held_sum q (transfers s) - (if q = fs then t_amount x else 0)"
        if "q \<in> parked" for q using that by simp
      have "held_sum q (transfers t) \<le> balance_of t (holding_account q)" if q: "q \<in> parked" for q
      proof -
        from ok(3) q have "held_sum q (transfers s) \<le> balance_of s (holding_account q)" by (auto simp: solvent_def)
        moreover note 1(8) [OF q, unfolded cmd bal] 1(6,7) [unfolded cmd] held' [OF q]
        ultimately show ?thesis using q st(1) x(3) by (auto simp: move_def split: if_splits)
      qed
      then have "solvent t" by (simp add: solvent_def)
      moreover have "used_keys t \<subseteq> used_keys s" using 1(11) cmd(5) same by simp
      ultimately show ?thesis using keep 1(1) same execute_escrows [OF ex] by auto
    qed
  qed
qed



section \<open>Settlement of an order\<close>

lemma settle_order_custody:
  assumes settle: "settle_hold E (t_id hold) rf HELD ns ben ESCROW_ACCOUNT_ID (mk_money (e_amount r) BDT) kind actor note rq s
      = (Inr res, s1)"
    and clock: "clock_now E s1 = (Inr now, s2)"
    and mark: "mark_settled (e_id r) fr to tid now nt s2 = (Inr 1, t)"
    and ns: "ns \<in> {SUCCEEDED, REFUNDED}" and ok: "sound s" and known: "escrow_core r \<in> escrow_core ` set (safepay_escrows s)"
    and hold: "sql_get t_id (e_hold_transfer r) (transfers s) = Some hold"
  shows "solvent t \<and> backed t \<and> keyed t"
proof -
  let ?P = "\<lambda>e. e_id e = e_id r \<and> e_status e \<in> set fr \<and> e_settlement_transfer e = None"
  let ?f = "\<lambda>e. e\<lparr>e_status := to, e_settlement_transfer := Some tid, e_settled_at := Some now,
               e_resolved_by := None, e_resolution_note := nt, e_code_attempts := 0,
               e_code_locked_until := None, e_updated_at := now\<rparr>"
  from known obtain e where e: "e \<in> set (safepay_escrows s)" "escrow_core e = escrow_core r" by auto
  then have core: "e_id e = e_id r" "e_hold_transfer e = e_hold_transfer r" "e_amount e = e_amount r"
    by (simp_all add: escrow_core_def)
  have esc: "keys_distinct e_id (safepay_escrows s)" "keys_distinct e_hold_transfer (safepay_escrows s)"
    using ok by (simp_all add: sound_def rows_ok_def escrows_ok_def)
  have s2: "s2 = s1\<lparr>tick := Suc (tick s1)\<rparr>" using clock by (simp add: clock_now_okD)
  have same: "safepay_escrows s1 = safepay_escrows s"
    using settle execute_escrows unfolding settle_hold_def by (fastforce simp: tx_okD try_transition_okD)
  from mark have t: "t = s2\<lparr>safepay_escrows := sql_update ?P ?f (safepay_escrows s)\<rparr>"
    and "0 < sql_rowcount ?P (safepay_escrows s)"
    by (simp_all add: mark_settled_def update_escrows_okD s2 same)
  then obtain e' where "e' \<in> set (safepay_escrows s)" "?P e'" by (auto simp: sql_rowcount_pos)
  with keys_distinct_eq [OF esc(1) _ e(1)] core(1) have Pe: "?P e" by metis
  with ok e(1) obtain x where x: "x \<in> set (transfers s)" "t_id x = e_hold_transfer e" "t_amount x = e_amount e"
    by (auto simp: sound_def custody_def backed_def)
  from sql_get_Some [OF hold] have hid: "t_id hold = e_hold_transfer e" by (simp add: core)
  have acc: "ESCROW_ACCOUNT_ID = holding_account HELD" by (simp add: holding_account_def)
  have "solvent s1 \<and> used_keys s1 \<subseteq> used_keys s \<and> safepay_escrows s1 = safepay_escrows s
    \<and> (\<forall>y \<in> set (transfers s). t_id y \<noteq> t_id hold \<or> t_status y \<noteq> HELD \<longrightarrow> y \<in> set (transfers s1))"
    by (rule settle_hold_custody [OF settle [unfolded acc]])
       (use ns ok x hid core in \<open>auto simp: sound_def custody_def\<close>)
  then have after: "solvent s1" "used_keys s1 \<subseteq> used_keys s"
    "\<And>y. y \<in> set (transfers s) \<Longrightarrow> t_id y \<noteq> t_id hold \<Longrightarrow> y \<in> set (transfers s1)" by blast+
  have "solvent t" using after(1) by (simp add: t s2 solvent_def balance_of_def)
  moreover have "backed t"
    unfolding backed_def
  proof (intro ballI impI)
    fix d
    assume d: "d \<in> set (safepay_escrows t)" "e_settlement_transfer d = None"
    then have dm: "d \<in> set (safepay_escrows s)" "\<not> ?P d" by (auto simp: t dest!: in_sql_updateD)
    with Pe have "d \<noteq> e" by blast
    with keys_distinct_eq [OF esc(2) dm(1) e(1)] have ne: "e_hold_transfer d \<noteq> t_id hold" by (auto simp: hid)
    from ok dm(1) d(2) obtain y where "y \<in> set (transfers s)" "t_id y = e_hold_transfer d" "t_status y = HELD"
        "t_amount y = e_amount d" by (auto simp: sound_def custody_def backed_def)
    with after(3) [of y] ne
    show "\<exists>y \<in> set (transfers t). t_id y = e_hold_transfer d \<and> t_status y = HELD \<and> t_amount y = e_amount d"
      by (auto simp: t s2)
  qed
  moreover have "keyed t"
  proof -
    have "map e_id (sql_update ?P ?f (safepay_escrows s)) = map e_id (safepay_escrows s)"
      by (rule map_sql_update_same) simp
    then have "set (map e_id (safepay_escrows t)) = set (map e_id (safepay_escrows s))" by (simp only: t) simp
    then have ids: "e_id ` set (safepay_escrows t) = e_id ` set (safepay_escrows s)" by (simp only: set_map)
    have "used_keys t = used_keys s1" by (simp add: t s2 used_keys_def)
    moreover have "used_keys s \<subseteq> hold_key ` e_id ` set (safepay_escrows s)"
      using ok by (simp add: sound_def custody_def keyed_def)
    ultimately show ?thesis using after(2) by (simp add: keyed_def ids)
  qed
  ultimately show ?thesis by blast
qed


lemma vault_audit: "tx_frame vault_of (safepay_audit E a act i rq md)"
  unfolding safepay_audit_def by (intro tx_frame_bind vault_frames)

lemma cust_release:
  assumes "escrow_core r \<in> K"
  shows "tx_rel (custodial K) (release_locked E r a rs rq nt)"
proof (rule custodialI)
  fix s body t
  assume run: "release_locked E r a rs rq nt s = (Inr body, t)" and ok: "sound s"
    and known: "K \<subseteq> escrow_core ` set (safepay_escrows s)"
  from run show "solvent t \<and> backed t \<and> keyed t"
  proof (rule release_locked_okD)
    fix hold beneficiary settlement now s1 s2 s3 s4 m
    assume hold: "sql_get t_id (e_hold_transfer r) (transfers s) = Some hold"
      and steps: "settle_hold E (t_id hold) (t_reference hold) HELD SUCCEEDED beneficiary ESCROW_ACCOUNT_ID
         (mk_money (e_amount r) BDT) ESCROW_RELEASE a (Some rs) rq s = (Inr settlement, s1)"
      "clock_now E s1 = (Inr now, s2)"
      "mark_settled (e_id r) [AwaitingShipment, Shipped, Delivered, EscrowDisputed] Released
         (tr_id settlement) now nt s2 = (Inr 1, s3)"
      and tail: "cancel_task EscrowAutoReleaseTask (e_id r) s3 = (Inr m, s4)"
      "safepay_audit E a ''SAFEPAY_RELEASED'' (e_id r) rq
         [(''settlementTransferId'', JStr (tr_id settlement)), (''reason'', JStr rs)] s4 = (Inr (), t)"
    have "solvent s3 \<and> backed s3 \<and> keyed s3"
      by (rule settle_order_custody [OF steps _ ok _ hold]) (use known assms in auto)
    moreover have "vault_of t = vault_of s3"
      using tx_frameD [OF vault_core_ops(15) tail(1)] tx_frameD [OF vault_audit tail(2)] by simp
    ultimately show ?thesis using vault_same [of t s3] by simp
  qed
qed (intro tx_rel_intros prog_intros)+

lemma cust_refund:
  assumes "escrow_core r \<in> K"
  shows "tx_rel (custodial K) (refund_locked E r rs rq nn)"
proof (rule custodialI)
  fix s body t
  assume run: "refund_locked E r rs rq nn s = (Inr body, t)" and ok: "sound s"
    and known: "K \<subseteq> escrow_core ` set (safepay_escrows s)"
  from run obtain hold where hold: "sql_get t_id (e_hold_transfer r) (transfers s) = Some hold"
    by (cases "sql_get t_id (e_hold_transfer r) (transfers s)")
       (simp_all add: refund_locked_def get_transfer_def tx_bind_app tx_run)
  with run obtain settlement now s1 s2 where
    steps: "settle_hold E (t_id hold) (t_reference hold) HELD REFUNDED (t_sender hold) ESCROW_ACCOUNT_ID
         (mk_money (e_amount r) BDT) ESCROW_REFUND (e_buyer r) (Some rs) rq s = (Inr settlement, s1)"
      "clock_now E s1 = (Inr now, s2)"
      "mark_settled (e_id r) [EscrowDisputed] EscrowRefunded (tr_id settlement) now (Some nn) s2 = (Inr 1, t)"
    unfolding refund_locked_def get_transfer_def by (auto simp: tx_bind_okD tx_basic_okD)
  show "solvent t \<and> backed t \<and> keyed t"
    by (rule settle_order_custody [OF steps _ ok _ hold]) (use known assms in auto)
qed (intro tx_rel_intros prog_intros)+

text \<open>Reading an order makes it known to the rest of the handler.\<close>

lemma custodial_known:
  assumes "custodial (insert (escrow_core r) K) s t" "r \<in> set (safepay_escrows s)"
  shows "custodial K s t"
  using assms by (auto simp: custodial_def)

lemma cust_lookup:
  assumes read: "\<And>s x t. m s = (Inr x, t) \<Longrightarrow> t = s \<and> (\<forall>r. x = Some r \<longrightarrow> r \<in> set (safepay_escrows s))"
    and "tx_rel (custodial K) (f None)" "\<And>r. tx_rel (custodial (insert (escrow_core r) K)) (f (Some r))"
  shows "tx_rel (custodial K) (tx_bind m f)"
proof (rule tx_relI)
  fix s y u
  assume "tx_bind m f s = (Inr y, u)"
  then obtain x t where m: "m s = (Inr x, t)" and f: "f x t = (Inr y, u)" by (auto simp: tx_bind_okD)
  show "custodial K s u"
  proof (cases x)
    case None
    with read [OF m] f tx_relD [OF assms(2)] show ?thesis by blast
  next
    case (Some r)
    with read [OF m] f tx_relD [OF assms(3)] custodial_known show ?thesis by blast
  qed
qed

lemma escrow_reads:
  "lock_escrow i s = (Inr x, t) \<Longrightarrow> t = s \<and> (\<forall>r. x = Some r \<longrightarrow> r \<in> set (safepay_escrows s))"
  "get_escrow i s = (Inr x, t) \<Longrightarrow> t = s \<and> (\<forall>r. x = Some r \<longrightarrow> r \<in> set (safepay_escrows s))"
  "find_by_tracking co tn s = (Inr x, t) \<Longrightarrow> t = s \<and> (\<forall>r. x = Some r \<longrightarrow> r \<in> set (safepay_escrows s))"
proof -
  show "t = s \<and> (\<forall>r. x = Some r \<longrightarrow> r \<in> set (safepay_escrows s))" if "lock_escrow i s = (Inr x, t)"
    using that unfolding lock_escrow_def by (auto simp: tx_okD one_or_none_Some dest!: filter_singletonD)
  show "t = s \<and> (\<forall>r. x = Some r \<longrightarrow> r \<in> set (safepay_escrows s))" if "get_escrow i s = (Inr x, t)"
    using that unfolding get_escrow_def by (auto simp: tx_okD dest: sql_get_Some)
  let ?rows = "sql_order_by_desc e_created_at (filter (\<lambda>r. e_courier r = Some co \<and> e_tracking_number r = Some tn)
      (safepay_escrows s))"
  have "set ?rows \<subseteq> set (safepay_escrows s)" by auto
  then show "t = s \<and> (\<forall>r. x = Some r \<longrightarrow> r \<in> set (safepay_escrows s))" if "find_by_tracking co tn s = (Inr x, t)"
    using that unfolding find_by_tracking_def by (cases ?rows) (auto simp: tx_okD)
qed

lemmas cust_order = cust_lookup [OF escrow_reads(1)] cust_lookup [OF escrow_reads(2)] cust_lookup [OF escrow_reads(3)]



section \<open>Opening, sending, undoing\<close>

lemmas command_simps = safe_command_def base_command_def holding_account_def SYSTEM_INITIATED_KINDS_def
  SYSTEM_ISSUANCE_ACCOUNT_ID_def ESCROW_ACCOUNT_ID_def PENDING_SETTLEMENT_ACCOUNT_ID_def TRANSFER_ENDPOINT_def

lemma cust_open_account [cust_intros]: "tx_rel (custodial K) (open_account E u m n now rq)"
  unfolding open_account_def
  by (intro cust.rel_rules cust_intros cust_execute) (simp_all add: command_simps)

lemma cust_undoable_send [cust_intros]:
  "ep \<noteq> hold_endpoint \<Longrightarrow> tx_rel (custodial K) (undoable_send E a sn rc amt key note rq ep)"
  unfolding undoable_send_def hold_money_def
  by (intro cust.rel_rules cust_intros cust_execute) (simp_all add: command_simps)

lemma settle_pending_custody:
  assumes run: "settle_hold E (t_id hold) rf PENDING_UNDO ns ben PENDING_SETTLEMENT_ACCOUNT_ID
      (mk_money (t_amount hold) BDT) kind actor note rq s = (Inr r, t)"
    and hold: "hold \<in> set (transfers s)" "t_status hold = PENDING_UNDO"
    and ns: "ns \<in> {SUCCEEDED, REFUNDED}" and ok: "sound s"
  shows "solvent t \<and> backed t \<and> keyed t"
proof -
  have acc: "PENDING_SETTLEMENT_ACCOUNT_ID = holding_account PENDING_UNDO" by (simp add: holding_account_def)
  have after: "solvent t \<and> used_keys t \<subseteq> used_keys s \<and> safepay_escrows t = safepay_escrows s
    \<and> (\<forall>y \<in> set (transfers s). t_id y \<noteq> t_id hold \<or> t_status y \<noteq> PENDING_UNDO \<longrightarrow> y \<in> set (transfers t))"
    by (rule settle_hold_custody [OF run [unfolded acc]]) (use hold ns ok in \<open>auto simp: sound_def custody_def\<close>)
  have "backed t"
    unfolding backed_def
  proof (intro ballI impI)
    fix e
    assume "e \<in> set (safepay_escrows t)" "e_settlement_transfer e = None"
    with after ok obtain y where "y \<in> set (transfers s)" "t_id y = e_hold_transfer e" "t_status y = HELD"
        "t_amount y = e_amount e" by (auto simp: sound_def custody_def backed_def)
    with after show "\<exists>y \<in> set (transfers t). t_id y = e_hold_transfer e \<and> t_status y = HELD \<and> t_amount y = e_amount e"
      by (intro bexI [of _ y]) simp_all
  qed
  with after ok show ?thesis by (auto simp: sound_def custody_def keyed_def)
qed

lemma require_hold_okD:
  assumes "require_hold i s = (Inr hold, t)"
  shows "t = s \<and> hold \<in> set (transfers s) \<and> t_status hold = PENDING_UNDO"
  using assms unfolding require_hold_def get_transfer_def
  by (auto simp: tx_okD split: option.splits if_splits dest: sql_get_Some)

lemma cust_undo_once [cust_intros]: "tx_rel (custodial K) (undo_once E i a rq)"
proof (rule custodialI)
  show "tx_rel progresses (undo_once E i a rq)"
    unfolding undo_once_def require_hold_def by (intro prog.rel_rules prog_intros; simp)
  fix s x t
  assume "undo_once E i a rq s = (Inr x, t)" and ok: "sound s"
  then obtain hold sender settlement s0 s1 s2 m where
    hold: "require_hold i s = (Inr hold, s0)" and acc: "get_account_by_id (t_sender hold) s0 = (Inr sender, s1)"
    and settle: "settle_hold E (t_id hold) (t_reference hold) PENDING_UNDO REFUNDED (t_sender hold)
                PENDING_SETTLEMENT_ACCOUNT_ID (mk_money (t_amount hold) BDT) UNDO_REFUND a
                (Some ''Undone by sender'') rq s1 = (Inr settlement, s2)"
    and tail: "cancel_task UndoSettleTask (t_id hold) s2 = (Inr m, t)"
    unfolding undo_once_def by (auto simp: tx_bind_okD tx_basic_okD)
  have "s1 = s" using require_hold_okD [OF hold] tx_frameD [OF frame_reads(1) [where v = "\<lambda>s. s"] acc] by simp
  with settle_pending_custody [OF settle] require_hold_okD [OF hold] ok have "solvent s2 \<and> backed s2 \<and> keyed s2" by simp
  with vault_same [OF tx_frameD [OF vault_core_ops(15) tail]] show "solvent t \<and> backed t \<and> keyed t" by simp
qed (intro tx_rel_intros)

lemma cust_undo [cust_intros]: "tx_rel (custodial K) (undo E i a key rq)"
  unfolding undo_def
  by (intro cust.rel_rules cust_intros cust_reserve) (simp add: undo_endpoint_def)

lemma cust_settle_undo [cust_intros]: "tx_rel (custodial K) (settle_undo E i)"
proof (rule custodialI)
  fix s x t
  assume run: "settle_undo E i s = (Inr x, t)" and ok: "sound s"
  consider "t = s" | hold receiver r where "hold \<in> set (transfers s)" "t_status hold = PENDING_UNDO"
      "settle_hold E (t_id hold) (t_reference hold) PENDING_UNDO SUCCEEDED receiver
         PENDING_SETTLEMENT_ACCOUNT_ID (mk_money (t_amount hold) BDT) UNDO_SETTLE
         (case t_initiated_by hold of None \<Rightarrow> [] | Some u \<Rightarrow> u) (t_note hold) None s = (Inr r, t)"
    using run unfolding settle_undo_def get_transfer_def
    by (auto simp: tx_okD split: option.splits if_splits dest: sql_get_Some)
  then show "solvent t \<and> backed t \<and> keyed t"
  proof cases
    case 1
    with ok show ?thesis by (simp add: sound_def custody_def)
  next
    case (2 hold receiver r)
    from settle_pending_custody [OF 2(3,1,2) _ ok] show ?thesis by simp
  qed
qed (intro tx_rel_intros prog_intros)+



section \<open>Orders\<close>

text \<open>Placing an order: the hold, and the order that uses up its key.\<close>

lemma hold_key_eq [simp]: "hold_key a = hold_key b \<longleftrightarrow> a = b"
  by (simp add: hold_key_def)

lemma place_order_custody:
  assumes hold: "hold_money E buyer payer ESCROW_ACCOUNT_ID amount ESCROW_HOLD HELD (''safepay-hold:'' @ i) d rq True
      (Some sa) hold_endpoint s = (Inr h, s1)"
    and vault: "vault_of s2 = vault_of s1"
    and order: "create_escrow i rf (tr_id h) buyer seller (minor amount) cur d ch now s2 = (Inr u, t)"
    and ok: "sound s"
  shows "solvent t \<and> backed t \<and> keyed t"
proof -
  define cmd where "cmd = (base_command buyer payer ESCROW_ACCOUNT_ID amount (''safepay-hold:'' @ i)
          (fingerprint_request (sha256 E)
            [(''payer'', JStr payer), (''holding'', JStr ESCROW_ACCOUNT_ID),
             (''amountMinor'', JInt (minor amount)), (''kind'', JStr (kind_str ESCROW_HOLD))]))
        \<lparr>c_kind := ESCROW_HOLD, c_note := d, c_request_id := rq, c_enforce_limits := True,
         c_initial_status := HELD, c_intended := Some sa, c_endpoint := hold_endpoint\<rparr>"
  have run: "execute_transfer E cmd s = (Inr h, s1)" using hold by (simp add: hold_money_def cmd_def)
  have cmd: "c_endpoint cmd = hold_endpoint" "c_key cmd = hold_key i" "c_initial_status cmd = HELD" "c_amount cmd = amount"
    by (simp_all add: cmd_def base_command_def hold_key_def)
  have "safe_command cmd" by (simp add: cmd_def command_simps)
  with execute_solvent [OF run] ok cmd have after: "solvent s1" "backed s1" "used_keys s1 \<subseteq> insert (hold_key i) (used_keys s)"
    "\<not> tr_replayed h \<longrightarrow> (\<exists>x \<in> set (transfers s1). t_id x = tr_id h \<and> t_status x = HELD \<and> t_amount x = minor amount)"
    by (auto simp: sound_def custody_def)
  from vault have same: "transfers s2 = transfers s1" "safepay_escrows s2 = safepay_escrows s"
    using execute_escrows [OF run] by (simp_all add: vault_of_def)
  obtain row where ins: "insert_escrow row s2 = (Inr u, t)"
    and row: "e_id row = i" "e_hold_transfer row = tr_id h" "e_amount row = minor amount"
    by (rule that [OF order [unfolded create_escrow_def]]) simp_all
  from ins have t: "t = s2\<lparr>safepay_escrows := safepay_escrows s @ [row]\<rparr>" and new: "i \<notin> e_id ` set (safepay_escrows s)"
    unfolding insert_escrow_def by (simp_all add: tx_okD same row)
  have "\<not> tr_replayed h"
  proof
    assume "tr_replayed h"
    from replayed_key [OF run this] have "hold_key i \<in> used_keys s" unfolding cmd used_keys_def by auto
    with ok new show False by (auto simp: sound_def custody_def keyed_def)
  qed
  with after(4) obtain x where "x \<in> set (transfers s1)" "t_id x = tr_id h" "t_status x = HELD" "t_amount x = minor amount"
    by blast
  moreover have "backed s2" "solvent s2" using after(1,2) vault_same [OF vault] by simp_all
  ultimately have "backed t" "solvent t"
    using row same by (auto simp: t backed_def solvent_def balance_of_def)
  moreover have "used_keys t = used_keys s1" using vault_used_keys [OF vault] by (simp add: t used_keys_def)
  with after(3) ok row(1) have "keyed t" by (auto simp: t keyed_def sound_def custody_def)
  ultimately show ?thesis by blast
qed

lemma cust_place_order:
  assumes "\<And>h rf ch. tx_rel (custodial K) (g h rf ch)"
  shows "tx_rel (custodial K)
    (tx_bind (hold_money E buyer payer ESCROW_ACCOUNT_ID amount ESCROW_HOLD HELD (''safepay-hold:'' @ i) d rq True
        (Some sa) hold_endpoint) (\<lambda>h.
     tx_bind (fresh_reference E pre now) (\<lambda>rf.
     tx_bind (hash_secret E sec) (\<lambda>ch.
     tx_bind (create_escrow i rf (tr_id h) buyer seller (minor amount) cur d ch now) (\<lambda>_. g h rf ch)))))"
proof (rule tx_relI)
  fix s y t
  let ?hold = "hold_money E buyer payer ESCROW_ACCOUNT_ID amount ESCROW_HOLD HELD (''safepay-hold:'' @ i) d rq True
        (Some sa) hold_endpoint"
  assume "tx_bind ?hold (\<lambda>h. tx_bind (fresh_reference E pre now) (\<lambda>rf. tx_bind (hash_secret E sec) (\<lambda>ch.
     tx_bind (create_escrow i rf (tr_id h) buyer seller (minor amount) cur d ch now) (\<lambda>_. g h rf ch)))) s = (Inr y, t)"
  then obtain h rf ch u s1 s2 s3 s4 where
    steps: "?hold s = (Inr h, s1)" "fresh_reference E pre now s1 = (Inr rf, s2)" "hash_secret E sec s2 = (Inr ch, s3)"
      "create_escrow i rf (tr_id h) buyer seller (minor amount) cur d ch now s3 = (Inr u, s4)"
    and rest: "g h rf ch s4 = (Inr y, t)"
    by (auto simp: tx_bind_okD)
  have "evolves s s4"
    using tx_relD [OF holding_evolves(2) steps(1)] tx_relD [OF evolves_feeds(3) steps(2)]
      tx_relD [OF evolves_identity_ops(1) steps(3)] tx_relD [OF evolves_escrow_ops(2) steps(4)] evo.R_trans by blast
  moreover have "progresses s s4"
    using tx_relD [OF progress_holding(2) steps(1)] tx_relD [OF progress_feeds(3) steps(2)]
      tx_relD [OF progress_feeds(4) steps(3)] tx_relD [OF progress_create_escrow steps(4)] prog.R_trans by blast
  moreover have "vault_of s3 = vault_of s1"
    using tx_frameD [OF vault_feeds(3) steps(2)] tx_frameD [OF vault_feeds(4) steps(3)] by simp
  ultimately have "custodial K s s4"
    using place_order_custody [OF steps(1) _ steps(4)] unfolding custodial_def by blast
  with tx_relD [OF assms rest] show "custodial K s t" by (rule cust.R_trans [rotated -1])
qed

lemma cust_safepay_helpers [cust_intros]:
  "tx_rel (custodial K) (complete_body a ep key i body now st)"
  "tx_rel (custodial K) (safepay_audit E a act i rq md)"
  "ep' \<noteq> hold_endpoint \<Longrightarrow> (\<And>now. tx_rel (custodial K) (ex now)) \<Longrightarrow> tx_rel (custodial K) (state_command E a ep' key pl ex)"
  unfolding complete_body_def safepay_audit_def state_command_def
  by (intro cust.rel_rules cust_intros; assumption?)+

lemma cust_safepay_steps [cust_intros]:
  "tx_rel (custodial K) (mark_shipped_once E i v co tn rq now)" "tx_rel (custodial K) (wrong_code r now)"
  "tx_rel (custodial K) (buyer_release_once E i b rq)" "tx_rel (custodial K) (dispute_once E i b rs rq now)"
  "tx_rel (custodial K) (apply_delivery E co im r now)" "tx_rel (custodial K) (ban_buyer E b)"
  unfolding mark_shipped_once_def wrong_code_def buyer_release_once_def dispute_once_def apply_delivery_def
    ban_buyer_def
  by (intro cust_order cust.rel_rules cust_intros cust_release; simp)+

lemma cust_safepay_once [cust_intros]:
  "tx_rel (custodial K) (release_with_code_once E i v en rq now)" "tx_rel (custodial K) (resolve_once E i de nt bn rq)"
  "tx_rel (custodial K) (auto_release E i)"
  unfolding release_with_code_once_def resolve_once_def auto_release_def
  by (intro cust_order cust.rel_rules cust_intros cust_release cust_refund; simp)+

lemma cust_safepay [cust_intros]:
  "tx_rel (custodial K) (create_safepay E b ba v va amt d key rq)"
  "tx_rel (custodial K) (mark_shipped E i v co tn key rq)"
  "tx_rel (custodial K) (release_with_code E i v en key rq)"
  "tx_rel (custodial K) (confirm_received E i b key rq)"
  "tx_rel (custodial K) (dispute E i b rs key rq)"
  "tx_rel (custodial K) (courier_delivered E co tn ev im)"
  "tx_rel (custodial K) (resolve_dispute E i de nt bn key rq)"
  unfolding create_safepay_def mark_shipped_def release_with_code_def confirm_received_def dispute_def
    courier_delivered_def resolve_dispute_def
  by (intro cust_place_order cust.rel_rules cust_intros;
      simp add: safepay_endpoint_def SAFEPAY_CREATE_ENDPOINT_def)+



section \<open>The other services\<close>

lemma cust_overdraft [cust_intros]:
  "tx_rel (custodial K) (create_pool E sp amt key rq)"
  "tx_rel (custodial K) (fund_pool E sp amt key rq)"
  "tx_rel (custodial K) (grant_access E sp ph md key rq)"
  "tx_rel (custodial K) (overdraft_send E a sn rc amt key nt rq)"
  unfolding create_pool_def fund_pool_def grant_access_def overdraft_send_def send_once_def cover_shortfall_def
    overdraft_complete_def overdraft_audit_def
  by (intro cust.rel_rules cust_intros cust_execute;
      simp add: command_simps fund_command_def draw_command_def POOLS_ENDPOINT_def GRANTS_ENDPOINT_def)+

lemma cust_requests [cust_intros]:
  "tx_rel (custodial K) (create_request E u ph amt nt rq)"
  "tx_rel (custodial K) (accept_request E i u key rq)"
  "tx_rel (custodial K) (reject_request E i u rq)"
  "tx_rel (custodial K) (cancel_request E i u rq)"
  "tx_rel (custodial K) (expire_requests E)"
  unfolding create_request_def accept_request_def require_payable_def reject_request_def cancel_request_def
    terminate_request_def expire_requests_def
  by (intro cust.rel_rules cust_intros cust_execute; simp add: command_simps accept_command_def)+

lemma cust_identity [cust_intros]:
  "tx_rel (custodial K) (register E ph nm pw pin rq ua ip)"
  "tx_rel (custodial K) (login E ph pw ua ip)"
  "tx_rel (custodial K) (refresh E tok ua ip)"
  "tx_rel (custodial K) (logout E tok)"
  unfolding register_def login_def refresh_def logout_def start_session_def
  by (intro cust.rel_rules cust_intros rel_catch_reraise duplicate_user_raises)+

lemma cust_pin_protected [cust_intros]:
  assumes "tx_rel (custodial K) m"
  shows "tx_rel (custodial K) (pin_protected E uid pin m)"
proof -
  let ?check = "tx_bind (verify_pin E uid pin) (\<lambda>_. tx_return (Inr ()))"
  have fr: "tx_frame vault_of ?check" "tx_frame history_of ?check" "tx_frame lifecycle_of ?check"
    by (intro tx_frame_bind frame_verify_pin frame_lifecycle_verify_pin tx_frame_basic; simp)+
  have kept: "custodial K s t" if "?check s = (r, t)" for s r t
    using evolves_same_history [of s t] progresses_same [of s t] vault_same [of s t]
      tx_frameD [OF fr(1) that] tx_frameD [OF fr(2) that] tx_frameD [OF fr(3) that]
    by (auto simp: custodial_def sound_def custody_def)
  have checked: "tx_rel (custodial K) (tx_catch ?check pin_outcome)"
  proof (rule cust.rel_catch)
    show "tx_rel (custodial K) ?check" by (rule tx_relI) (rule kept)
    show "tx_rel (custodial K) (pin_outcome e)" for e
      by (cases e rule: pin_outcome.cases) (auto intro: cust.rel_rules)
  qed (rule kept)
  show ?thesis
    unfolding pin_protected_def
    by (rule cust.rel_bind [OF checked]) (auto intro!: cust.rel_rules assms split: sum.splits)
qed

lemma worker_custody [cust_intros]: "tx_rel (custodial K) (run_due_tasks E describe)"
proof (rule committed_custody.run_due_tasks_rel)
  show "tx_rel (custodial K) (task_work E k)" for k
    unfolding task_work_def by (cases "k_type k") (auto intro!: cust.rel_rules cust_intros)
qed (intro cust_intros)+

end
