(* ===== verification/Solvency.thy ===== *)
theory Solvency
  imports System Custody
begin

text \<open>
  Custody in the deployed system: the invariant of the holding accounts survives every run, so the
  money of open orders and of sends that can still be undone is always there.
\<close>

interpretation api_custody: api_services "custodial K" for K
  by unfold_locales (intro cust_intros; assumption?)+

lemma consume_custodial: "custodial {} (c_db w) (c_db (consume E m fault w))"
proof -
  have "tx_rel (custodial {}) (handle_message m)"
    by (rule custodial_frame) (intro evolves_frame progresses_frame consumer_frames; simp)+
  from committed_custody.transaction_rel [OF this, of "c_db w" E fault] show ?thesis
    by (auto simp: consume_def Let_def split: prod.splits)
qed

lemma settled_sound:
  assumes "settled_of s = settled_of t" "sound s"
  shows "sound t"
proof -
  have "vault_of s = vault_of t" "accounts s = accounts t"
    using assms(1) by (simp_all add: settled_of_def vault_of_def books_of_def lifecycle_of_def)
  moreover from durable_settled [OF assms(1)] assms(2) have "books_ok t" "rows_ok t"
    by (auto simp: durable_def progresses_def sound_def)
  ultimately show ?thesis
    using assms(2) vault_same [of s t] by (simp add: sound_def custody_def house_def)
qed

lemma system_step_sound: "system_step R E w w' \<Longrightarrow> sound (sy_db w) \<Longrightarrow> sound (sy_db w')"
proof (induction rule: system_step.induct)
  case (request reachable fs q call w r t st)
  from custodial_sound(1) [where K = "{}", OF api_custody.dispatch_keeps [OF request(1)]] request(2) show ?case by simp
next
  case (scheduled w describe fault)
  have "custodial {} (sy_db w) (poll E describe fault (sy_db w))"
    unfolding poll_def by (rule committed_custody.transaction_rel [OF worker_custody])
  from custodial_sound(1) [OF this] scheduled show ?case by simp
next
  case (relayed broker n m fault w v)
  from relay_poll_settled [of E broker n m fault "relay_view w"] relayed show ?case
    by (auto intro: settled_sound [OF sym])
next
  case (delivered key envelope w fault v)
  from custodial_sound(1) [OF consume_custodial [of "consumer_view w" E envelope fault]] delivered(2,3) show ?case by auto
qed

lemma system_run_sound: "system_run R E w w' \<Longrightarrow> sound (sy_db w) \<Longrightarrow> sound (sy_db w')"
  by (induction rule: rtranclp_induct) (auto intro: system_step_sound)

text \<open>The orders that are not settled are worth no more than the holds that back them.\<close>

lemma distinct_mapD: "distinct (map f xs) \<Longrightarrow> distinct xs"
  by (simp add: distinct_map)

lemma sql_sum_distinct: "distinct xs \<Longrightarrow> sql_sum f xs = sum f (set xs)"
  by (simp add: sql_sum_def sum_list_distinct_conv_sum_set)

lemma orders_backed:
  assumes "sound s"
  shows "sql_sum e_amount (filter (\<lambda>e. e_settlement_transfer e = None) (safepay_escrows s)) \<le> held_sum HELD (transfers s)"
proof -
  let ?open = "filter (\<lambda>e. e_settlement_transfer e = None) (safepay_escrows s)"
  let ?held = "filter (\<lambda>x. t_status x = HELD) (transfers s)"
  let ?hold = "\<lambda>e. the (sql_get t_id (e_hold_transfer e) (transfers s))"
  have keys: "keys_distinct t_id (transfers s)" "keys_distinct e_hold_transfer (safepay_escrows s)"
    using transfers_key [of "books_of s"] assms by (simp_all add: sound_def books_ok_def rows_ok_def escrows_ok_def)
  then have dist: "distinct ?open" "distinct ?held" by (auto dest: distinct_mapD)
  have hold: "?hold e \<in> set ?held \<and> t_id (?hold e) = e_hold_transfer e \<and> t_amount (?hold e) = e_amount e"
    if "e \<in> set ?open" for e
  proof -
    from assms that obtain x where x: "x \<in> set (transfers s)" "t_id x = e_hold_transfer e" "t_status x = HELD"
        "t_amount x = e_amount e" by (auto simp: sound_def custody_def backed_def)
    with sql_get_unique [OF keys(1) x(1)] show ?thesis by simp
  qed
  have inj: "inj_on ?hold (set ?open)"
  proof (rule inj_onI)
    fix d e
    assume de: "d \<in> set ?open" "e \<in> set ?open" "?hold d = ?hold e"
    have "e_hold_transfer d = t_id (?hold d)" using hold [OF de(1)] by (simp only:)
    also have "\<dots> = e_hold_transfer e" unfolding de(3) using hold [OF de(2)] by (simp only:)
    finally show "d = e" using keys_distinct_eq [OF keys(2)] de(1,2) by (metis filter_is_subset subsetD)
  qed
  have "sql_sum e_amount ?open = (\<Sum>e \<in> set ?open. t_amount (?hold e))"
    by (simp only: sql_sum_distinct [OF dist(1)]) (rule sum.cong [OF refl], use hold in simp)
  also have "\<dots> = (\<Sum>x \<in> ?hold ` set ?open. t_amount x)" by (simp only: sum.reindex [OF inj] comp_def)
  also have "\<dots> \<le> (\<Sum>x \<in> set ?held. t_amount x)"
  proof (rule sum_mono2)
    show "?hold ` set ?open \<subseteq> set ?held" using hold by blast
    show "0 \<le> t_amount x" if "x \<in> set ?held - ?hold ` set ?open" for x
      using books_transfer_positive [of s x] assms that by (auto simp: sound_def)
  qed simp
  finally show ?thesis by (simp add: held_sum_def sql_sum_distinct [OF dist(2)])
qed

lemma house_balance:
  assumes "sound s" "st \<in> parked"
  shows "\<exists>a \<in> set (accounts s). a_id a = holding_account st \<and> held_sum st (transfers s) \<le> a_balance a"
proof -
  from assms obtain a where a: "a \<in> set (accounts s)" "a_id a = holding_account st"
    unfolding sound_def custody_def house_def by blast
  with balance_of_stored [of s a] assms have "held_sum st (transfers s) \<le> a_balance a"
    by (auto simp: sound_def custody_def solvent_def)
  with a show ?thesis by blast
qed

text \<open>
  C3: money in custody is always there.  After any run of the system, the stored balance of the escrow
  account covers every SafePay order that is not settled, and the stored balance of the pending-settlement
  account covers every send whose undo window is still open.
\<close>

theorem custody_covered:
  assumes "system_run R E w w'" "sound (sy_db w)"
  shows "\<exists>esc \<in> set (accounts (sy_db w')). \<exists>pend \<in> set (accounts (sy_db w')).
      a_id esc = ESCROW_ACCOUNT_ID \<and> a_id pend = PENDING_SETTLEMENT_ACCOUNT_ID
    \<and> sql_sum e_amount (filter (\<lambda>e. e_settlement_transfer e = None) (safepay_escrows (sy_db w'))) \<le> a_balance esc
    \<and> sql_sum t_amount (filter (\<lambda>x. t_status x = PENDING_UNDO) (transfers (sy_db w'))) \<le> a_balance pend"
proof -
  have ok: "sound (sy_db w')" using system_run_sound assms by blast
  from house_balance [OF ok, of HELD] house_balance [OF ok, of PENDING_UNDO] orders_backed [OF ok]
  show ?thesis by (fastforce simp: holding_account_def held_sum_def)
qed

lemma demo_sound: "sound demo_db"
  using demo_invariants
  by (simp add: sound_def custody_def house_def solvent_def backed_def keyed_def used_keys_def demo_db_def
      demo_account_def holding_account_def balance_of_def)

theorem custody_covered_witness:
  "\<exists>w'. system_run demo_redis demo_env (demo_system demo_db) w'
     \<and> (\<exists>esc \<in> set (accounts (sy_db w')). a_id esc = ESCROW_ACCOUNT_ID
          \<and> sql_sum e_amount (filter (\<lambda>e. e_settlement_transfer e = None) (safepay_escrows (sy_db w'))) \<le> a_balance esc)"
proof -
  obtain w' where run: "system_run demo_redis demo_env (demo_system demo_db) w'" using demo_run by blast
  from custody_covered [OF run] demo_sound run show ?thesis by (auto simp: demo_system_def)
qed

end
