(* ===== verification/Sql_Schema.thy ===== *)
theory Sql_Schema
  imports Json
begin

text \<open>
  The language of the database schema: column types, CHECK conditions with SQL's three-valued logic,
  constraints, indexes and tables, and the declarative layer the table classes are written in
  (\<open>platform_/database/base.py\<close>, \<open>platform_/database/types.py\<close>).  A declaration carries short
  constraint names; \<open>NAMING_CONVENTION\<close> turns them into the names the database knows.
\<close>

section \<open>Types, values and conditions\<close>

datatype sql_type =
    CharT nat | StringT nat | TextT | IntegerT | BigIntegerT | BooleanT | DateTimeT | JsonbT

datatype sql_value =
    VNull | VStr string | VInt int | VBool bool | VTime int | VJson dict

datatype operand = Col string | Str string | Num int

datatype comparison = Equal | Differs | Less | AtMost | Greater | AtLeast

datatype char_class = Exactly char | Between char char

text \<open>
  \<open>Matches\<close> is the anchored regular-expression match \<open>~ '^...$'\<close> for a pattern that is a sequence of
  single-character classes.
\<close>

datatype condition =
    Compare comparison operand operand
  | In operand "string list"
  | NotIn operand "string list"
  | IsNull operand
  | IsNotNull operand
  | Matches operand "char_class list"
  | And condition condition
  | Or condition condition

type_synonym sql_row = "string \<Rightarrow> sql_value"

text \<open>A row with the given column values; a column that is not listed is NULL.\<close>

definition row_of :: "(string \<times> sql_value) list \<Rightarrow> sql_row" where
  "row_of kvs = (\<lambda>c. case map_of kvs c of None \<Rightarrow> VNull | Some v \<Rightarrow> v)"

fun operand_value :: "sql_row \<Rightarrow> operand \<Rightarrow> sql_value" where
  "operand_value r (Col c) = r c"
| "operand_value r (Str s) = VStr s"
| "operand_value r (Num i) = VInt i"

text \<open>A comparison with NULL is unknown (\<open>None\<close>); the schema orders numbers only.\<close>

fun compare_ints :: "(int \<Rightarrow> int \<Rightarrow> bool) \<Rightarrow> sql_value \<Rightarrow> sql_value \<Rightarrow> bool option" where
  "compare_ints P (VInt i) (VInt j) = Some (P i j)"
| "compare_ints P v w = None"

definition compare_values :: "comparison \<Rightarrow> sql_value \<Rightarrow> sql_value \<Rightarrow> bool option" where
  "compare_values c v w =
     (if v = VNull \<or> w = VNull then None
      else case c of
        Equal \<Rightarrow> Some (v = w)
      | Differs \<Rightarrow> Some (v \<noteq> w)
      | Less \<Rightarrow> compare_ints (<) v w
      | AtMost \<Rightarrow> compare_ints (\<le>) v w
      | Greater \<Rightarrow> compare_ints (>) v w
      | AtLeast \<Rightarrow> compare_ints (\<ge>) v w)"

fun in_class :: "char \<Rightarrow> char_class \<Rightarrow> bool" where
  "in_class ch (Exactly d) = (ch = d)"
| "in_class ch (Between lo hi) = (of_char lo \<le> (of_char ch :: nat) \<and> of_char ch \<le> (of_char hi :: nat))"

fun and3 :: "bool option \<Rightarrow> bool option \<Rightarrow> bool option" where
  "and3 (Some False) q = Some False"
| "and3 p (Some False) = Some False"
| "and3 (Some True) (Some True) = Some True"
| "and3 p q = None"

fun or3 :: "bool option \<Rightarrow> bool option \<Rightarrow> bool option" where
  "or3 (Some True) q = Some True"
| "or3 p (Some True) = Some True"
| "or3 (Some False) (Some False) = Some False"
| "or3 p q = None"

fun member3 :: "sql_value \<Rightarrow> string list \<Rightarrow> bool option" where
  "member3 VNull xs = None"
| "member3 v xs = Some (v \<in> VStr ` set xs)"

fun truth :: "sql_row \<Rightarrow> condition \<Rightarrow> bool option" where
  "truth r (Compare c x y) = compare_values c (operand_value r x) (operand_value r y)"
| "truth r (In x xs) = member3 (operand_value r x) xs"
| "truth r (NotIn x xs) = map_option Not (member3 (operand_value r x) xs)"
| "truth r (IsNull x) = Some (operand_value r x = VNull)"
| "truth r (IsNotNull x) = Some (operand_value r x \<noteq> VNull)"
| "truth r (Matches x cs) = (case operand_value r x of VStr s \<Rightarrow> Some (list_all2 in_class s cs) | _ \<Rightarrow> None)"
| "truth r (And p q) = and3 (truth r p) (truth r q)"
| "truth r (Or p q) = or3 (truth r p) (truth r q)"

text \<open>A CHECK constraint refuses a row only when its condition is false, not when it is unknown.\<close>

definition check_passes :: "sql_row \<Rightarrow> condition \<Rightarrow> bool" where
  "check_passes r p \<longleftrightarrow> truth r p \<noteq> Some False"

fun operand_columns :: "operand \<Rightarrow> string list" where
  "operand_columns (Col c) = [c]"
| "operand_columns _ = []"

fun condition_columns :: "condition \<Rightarrow> string list" where
  "condition_columns (Compare c x y) = operand_columns x @ operand_columns y"
| "condition_columns (In x xs) = operand_columns x"
| "condition_columns (NotIn x xs) = operand_columns x"
| "condition_columns (IsNull x) = operand_columns x"
| "condition_columns (IsNotNull x) = operand_columns x"
| "condition_columns (Matches x cs) = operand_columns x"
| "condition_columns (And p q) = condition_columns p @ condition_columns q"
| "condition_columns (Or p q) = condition_columns p @ condition_columns q"


section \<open>Tables\<close>

datatype server_default = TextDefault string | IntDefault int | TrueDefault | NowDefault

datatype on_delete = RESTRICT | CASCADE | SET_NULL

datatype column =
  Column (col_name: string) (col_type: sql_type) (col_nullable: bool) (col_default: "server_default option")

datatype table_constraint =
    PrimaryKey (con_name: string) (con_columns: "string list")
  | Unique (con_name: string) (con_columns: "string list")
  | ForeignKey (con_name: string) (con_columns: "string list") string "string list" on_delete
  | Check (con_name: string) condition

datatype index =
  Index (ix_name: string) (ix_columns: "string list") (ix_unique: bool) (ix_where: "condition option")

record table =
  tb_name :: string
  tb_columns :: "column list"
  tb_constraints :: "table_constraint list"
  tb_indexes :: "index list"

text \<open>
  Whether a row may be inserted beside the rows a table has, given the rows of all tables.  A unique
  key with a NULL in it never conflicts, a foreign key with a NULL in it refers to nothing, and a
  foreign key to its own table may refer to the row itself.
\<close>

fun admits :: "(string \<Rightarrow> sql_row list) \<Rightarrow> string \<Rightarrow> sql_row \<Rightarrow> table_constraint \<Rightarrow> bool" where
  "admits db t r (PrimaryKey n cs) =
     (VNull \<notin> set (map r cs) \<and> (\<forall>x \<in> set (db t). map x cs \<noteq> map r cs))"
| "admits db t r (Unique n cs) =
     (VNull \<in> set (map r cs) \<or> (\<forall>x \<in> set (db t). map x cs \<noteq> map r cs))"
| "admits db t r (ForeignKey n cs u us d) =
     (VNull \<in> set (map r cs) \<or> (\<exists>x \<in> set (if u = t then r # db u else db u). map x us = map r cs))"
| "admits db t r (Check n p) = check_passes r p"

definition not_null_ok :: "table \<Rightarrow> sql_row \<Rightarrow> bool" where
  "not_null_ok t r \<longleftrightarrow> (\<forall>c \<in> set (tb_columns t). col_nullable c \<or> r (col_name c) \<noteq> VNull)"

definition admitted :: "(string \<Rightarrow> sql_row list) \<Rightarrow> table \<Rightarrow> sql_row \<Rightarrow> bool" where
  "admitted db t r \<longleftrightarrow> not_null_ok t r \<and> list_all (admits db (tb_name t) r) (tb_constraints t)"


section \<open>The naming convention\<close>

fun join_names :: "string list \<Rightarrow> string" where
  "join_names [] = []"
| "join_names [c] = c"
| "join_names (c # cs) = c @ ''_'' @ join_names cs"

definition ix_convention :: "string \<Rightarrow> string list \<Rightarrow> string" where
  "ix_convention t cs = ''ix_'' @ t @ ''_'' @ join_names cs"

definition uq_convention :: "string \<Rightarrow> string list \<Rightarrow> string" where
  "uq_convention t cs = ''uq_'' @ t @ ''_'' @ join_names cs"

definition ck_convention :: "string \<Rightarrow> string \<Rightarrow> string" where
  "ck_convention t n = ''ck_'' @ t @ ''_'' @ n"

definition fk_convention :: "string \<Rightarrow> string \<Rightarrow> string" where
  "fk_convention t c = ''fk_'' @ t @ ''_'' @ c"

definition pk_convention :: "string \<Rightarrow> string" where
  "pk_convention t = ''pk_'' @ t"


section \<open>Declared columns\<close>

datatype column_option =
    PrimaryKeyColumn
  | UniqueColumn
  | References string string on_delete
  | ServerDefault server_default

datatype mapped_column =
  Mapped (mc_name: string) (mc_type: sql_type) (mc_nullable: bool) (mc_options: "column_option list")

definition ULID_LENGTH :: nat where
  "ULID_LENGTH = 26"

definition UlidPk :: "string \<Rightarrow> mapped_column" where
  "UlidPk n = Mapped n (CharT ULID_LENGTH) False [PrimaryKeyColumn]"

definition MoneyMinor :: sql_type where
  "MoneyMinor = BigIntegerT"

definition CurrencyCode :: sql_type where
  "CurrencyCode = CharT 3"

definition ShortText :: sql_type where
  "ShortText = StringT 120"

definition StatusText :: sql_type where
  "StatusText = StringT 30"

definition created_at_column :: "string \<Rightarrow> mapped_column" where
  "created_at_column n = Mapped n DateTimeT False [ServerDefault NowDefault]"

text \<open>The \<open>onupdate\<close> of the column is applied by the client and is no part of the schema.\<close>

definition updated_at_column :: "string \<Rightarrow> mapped_column" where
  "updated_at_column n = Mapped n DateTimeT False [ServerDefault NowDefault]"

datatype table_arg =
    CheckConstraint condition string
  | UniqueConstraint "string list" string
  | IndexOn string "string list" "condition option"


section \<open>From a declaration to a table\<close>

fun default_of :: "column_option list \<Rightarrow> server_default option" where
  "default_of [] = None"
| "default_of (ServerDefault d # os) = Some d"
| "default_of (_ # os) = default_of os"

definition column_of :: "mapped_column \<Rightarrow> column" where
  "column_of c = Column (mc_name c) (mc_type c) (mc_nullable c) (default_of (mc_options c))"

fun option_constraint :: "string \<Rightarrow> string \<Rightarrow> column_option \<Rightarrow> table_constraint list" where
  "option_constraint t c UniqueColumn = [Unique (uq_convention t [c]) [c]]"
| "option_constraint t c (References u d od) = [ForeignKey (fk_convention t c) [c] u [d] od]"
| "option_constraint t c _ = []"

fun arg_constraint :: "string \<Rightarrow> table_arg \<Rightarrow> table_constraint list" where
  "arg_constraint t (CheckConstraint p n) = [Check (ck_convention t n) p]"
| "arg_constraint t (UniqueConstraint cs n) = [Unique n cs]"
| "arg_constraint t (IndexOn n cs w) = []"

fun arg_index :: "table_arg \<Rightarrow> index list" where
  "arg_index (IndexOn n cs w) = [Index n cs False w]"
| "arg_index _ = []"

definition declared :: "string \<Rightarrow> mapped_column list \<Rightarrow> table_arg list \<Rightarrow> table" where
  "declared t cs args =
     \<lparr>tb_name = t,
      tb_columns = map column_of cs,
      tb_constraints =
        PrimaryKey (pk_convention t) (map mc_name (filter (\<lambda>c. PrimaryKeyColumn \<in> set (mc_options c)) cs))
        # concat (map (\<lambda>c. concat (map (option_constraint t (mc_name c)) (mc_options c))) cs)
        @ concat (map (arg_constraint t) args),
      tb_indexes = concat (map arg_index args)\<rparr>"

end
