(* ===== verification/Migrations.thy ===== *)
theory Migrations
  imports Sql_Schema Account
begin

text \<open>
  What a migration does to the database: the operations of Alembic the revisions use, as PostgreSQL
  executes them.  A statement that the database refuses (a name that is taken or missing, a reference to
  a table that does not exist, a constraint the stored rows violate, a table others depend on) is
  \<open>None\<close>; the statements of a migration form one transaction, so the first refusal undoes all of it.
\<close>

section \<open>The catalog\<close>

datatype privilege = SelectPriv | InsertPriv | UpdatePriv | DeletePriv | TruncatePriv

record catalog =
  cat_tables :: "table list"
  cat_rows :: "string \<Rightarrow> sql_row list"
  cat_grants :: "(string \<times> string \<times> privilege) list"
  cat_now :: int

definition APP_ROLE :: string where
  "APP_ROLE = ''mm_app''"

definition READONLY_ROLE :: string where
  "READONLY_ROLE = ''mm_readonly''"

datatype operation =
    CreateTable string "column list" "table_constraint list"
  | DropTable string
  | CreateIndex string string "string list" bool "condition option"
  | DropIndex string string
  | AddColumn string column
  | DropColumn string string
  | AddConstraint string table_constraint
  | DropConstraint string string
  | GrantAll "privilege list" string
  | Grant "privilege list" string string
  | Revoke "privilege list" string string
  | InsertAccount string string string
  | DeleteAccounts condition

definition find_table :: "string \<Rightarrow> table list \<Rightarrow> table option" where
  "find_table n ts = find (\<lambda>t. tb_name t = n) ts"

definition put_table :: "table \<Rightarrow> catalog \<Rightarrow> catalog" where
  "put_table t c = c\<lparr>cat_tables := map (\<lambda>x. if tb_name x = tb_name t then t else x) (cat_tables c)\<rparr>"

text \<open>Primary keys and unique constraints are indexes, and indexes share the namespace of the tables.\<close>

fun backing_index :: "table_constraint \<Rightarrow> string list" where
  "backing_index (PrimaryKey n cs) = [n]"
| "backing_index (Unique n cs) = [n]"
| "backing_index _ = []"

definition names_of_table :: "table \<Rightarrow> string list" where
  "names_of_table t = tb_name t # concat (map backing_index (tb_constraints t)) @ map ix_name (tb_indexes t)"

definition relation_names :: "catalog \<Rightarrow> string list" where
  "relation_names c = concat (map names_of_table (cat_tables c))"

fun key_of :: "table_constraint \<Rightarrow> string list list" where
  "key_of (PrimaryKey n cs) = [cs]"
| "key_of (Unique n cs) = [cs]"
| "key_of _ = []"

definition column_type :: "table \<Rightarrow> string \<Rightarrow> sql_type option" where
  "column_type t n = map_option col_type (find (\<lambda>c. col_name c = n) (tb_columns t))"

definition has_columns :: "table \<Rightarrow> string list \<Rightarrow> bool" where
  "has_columns t cs \<longleftrightarrow> list_all (\<lambda>c. column_type t c \<noteq> None) cs"

fun text_type :: "sql_type option \<Rightarrow> bool" where
  "text_type (Some (CharT n)) = True"
| "text_type (Some (StringT n)) = True"
| "text_type (Some TextT) = True"
| "text_type _ = False"

fun number_type :: "sql_type option \<Rightarrow> bool" where
  "number_type (Some IntegerT) = True"
| "number_type (Some BigIntegerT) = True"
| "number_type _ = False"

fun is_text :: "table \<Rightarrow> operand \<Rightarrow> bool" where
  "is_text t (Col c) = text_type (column_type t c)"
| "is_text t (Str s) = True"
| "is_text t (Num i) = False"

fun is_number :: "table \<Rightarrow> operand \<Rightarrow> bool" where
  "is_number t (Col c) = number_type (column_type t c)"
| "is_number t (Str s) = False"
| "is_number t (Num i) = True"

text \<open>The conditions PostgreSQL accepts for a table: its columns, compared with values of their type.\<close>

fun well_typed :: "table \<Rightarrow> condition \<Rightarrow> bool" where
  "well_typed t (Compare c x y) =
     (is_number t x \<and> is_number t y \<or> (c = Equal \<or> c = Differs) \<and> is_text t x \<and> is_text t y)"
| "well_typed t (In x xs) = is_text t x"
| "well_typed t (NotIn x xs) = is_text t x"
| "well_typed t (IsNull x) = has_columns t (operand_columns x)"
| "well_typed t (IsNotNull x) = has_columns t (operand_columns x)"
| "well_typed t (Matches x cs) = is_text t x"
| "well_typed t (And p q) = (well_typed t p \<and> well_typed t q)"
| "well_typed t (Or p q) = (well_typed t p \<and> well_typed t q)"

text \<open>A constraint that can be declared for a table, which may refer to itself.\<close>

fun declarable :: "table list \<Rightarrow> table \<Rightarrow> table_constraint \<Rightarrow> bool" where
  "declarable ts t (PrimaryKey n cs) = has_columns t cs"
| "declarable ts t (Unique n cs) = has_columns t cs"
| "declarable ts t (ForeignKey n cs u us d) =
     (case (if u = tb_name t then Some t else find_table u ts) of
        None \<Rightarrow> False
      | Some target \<Rightarrow> has_columns t cs \<and> us \<in> set (concat (map key_of (tb_constraints target)))
          \<and> map (column_type t) cs = map (column_type target) us)"
| "declarable ts t (Check n p) = well_typed t p"

text \<open>Whether the stored rows of a table satisfy a constraint that is being added.\<close>

fun satisfied :: "catalog \<Rightarrow> string \<Rightarrow> table_constraint \<Rightarrow> bool" where
  "satisfied c t (PrimaryKey n cs) =
     (list_all (\<lambda>r. VNull \<notin> set (map r cs)) (cat_rows c t) \<and> distinct (map (\<lambda>r. map r cs) (cat_rows c t)))"
| "satisfied c t (Unique n cs) = distinct (filter (\<lambda>k. VNull \<notin> set k) (map (\<lambda>r. map r cs) (cat_rows c t)))"
| "satisfied c t (ForeignKey n cs u us d) =
     list_all (\<lambda>r. VNull \<in> set (map r cs) \<or> map r cs \<in> set (map (\<lambda>x. map x us) (cat_rows c u))) (cat_rows c t)"
| "satisfied c t (Check n p) = list_all (\<lambda>r. check_passes r p) (cat_rows c t)"

fun refers_to :: "string \<Rightarrow> table_constraint \<Rightarrow> bool" where
  "refers_to t (ForeignKey n cs u us d) = (u = t)"
| "refers_to t _ = False"

fun mentions :: "string \<Rightarrow> table_constraint \<Rightarrow> bool" where
  "mentions x (PrimaryKey n cs) = (x \<in> set cs)"
| "mentions x (Unique n cs) = (x \<in> set cs)"
| "mentions x (ForeignKey n cs u us d) = (x \<in> set cs)"
| "mentions x (Check n p) = (x \<in> set (condition_columns p))"

fun depends_on :: "string \<Rightarrow> string list \<Rightarrow> table_constraint \<Rightarrow> bool" where
  "depends_on t key (ForeignKey n cs u us d) = (u = t \<and> us = key)"
| "depends_on t key _ = False"


section \<open>Executing an operation\<close>

text \<open>A new table gets the default privileges the owner declared when the roles were created.\<close>

definition grant :: "privilege list \<Rightarrow> string \<Rightarrow> string \<Rightarrow> catalog \<Rightarrow> catalog" where
  "grant ps t role c = c\<lparr>cat_grants := cat_grants c @ map (\<lambda>p. (role, t, p)) ps\<rparr>"

definition revoke :: "privilege list \<Rightarrow> string \<Rightarrow> string \<Rightarrow> catalog \<Rightarrow> catalog" where
  "revoke ps t role c = c\<lparr>cat_grants := filter (\<lambda>(r, u, p). \<not> (r = role \<and> u = t \<and> p \<in> set ps)) (cat_grants c)\<rparr>"

fun default_value :: "int \<Rightarrow> server_default option \<Rightarrow> sql_value" where
  "default_value now None = VNull"
| "default_value now (Some (TextDefault s)) = VStr s"
| "default_value now (Some (IntDefault i)) = VInt i"
| "default_value now (Some TrueDefault) = VBool True"
| "default_value now (Some NowDefault) = VTime now"

definition system_account_row :: "string \<Rightarrow> string \<Rightarrow> string \<Rightarrow> int \<Rightarrow> sql_row" where
  "system_account_row i ty number now = row_of
     [(''id'', VStr i), (''user_id'', VNull), (''account_type'', VStr ty), (''account_number'', VStr number),
      (''currency'', VStr ''BDT''), (''balance_minor'', VInt 0), (''status'', VStr ''ACTIVE''), (''version'', VInt 0),
      (''created_at'', VTime now), (''updated_at'', VTime now)]"

definition create_table :: "string \<Rightarrow> column list \<Rightarrow> table_constraint list \<Rightarrow> catalog \<Rightarrow> catalog option" where
  "create_table n cols cons c =
     (let t = \<lparr>tb_name = n, tb_columns = cols, tb_constraints = cons, tb_indexes = []\<rparr>;
          names = n # concat (map backing_index cons)
      in if distinct names \<and> list_all (\<lambda>x. x \<notin> set (relation_names c)) names
            \<and> distinct (map col_name cols) \<and> distinct (map con_name cons) \<and> list_all (declarable (cat_tables c) t) cons
         then Some (grant [SelectPriv, InsertPriv, UpdatePriv, DeletePriv] n APP_ROLE
                (grant [SelectPriv] n READONLY_ROLE
                  (c\<lparr>cat_tables := cat_tables c @ [t], cat_rows := (cat_rows c)(n := [])\<rparr>)))
         else None)"

definition drop_table :: "string \<Rightarrow> catalog \<Rightarrow> catalog option" where
  "drop_table n c =
     (if find_table n (cat_tables c) = None
         \<or> list_ex (\<lambda>u. tb_name u \<noteq> n \<and> list_ex (refers_to n) (tb_constraints u)) (cat_tables c)
      then None
      else Some (c\<lparr>cat_tables := filter (\<lambda>t. tb_name t \<noteq> n) (cat_tables c), cat_rows := (cat_rows c)(n := []),
                   cat_grants := filter (\<lambda>(r, u, p). u \<noteq> n) (cat_grants c)\<rparr>))"

definition add_constraint :: "string \<Rightarrow> table_constraint \<Rightarrow> catalog \<Rightarrow> catalog option" where
  "add_constraint n k c =
     (case find_table n (cat_tables c) of
        None \<Rightarrow> None
      | Some t \<Rightarrow>
          if con_name k \<notin> set (map con_name (tb_constraints t))
             \<and> list_all (\<lambda>x. x \<notin> set (relation_names c)) (backing_index k) \<and> declarable (cat_tables c) t k \<and> satisfied c n k
          then Some (put_table (t\<lparr>tb_constraints := tb_constraints t @ [k]\<rparr>) c)
          else None)"

definition drop_constraint :: "string \<Rightarrow> string \<Rightarrow> catalog \<Rightarrow> catalog option" where
  "drop_constraint k n c =
     (case find_table n (cat_tables c) of
        None \<Rightarrow> None
      | Some t \<Rightarrow>
          (case find (\<lambda>x. con_name x = k) (tb_constraints t) of
             None \<Rightarrow> None
           | Some x \<Rightarrow>
               if list_ex (\<lambda>key. list_ex (\<lambda>u. list_ex (depends_on n key) (tb_constraints u)) (cat_tables c)) (key_of x)
               then None
               else Some (put_table (t\<lparr>tb_constraints := filter (\<lambda>y. con_name y \<noteq> k) (tb_constraints t)\<rparr>) c)))"

definition add_column :: "string \<Rightarrow> column \<Rightarrow> catalog \<Rightarrow> catalog option" where
  "add_column n col c =
     (case find_table n (cat_tables c) of
        None \<Rightarrow> None
      | Some t \<Rightarrow>
          (let v = default_value (cat_now c) (col_default col) in
           if column_type t (col_name col) \<noteq> None \<or> \<not> col_nullable col \<and> v = VNull \<and> cat_rows c n \<noteq> [] then None
           else Some (put_table (t\<lparr>tb_columns := tb_columns t @ [col]\<rparr>)
                  (c\<lparr>cat_rows := (cat_rows c)(n := map (\<lambda>r. r(col_name col := v)) (cat_rows c n))\<rparr>))))"

text \<open>Dropping a column takes the constraints and indexes that mention it along.\<close>

definition drop_column :: "string \<Rightarrow> string \<Rightarrow> catalog \<Rightarrow> catalog option" where
  "drop_column n x c =
     (case find_table n (cat_tables c) of
        None \<Rightarrow> None
      | Some t \<Rightarrow>
          if column_type t x = None
             \<or> list_ex (\<lambda>u. list_ex (\<lambda>k. refers_to n k \<and> depends_on n [x] k) (tb_constraints u)) (cat_tables c)
          then None
          else Some (put_table (t\<lparr>tb_columns := filter (\<lambda>col. col_name col \<noteq> x) (tb_columns t),
                                   tb_constraints := filter (\<lambda>k. \<not> mentions x k) (tb_constraints t),
                                   tb_indexes := filter (\<lambda>i. x \<notin> set (ix_columns i)) (tb_indexes t)\<rparr>)
                 (c\<lparr>cat_rows := (cat_rows c)(n := map (\<lambda>r. r(x := VNull)) (cat_rows c n))\<rparr>)))"

definition create_index :: "string \<Rightarrow> string \<Rightarrow> string list \<Rightarrow> bool \<Rightarrow> condition option \<Rightarrow> catalog \<Rightarrow> catalog option" where
  "create_index i n cs u w c =
     (case find_table n (cat_tables c) of
        None \<Rightarrow> None
      | Some t \<Rightarrow>
          if i \<notin> set (relation_names c) \<and> has_columns t cs \<and> (case w of None \<Rightarrow> True | Some p \<Rightarrow> well_typed t p)
             \<and> (u \<longrightarrow> satisfied c n (Unique i cs))
          then Some (put_table (t\<lparr>tb_indexes := tb_indexes t @ [Index i cs u w]\<rparr>) c)
          else None)"

definition drop_index :: "string \<Rightarrow> string \<Rightarrow> catalog \<Rightarrow> catalog option" where
  "drop_index i n c =
     (case find_table n (cat_tables c) of
        None \<Rightarrow> None
      | Some t \<Rightarrow>
          if i \<in> set (map ix_name (tb_indexes t))
          then Some (put_table (t\<lparr>tb_indexes := filter (\<lambda>x. ix_name x \<noteq> i) (tb_indexes t)\<rparr>) c)
          else None)"

text \<open>\<open>INSERT INTO accounts ... ON CONFLICT (id) DO NOTHING\<close>.\<close>

definition insert_system_account :: "string \<Rightarrow> string \<Rightarrow> string \<Rightarrow> catalog \<Rightarrow> catalog option" where
  "insert_system_account i ty number c =
     (case find_table ''accounts'' (cat_tables c) of
        None \<Rightarrow> None
      | Some t \<Rightarrow>
          (let r = system_account_row i ty number (cat_now c) in
           if list_ex (\<lambda>x. x ''id'' = VStr i) (cat_rows c ''accounts'') then Some c
           else if admitted (cat_rows c) t r
           then Some (c\<lparr>cat_rows := (cat_rows c)(''accounts'' := cat_rows c ''accounts'' @ [r])\<rparr>)
           else None))"

text \<open>
  \<open>DELETE FROM accounts WHERE ...\<close>; every foreign key to \<open>accounts\<close> is declared ON DELETE RESTRICT,
  so a row that another row refers to cannot go.
\<close>

fun restricts :: "catalog \<Rightarrow> sql_row \<Rightarrow> table \<Rightarrow> table_constraint \<Rightarrow> bool" where
  "restricts c r t (ForeignKey n cs u us d) =
     (u = ''accounts'' \<and> list_ex (\<lambda>x. VNull \<notin> set (map x cs) \<and> map x cs = map r us) (cat_rows c (tb_name t)))"
| "restricts c r t _ = False"

definition delete_accounts :: "condition \<Rightarrow> catalog \<Rightarrow> catalog option" where
  "delete_accounts p c =
     (if find_table ''accounts'' (cat_tables c) = None
         \<or> list_ex (\<lambda>r. truth r p = Some True
              \<and> list_ex (\<lambda>t. list_ex (restricts c r t) (tb_constraints t)) (cat_tables c)) (cat_rows c ''accounts'')
      then None
      else Some (c\<lparr>cat_rows := (cat_rows c)(''accounts'' :=
             filter (\<lambda>r. truth r p \<noteq> Some True) (cat_rows c ''accounts''))\<rparr>))"

fun execute :: "operation \<Rightarrow> catalog \<Rightarrow> catalog option" where
  "execute (CreateTable n cols cons) c = create_table n cols cons c"
| "execute (DropTable n) c = drop_table n c"
| "execute (CreateIndex i n cs u w) c = create_index i n cs u w c"
| "execute (DropIndex i n) c = drop_index i n c"
| "execute (AddColumn n col) c = add_column n col c"
| "execute (DropColumn n x) c = drop_column n x c"
| "execute (AddConstraint n k) c = add_constraint n k c"
| "execute (DropConstraint k n) c = drop_constraint k n c"
| "execute (GrantAll ps role) c = Some (fold (\<lambda>t. grant ps (tb_name t) role) (cat_tables c) c)"
| "execute (Grant ps n role) c = (if find_table n (cat_tables c) = None then None else Some (grant ps n role c))"
| "execute (Revoke ps n role) c = (if find_table n (cat_tables c) = None then None else Some (revoke ps n role c))"
| "execute (InsertAccount i ty number) c = insert_system_account i ty number c"
| "execute (DeleteAccounts p) c = delete_accounts p c"

text \<open>The statements of a migration run in one transaction.\<close>

fun migrate :: "operation list \<Rightarrow> catalog \<Rightarrow> catalog option" where
  "migrate [] c = Some c"
| "migrate (d # ds) c = Option.bind (execute d c) (migrate ds)"

lemma migrate_append: "migrate (ds @ es) c = Option.bind (migrate ds c) (migrate es)"
proof (induction ds arbitrary: c)
  case (Cons d ds)
  then show ?case by (cases "execute d c") simp_all
qed simp

lemma migrate_step: "migrate ds c = Some d \<Longrightarrow> migrate es d = Some e \<Longrightarrow> migrate (ds @ es) c = Some e"
  by (simp add: migrate_append)

lemma migrate_first: "execute d c = Some c' \<Longrightarrow> migrate ds c' = Some e \<Longrightarrow> migrate (d # ds) c = Some e"
  by simp

text \<open>How a revision introduces a table: the table with its constraints, then its indexes.\<close>

definition create :: "table \<Rightarrow> operation list" where
  "create t = CreateTable (tb_name t) (tb_columns t) (tb_constraints t)
     # map (\<lambda>i. CreateIndex (ix_name i) (tb_name t) (ix_columns i) (ix_unique i) (ix_where i)) (tb_indexes t)"

text \<open>The database before the first migration holds Alembic's own version table.\<close>

definition alembic_version :: table where
  "alembic_version = \<lparr>tb_name = ''alembic_version'', tb_columns = [Column ''version_num'' (StringT 32) False None],
     tb_constraints = [PrimaryKey ''alembic_version_pkc'' [''version_num'']], tb_indexes = []\<rparr>"

definition blank :: "int \<Rightarrow> catalog" where
  "blank now = \<lparr>cat_tables = [alembic_version], cat_rows = (\<lambda>_. []), cat_grants = [], cat_now = now\<rparr>"

end
