(* ===== verification/Revisions.thy ===== *)
theory Revisions
  imports Migrations
begin

text \<open>
  The revisions under \<open>alembic/versions/\<close>, statement by statement: \<open>upgrade\<close> and
  \<open>downgrade\<close> of each, in the order of their \<open>down_revision\<close> chain.
\<close>



section \<open>0f0b191fb9e8: initial schema\<close>

definition table_consumer_inbox :: table where
  "table_consumer_inbox =
     \<lparr>tb_name = ''consumer_inbox'',
      tb_columns =
        [Column ''consumer_name'' (StringT 100) False None,
         Column ''event_id'' (CharT 26) False None,
         Column ''processed_at'' DateTimeT False (Some NowDefault)],
      tb_constraints =
        [PrimaryKey ''pk_consumer_inbox'' [''consumer_name'', ''event_id'']],
      tb_indexes =
        []\<rparr>"

definition table_idempotency_records :: table where
  "table_idempotency_records =
     \<lparr>tb_name = ''idempotency_records'',
      tb_columns =
        [Column ''actor_id'' (CharT 26) False None,
         Column ''endpoint'' (StringT 100) False None,
         Column ''idempotency_key'' (StringT 128) False None,
         Column ''request_fingerprint'' (CharT 64) False None,
         Column ''status'' (StringT 30) False (Some (TextDefault ''PROCESSING'')),
         Column ''resource_id'' (CharT 26) True None,
         Column ''http_status'' IntegerT True None,
         Column ''response_body'' JsonbT True None,
         Column ''created_at'' DateTimeT False (Some NowDefault),
         Column ''completed_at'' DateTimeT True None],
      tb_constraints =
        [Check ''ck_idempotency_records_completed_has_response'' (Or (Compare Differs (Col ''status'')
          (Str ''COMPLETED'')) (And (IsNotNull (Col ''http_status'')) (IsNotNull (Col ''response_body'')))),
         Check ''ck_idempotency_records_status_valid'' (In (Col ''status'') [''PROCESSING'', ''COMPLETED'']),
         PrimaryKey ''pk_idempotency_records'' [''actor_id'', ''endpoint'', ''idempotency_key''],
         Unique ''natural_key'' [''actor_id'', ''endpoint'', ''idempotency_key'']],
      tb_indexes =
        []\<rparr>"

definition table_outbox_events :: table where
  "table_outbox_events =
     \<lparr>tb_name = ''outbox_events'',
      tb_columns =
        [Column ''id'' (CharT 26) False None,
         Column ''aggregate_type'' (StringT 50) False None,
         Column ''aggregate_id'' (CharT 26) False None,
         Column ''event_type'' (StringT 100) False None,
         Column ''payload'' JsonbT False None,
         Column ''trace_id'' (StringT 64) True None,
         Column ''schema_version'' IntegerT False (Some (IntDefault 1)),
         Column ''occurred_at'' DateTimeT False (Some NowDefault),
         Column ''published_at'' DateTimeT True None,
         Column ''attempt_count'' IntegerT False (Some (IntDefault 0)),
         Column ''next_attempt_at'' DateTimeT True None,
         Column ''last_error'' TextT True None,
         Column ''dead_lettered_at'' DateTimeT True None],
      tb_constraints =
        [Check ''ck_outbox_events_attempt_count_non_negative'' (Compare AtLeast (Col ''attempt_count'')
          (Num 0)),
         PrimaryKey ''pk_outbox_events'' [''id'']],
      tb_indexes =
        [Index ''ix_outbox_events_unpublished'' [''next_attempt_at'', ''occurred_at''] False (Some (And
          (IsNull (Col ''published_at'')) (IsNull (Col ''dead_lettered_at''))))]\<rparr>"

definition table_users :: table where
  "table_users =
     \<lparr>tb_name = ''users'',
      tb_columns =
        [Column ''id'' (CharT 26) False None,
         Column ''phone'' (StringT 32) False None,
         Column ''display_name'' (StringT 120) False None,
         Column ''password_hash'' TextT False None,
         Column ''pin_hash'' TextT False None,
         Column ''pin_failed_attempts'' IntegerT False (Some (IntDefault 0)),
         Column ''pin_locked_until'' DateTimeT True None,
         Column ''status'' (StringT 30) False (Some (TextDefault ''ACTIVE'')),
         Column ''created_at'' DateTimeT False (Some NowDefault),
         Column ''updated_at'' DateTimeT False (Some NowDefault)],
      tb_constraints =
        [Check ''ck_users_phone_format'' (Matches (Col ''phone'') ([Exactly CHR ''0'', Exactly CHR ''1'',
          Between CHR ''3'' CHR ''9''] @ replicate 8 (Between CHR ''0'' CHR ''9''))),
         Check ''ck_users_status_valid'' (In (Col ''status'') [''ACTIVE'', ''SUSPENDED'', ''CLOSED'']),
         Check ''ck_users_pin_attempts_non_negative'' (Compare AtLeast (Col ''pin_failed_attempts'') (Num 0)),
         PrimaryKey ''pk_users'' [''id''],
         Unique ''uq_users_phone'' [''phone'']],
      tb_indexes =
        []\<rparr>"

definition table_accounts :: table where
  "table_accounts =
     \<lparr>tb_name = ''accounts'',
      tb_columns =
        [Column ''id'' (CharT 26) False None,
         Column ''user_id'' (CharT 26) True None,
         Column ''account_type'' (StringT 30) False (Some (TextDefault ''USER'')),
         Column ''account_number'' (StringT 20) False None,
         Column ''currency'' (CharT 3) False (Some (TextDefault ''BDT'')),
         Column ''balance_minor'' BigIntegerT False (Some (IntDefault 0)),
         Column ''status'' (StringT 30) False (Some (TextDefault ''ACTIVE'')),
         Column ''version'' BigIntegerT False (Some (IntDefault 0)),
         Column ''created_at'' DateTimeT False (Some NowDefault),
         Column ''updated_at'' DateTimeT False (Some NowDefault)],
      tb_constraints =
        [Check ''ck_accounts_ownership_matches_type'' (Or (And (Compare Equal (Col ''account_type'')
          (Str ''USER'')) (IsNotNull (Col ''user_id''))) (And (Compare Differs (Col ''account_type'')
          (Str ''USER'')) (IsNull (Col ''user_id'')))),
         Check ''ck_accounts_user_balance_non_negative'' (Or (Compare Equal (Col ''account_type'')
           (Str ''SYSTEM_ISSUANCE'')) (Compare AtLeast (Col ''balance_minor'') (Num 0))),
         Check ''ck_accounts_account_type_valid'' (In (Col ''account_type'') [''USER'', ''SYSTEM_ISSUANCE'']),
         Check ''ck_accounts_status_valid'' (In (Col ''status'') [''ACTIVE'', ''FROZEN'', ''CLOSED'']),
         ForeignKey ''fk_accounts_user_id'' [''user_id''] ''users'' [''id''] RESTRICT,
         PrimaryKey ''pk_accounts'' [''id''],
         Unique ''uq_accounts_account_number'' [''account_number''],
         Unique ''uq_accounts_user_id'' [''user_id'']],
      tb_indexes =
        []\<rparr>"

definition table_audit_logs :: table where
  "table_audit_logs =
     \<lparr>tb_name = ''audit_logs'',
      tb_columns =
        [Column ''id'' (CharT 26) False None,
         Column ''actor_user_id'' (CharT 26) True None,
         Column ''action'' (StringT 100) False None,
         Column ''resource_type'' (StringT 50) False None,
         Column ''resource_id'' (CharT 26) True None,
         Column ''request_id'' (StringT 64) True None,
         Column ''ip_address'' (StringT 45) True None,
         Column ''metadata'' JsonbT True None,
         Column ''created_at'' DateTimeT False (Some NowDefault)],
      tb_constraints =
        [ForeignKey ''fk_audit_logs_actor_user_id'' [''actor_user_id''] ''users'' [''id''] SET_NULL,
         PrimaryKey ''pk_audit_logs'' [''id'']],
      tb_indexes =
        [Index ''ix_audit_logs_actor_created'' [''actor_user_id'', ''created_at''] False None,
         Index ''ix_audit_logs_resource'' [''resource_type'', ''resource_id''] False None]\<rparr>"

definition table_sessions :: table where
  "table_sessions =
     \<lparr>tb_name = ''sessions'',
      tb_columns =
        [Column ''id'' (CharT 26) False None,
         Column ''user_id'' (CharT 26) False None,
         Column ''refresh_token_hash'' (StringT 64) False None,
         Column ''rotated_to_id'' (CharT 26) True None,
         Column ''issued_at'' DateTimeT False (Some NowDefault),
         Column ''expires_at'' DateTimeT False None,
         Column ''revoked_at'' DateTimeT True None,
         Column ''user_agent'' (StringT 200) True None,
         Column ''ip_address'' (StringT 45) True None],
      tb_constraints =
        [ForeignKey ''fk_sessions_rotated_to_id'' [''rotated_to_id''] ''sessions'' [''id''] SET_NULL,
         ForeignKey ''fk_sessions_user_id'' [''user_id''] ''users'' [''id''] CASCADE,
         PrimaryKey ''pk_sessions'' [''id''],
         Unique ''uq_sessions_refresh_token_hash'' [''refresh_token_hash'']],
      tb_indexes =
        [Index ''ix_sessions_user_id_active'' [''user_id'', ''expires_at''] False None]\<rparr>"

definition table_transfers :: table where
  "table_transfers =
     \<lparr>tb_name = ''transfers'',
      tb_columns =
        [Column ''id'' (CharT 26) False None,
         Column ''reference'' (StringT 40) False None,
         Column ''sender_account_id'' (CharT 26) False None,
         Column ''receiver_account_id'' (CharT 26) False None,
         Column ''amount_minor'' BigIntegerT False None,
         Column ''currency'' (CharT 3) False None,
         Column ''kind'' (StringT 30) False None,
         Column ''status'' (StringT 30) False None,
         Column ''note'' (StringT 200) True None,
         Column ''initiated_by_user_id'' (CharT 26) True None,
         Column ''request_id'' (StringT 64) True None,
         Column ''reversal_of_id'' (CharT 26) True None,
         Column ''created_at'' DateTimeT False (Some NowDefault),
         Column ''completed_at'' DateTimeT True None],
      tb_constraints =
        [Check ''ck_transfers_kind_valid'' (In (Col ''kind'') [''P2P_SEND'', ''REQUEST_SETTLEMENT'',
          ''SIGNUP_GRANT'', ''REVERSAL'']),
         Check ''ck_transfers_status_valid'' (In (Col ''status'') [''SUCCEEDED'', ''FAILED'', ''REVERSED'']),
         Check ''ck_transfers_amount_positive'' (Compare Greater (Col ''amount_minor'') (Num 0)),
         Check ''ck_transfers_sender_differs_from_receiver'' (Compare Differs (Col ''sender_account_id'')
           (Col ''receiver_account_id'')),
         ForeignKey ''fk_transfers_initiated_by_user_id'' [''initiated_by_user_id''] ''users'' [''id''] SET_NULL,
         ForeignKey ''fk_transfers_receiver_account_id'' [''receiver_account_id''] ''accounts'' [''id''] RESTRICT,
         ForeignKey ''fk_transfers_reversal_of_id'' [''reversal_of_id''] ''transfers'' [''id''] RESTRICT,
         ForeignKey ''fk_transfers_sender_account_id'' [''sender_account_id''] ''accounts'' [''id''] RESTRICT,
         PrimaryKey ''pk_transfers'' [''id''],
         Unique ''uq_transfers_reference'' [''reference'']],
      tb_indexes =
        [Index ''ix_transfers_receiver_created'' [''receiver_account_id'', ''created_at''] False None,
         Index ''ix_transfers_sender_created'' [''sender_account_id'', ''created_at''] False None]\<rparr>"

definition table_ledger_transactions :: table where
  "table_ledger_transactions =
     \<lparr>tb_name = ''ledger_transactions'',
      tb_columns =
        [Column ''id'' (CharT 26) False None,
         Column ''transfer_id'' (CharT 26) False None,
         Column ''type'' (StringT 30) False None,
         Column ''description'' TextT True None,
         Column ''posted_at'' DateTimeT False (Some NowDefault)],
      tb_constraints =
        [ForeignKey ''fk_ledger_transactions_transfer_id'' [''transfer_id''] ''transfers'' [''id''] RESTRICT,
         PrimaryKey ''pk_ledger_transactions'' [''id''],
         Unique ''uq_ledger_transactions_transfer_id'' [''transfer_id'']],
      tb_indexes =
        []\<rparr>"

definition table_money_requests :: table where
  "table_money_requests =
     \<lparr>tb_name = ''money_requests'',
      tb_columns =
        [Column ''id'' (CharT 26) False None,
         Column ''reference'' (StringT 40) False None,
         Column ''requester_account_id'' (CharT 26) False None,
         Column ''payer_account_id'' (CharT 26) False None,
         Column ''amount_minor'' BigIntegerT False None,
         Column ''currency'' (CharT 3) False None,
         Column ''note'' (StringT 200) True None,
         Column ''status'' (StringT 30) False (Some (TextDefault ''PENDING'')),
         Column ''transfer_id'' (CharT 26) True None,
         Column ''expires_at'' DateTimeT False None,
         Column ''responded_at'' DateTimeT True None,
         Column ''created_at'' DateTimeT False (Some NowDefault),
         Column ''updated_at'' DateTimeT False (Some NowDefault)],
      tb_constraints =
        [Check ''ck_money_requests_transfer_only_when_accepted'' (Or (And (Compare Equal (Col ''status'')
          (Str ''ACCEPTED'')) (IsNotNull (Col ''transfer_id''))) (And (Compare Differs (Col ''status'')
          (Str ''ACCEPTED'')) (IsNull (Col ''transfer_id'')))),
         Check ''ck_money_requests_status_valid'' (In (Col ''status'') [''PENDING'', ''ACCEPTED'',
           ''REJECTED'', ''CANCELLED'', ''EXPIRED'']),
         Check ''ck_money_requests_amount_positive'' (Compare Greater (Col ''amount_minor'') (Num 0)),
         Check ''ck_money_requests_requester_differs_from_payer'' (Compare Differs
           (Col ''requester_account_id'') (Col ''payer_account_id'')),
         ForeignKey ''fk_money_requests_payer_account_id'' [''payer_account_id''] ''accounts'' [''id''] RESTRICT,
         ForeignKey ''fk_money_requests_requester_account_id'' [''requester_account_id''] ''accounts'' [''id''] RESTRICT,
         ForeignKey ''fk_money_requests_transfer_id'' [''transfer_id''] ''transfers'' [''id''] RESTRICT,
         PrimaryKey ''pk_money_requests'' [''id''],
         Unique ''uq_money_requests_reference'' [''reference''],
         Unique ''uq_money_requests_transfer_id'' [''transfer_id'']],
      tb_indexes =
        [Index ''ix_money_requests_payer'' [''payer_account_id'', ''status'', ''created_at''] False None,
         Index ''ix_money_requests_pending_expiry'' [''expires_at''] False (Some (Compare Equal
           (Col ''status'') (Str ''PENDING''))),
         Index ''ix_money_requests_requester'' [''requester_account_id'', ''status'',
           ''created_at''] False None]\<rparr>"

definition table_ledger_entries :: table where
  "table_ledger_entries =
     \<lparr>tb_name = ''ledger_entries'',
      tb_columns =
        [Column ''id'' (CharT 26) False None,
         Column ''ledger_transaction_id'' (CharT 26) False None,
         Column ''account_id'' (CharT 26) False None,
         Column ''amount_minor'' BigIntegerT False None,
         Column ''currency'' (CharT 3) False None,
         Column ''balance_after_minor'' BigIntegerT False None,
         Column ''created_at'' DateTimeT False (Some NowDefault)],
      tb_constraints =
        [Check ''ck_ledger_entries_amount_non_zero'' (Compare Differs (Col ''amount_minor'') (Num 0)),
         ForeignKey ''fk_ledger_entries_account_id'' [''account_id''] ''accounts'' [''id''] RESTRICT,
         ForeignKey ''fk_ledger_entries_ledger_transaction_id'' [''ledger_transaction_id''] ''ledger_transactions'' [''id''] RESTRICT,
         PrimaryKey ''pk_ledger_entries'' [''id'']],
      tb_indexes =
        [Index ''ix_ledger_entries_account_id_desc'' [''account_id'', ''id''] False None,
         Index ''ix_ledger_entries_txn'' [''ledger_transaction_id''] False None]\<rparr>"

definition initial_tables :: "table list" where
  "initial_tables =
     [table_consumer_inbox, table_idempotency_records, table_outbox_events, table_users, table_accounts,
       table_audit_logs, table_sessions, table_transfers, table_ledger_transactions, table_money_requests,
       table_ledger_entries]"

definition initial_schema :: "operation list" where
  "initial_schema = concat (map create initial_tables)"

definition initial_schema_down :: "operation list" where
  "initial_schema_down =
     [DropIndex ''ix_ledger_entries_txn'' ''ledger_entries'',
      DropIndex ''ix_ledger_entries_account_id_desc'' ''ledger_entries'',
      DropTable ''ledger_entries'',
      DropIndex ''ix_money_requests_requester'' ''money_requests'',
      DropIndex ''ix_money_requests_pending_expiry'' ''money_requests'',
      DropIndex ''ix_money_requests_payer'' ''money_requests'',
      DropTable ''money_requests'',
      DropTable ''ledger_transactions'',
      DropIndex ''ix_transfers_sender_created'' ''transfers'',
      DropIndex ''ix_transfers_receiver_created'' ''transfers'',
      DropTable ''transfers'',
      DropIndex ''ix_sessions_user_id_active'' ''sessions'',
      DropTable ''sessions'',
      DropIndex ''ix_audit_logs_resource'' ''audit_logs'',
      DropIndex ''ix_audit_logs_actor_created'' ''audit_logs'',
      DropTable ''audit_logs'',
      DropTable ''accounts'',
      DropTable ''users'',
      DropIndex ''ix_outbox_events_unpublished'' ''outbox_events'',
      DropTable ''outbox_events'',
      DropTable ''idempotency_records'',
      DropTable ''consumer_inbox'']"


section \<open>0f0b191fb9e9: ledger privileges and issuance account\<close>

definition APPEND_ONLY_TABLES :: "string list" where
  "APPEND_ONLY_TABLES = [''ledger_entries'', ''ledger_transactions'', ''audit_logs'']"

text \<open>There are no sequences in the schema, so the grant on all sequences has no effect and is left out.\<close>

definition ledger_privileges :: "operation list" where
  "ledger_privileges =
     [GrantAll [SelectPriv, InsertPriv, UpdatePriv, DeletePriv] APP_ROLE, GrantAll [SelectPriv] READONLY_ROLE]
     @ map (\<lambda>t. Revoke [UpdatePriv, DeletePriv] t APP_ROLE) APPEND_ONLY_TABLES
     @ [InsertAccount SYSTEM_ISSUANCE_ACCOUNT_ID ''SYSTEM_ISSUANCE'' ''SYS-ISSUANCE-001'']"

definition ledger_privileges_down :: "operation list" where
  "ledger_privileges_down =
     DeleteAccounts (Compare Equal (Col ''id'') (Str SYSTEM_ISSUANCE_ACCOUNT_ID))
     # map (\<lambda>t. Grant [UpdatePriv, DeletePriv] t APP_ROLE) APPEND_ONLY_TABLES"


section \<open>62e621b0ed86: advanced features\<close>

definition table_scheduled_tasks :: table where
  "table_scheduled_tasks =
     \<lparr>tb_name = ''scheduled_tasks'',
      tb_columns =
        [Column ''id'' (CharT 26) False None,
         Column ''task_type'' (StringT 30) False None,
         Column ''resource_id'' (CharT 26) False None,
         Column ''due_at'' DateTimeT False None,
         Column ''status'' (StringT 30) False (Some (TextDefault ''PENDING'')),
         Column ''attempt_count'' IntegerT False (Some (IntDefault 0)),
         Column ''last_error'' TextT True None,
         Column ''created_at'' DateTimeT False (Some NowDefault),
         Column ''completed_at'' DateTimeT True None],
      tb_constraints =
        [Check ''ck_scheduled_tasks_status_valid'' (In (Col ''status'') [''PENDING'', ''DONE'', ''CANCELLED'',
          ''FAILED'']),
         Check ''ck_scheduled_tasks_task_type_valid'' (In (Col ''task_type'') [''UNDO_SETTLE'',
           ''ESCROW_AUTO_RELEASE'', ''LINK_EXPIRY'', ''MONEY_REQUEST_EXPIRY'']),
         Check ''ck_scheduled_tasks_attempt_count_non_negative'' (Compare AtLeast (Col ''attempt_count'')
           (Num 0)),
         PrimaryKey ''pk_scheduled_tasks'' [''id''],
         Unique ''one_task_per_resource'' [''task_type'', ''resource_id'']],
      tb_indexes =
        [Index ''ix_scheduled_tasks_due'' [''due_at''] False (Some (Compare Equal (Col ''status'')
          (Str ''PENDING'')))]\<rparr>"

definition table_group_wallets :: table where
  "table_group_wallets =
     \<lparr>tb_name = ''group_wallets'',
      tb_columns =
        [Column ''id'' (CharT 26) False None,
         Column ''name'' (StringT 120) False None,
         Column ''account_id'' (CharT 26) False None,
         Column ''created_by_user_id'' (CharT 26) False None,
         Column ''quorum_size'' IntegerT False None,
         Column ''status'' (StringT 30) False (Some (TextDefault ''ACTIVE'')),
         Column ''created_at'' DateTimeT False (Some NowDefault),
         Column ''updated_at'' DateTimeT False (Some NowDefault)],
      tb_constraints =
        [Check ''ck_group_wallets_status_valid'' (In (Col ''status'') [''ACTIVE'', ''CLOSED'']),
         Check ''ck_group_wallets_quorum_at_least_one'' (Compare AtLeast (Col ''quorum_size'') (Num 1)),
         ForeignKey ''fk_group_wallets_account_id'' [''account_id''] ''accounts'' [''id''] RESTRICT,
         ForeignKey ''fk_group_wallets_created_by_user_id'' [''created_by_user_id''] ''users'' [''id''] RESTRICT,
         PrimaryKey ''pk_group_wallets'' [''id''],
         Unique ''uq_group_wallets_account_id'' [''account_id'']],
      tb_indexes =
        []\<rparr>"

definition table_overdraft_pools :: table where
  "table_overdraft_pools =
     \<lparr>tb_name = ''overdraft_pools'',
      tb_columns =
        [Column ''id'' (CharT 26) False None,
         Column ''sponsor_user_id'' (CharT 26) False None,
         Column ''pool_account_id'' (CharT 26) False None,
         Column ''currency'' (CharT 3) False None,
         Column ''status'' (StringT 30) False (Some (TextDefault ''ACTIVE'')),
         Column ''created_at'' DateTimeT False (Some NowDefault),
         Column ''updated_at'' DateTimeT False (Some NowDefault)],
      tb_constraints =
        [Check ''ck_overdraft_pools_status_valid'' (In (Col ''status'') [''ACTIVE'', ''SUSPENDED'',
          ''CLOSED'']),
         ForeignKey ''fk_overdraft_pools_pool_account_id'' [''pool_account_id''] ''accounts'' [''id''] RESTRICT,
         ForeignKey ''fk_overdraft_pools_sponsor_user_id'' [''sponsor_user_id''] ''users'' [''id''] RESTRICT,
         PrimaryKey ''pk_overdraft_pools'' [''id''],
         Unique ''uq_overdraft_pools_pool_account_id'' [''pool_account_id''],
         Unique ''one_pool_per_sponsor'' [''sponsor_user_id'']],
      tb_indexes =
        []\<rparr>"

definition table_payment_links :: table where
  "table_payment_links =
     \<lparr>tb_name = ''payment_links'',
      tb_columns =
        [Column ''id'' (CharT 26) False None,
         Column ''token_hash'' (StringT 64) False None,
         Column ''payee_account_id'' (CharT 26) False None,
         Column ''payee_user_id'' (CharT 26) False None,
         Column ''alias'' (StringT 120) False None,
         Column ''note'' (StringT 200) True None,
         Column ''currency'' (CharT 3) False None,
         Column ''fixed_amount_minor'' BigIntegerT True None,
         Column ''max_amount_minor'' BigIntegerT False None,
         Column ''max_uses'' IntegerT False (Some (IntDefault 1)),
         Column ''uses_count'' IntegerT False (Some (IntDefault 0)),
         Column ''single_use'' BooleanT False (Some TrueDefault),
         Column ''expires_at'' DateTimeT False None,
         Column ''status'' (StringT 30) False (Some (TextDefault ''ACTIVE'')),
         Column ''revoked_at'' DateTimeT True None,
         Column ''created_at'' DateTimeT False (Some NowDefault),
         Column ''updated_at'' DateTimeT False (Some NowDefault)],
      tb_constraints =
        [Check ''ck_payment_links_status_valid'' (In (Col ''status'') [''ACTIVE'', ''CONSUMED'', ''EXPIRED'',
          ''REVOKED'']),
         Check ''ck_payment_links_fixed_amount_within_cap'' (Or (IsNull (Col ''fixed_amount_minor'')) (And
           (Compare Greater (Col ''fixed_amount_minor'') (Num 0)) (Compare AtMost (Col ''fixed_amount_minor'')
           (Col ''max_amount_minor'')))),
         Check ''ck_payment_links_max_amount_positive'' (Compare Greater (Col ''max_amount_minor'') (Num 0)),
         Check ''ck_payment_links_max_uses_at_least_one'' (Compare AtLeast (Col ''max_uses'') (Num 1)),
         Check ''ck_payment_links_uses_within_cap'' (And (Compare AtLeast (Col ''uses_count'') (Num 0))
           (Compare AtMost (Col ''uses_count'') (Col ''max_uses''))),
         ForeignKey ''fk_payment_links_payee_account_id'' [''payee_account_id''] ''accounts'' [''id''] RESTRICT,
         ForeignKey ''fk_payment_links_payee_user_id'' [''payee_user_id''] ''users'' [''id''] RESTRICT,
         PrimaryKey ''pk_payment_links'' [''id''],
         Unique ''uq_payment_links_token_hash'' [''token_hash'']],
      tb_indexes =
        [Index ''ix_payment_links_active_expiry'' [''expires_at''] False (Some (Compare Equal (Col ''status'')
          (Str ''ACTIVE''))),
         Index ''ix_payment_links_payee'' [''payee_user_id'', ''status'', ''created_at''] False None]\<rparr>"

definition table_group_members :: table where
  "table_group_members =
     \<lparr>tb_name = ''group_members'',
      tb_columns =
        [Column ''id'' (CharT 26) False None,
         Column ''group_id'' (CharT 26) False None,
         Column ''user_id'' (CharT 26) False None,
         Column ''role'' (StringT 30) False (Some (TextDefault ''MEMBER'')),
         Column ''joined_at'' DateTimeT False (Some NowDefault),
         Column ''left_at'' DateTimeT True None],
      tb_constraints =
        [Check ''ck_group_members_role_valid'' (In (Col ''role'') [''ADMIN'', ''MEMBER'']),
         ForeignKey ''fk_group_members_group_id'' [''group_id''] ''group_wallets'' [''id''] CASCADE,
         ForeignKey ''fk_group_members_user_id'' [''user_id''] ''users'' [''id''] RESTRICT,
         PrimaryKey ''pk_group_members'' [''id''],
         Unique ''one_membership_per_user'' [''group_id'', ''user_id'']],
      tb_indexes =
        [Index ''ix_group_members_user'' [''user_id'', ''left_at''] False None]\<rparr>"

definition table_group_withdrawal_requests :: table where
  "table_group_withdrawal_requests =
     \<lparr>tb_name = ''group_withdrawal_requests'',
      tb_columns =
        [Column ''id'' (CharT 26) False None,
         Column ''reference'' (StringT 40) False None,
         Column ''group_id'' (CharT 26) False None,
         Column ''requested_by_user_id'' (CharT 26) False None,
         Column ''to_account_id'' (CharT 26) False None,
         Column ''amount_minor'' BigIntegerT False None,
         Column ''currency'' (CharT 3) False None,
         Column ''reason'' (StringT 200) True None,
         Column ''status'' (StringT 30) False (Some (TextDefault ''PENDING'')),
         Column ''transfer_id'' (CharT 26) True None,
         Column ''expires_at'' DateTimeT False None,
         Column ''executed_at'' DateTimeT True None,
         Column ''created_at'' DateTimeT False (Some NowDefault),
         Column ''updated_at'' DateTimeT False (Some NowDefault)],
      tb_constraints =
        [Check ''ck_group_withdrawal_requests_executed_has_transfer'' (Or (And (Compare Equal (Col ''status'')
          (Str ''EXECUTED'')) (IsNotNull (Col ''transfer_id''))) (And (Compare Differs (Col ''status'')
          (Str ''EXECUTED'')) (IsNull (Col ''transfer_id'')))),
         Check ''ck_group_withdrawal_requests_status_valid'' (In (Col ''status'') [''PENDING'', ''APPROVED'',
           ''EXECUTED'', ''REJECTED'', ''CANCELLED'', ''EXPIRED'']),
         Check ''ck_group_withdrawal_requests_amount_positive'' (Compare Greater (Col ''amount_minor'')
           (Num 0)),
         ForeignKey ''fk_group_withdrawal_requests_group_id'' [''group_id''] ''group_wallets'' [''id''] CASCADE,
         ForeignKey ''fk_group_withdrawal_requests_requested_by_user_id'' [''requested_by_user_id''] ''users'' [''id''] RESTRICT,
         ForeignKey ''fk_group_withdrawal_requests_to_account_id'' [''to_account_id''] ''accounts'' [''id''] RESTRICT,
         ForeignKey ''fk_group_withdrawal_requests_transfer_id'' [''transfer_id''] ''transfers'' [''id''] RESTRICT,
         PrimaryKey ''pk_group_withdrawal_requests'' [''id''],
         Unique ''uq_group_withdrawal_requests_reference'' [''reference''],
         Unique ''uq_group_withdrawal_requests_transfer_id'' [''transfer_id'']],
      tb_indexes =
        [Index ''ix_group_withdrawals_group'' [''group_id'', ''status'', ''created_at''] False None]\<rparr>"

definition table_overdraft_grants :: table where
  "table_overdraft_grants =
     \<lparr>tb_name = ''overdraft_grants'',
      tb_columns =
        [Column ''id'' (CharT 26) False None,
         Column ''pool_id'' (CharT 26) False None,
         Column ''beneficiary_user_id'' (CharT 26) False None,
         Column ''max_draw_minor'' BigIntegerT False None,
         Column ''status'' (StringT 30) False (Some (TextDefault ''ACTIVE'')),
         Column ''created_at'' DateTimeT False (Some NowDefault),
         Column ''updated_at'' DateTimeT False (Some NowDefault)],
      tb_constraints =
        [Check ''ck_overdraft_grants_status_valid'' (In (Col ''status'') [''ACTIVE'', ''REVOKED'']),
         Check ''ck_overdraft_grants_max_draw_positive'' (Compare Greater (Col ''max_draw_minor'') (Num 0)),
         ForeignKey ''fk_overdraft_grants_beneficiary_user_id'' [''beneficiary_user_id''] ''users'' [''id''] RESTRICT,
         ForeignKey ''fk_overdraft_grants_pool_id'' [''pool_id''] ''overdraft_pools'' [''id''] CASCADE,
         PrimaryKey ''pk_overdraft_grants'' [''id''],
         Unique ''one_grant_per_beneficiary'' [''pool_id'', ''beneficiary_user_id'']],
      tb_indexes =
        [Index ''ix_overdraft_grants_beneficiary'' [''beneficiary_user_id'', ''status''] False None]\<rparr>"

definition table_overdraft_loans :: table where
  "table_overdraft_loans =
     \<lparr>tb_name = ''overdraft_loans'',
      tb_columns =
        [Column ''id'' (CharT 26) False None,
         Column ''pool_id'' (CharT 26) False None,
         Column ''borrower_user_id'' (CharT 26) False None,
         Column ''draw_transfer_id'' (CharT 26) False None,
         Column ''principal_minor'' BigIntegerT False None,
         Column ''outstanding_minor'' BigIntegerT False None,
         Column ''currency'' (CharT 3) False None,
         Column ''status'' (StringT 30) False (Some (TextDefault ''OUTSTANDING'')),
         Column ''created_at'' DateTimeT False (Some NowDefault),
         Column ''repaid_at'' DateTimeT True None],
      tb_constraints =
        [Check ''ck_overdraft_loans_repaid_means_zero'' (Or (And (Compare Equal (Col ''status'')
          (Str ''REPAID'')) (Compare Equal (Col ''outstanding_minor'') (Num 0))) (Compare Differs
          (Col ''status'') (Str ''REPAID''))),
         Check ''ck_overdraft_loans_status_valid'' (In (Col ''status'') [''OUTSTANDING'', ''REPAID'',
           ''WRITTEN_OFF'']),
         Check ''ck_overdraft_loans_outstanding_within_principal'' (And (Compare AtLeast
           (Col ''outstanding_minor'') (Num 0)) (Compare AtMost (Col ''outstanding_minor'')
           (Col ''principal_minor''))),
         Check ''ck_overdraft_loans_principal_positive'' (Compare Greater (Col ''principal_minor'') (Num 0)),
         ForeignKey ''fk_overdraft_loans_borrower_user_id'' [''borrower_user_id''] ''users'' [''id''] RESTRICT,
         ForeignKey ''fk_overdraft_loans_draw_transfer_id'' [''draw_transfer_id''] ''transfers'' [''id''] RESTRICT,
         ForeignKey ''fk_overdraft_loans_pool_id'' [''pool_id''] ''overdraft_pools'' [''id''] RESTRICT,
         PrimaryKey ''pk_overdraft_loans'' [''id''],
         Unique ''uq_overdraft_loans_draw_transfer_id'' [''draw_transfer_id'']],
      tb_indexes =
        [Index ''ix_overdraft_loans_borrower_outstanding'' [''borrower_user_id''] False (Some (Compare Equal
          (Col ''status'') (Str ''OUTSTANDING'')))]\<rparr>"

definition table_payment_link_payments :: table where
  "table_payment_link_payments =
     \<lparr>tb_name = ''payment_link_payments'',
      tb_columns =
        [Column ''id'' (CharT 26) False None,
         Column ''link_id'' (CharT 26) False None,
         Column ''transfer_id'' (CharT 26) False None,
         Column ''payer_user_id'' (CharT 26) False None,
         Column ''amount_minor'' BigIntegerT False None,
         Column ''created_at'' DateTimeT False (Some NowDefault)],
      tb_constraints =
        [Check ''ck_payment_link_payments_amount_positive'' (Compare Greater (Col ''amount_minor'') (Num 0)),
         ForeignKey ''fk_payment_link_payments_link_id'' [''link_id''] ''payment_links'' [''id''] RESTRICT,
         ForeignKey ''fk_payment_link_payments_payer_user_id'' [''payer_user_id''] ''users'' [''id''] RESTRICT,
         ForeignKey ''fk_payment_link_payments_transfer_id'' [''transfer_id''] ''transfers'' [''id''] RESTRICT,
         PrimaryKey ''pk_payment_link_payments'' [''id''],
         Unique ''uq_payment_link_payments_transfer_id'' [''transfer_id'']],
      tb_indexes =
        [Index ''ix_link_payments_link'' [''link_id'', ''created_at''] False None]\<rparr>"

definition table_safepay_escrows :: table where
  "table_safepay_escrows =
     \<lparr>tb_name = ''safepay_escrows'',
      tb_columns =
        [Column ''id'' (CharT 26) False None,
         Column ''reference'' (StringT 40) False None,
         Column ''hold_transfer_id'' (CharT 26) False None,
         Column ''settlement_transfer_id'' (CharT 26) True None,
         Column ''buyer_user_id'' (CharT 26) False None,
         Column ''seller_user_id'' (CharT 26) False None,
         Column ''amount_minor'' BigIntegerT False None,
         Column ''currency'' (CharT 3) False None,
         Column ''description'' (StringT 200) True None,
         Column ''status'' (StringT 30) False (Some (TextDefault ''AWAITING_SHIPMENT'')),
         Column ''delivery_code_hash'' TextT False None,
         Column ''delivery_code_attempts'' IntegerT False (Some (IntDefault 0)),
         Column ''delivery_code_locked_until'' DateTimeT True None,
         Column ''tracking_number'' (StringT 64) True None,
         Column ''courier_slug'' (StringT 32) True None,
         Column ''shipped_at'' DateTimeT True None,
         Column ''delivered_at'' DateTimeT True None,
         Column ''auto_release_at'' DateTimeT True None,
         Column ''settled_at'' DateTimeT True None,
         Column ''dispute_reason'' (StringT 500) True None,
         Column ''disputed_at'' DateTimeT True None,
         Column ''resolved_by_user_id'' (CharT 26) True None,
         Column ''resolution_note'' (StringT 500) True None,
         Column ''created_at'' DateTimeT False (Some NowDefault),
         Column ''updated_at'' DateTimeT False (Some NowDefault)],
      tb_constraints =
        [Check ''ck_safepay_escrows_settled_has_settlement_leg'' (Or (And (In (Col ''status'') [''RELEASED'',
          ''REFUNDED'']) (IsNotNull (Col ''settlement_transfer_id''))) (And (NotIn
          (Col ''status'') [''RELEASED'', ''REFUNDED'']) (IsNull (Col ''settlement_transfer_id'')))),
         Check ''ck_safepay_escrows_status_valid'' (In (Col ''status'') [''AWAITING_SHIPMENT'', ''SHIPPED'',
           ''DELIVERED'', ''RELEASED'', ''REFUNDED'', ''DISPUTED'', ''CANCELLED'']),
         Check ''ck_safepay_escrows_amount_positive'' (Compare Greater (Col ''amount_minor'') (Num 0)),
         Check ''ck_safepay_escrows_buyer_differs_from_seller'' (Compare Differs (Col ''buyer_user_id'')
           (Col ''seller_user_id'')),
         Check ''ck_safepay_escrows_attempts_non_negative'' (Compare AtLeast (Col ''delivery_code_attempts'')
           (Num 0)),
         ForeignKey ''fk_safepay_escrows_buyer_user_id'' [''buyer_user_id''] ''users'' [''id''] RESTRICT,
         ForeignKey ''fk_safepay_escrows_hold_transfer_id'' [''hold_transfer_id''] ''transfers'' [''id''] RESTRICT,
         ForeignKey ''fk_safepay_escrows_resolved_by_user_id'' [''resolved_by_user_id''] ''users'' [''id''] SET_NULL,
         ForeignKey ''fk_safepay_escrows_seller_user_id'' [''seller_user_id''] ''users'' [''id''] RESTRICT,
         ForeignKey ''fk_safepay_escrows_settlement_transfer_id'' [''settlement_transfer_id''] ''transfers'' [''id''] RESTRICT,
         PrimaryKey ''pk_safepay_escrows'' [''id''],
         Unique ''uq_safepay_escrows_hold_transfer_id'' [''hold_transfer_id''],
         Unique ''uq_safepay_escrows_reference'' [''reference''],
         Unique ''uq_safepay_escrows_settlement_transfer_id'' [''settlement_transfer_id'']],
      tb_indexes =
        [Index ''ix_safepay_buyer'' [''buyer_user_id'', ''status'', ''created_at''] False None,
         Index ''ix_safepay_seller'' [''seller_user_id'', ''status'', ''created_at''] False None]\<rparr>"

definition table_group_withdrawal_approvals :: table where
  "table_group_withdrawal_approvals =
     \<lparr>tb_name = ''group_withdrawal_approvals'',
      tb_columns =
        [Column ''id'' (CharT 26) False None,
         Column ''request_id'' (CharT 26) False None,
         Column ''approver_user_id'' (CharT 26) False None,
         Column ''decision'' (StringT 30) False None,
         Column ''created_at'' DateTimeT False (Some NowDefault)],
      tb_constraints =
        [Check ''ck_group_withdrawal_approvals_decision_valid'' (In (Col ''decision'') [''APPROVE'',
          ''REJECT'']),
         ForeignKey ''fk_group_withdrawal_approvals_approver_user_id'' [''approver_user_id''] ''users'' [''id''] RESTRICT,
         ForeignKey ''fk_group_withdrawal_approvals_request_id'' [''request_id''] ''group_withdrawal_requests'' [''id''] CASCADE,
         PrimaryKey ''pk_group_withdrawal_approvals'' [''id''],
         Unique ''one_vote_per_member'' [''request_id'', ''approver_user_id'']],
      tb_indexes =
        []\<rparr>"

definition table_overdraft_repayments :: table where
  "table_overdraft_repayments =
     \<lparr>tb_name = ''overdraft_repayments'',
      tb_columns =
        [Column ''id'' (CharT 26) False None,
         Column ''loan_id'' (CharT 26) False None,
         Column ''transfer_id'' (CharT 26) False None,
         Column ''amount_minor'' BigIntegerT False None,
         Column ''triggered_by_transfer_id'' (CharT 26) True None,
         Column ''created_at'' DateTimeT False (Some NowDefault)],
      tb_constraints =
        [Check ''ck_overdraft_repayments_amount_positive'' (Compare Greater (Col ''amount_minor'') (Num 0)),
         ForeignKey ''fk_overdraft_repayments_loan_id'' [''loan_id''] ''overdraft_loans'' [''id''] RESTRICT,
         ForeignKey ''fk_overdraft_repayments_transfer_id'' [''transfer_id''] ''transfers'' [''id''] RESTRICT,
         ForeignKey ''fk_overdraft_repayments_triggered_by_transfer_id'' [''triggered_by_transfer_id''] ''transfers'' [''id''] SET_NULL,
         PrimaryKey ''pk_overdraft_repayments'' [''id''],
         Unique ''uq_overdraft_repayments_transfer_id'' [''transfer_id'']],
      tb_indexes =
        [Index ''ix_overdraft_repayments_loan'' [''loan_id'', ''created_at''] False None]\<rparr>"

definition relink_tables :: "operation list" where
  "relink_tables =
     [DropConstraint ''uq_accounts_user_id'' ''accounts'',
      AddConstraint ''accounts'' (Unique ''one_account_per_user_per_type'' [''user_id'', ''account_type'']),
      AddColumn ''transfers'' (Column ''parent_transfer_id'' (CharT 26) True None),
      AddConstraint ''transfers''
        (ForeignKey ''fk_transfers_parent_transfer_id'' [''parent_transfer_id''] ''transfers'' [''id''] RESTRICT),
      AddConstraint ''transfers'' (Check ''ck_transfers_settlement_leg_has_parent'' (Or (And (In
        (Col ''kind'') [''UNDO_SETTLE'', ''UNDO_REFUND'', ''ESCROW_RELEASE'', ''ESCROW_REFUND'']) (IsNotNull
        (Col ''parent_transfer_id''))) (And (NotIn (Col ''kind'') [''UNDO_SETTLE'', ''UNDO_REFUND'',
        ''ESCROW_RELEASE'', ''ESCROW_REFUND'']) (IsNull (Col ''parent_transfer_id'')))))]"

definition modify_checks :: "operation list" where
  "modify_checks =
     [DropConstraint ''ck_accounts_account_type_valid'' ''accounts'',
      AddConstraint ''accounts'' (Check (ck_convention ''accounts'' ''account_type_valid'') (In
        (Col ''account_type'') [''USER'', ''SYSTEM_ISSUANCE'', ''PENDING_SETTLEMENT'', ''ESCROW'', ''GROUP'',
        ''OVERDRAFT_POOL''])),
      DropConstraint ''ck_accounts_ownership_matches_type'' ''accounts'',
      AddConstraint ''accounts'' (Check (ck_convention ''accounts'' ''ownership_matches_type'') (Or (And (In
        (Col ''account_type'') [''USER'', ''OVERDRAFT_POOL'']) (IsNotNull (Col ''user_id''))) (And (In
        (Col ''account_type'') [''SYSTEM_ISSUANCE'', ''ESCROW'', ''PENDING_SETTLEMENT'', ''GROUP'']) (IsNull
        (Col ''user_id''))))),
      DropConstraint ''ck_transfers_kind_valid'' ''transfers'',
      AddConstraint ''transfers'' (Check (ck_convention ''transfers'' ''kind_valid'') (In
        (Col ''kind'') [''P2P_SEND'', ''REQUEST_SETTLEMENT'', ''SIGNUP_GRANT'', ''REVERSAL'', ''UNDO_HOLD'',
        ''UNDO_SETTLE'', ''UNDO_REFUND'', ''ESCROW_HOLD'', ''ESCROW_RELEASE'', ''ESCROW_REFUND'',
        ''GROUP_DEPOSIT'', ''GROUP_WITHDRAWAL'', ''LINK_PAYMENT'', ''OVERDRAFT_DRAW'', ''OVERDRAFT_REPAY'',
        ''OVERDRAFT_FUND''])),
      DropConstraint ''ck_transfers_status_valid'' ''transfers'',
      AddConstraint ''transfers'' (Check (ck_convention ''transfers'' ''status_valid'') (In
        (Col ''status'') [''SUCCEEDED'', ''FAILED'', ''REVERSED'', ''PENDING_UNDO'', ''HELD'', ''DISPUTED'',
        ''REFUNDED'']))]"

definition advanced_tables :: "table list" where
  "advanced_tables =
     [table_scheduled_tasks, table_group_wallets, table_overdraft_pools, table_payment_links,
       table_group_members, table_group_withdrawal_requests, table_overdraft_grants, table_overdraft_loans,
       table_payment_link_payments, table_safepay_escrows, table_group_withdrawal_approvals,
       table_overdraft_repayments]"

definition advanced_features :: "operation list" where
  "advanced_features =
     concat (map create advanced_tables)
     @ relink_tables @ modify_checks
     @ [InsertAccount ''00000000000000000000000001'' ''ESCROW'' ''SYS-ESCROW-001'',
        InsertAccount ''00000000000000000000000002'' ''PENDING_SETTLEMENT'' ''SYS-PENDING-001'',
        GrantAll [SelectPriv, InsertPriv, UpdatePriv, DeletePriv] ''mm_app'',
          GrantAll [SelectPriv] ''mm_readonly'',
        Revoke [UpdatePriv, DeletePriv] ''ledger_entries'' ''mm_app'',
        Revoke [UpdatePriv, DeletePriv] ''ledger_transactions'' ''mm_app'',
        Revoke [UpdatePriv, DeletePriv] ''audit_logs'' ''mm_app'']"

definition advanced_features_down :: "operation list" where
  "advanced_features_down =
     [DeleteAccounts (In (Col ''account_type'') [''ESCROW'', ''PENDING_SETTLEMENT'']),
      DropConstraint ''ck_transfers_status_valid'' ''transfers'',
      AddConstraint ''transfers'' (Check (ck_convention ''transfers'' ''status_valid'') (In
        (Col ''status'') [''SUCCEEDED'', ''FAILED'', ''REVERSED''])),
      DropConstraint ''ck_transfers_kind_valid'' ''transfers'',
      AddConstraint ''transfers'' (Check (ck_convention ''transfers'' ''kind_valid'') (In
        (Col ''kind'') [''P2P_SEND'', ''REQUEST_SETTLEMENT'', ''SIGNUP_GRANT'', ''REVERSAL''])),
      DropConstraint ''ck_accounts_ownership_matches_type'' ''accounts'',
      AddConstraint ''accounts'' (Check (ck_convention ''accounts'' ''ownership_matches_type'') (Or (And
        (Compare Equal (Col ''account_type'') (Str ''USER'')) (IsNotNull (Col ''user_id''))) (And
        (Compare Differs (Col ''account_type'') (Str ''USER'')) (IsNull (Col ''user_id''))))),
      DropConstraint ''ck_accounts_account_type_valid'' ''accounts'',
      AddConstraint ''accounts'' (Check (ck_convention ''accounts'' ''account_type_valid'') (In
        (Col ''account_type'') [''USER'', ''SYSTEM_ISSUANCE''])),
      DropConstraint ''ck_transfers_settlement_leg_has_parent'' ''transfers'',
      DropConstraint ''fk_transfers_parent_transfer_id'' ''transfers'',
      DropColumn ''transfers'' ''parent_transfer_id'',
      DropConstraint ''one_account_per_user_per_type'' ''accounts'',
      AddConstraint ''accounts'' (Unique ''uq_accounts_user_id'' [''user_id'']),
      DropIndex ''ix_overdraft_repayments_loan'' ''overdraft_repayments'',
      DropTable ''overdraft_repayments'',
      DropTable ''group_withdrawal_approvals'',
      DropIndex ''ix_safepay_seller'' ''safepay_escrows'',
      DropIndex ''ix_safepay_buyer'' ''safepay_escrows'',
      DropTable ''safepay_escrows'',
      DropIndex ''ix_link_payments_link'' ''payment_link_payments'',
      DropTable ''payment_link_payments'',
      DropIndex ''ix_overdraft_loans_borrower_outstanding'' ''overdraft_loans'',
      DropTable ''overdraft_loans'',
      DropIndex ''ix_overdraft_grants_beneficiary'' ''overdraft_grants'',
      DropTable ''overdraft_grants'',
      DropIndex ''ix_group_withdrawals_group'' ''group_withdrawal_requests'',
      DropTable ''group_withdrawal_requests'',
      DropIndex ''ix_group_members_user'' ''group_members'',
      DropTable ''group_members'',
      DropIndex ''ix_payment_links_payee'' ''payment_links'',
      DropIndex ''ix_payment_links_active_expiry'' ''payment_links'',
      DropTable ''payment_links'',
      DropTable ''overdraft_pools'',
      DropTable ''group_wallets'',
      DropIndex ''ix_scheduled_tasks_due'' ''scheduled_tasks'',
      DropTable ''scheduled_tasks'']"


section \<open>8ddea5c31c8a: hold intended receiver\<close>

definition intended_receiver :: "operation list" where
  "intended_receiver =
     [AddColumn ''transfers'' (Column ''intended_receiver_account_id'' (CharT 26) True None),
      AddConstraint ''transfers''
        (ForeignKey ''fk_transfers_intended_receiver_account_id'' [''intended_receiver_account_id''] ''accounts'' [''id''] RESTRICT)]"

definition intended_receiver_down :: "operation list" where
  "intended_receiver_down =
     [DropConstraint ''fk_transfers_intended_receiver_account_id'' ''transfers'',
      DropColumn ''transfers'' ''intended_receiver_account_id'']"


section \<open>f41a9f26c001: overdraft fund kind\<close>

definition KINDS_WITH_FUND :: "string list" where
  "KINDS_WITH_FUND =
     [''P2P_SEND'', ''REQUEST_SETTLEMENT'', ''SIGNUP_GRANT'', ''REVERSAL'', ''UNDO_HOLD'', ''UNDO_SETTLE'',
       ''UNDO_REFUND'', ''ESCROW_HOLD'', ''ESCROW_RELEASE'', ''ESCROW_REFUND'', ''GROUP_DEPOSIT'',
       ''GROUP_WITHDRAWAL'', ''LINK_PAYMENT'', ''OVERDRAFT_DRAW'', ''OVERDRAFT_REPAY'', ''OVERDRAFT_FUND'']"

definition KINDS_WITHOUT_FUND :: "string list" where
  "KINDS_WITHOUT_FUND = filter (\<lambda>k. k \<noteq> ''OVERDRAFT_FUND'') KINDS_WITH_FUND"

definition fund_kind :: "operation list" where
  "fund_kind =
     [DropConstraint ''ck_transfers_kind_valid'' ''transfers'',
      AddConstraint ''transfers'' (Check (ck_convention ''transfers'' ''kind_valid'') (In (Col ''kind'') KINDS_WITH_FUND))]"

definition fund_kind_down :: "operation list" where
  "fund_kind_down =
     [DropConstraint ''ck_transfers_kind_valid'' ''transfers'',
      AddConstraint ''transfers'' (Check (ck_convention ''transfers'' ''kind_valid'') (In (Col ''kind'') KINDS_WITHOUT_FUND))]"


section \<open>c3f8a2d91b74: reassert append-only privileges\<close>

definition reassert_privileges :: "operation list" where
  "reassert_privileges = concat (map (\<lambda>t.
     [Grant [SelectPriv, InsertPriv] t APP_ROLE, Revoke [UpdatePriv, DeletePriv, TruncatePriv] t APP_ROLE])
     APPEND_ONLY_TABLES)"

definition reassert_privileges_down :: "operation list" where
  "reassert_privileges_down = map (\<lambda>t. Grant [UpdatePriv, DeletePriv] t APP_ROLE) APPEND_ONLY_TABLES"


section \<open>The chain\<close>

record revision =
  rv_id :: string
  rv_down :: "string option"
  rv_upgrade :: "operation list"
  rv_downgrade :: "operation list"

definition revision_chain :: "revision list" where
  "revision_chain =
     [\<lparr>rv_id = ''0f0b191fb9e8'', rv_down = None, rv_upgrade = initial_schema, rv_downgrade = initial_schema_down\<rparr>,
      \<lparr>rv_id = ''0f0b191fb9e9'', rv_down = Some ''0f0b191fb9e8'', rv_upgrade = ledger_privileges,
       rv_downgrade = ledger_privileges_down\<rparr>,
      \<lparr>rv_id = ''62e621b0ed86'', rv_down = Some ''0f0b191fb9e9'', rv_upgrade = advanced_features,
       rv_downgrade = advanced_features_down\<rparr>,
      \<lparr>rv_id = ''8ddea5c31c8a'', rv_down = Some ''62e621b0ed86'', rv_upgrade = intended_receiver,
       rv_downgrade = intended_receiver_down\<rparr>,
      \<lparr>rv_id = ''f41a9f26c001'', rv_down = Some ''8ddea5c31c8a'', rv_upgrade = fund_kind,
       rv_downgrade = fund_kind_down\<rparr>,
      \<lparr>rv_id = ''c3f8a2d91b74'', rv_down = Some ''f41a9f26c001'', rv_upgrade = reassert_privileges,
       rv_downgrade = reassert_privileges_down\<rparr>]"

text \<open>\<open>alembic upgrade head\<close> and \<open>alembic downgrade base\<close> as statements of one transaction.\<close>

definition upgrade_head :: "operation list" where
  "upgrade_head = concat (map rv_upgrade revision_chain)"

definition downgrade_base :: "operation list" where
  "downgrade_base = concat (map rv_downgrade (rev revision_chain))"

end
