(* ===== verification/Migration_Facts.thy ===== *)
theory Migration_Facts
  imports Migrations
begin

text \<open>
  Running the statements of a revision without evaluating the whole catalog: a list of tables whose names
  are new and whose constraints refer to earlier tables is created in one go, and dropped again from the
  end of the list.
\<close>

section \<open>Tables of a catalog\<close>

lemma find_table_simps [simp]:
  "find_table n [] = None"
  "find_table n (t # ts) = (if tb_name t = n then Some t else find_table n ts)"
  by (simp_all add: find_table_def)

lemma find_table_append:
  "find_table n (ts @ us) = (case find_table n ts of None \<Rightarrow> find_table n us | Some t \<Rightarrow> Some t)"
  by (induction ts) simp_all

lemma find_table_None: "find_table n ts = None \<longleftrightarrow> n \<notin> tb_name ` set ts"
  by (induction ts) auto

lemma find_table_Some: "find_table n ts = Some t \<Longrightarrow> t \<in> set ts \<and> tb_name t = n"
  by (induction ts) (auto split: if_splits)

lemma catalog_view [simp]:
  "cat_tables (grant ps n r c) = cat_tables c" "cat_rows (grant ps n r c) = cat_rows c" "cat_now (grant ps n r c) = cat_now c"
  "cat_tables (revoke ps n r c) = cat_tables c" "cat_rows (revoke ps n r c) = cat_rows c" "cat_now (revoke ps n r c) = cat_now c"
  "cat_rows (put_table t c) = cat_rows c" "cat_now (put_table t c) = cat_now c" "cat_grants (put_table t c) = cat_grants c"
  "cat_tables (put_table t c) = map (\<lambda>x. if tb_name x = tb_name t then t else x) (cat_tables c)"
  by (simp_all add: grant_def revoke_def put_table_def)

lemma grant_all_view [simp]:
  "cat_tables (fold (\<lambda>t. grant ps (tb_name t) r) ts c) = cat_tables c"
  "cat_rows (fold (\<lambda>t. grant ps (tb_name t) r) ts c) = cat_rows c"
  "cat_now (fold (\<lambda>t. grant ps (tb_name t) r) ts c) = cat_now c"
  by (induction ts arbitrary: c) simp_all

lemma table_names_in: "n \<in> tb_name ` set (cat_tables c) \<Longrightarrow> n \<in> set (relation_names c)"
  by (auto simp: relation_names_def names_of_table_def)

lemma put_last:
  assumes "tb_name t \<notin> tb_name ` set ts"
  shows "map (\<lambda>x. if tb_name x = tb_name t then t else x) ts = ts"
proof (rule map_idI)
  fix x
  assume "x \<in> set ts"
  with assms have "tb_name x \<noteq> tb_name t" by (metis imageI)
  then show "(if tb_name x = tb_name t then t else x) = x" by simp
qed

lemma declarable_indexes [simp]: "declarable ts (t\<lparr>tb_indexes := ixs\<rparr>) k = declarable ts t k"
proof -
  have view: "column_type (t\<lparr>tb_indexes := ixs\<rparr>) = column_type t" by (simp add: column_type_def fun_eq_iff)
  have cols: "has_columns (t\<lparr>tb_indexes := ixs\<rparr>) cs = has_columns t cs" for cs by (simp add: has_columns_def view)
  have opd: "is_text (t\<lparr>tb_indexes := ixs\<rparr>) x = is_text t x" "is_number (t\<lparr>tb_indexes := ixs\<rparr>) x = is_number t x" for x
    by (cases x; simp add: view)+
  have wt: "well_typed (t\<lparr>tb_indexes := ixs\<rparr>) p = well_typed t p" for p
    by (induction p) (simp_all add: opd cols)
  show ?thesis
  proof (cases k)
    case (ForeignKey n cs u us d)
    then show ?thesis by (simp add: cols view split: option.splits)
  qed (simp_all add: cols wt)
qed

text \<open>A foreign key may refer to its own table; the search for the target can include it.\<close>

lemma declarable_self:
  assumes "tb_name t \<notin> tb_name ` set ts"
  shows "(if u = tb_name t then Some t else find_table u ts) = find_table u (ts @ [t])"
proof (cases "u = tb_name t")
  case True
  then have "find_table u ts = None" using assms by (simp add: find_table_None)
  with True show ?thesis by (simp add: find_table_append)
next
  case False
  then show ?thesis by (simp add: find_table_append split: option.splits)
qed


section \<open>Creating tables\<close>

definition index_ok :: "table \<Rightarrow> index \<Rightarrow> bool" where
  "index_ok t i \<longleftrightarrow> has_columns t (ix_columns i) \<and> \<not> ix_unique i
     \<and> (case ix_where i of None \<Rightarrow> True | Some p \<Rightarrow> well_typed t p)"

definition table_ok :: "table list \<Rightarrow> table \<Rightarrow> bool" where
  "table_ok ts t \<longleftrightarrow> distinct (map col_name (tb_columns t)) \<and> distinct (map con_name (tb_constraints t))
     \<and> list_all (declarable ts t) (tb_constraints t) \<and> list_all (index_ok t) (tb_indexes t)"

fun tables_ok :: "table list \<Rightarrow> table list \<Rightarrow> bool" where
  "tables_ok ts [] = True"
| "tables_ok ts (u # us) = (table_ok ts u \<and> tables_ok (ts @ [u]) us)"

definition opened :: "table \<Rightarrow> catalog \<Rightarrow> catalog" where
  "opened t c = grant [SelectPriv, InsertPriv, UpdatePriv, DeletePriv] (tb_name t) APP_ROLE
     (grant [SelectPriv] (tb_name t) READONLY_ROLE
       (c\<lparr>cat_tables := cat_tables c @ [t], cat_rows := (cat_rows c)(tb_name t := [])\<rparr>))"

lemma opened_view [simp]:
  "cat_tables (opened t c) = cat_tables c @ [t]" "cat_rows (opened t c) = (cat_rows c)(tb_name t := [])"
  "cat_now (opened t c) = cat_now c"
  by (simp_all add: opened_def)

lemma opened_all_view [simp]:
  "cat_tables (fold opened ts c) = cat_tables c @ ts" "cat_now (fold opened ts c) = cat_now c"
  by (induction ts arbitrary: c) simp_all

lemma opened_all_rows: "cat_rows (fold opened ts c) n = (if n \<in> tb_name ` set ts then [] else cat_rows c n)"
  by (induction ts arbitrary: c) auto

lemma create_index_run:
  assumes "find_table (tb_name t) (cat_tables c) = Some (t\<lparr>tb_indexes := js\<rparr>)" "ix_name i \<notin> set (relation_names c)"
    and "index_ok t i"
  shows "create_index (ix_name i) (tb_name t) (ix_columns i) (ix_unique i) (ix_where i) c
       = Some (put_table (t\<lparr>tb_indexes := js @ [i]\<rparr>) c)"
proof -
  have "has_columns (t\<lparr>tb_indexes := js\<rparr>) cs = has_columns t cs" for cs
    using declarable_indexes [where ts = "[]" and t = t and k = "Unique [] cs"] by simp
  moreover have "well_typed (t\<lparr>tb_indexes := js\<rparr>) p = well_typed t p" for p
    using declarable_indexes [where ts = "[]" and t = t and k = "Check [] p"] by simp
  ultimately show ?thesis
    using assms by (cases i) (simp add: create_index_def index_ok_def split: option.splits)
qed

lemma create_indexes_run:
  assumes "cat_tables c = ts @ [t\<lparr>tb_indexes := js\<rparr>]" "tb_name t \<notin> tb_name ` set ts"
    and "distinct (map ix_name ixs)" "list_all (index_ok t) ixs"
    and "\<And>i. i \<in> set ixs \<Longrightarrow> ix_name i \<notin> set (relation_names c)"
  shows "migrate (map (\<lambda>i. CreateIndex (ix_name i) (tb_name t) (ix_columns i) (ix_unique i) (ix_where i)) ixs) c
       = Some (c\<lparr>cat_tables := ts @ [t\<lparr>tb_indexes := js @ ixs\<rparr>]\<rparr>)"
  using assms
proof (induction ixs arbitrary: js c)
  case Nil
  then show ?case by (simp add: Nil.prems(1) [symmetric])
next
  case (Cons i ixs)
  have "find_table (tb_name t) ts = None" using Cons.prems(2) by (simp add: find_table_None)
  then have found: "find_table (tb_name t) (cat_tables c) = Some (t\<lparr>tb_indexes := js\<rparr>)"
    by (simp add: Cons.prems(1) find_table_append)
  let ?d = "put_table (t\<lparr>tb_indexes := js @ [i]\<rparr>) c"
  have tables: "cat_tables ?d = ts @ [t\<lparr>tb_indexes := js @ [i]\<rparr>]"
    using put_last [of "t\<lparr>tb_indexes := js @ [i]\<rparr>" ts] Cons.prems(1,2) by simp
  have names: "set (relation_names ?d) \<subseteq> insert (ix_name i) (set (relation_names c))"
    unfolding relation_names_def tables Cons.prems(1) by (auto simp: names_of_table_def)
  have "migrate (map (\<lambda>i. CreateIndex (ix_name i) (tb_name t) (ix_columns i) (ix_unique i) (ix_where i)) ixs) ?d
      = Some (?d\<lparr>cat_tables := ts @ [t\<lparr>tb_indexes := (js @ [i]) @ ixs\<rparr>]\<rparr>)"
  proof (rule Cons.IH [OF tables Cons.prems(2)])
    fix j
    assume j: "j \<in> set ixs"
    with Cons.prems(3) have "ix_name j \<noteq> ix_name i" by (metis distinct.simps(2) image_eqI list.map(2) list.set_map)
    moreover have "ix_name j \<notin> set (relation_names c)" using Cons.prems(5) j by simp
    ultimately show "ix_name j \<notin> set (relation_names ?d)" using names by blast
  qed (use Cons.prems(3,4) in simp_all)
  moreover have "?d\<lparr>cat_tables := us\<rparr> = c\<lparr>cat_tables := us\<rparr>" for us by (simp add: put_table_def)
  ultimately show ?case
    using create_index_run [OF found] Cons.prems(4,5) by simp
qed

lemma create_run:
  assumes "table_ok (cat_tables c) t" "distinct (relation_names c @ names_of_table t)"
  shows "migrate (create t) c = Some (opened t c)"
proof -
  let ?t = "t\<lparr>tb_indexes := []\<rparr>"
  have t: "\<lparr>tb_name = tb_name t, tb_columns = tb_columns t, tb_constraints = tb_constraints t, tb_indexes = []\<rparr> = ?t"
    by (cases t) simp
  have fresh: "tb_name t \<notin> tb_name ` set (cat_tables c)"
    using assms(2) table_names_in [of "tb_name t" c] by (auto simp: names_of_table_def)
  have first: "create_table (tb_name t) (tb_columns t) (tb_constraints t) c = Some (opened ?t c)"
    using assms unfolding create_table_def t
    by (auto simp: table_ok_def names_of_table_def opened_def list_all_iff Let_def)
  have "relation_names (opened ?t c) @ map ix_name (tb_indexes t) = relation_names c @ names_of_table t"
    by (simp add: relation_names_def names_of_table_def)
  with assms(2) have "distinct (relation_names (opened ?t c) @ map ix_name (tb_indexes t))" by (simp only:)
  then have "ix_name i \<notin> set (relation_names (opened ?t c))" if "i \<in> set (tb_indexes t)" for i
    using that by (auto simp only: distinct_append set_map)
  moreover have "distinct (map ix_name (tb_indexes t))" using assms(2) by (simp add: names_of_table_def)
  ultimately have "migrate (map (\<lambda>i. CreateIndex (ix_name i) (tb_name t) (ix_columns i) (ix_unique i) (ix_where i)) (tb_indexes t))
      (opened ?t c) = Some ((opened ?t c)\<lparr>cat_tables := cat_tables c @ [t\<lparr>tb_indexes := [] @ tb_indexes t\<rparr>]\<rparr>)"
    using assms(1) fresh by (intro create_indexes_run) (simp_all add: table_ok_def)
  moreover have "(opened ?t c)\<lparr>cat_tables := cat_tables c @ [t]\<rparr> = opened t c"
    by (simp add: opened_def grant_def)
  ultimately show ?thesis by (simp add: create_def first)
qed

lemma create_all_run:
  assumes "tables_ok (cat_tables c) ts" "distinct (relation_names c @ concat (map names_of_table ts))"
  shows "migrate (concat (map create ts)) c = Some (fold opened ts c)"
  using assms
proof (induction ts arbitrary: c)
  case (Cons t ts)
  have step: "migrate (create t) c = Some (opened t c)"
    using Cons.prems by (intro create_run) auto
  have "relation_names (opened t c) = relation_names c @ names_of_table t" by (simp add: relation_names_def)
  with Cons.prems have "migrate (concat (map create ts)) (opened t c) = Some (fold opened ts (opened t c))"
    by (intro Cons.IH) simp_all
  with step show ?case by (simp add: migrate_append)
qed simp

text \<open>
  Every foreign key of the schema refers to the ULID column \<open>id\<close> of its target, so that a table can be
  examined by itself: its own columns, and the names of the tables it refers to.
\<close>

definition ulid_keyed :: "table \<Rightarrow> bool" where
  "ulid_keyed t \<longleftrightarrow> [''id''] \<in> set (concat (map key_of (tb_constraints t))) \<and> column_type t ''id'' = Some (CharT 26)"

fun keyed_in :: "string \<Rightarrow> table list \<Rightarrow> bool" where
  "keyed_in n [] = False"
| "keyed_in n (t # ts) = (if tb_name t = n then ulid_keyed t else keyed_in n ts)"

fun fk_target :: "table_constraint \<Rightarrow> string list" where
  "fk_target (ForeignKey n cs u us d) = [u]"
| "fk_target _ = []"

definition targets :: "table \<Rightarrow> string list" where
  "targets t = concat (map fk_target (tb_constraints t))"

fun locally_ok :: "table \<Rightarrow> table_constraint \<Rightarrow> bool" where
  "locally_ok t (ForeignKey n cs u us d) = (us = [''id''] \<and> map (column_type t) cs = [Some (CharT 26)])"
| "locally_ok t (PrimaryKey n cs) = has_columns t cs"
| "locally_ok t (Unique n cs) = has_columns t cs"
| "locally_ok t (Check n p) = well_typed t p"

definition table_local :: "table \<Rightarrow> bool" where
  "table_local t \<longleftrightarrow> distinct (map col_name (tb_columns t)) \<and> distinct (map con_name (tb_constraints t))
     \<and> list_all (locally_ok t) (tb_constraints t) \<and> list_all (index_ok t) (tb_indexes t)"

lemma keyed_in_find: "keyed_in n ts \<longleftrightarrow> (case find_table n ts of None \<Rightarrow> False | Some t \<Rightarrow> ulid_keyed t)"
  by (induction ts) simp_all

lemma locally_declarable:
  assumes "locally_ok t k" "tb_name t \<notin> tb_name ` set ts" "list_all (\<lambda>n. keyed_in n (ts @ [t])) (fk_target k)"
  shows "declarable ts t k"
proof (cases k)
  case (ForeignKey n cs u us d)
  with assms obtain target where target: "find_table u (ts @ [t]) = Some target" "ulid_keyed target"
    by (auto simp: keyed_in_find split: option.splits)
  moreover from ForeignKey assms(1) obtain c where "cs = [c]" "column_type t c = Some (CharT 26)" "us = [''id'']" by auto
  ultimately show ?thesis
    using ForeignKey by (simp add: declarable_self [OF assms(2)] ulid_keyed_def has_columns_def)
qed (use assms in simp_all)

lemma table_okI:
  assumes "table_local t" "tb_name t \<notin> tb_name ` set ts" "list_all (\<lambda>n. keyed_in n (ts @ [t])) (targets t)"
  shows "table_ok ts t"
  using assms locally_declarable [OF _ assms(2)]
  by (auto simp: table_ok_def table_local_def targets_def list_all_iff)

end
