(* ===== verification/Schema_Facts.thy ===== *)
theory Schema_Facts
  imports Revisions Migration_Facts
begin

text \<open>
  Facts about the tables the revisions create, each read off one table: its name, its key, the tables it
  refers to, and that its constraints and indexes mention columns it has with the right types.
\<close>

section \<open>Table by table\<close>

lemmas table_defs = table_consumer_inbox_def table_idempotency_records_def table_outbox_events_def table_users_def
  table_accounts_def table_audit_logs_def table_sessions_def table_transfers_def table_ledger_transactions_def
  table_money_requests_def table_ledger_entries_def table_scheduled_tasks_def table_group_wallets_def
  table_overdraft_pools_def table_payment_links_def table_group_members_def table_group_withdrawal_requests_def
  table_overdraft_grants_def table_overdraft_loans_def table_payment_link_payments_def table_safepay_escrows_def
  table_group_withdrawal_approvals_def table_overdraft_repayments_def

lemma table_names [simp]:
  "tb_name table_consumer_inbox = ''consumer_inbox''"
  "tb_name table_idempotency_records = ''idempotency_records''"
  "tb_name table_outbox_events = ''outbox_events''"
  "tb_name table_users = ''users''"
  "tb_name table_accounts = ''accounts''"
  "tb_name table_audit_logs = ''audit_logs''"
  "tb_name table_sessions = ''sessions''"
  "tb_name table_transfers = ''transfers''"
  "tb_name table_ledger_transactions = ''ledger_transactions''"
  "tb_name table_money_requests = ''money_requests''"
  "tb_name table_ledger_entries = ''ledger_entries''"
  "tb_name table_scheduled_tasks = ''scheduled_tasks''"
  "tb_name table_group_wallets = ''group_wallets''"
  "tb_name table_overdraft_pools = ''overdraft_pools''"
  "tb_name table_payment_links = ''payment_links''"
  "tb_name table_group_members = ''group_members''"
  "tb_name table_group_withdrawal_requests = ''group_withdrawal_requests''"
  "tb_name table_overdraft_grants = ''overdraft_grants''"
  "tb_name table_overdraft_loans = ''overdraft_loans''"
  "tb_name table_payment_link_payments = ''payment_link_payments''"
  "tb_name table_safepay_escrows = ''safepay_escrows''"
  "tb_name table_group_withdrawal_approvals = ''group_withdrawal_approvals''"
  "tb_name table_overdraft_repayments = ''overdraft_repayments''"
  by (simp_all add: table_defs)

lemma tables_keyed [simp]:
  "ulid_keyed table_outbox_events"
  "ulid_keyed table_users"
  "ulid_keyed table_accounts"
  "ulid_keyed table_audit_logs"
  "ulid_keyed table_sessions"
  "ulid_keyed table_transfers"
  "ulid_keyed table_ledger_transactions"
  "ulid_keyed table_money_requests"
  "ulid_keyed table_ledger_entries"
  "ulid_keyed table_scheduled_tasks"
  "ulid_keyed table_group_wallets"
  "ulid_keyed table_overdraft_pools"
  "ulid_keyed table_payment_links"
  "ulid_keyed table_group_members"
  "ulid_keyed table_group_withdrawal_requests"
  "ulid_keyed table_overdraft_grants"
  "ulid_keyed table_overdraft_loans"
  "ulid_keyed table_payment_link_payments"
  "ulid_keyed table_safepay_escrows"
  "ulid_keyed table_group_withdrawal_approvals"
  "ulid_keyed table_overdraft_repayments"
  unfolding ulid_keyed_def column_type_def by (simp_all add: table_defs)

lemma tables_local [simp]:
  "table_local table_consumer_inbox"
  "table_local table_idempotency_records"
  "table_local table_outbox_events"
  "table_local table_users"
  "table_local table_accounts"
  "table_local table_audit_logs"
  "table_local table_sessions"
  "table_local table_transfers"
  "table_local table_ledger_transactions"
  "table_local table_money_requests"
  "table_local table_ledger_entries"
  "table_local table_scheduled_tasks"
  "table_local table_group_wallets"
  "table_local table_overdraft_pools"
  "table_local table_payment_links"
  "table_local table_group_members"
  "table_local table_group_withdrawal_requests"
  "table_local table_overdraft_grants"
  "table_local table_overdraft_loans"
  "table_local table_payment_link_payments"
  "table_local table_safepay_escrows"
  "table_local table_group_withdrawal_approvals"
  "table_local table_overdraft_repayments"
  unfolding table_local_def index_ok_def has_columns_def column_type_def
  by (simp_all add: table_defs has_columns_def column_type_def)

lemma table_targets [simp]:
  "targets table_consumer_inbox = []"
  "targets table_idempotency_records = []"
  "targets table_outbox_events = []"
  "targets table_users = []"
  "targets table_accounts = [''users'']"
  "targets table_audit_logs = [''users'']"
  "targets table_sessions = [''sessions'', ''users'']"
  "targets table_transfers = [''users'', ''accounts'', ''transfers'', ''accounts'']"
  "targets table_ledger_transactions = [''transfers'']"
  "targets table_money_requests = [''accounts'', ''accounts'', ''transfers'']"
  "targets table_ledger_entries = [''accounts'', ''ledger_transactions'']"
  "targets table_scheduled_tasks = []"
  "targets table_group_wallets = [''accounts'', ''users'']"
  "targets table_overdraft_pools = [''accounts'', ''users'']"
  "targets table_payment_links = [''accounts'', ''users'']"
  "targets table_group_members = [''group_wallets'', ''users'']"
  "targets table_group_withdrawal_requests = [''group_wallets'', ''users'', ''accounts'', ''transfers'']"
  "targets table_overdraft_grants = [''users'', ''overdraft_pools'']"
  "targets table_overdraft_loans = [''users'', ''transfers'', ''overdraft_pools'']"
  "targets table_payment_link_payments = [''payment_links'', ''users'', ''transfers'']"
  "targets table_safepay_escrows = [''users'', ''transfers'', ''users'', ''users'', ''transfers'']"
  "targets table_group_withdrawal_approvals = [''users'', ''group_withdrawal_requests'']"
  "targets table_overdraft_repayments = [''overdraft_loans'', ''transfers'', ''transfers'']"
  unfolding targets_def by (simp_all add: table_defs)

lemma initial_tables_ok: "tables_ok [alembic_version] initial_tables"
  unfolding initial_tables_def by (simp add: table_okI alembic_version_def)

lemma advanced_tables_ok: "tables_ok (alembic_version # initial_tables) advanced_tables"
  unfolding initial_tables_def advanced_tables_def by (simp add: table_okI alembic_version_def)

section \<open>The tables together\<close>

lemma all_names_distinct:
  "distinct (concat (map names_of_table (alembic_version # initial_tables @ advanced_tables)))"
  unfolding initial_tables_def advanced_tables_def
  by (simp add: names_of_table_def alembic_version_def table_defs)

lemma initial_schema_run: "migrate initial_schema (blank now) = Some (fold opened initial_tables (blank now))"
  unfolding initial_schema_def
proof (rule create_all_run)
  show "tables_ok (cat_tables (blank now)) initial_tables" by (simp add: blank_def initial_tables_ok)
  show "distinct (relation_names (blank now) @ concat (map names_of_table initial_tables))"
    using all_names_distinct by (simp add: relation_names_def blank_def) blast
qed

lemma advanced_tables_run:
  assumes "cat_tables c = alembic_version # initial_tables"
  shows "migrate (concat (map create advanced_tables)) c = Some (fold opened advanced_tables c)"
proof (rule create_all_run)
  show "tables_ok (cat_tables c) advanced_tables" using advanced_tables_ok assms by simp
  show "distinct (relation_names c @ concat (map names_of_table advanced_tables))"
    using all_names_distinct assms by (simp add: relation_names_def)
qed

end
