(* ===== verification/Orm_Models.thy ===== *)
theory Orm_Models
  imports Sql_Schema
begin

text \<open>
  The table classes of the program, in the order \<open>platform_/database/metadata.py\<close> imports their
  modules: every column with its type, nullability, key, reference and server default, and every entry of
  \<open>__table_args__\<close>.  Client-side defaults are arguments of the repositories and do not appear here.
  The tuples of admissible values that stand beside the classes are kept as lists.
\<close>


section \<open>Audit trail\<close>

definition AuditLogRecord :: table where
  "AuditLogRecord = declared ''audit_logs''
     [UlidPk ''id'',
      Mapped ''actor_user_id'' (CharT ULID_LENGTH) True [References ''users'' ''id'' SET_NULL],
      Mapped ''action'' (StringT 100) False [],
      Mapped ''resource_type'' (StringT 50) False [],
      Mapped ''resource_id'' (CharT ULID_LENGTH) True [],
      Mapped ''request_id'' (StringT 64) True [],
      Mapped ''ip_address'' (StringT 45) True [],
      Mapped ''metadata'' JsonbT True [],
      created_at_column ''created_at'']
     [IndexOn ''ix_audit_logs_actor_created'' [''actor_user_id'', ''created_at''] None,
      IndexOn ''ix_audit_logs_resource'' [''resource_type'', ''resource_id''] None]"


section \<open>Financial core\<close>

definition ACCOUNT_TYPES :: "string list" where
  "ACCOUNT_TYPES = [''USER'', ''SYSTEM_ISSUANCE'', ''PENDING_SETTLEMENT'', ''ESCROW'', ''GROUP'',
    ''OVERDRAFT_POOL'']"

definition TRANSFER_KINDS :: "string list" where
  "TRANSFER_KINDS = [''P2P_SEND'', ''REQUEST_SETTLEMENT'', ''SIGNUP_GRANT'', ''REVERSAL'', ''UNDO_HOLD'',
    ''UNDO_SETTLE'', ''UNDO_REFUND'', ''ESCROW_HOLD'', ''ESCROW_RELEASE'', ''ESCROW_REFUND'',
    ''GROUP_DEPOSIT'', ''GROUP_WITHDRAWAL'', ''LINK_PAYMENT'', ''OVERDRAFT_DRAW'', ''OVERDRAFT_REPAY'',
    ''OVERDRAFT_FUND'']"

definition TRANSFER_STATUSES :: "string list" where
  "TRANSFER_STATUSES = [''SUCCEEDED'', ''FAILED'', ''REVERSED'', ''PENDING_UNDO'', ''HELD'', ''DISPUTED'',
    ''REFUNDED'']"

definition IDEMPOTENCY_STATUSES :: "string list" where
  "IDEMPOTENCY_STATUSES = [''PROCESSING'', ''COMPLETED'']"

definition AccountRecord :: table where
  "AccountRecord = declared ''accounts''
     [UlidPk ''id'',
      Mapped ''user_id'' (CharT ULID_LENGTH) True [References ''users'' ''id'' RESTRICT],
      Mapped ''account_type'' StatusText False [ServerDefault (TextDefault ''USER'')],
      Mapped ''account_number'' (StringT 20) False [UniqueColumn],
      Mapped ''currency'' CurrencyCode False [ServerDefault (TextDefault ''BDT'')],
      Mapped ''balance_minor'' MoneyMinor False [ServerDefault (IntDefault 0)],
      Mapped ''status'' StatusText False [ServerDefault (TextDefault ''ACTIVE'')],
      Mapped ''version'' BigIntegerT False [ServerDefault (IntDefault 0)],
      created_at_column ''created_at'',
      updated_at_column ''updated_at'']
     [CheckConstraint (Or (Compare Equal (Col ''account_type'') (Str ''SYSTEM_ISSUANCE'')) (Compare AtLeast
       (Col ''balance_minor'') (Num 0))) ''user_balance_non_negative'',
      CheckConstraint (In (Col ''account_type'') [''USER'', ''SYSTEM_ISSUANCE'', ''PENDING_SETTLEMENT'',
        ''ESCROW'', ''GROUP'', ''OVERDRAFT_POOL'']) ''account_type_valid'',
      CheckConstraint (In (Col ''status'') [''ACTIVE'', ''FROZEN'', ''CLOSED'']) ''status_valid'',
      CheckConstraint (Or (And (In (Col ''account_type'') [''USER'', ''OVERDRAFT_POOL'']) (IsNotNull
        (Col ''user_id''))) (And (In (Col ''account_type'') [''SYSTEM_ISSUANCE'', ''ESCROW'',
        ''PENDING_SETTLEMENT'', ''GROUP'']) (IsNull (Col ''user_id'')))) ''ownership_matches_type'',
      UniqueConstraint [''user_id'', ''account_type''] ''one_account_per_user_per_type'']"

definition TransferRecord :: table where
  "TransferRecord = declared ''transfers''
     [UlidPk ''id'',
      Mapped ''reference'' (StringT 40) False [UniqueColumn],
      Mapped ''sender_account_id'' (CharT ULID_LENGTH) False [References ''accounts'' ''id'' RESTRICT],
      Mapped ''receiver_account_id'' (CharT ULID_LENGTH) False [References ''accounts'' ''id'' RESTRICT],
      Mapped ''amount_minor'' MoneyMinor False [],
      Mapped ''currency'' CurrencyCode False [],
      Mapped ''kind'' StatusText False [],
      Mapped ''status'' StatusText False [],
      Mapped ''note'' (StringT 200) True [],
      Mapped ''initiated_by_user_id'' (CharT ULID_LENGTH) True [References ''users'' ''id'' SET_NULL],
      Mapped ''request_id'' (StringT 64) True [],
      Mapped ''reversal_of_id'' (CharT ULID_LENGTH) True [References ''transfers'' ''id'' RESTRICT],
      Mapped ''parent_transfer_id'' (CharT ULID_LENGTH) True [References ''transfers'' ''id'' RESTRICT],
      Mapped ''intended_receiver_account_id''
        (CharT ULID_LENGTH) True [References ''accounts'' ''id'' RESTRICT],
      created_at_column ''created_at'',
      Mapped ''completed_at'' DateTimeT True []]
     [CheckConstraint (Compare Greater (Col ''amount_minor'') (Num 0)) ''amount_positive'',
      CheckConstraint (Compare Differs (Col ''sender_account_id'')
        (Col ''receiver_account_id'')) ''sender_differs_from_receiver'',
      CheckConstraint (In (Col ''kind'') [''P2P_SEND'', ''REQUEST_SETTLEMENT'', ''SIGNUP_GRANT'', ''REVERSAL'',
        ''UNDO_HOLD'', ''UNDO_SETTLE'', ''UNDO_REFUND'', ''ESCROW_HOLD'', ''ESCROW_RELEASE'',
        ''ESCROW_REFUND'', ''GROUP_DEPOSIT'', ''GROUP_WITHDRAWAL'', ''LINK_PAYMENT'', ''OVERDRAFT_DRAW'',
        ''OVERDRAFT_REPAY'', ''OVERDRAFT_FUND'']) ''kind_valid'',
      CheckConstraint (In (Col ''status'') [''SUCCEEDED'', ''FAILED'', ''REVERSED'', ''PENDING_UNDO'',
        ''HELD'', ''DISPUTED'', ''REFUNDED'']) ''status_valid'',
      CheckConstraint (Or (And (In (Col ''kind'') [''UNDO_SETTLE'', ''UNDO_REFUND'', ''ESCROW_RELEASE'',
        ''ESCROW_REFUND'']) (IsNotNull (Col ''parent_transfer_id''))) (And (NotIn
        (Col ''kind'') [''UNDO_SETTLE'', ''UNDO_REFUND'', ''ESCROW_RELEASE'', ''ESCROW_REFUND'']) (IsNull
        (Col ''parent_transfer_id'')))) ''settlement_leg_has_parent'',
      IndexOn ''ix_transfers_sender_created'' [''sender_account_id'', ''created_at''] None,
      IndexOn ''ix_transfers_receiver_created'' [''receiver_account_id'', ''created_at''] None]"

definition LedgerTransactionRecord :: table where
  "LedgerTransactionRecord = declared ''ledger_transactions''
     [UlidPk ''id'',
      Mapped ''transfer_id'' (CharT ULID_LENGTH) False [References ''transfers'' ''id'' RESTRICT, UniqueColumn],
      Mapped ''type'' StatusText False [],
      Mapped ''description'' TextT True [],
      created_at_column ''posted_at'']
     []"

definition LedgerEntryRecord :: table where
  "LedgerEntryRecord = declared ''ledger_entries''
     [UlidPk ''id'',
      Mapped ''ledger_transaction_id''
        (CharT ULID_LENGTH) False [References ''ledger_transactions'' ''id'' RESTRICT],
      Mapped ''account_id'' (CharT ULID_LENGTH) False [References ''accounts'' ''id'' RESTRICT],
      Mapped ''amount_minor'' MoneyMinor False [],
      Mapped ''currency'' CurrencyCode False [],
      Mapped ''balance_after_minor'' MoneyMinor False [],
      created_at_column ''created_at'']
     [CheckConstraint (Compare Differs (Col ''amount_minor'') (Num 0)) ''amount_non_zero'',
      IndexOn ''ix_ledger_entries_account_id_desc'' [''account_id'', ''id''] None,
      IndexOn ''ix_ledger_entries_txn'' [''ledger_transaction_id''] None]"

definition IdempotencyRecord :: table where
  "IdempotencyRecord = declared ''idempotency_records''
     [Mapped ''actor_id'' (CharT ULID_LENGTH) False [PrimaryKeyColumn],
      Mapped ''endpoint'' (StringT 100) False [PrimaryKeyColumn],
      Mapped ''idempotency_key'' (StringT 128) False [PrimaryKeyColumn],
      Mapped ''request_fingerprint'' (CharT 64) False [],
      Mapped ''status'' StatusText False [ServerDefault (TextDefault ''PROCESSING'')],
      Mapped ''resource_id'' (CharT ULID_LENGTH) True [],
      Mapped ''http_status'' IntegerT True [],
      Mapped ''response_body'' JsonbT True [],
      created_at_column ''created_at'',
      Mapped ''completed_at'' DateTimeT True []]
     [CheckConstraint (In (Col ''status'') [''PROCESSING'', ''COMPLETED'']) ''status_valid'',
      CheckConstraint (Or (Compare Differs (Col ''status'') (Str ''COMPLETED'')) (And (IsNotNull
        (Col ''http_status'')) (IsNotNull (Col ''response_body'')))) ''completed_has_response'']"


section \<open>Group wallets\<close>

definition WITHDRAWAL_STATUSES :: "string list" where
  "WITHDRAWAL_STATUSES = [''PENDING'', ''APPROVED'', ''EXECUTED'', ''REJECTED'', ''CANCELLED'', ''EXPIRED'']"

definition MEMBER_ROLES :: "string list" where
  "MEMBER_ROLES = [''ADMIN'', ''MEMBER'']"

definition GroupWalletRecord :: table where
  "GroupWalletRecord = declared ''group_wallets''
     [UlidPk ''id'',
      Mapped ''name'' ShortText False [],
      Mapped ''account_id'' (CharT ULID_LENGTH) False [References ''accounts'' ''id'' RESTRICT, UniqueColumn],
      Mapped ''created_by_user_id'' (CharT ULID_LENGTH) False [References ''users'' ''id'' RESTRICT],
      Mapped ''quorum_size'' IntegerT False [],
      Mapped ''status'' StatusText False [ServerDefault (TextDefault ''ACTIVE'')],
      created_at_column ''created_at'',
      updated_at_column ''updated_at'']
     [CheckConstraint (Compare AtLeast (Col ''quorum_size'') (Num 1)) ''quorum_at_least_one'',
      CheckConstraint (In (Col ''status'') [''ACTIVE'', ''CLOSED'']) ''status_valid'']"

definition GroupMemberRecord :: table where
  "GroupMemberRecord = declared ''group_members''
     [UlidPk ''id'',
      Mapped ''group_id'' (CharT ULID_LENGTH) False [References ''group_wallets'' ''id'' CASCADE],
      Mapped ''user_id'' (CharT ULID_LENGTH) False [References ''users'' ''id'' RESTRICT],
      Mapped ''role'' StatusText False [ServerDefault (TextDefault ''MEMBER'')],
      created_at_column ''joined_at'',
      Mapped ''left_at'' DateTimeT True []]
     [CheckConstraint (In (Col ''role'') [''ADMIN'', ''MEMBER'']) ''role_valid'',
      UniqueConstraint [''group_id'', ''user_id''] ''one_membership_per_user'',
      IndexOn ''ix_group_members_user'' [''user_id'', ''left_at''] None]"

definition GroupWithdrawalRequestRecord :: table where
  "GroupWithdrawalRequestRecord = declared ''group_withdrawal_requests''
     [UlidPk ''id'',
      Mapped ''reference'' (StringT 40) False [UniqueColumn],
      Mapped ''group_id'' (CharT ULID_LENGTH) False [References ''group_wallets'' ''id'' CASCADE],
      Mapped ''requested_by_user_id'' (CharT ULID_LENGTH) False [References ''users'' ''id'' RESTRICT],
      Mapped ''to_account_id'' (CharT ULID_LENGTH) False [References ''accounts'' ''id'' RESTRICT],
      Mapped ''amount_minor'' MoneyMinor False [],
      Mapped ''currency'' CurrencyCode False [],
      Mapped ''reason'' (StringT 200) True [],
      Mapped ''status'' StatusText False [ServerDefault (TextDefault ''PENDING'')],
      Mapped ''transfer_id'' (CharT ULID_LENGTH) True [References ''transfers'' ''id'' RESTRICT, UniqueColumn],
      Mapped ''expires_at'' DateTimeT False [],
      Mapped ''executed_at'' DateTimeT True [],
      created_at_column ''created_at'',
      updated_at_column ''updated_at'']
     [CheckConstraint (Compare Greater (Col ''amount_minor'') (Num 0)) ''amount_positive'',
      CheckConstraint (In (Col ''status'') [''PENDING'', ''APPROVED'', ''EXECUTED'', ''REJECTED'',
        ''CANCELLED'', ''EXPIRED'']) ''status_valid'',
      CheckConstraint (Or (And (Compare Equal (Col ''status'') (Str ''EXECUTED'')) (IsNotNull
        (Col ''transfer_id''))) (And (Compare Differs (Col ''status'') (Str ''EXECUTED'')) (IsNull
        (Col ''transfer_id'')))) ''executed_has_transfer'',
      IndexOn ''ix_group_withdrawals_group'' [''group_id'', ''status'', ''created_at''] None]"

definition GroupWithdrawalApprovalRecord :: table where
  "GroupWithdrawalApprovalRecord = declared ''group_withdrawal_approvals''
     [UlidPk ''id'',
      Mapped ''request_id'' (CharT ULID_LENGTH) False [References ''group_withdrawal_requests'' ''id'' CASCADE],
      Mapped ''approver_user_id'' (CharT ULID_LENGTH) False [References ''users'' ''id'' RESTRICT],
      Mapped ''decision'' StatusText False [],
      created_at_column ''created_at'']
     [CheckConstraint (In (Col ''decision'') [''APPROVE'', ''REJECT'']) ''decision_valid'',
      UniqueConstraint [''request_id'', ''approver_user_id''] ''one_vote_per_member'']"


section \<open>Identity\<close>

definition USER_STATUSES :: "string list" where
  "USER_STATUSES = [''ACTIVE'', ''SUSPENDED'', ''CLOSED'']"

definition UserRecord :: table where
  "UserRecord = declared ''users''
     [UlidPk ''id'',
      Mapped ''phone'' (StringT 32) False [UniqueColumn],
      Mapped ''display_name'' ShortText False [],
      Mapped ''password_hash'' TextT False [],
      Mapped ''pin_hash'' TextT False [],
      Mapped ''pin_failed_attempts'' IntegerT False [ServerDefault (IntDefault 0)],
      Mapped ''pin_locked_until'' DateTimeT True [],
      Mapped ''status'' StatusText False [ServerDefault (TextDefault ''ACTIVE'')],
      created_at_column ''created_at'',
      updated_at_column ''updated_at'']
     [CheckConstraint (In (Col ''status'') [''ACTIVE'', ''SUSPENDED'', ''CLOSED'']) ''status_valid'',
      CheckConstraint (Compare AtLeast (Col ''pin_failed_attempts'') (Num 0)) ''pin_attempts_non_negative'',
      CheckConstraint (Matches (Col ''phone'') ([Exactly CHR ''0'', Exactly CHR ''1'',
        Between CHR ''3'' CHR ''9''] @ replicate 8 (Between CHR ''0'' CHR ''9''))) ''phone_format'']"

definition SessionRecord :: table where
  "SessionRecord = declared ''sessions''
     [UlidPk ''id'',
      Mapped ''user_id'' (CharT ULID_LENGTH) False [References ''users'' ''id'' CASCADE],
      Mapped ''refresh_token_hash'' (StringT 64) False [UniqueColumn],
      Mapped ''rotated_to_id'' (CharT ULID_LENGTH) True [References ''sessions'' ''id'' SET_NULL],
      created_at_column ''issued_at'',
      Mapped ''expires_at'' DateTimeT False [],
      Mapped ''revoked_at'' DateTimeT True [],
      Mapped ''user_agent'' (StringT 200) True [],
      Mapped ''ip_address'' (StringT 45) True []]
     [IndexOn ''ix_sessions_user_id_active'' [''user_id'', ''expires_at''] None]"


section \<open>Money requests\<close>

definition MONEY_REQUEST_STATUSES :: "string list" where
  "MONEY_REQUEST_STATUSES = [''PENDING'', ''ACCEPTED'', ''REJECTED'', ''CANCELLED'', ''EXPIRED'']"

definition TERMINAL_STATUSES :: "string list" where
  "TERMINAL_STATUSES = [''ACCEPTED'', ''REJECTED'', ''CANCELLED'', ''EXPIRED'']"

definition MoneyRequestRecord :: table where
  "MoneyRequestRecord = declared ''money_requests''
     [UlidPk ''id'',
      Mapped ''reference'' (StringT 40) False [UniqueColumn],
      Mapped ''requester_account_id'' (CharT ULID_LENGTH) False [References ''accounts'' ''id'' RESTRICT],
      Mapped ''payer_account_id'' (CharT ULID_LENGTH) False [References ''accounts'' ''id'' RESTRICT],
      Mapped ''amount_minor'' MoneyMinor False [],
      Mapped ''currency'' CurrencyCode False [],
      Mapped ''note'' (StringT 200) True [],
      Mapped ''status'' StatusText False [ServerDefault (TextDefault ''PENDING'')],
      Mapped ''transfer_id'' (CharT ULID_LENGTH) True [References ''transfers'' ''id'' RESTRICT, UniqueColumn],
      Mapped ''expires_at'' DateTimeT False [],
      Mapped ''responded_at'' DateTimeT True [],
      created_at_column ''created_at'',
      updated_at_column ''updated_at'']
     [CheckConstraint (Compare Greater (Col ''amount_minor'') (Num 0)) ''amount_positive'',
      CheckConstraint (Compare Differs (Col ''requester_account_id'')
        (Col ''payer_account_id'')) ''requester_differs_from_payer'',
      CheckConstraint (In (Col ''status'') [''PENDING'', ''ACCEPTED'', ''REJECTED'', ''CANCELLED'',
        ''EXPIRED'']) ''status_valid'',
      CheckConstraint (Or (And (Compare Equal (Col ''status'') (Str ''ACCEPTED'')) (IsNotNull
        (Col ''transfer_id''))) (And (Compare Differs (Col ''status'') (Str ''ACCEPTED'')) (IsNull
        (Col ''transfer_id'')))) ''transfer_only_when_accepted'',
      IndexOn ''ix_money_requests_payer'' [''payer_account_id'', ''status'', ''created_at''] None,
      IndexOn ''ix_money_requests_requester'' [''requester_account_id'', ''status'', ''created_at''] None,
      IndexOn ''ix_money_requests_pending_expiry'' [''expires_at''] (Some (Compare Equal (Col ''status'')
        (Str ''PENDING'')))]"


section \<open>Spot-Me pools\<close>

definition LOAN_STATUSES :: "string list" where
  "LOAN_STATUSES = [''OUTSTANDING'', ''REPAID'', ''WRITTEN_OFF'']"

definition OverdraftPoolRecord :: table where
  "OverdraftPoolRecord = declared ''overdraft_pools''
     [UlidPk ''id'',
      Mapped ''sponsor_user_id'' (CharT ULID_LENGTH) False [References ''users'' ''id'' RESTRICT],
      Mapped ''pool_account_id'' (CharT ULID_LENGTH) False [References ''accounts'' ''id'' RESTRICT,
        UniqueColumn],
      Mapped ''currency'' CurrencyCode False [],
      Mapped ''status'' StatusText False [ServerDefault (TextDefault ''ACTIVE'')],
      created_at_column ''created_at'',
      updated_at_column ''updated_at'']
     [CheckConstraint (In (Col ''status'') [''ACTIVE'', ''SUSPENDED'', ''CLOSED'']) ''status_valid'',
      UniqueConstraint [''sponsor_user_id''] ''one_pool_per_sponsor'']"

definition OverdraftGrantRecord :: table where
  "OverdraftGrantRecord = declared ''overdraft_grants''
     [UlidPk ''id'',
      Mapped ''pool_id'' (CharT ULID_LENGTH) False [References ''overdraft_pools'' ''id'' CASCADE],
      Mapped ''beneficiary_user_id'' (CharT ULID_LENGTH) False [References ''users'' ''id'' RESTRICT],
      Mapped ''max_draw_minor'' MoneyMinor False [],
      Mapped ''status'' StatusText False [ServerDefault (TextDefault ''ACTIVE'')],
      created_at_column ''created_at'',
      updated_at_column ''updated_at'']
     [CheckConstraint (Compare Greater (Col ''max_draw_minor'') (Num 0)) ''max_draw_positive'',
      CheckConstraint (In (Col ''status'') [''ACTIVE'', ''REVOKED'']) ''status_valid'',
      UniqueConstraint [''pool_id'', ''beneficiary_user_id''] ''one_grant_per_beneficiary'',
      IndexOn ''ix_overdraft_grants_beneficiary'' [''beneficiary_user_id'', ''status''] None]"

definition OverdraftLoanRecord :: table where
  "OverdraftLoanRecord = declared ''overdraft_loans''
     [UlidPk ''id'',
      Mapped ''pool_id'' (CharT ULID_LENGTH) False [References ''overdraft_pools'' ''id'' RESTRICT],
      Mapped ''borrower_user_id'' (CharT ULID_LENGTH) False [References ''users'' ''id'' RESTRICT],
      Mapped ''draw_transfer_id'' (CharT ULID_LENGTH) False [References ''transfers'' ''id'' RESTRICT,
        UniqueColumn],
      Mapped ''principal_minor'' MoneyMinor False [],
      Mapped ''outstanding_minor'' MoneyMinor False [],
      Mapped ''currency'' CurrencyCode False [],
      Mapped ''status'' StatusText False [ServerDefault (TextDefault ''OUTSTANDING'')],
      created_at_column ''created_at'',
      Mapped ''repaid_at'' DateTimeT True []]
     [CheckConstraint (Compare Greater (Col ''principal_minor'') (Num 0)) ''principal_positive'',
      CheckConstraint (And (Compare AtLeast (Col ''outstanding_minor'') (Num 0)) (Compare AtMost
        (Col ''outstanding_minor'') (Col ''principal_minor''))) ''outstanding_within_principal'',
      CheckConstraint (In (Col ''status'') [''OUTSTANDING'', ''REPAID'', ''WRITTEN_OFF'']) ''status_valid'',
      CheckConstraint (Or (And (Compare Equal (Col ''status'') (Str ''REPAID'')) (Compare Equal
        (Col ''outstanding_minor'') (Num 0))) (Compare Differs (Col ''status'')
        (Str ''REPAID''))) ''repaid_means_zero'',
      IndexOn ''ix_overdraft_loans_borrower_outstanding'' [''borrower_user_id''] (Some (Compare Equal
        (Col ''status'') (Str ''OUTSTANDING'')))]"

definition OverdraftRepaymentRecord :: table where
  "OverdraftRepaymentRecord = declared ''overdraft_repayments''
     [UlidPk ''id'',
      Mapped ''loan_id'' (CharT ULID_LENGTH) False [References ''overdraft_loans'' ''id'' RESTRICT],
      Mapped ''transfer_id'' (CharT ULID_LENGTH) False [References ''transfers'' ''id'' RESTRICT, UniqueColumn],
      Mapped ''amount_minor'' MoneyMinor False [],
      Mapped ''triggered_by_transfer_id'' (CharT ULID_LENGTH) True [References ''transfers'' ''id'' SET_NULL],
      created_at_column ''created_at'']
     [CheckConstraint (Compare Greater (Col ''amount_minor'') (Num 0)) ''amount_positive'',
      IndexOn ''ix_overdraft_repayments_loan'' [''loan_id'', ''created_at''] None]"


section \<open>Payment links\<close>

definition LINK_STATUSES :: "string list" where
  "LINK_STATUSES = [''ACTIVE'', ''CONSUMED'', ''EXPIRED'', ''REVOKED'']"

definition PaymentLinkRecord :: table where
  "PaymentLinkRecord = declared ''payment_links''
     [UlidPk ''id'',
      Mapped ''token_hash'' (StringT 64) False [UniqueColumn],
      Mapped ''payee_account_id'' (CharT ULID_LENGTH) False [References ''accounts'' ''id'' RESTRICT],
      Mapped ''payee_user_id'' (CharT ULID_LENGTH) False [References ''users'' ''id'' RESTRICT],
      Mapped ''alias'' ShortText False [],
      Mapped ''note'' (StringT 200) True [],
      Mapped ''currency'' CurrencyCode False [],
      Mapped ''fixed_amount_minor'' MoneyMinor True [],
      Mapped ''max_amount_minor'' MoneyMinor False [],
      Mapped ''max_uses'' IntegerT False [ServerDefault (IntDefault 1)],
      Mapped ''uses_count'' IntegerT False [ServerDefault (IntDefault 0)],
      Mapped ''single_use'' BooleanT False [ServerDefault TrueDefault],
      Mapped ''expires_at'' DateTimeT False [],
      Mapped ''status'' StatusText False [ServerDefault (TextDefault ''ACTIVE'')],
      Mapped ''revoked_at'' DateTimeT True [],
      created_at_column ''created_at'',
      updated_at_column ''updated_at'']
     [CheckConstraint (Compare Greater (Col ''max_amount_minor'') (Num 0)) ''max_amount_positive'',
      CheckConstraint (Or (IsNull (Col ''fixed_amount_minor'')) (And (Compare Greater
        (Col ''fixed_amount_minor'') (Num 0)) (Compare AtMost (Col ''fixed_amount_minor'')
        (Col ''max_amount_minor'')))) ''fixed_amount_within_cap'',
      CheckConstraint (Compare AtLeast (Col ''max_uses'') (Num 1)) ''max_uses_at_least_one'',
      CheckConstraint (And (Compare AtLeast (Col ''uses_count'') (Num 0)) (Compare AtMost (Col ''uses_count'')
        (Col ''max_uses''))) ''uses_within_cap'',
      CheckConstraint (In (Col ''status'') [''ACTIVE'', ''CONSUMED'', ''EXPIRED'',
        ''REVOKED'']) ''status_valid'',
      IndexOn ''ix_payment_links_payee'' [''payee_user_id'', ''status'', ''created_at''] None,
      IndexOn ''ix_payment_links_active_expiry'' [''expires_at''] (Some (Compare Equal (Col ''status'')
        (Str ''ACTIVE'')))]"

definition PaymentLinkPaymentRecord :: table where
  "PaymentLinkPaymentRecord = declared ''payment_link_payments''
     [UlidPk ''id'',
      Mapped ''link_id'' (CharT ULID_LENGTH) False [References ''payment_links'' ''id'' RESTRICT],
      Mapped ''transfer_id'' (CharT ULID_LENGTH) False [References ''transfers'' ''id'' RESTRICT, UniqueColumn],
      Mapped ''payer_user_id'' (CharT ULID_LENGTH) False [References ''users'' ''id'' RESTRICT],
      Mapped ''amount_minor'' MoneyMinor False [],
      created_at_column ''created_at'']
     [CheckConstraint (Compare Greater (Col ''amount_minor'') (Num 0)) ''amount_positive'',
      IndexOn ''ix_link_payments_link'' [''link_id'', ''created_at''] None]"


section \<open>SafePay\<close>

definition ESCROW_STATUSES :: "string list" where
  "ESCROW_STATUSES = [''AWAITING_SHIPMENT'', ''SHIPPED'', ''DELIVERED'', ''RELEASED'', ''REFUNDED'',
    ''DISPUTED'', ''CANCELLED'']"

definition SafePayEscrowRecord :: table where
  "SafePayEscrowRecord = declared ''safepay_escrows''
     [UlidPk ''id'',
      Mapped ''reference'' (StringT 40) False [UniqueColumn],
      Mapped ''hold_transfer_id'' (CharT ULID_LENGTH) False [References ''transfers'' ''id'' RESTRICT,
        UniqueColumn],
      Mapped ''settlement_transfer_id'' (CharT ULID_LENGTH) True [References ''transfers'' ''id'' RESTRICT,
        UniqueColumn],
      Mapped ''buyer_user_id'' (CharT ULID_LENGTH) False [References ''users'' ''id'' RESTRICT],
      Mapped ''seller_user_id'' (CharT ULID_LENGTH) False [References ''users'' ''id'' RESTRICT],
      Mapped ''amount_minor'' MoneyMinor False [],
      Mapped ''currency'' CurrencyCode False [],
      Mapped ''description'' (StringT 200) True [],
      Mapped ''status'' StatusText False [ServerDefault (TextDefault ''AWAITING_SHIPMENT'')],
      Mapped ''delivery_code_hash'' TextT False [],
      Mapped ''delivery_code_attempts'' IntegerT False [ServerDefault (IntDefault 0)],
      Mapped ''delivery_code_locked_until'' DateTimeT True [],
      Mapped ''tracking_number'' (StringT 64) True [],
      Mapped ''courier_slug'' (StringT 32) True [],
      Mapped ''shipped_at'' DateTimeT True [],
      Mapped ''delivered_at'' DateTimeT True [],
      Mapped ''auto_release_at'' DateTimeT True [],
      Mapped ''settled_at'' DateTimeT True [],
      Mapped ''dispute_reason'' (StringT 500) True [],
      Mapped ''disputed_at'' DateTimeT True [],
      Mapped ''resolved_by_user_id'' (CharT ULID_LENGTH) True [References ''users'' ''id'' SET_NULL],
      Mapped ''resolution_note'' (StringT 500) True [],
      created_at_column ''created_at'',
      updated_at_column ''updated_at'']
     [CheckConstraint (Compare Greater (Col ''amount_minor'') (Num 0)) ''amount_positive'',
      CheckConstraint (Compare Differs (Col ''buyer_user_id'')
        (Col ''seller_user_id'')) ''buyer_differs_from_seller'',
      CheckConstraint (In (Col ''status'') [''AWAITING_SHIPMENT'', ''SHIPPED'', ''DELIVERED'', ''RELEASED'',
        ''REFUNDED'', ''DISPUTED'', ''CANCELLED'']) ''status_valid'',
      CheckConstraint (Compare AtLeast (Col ''delivery_code_attempts'') (Num 0)) ''attempts_non_negative'',
      CheckConstraint (Or (And (In (Col ''status'') [''RELEASED'', ''REFUNDED'']) (IsNotNull
        (Col ''settlement_transfer_id''))) (And (NotIn (Col ''status'') [''RELEASED'', ''REFUNDED'']) (IsNull
        (Col ''settlement_transfer_id'')))) ''settled_has_settlement_leg'',
      IndexOn ''ix_safepay_buyer'' [''buyer_user_id'', ''status'', ''created_at''] None,
      IndexOn ''ix_safepay_seller'' [''seller_user_id'', ''status'', ''created_at''] None]"


section \<open>Outbox and inbox\<close>

definition OutboxEventRecord :: table where
  "OutboxEventRecord = declared ''outbox_events''
     [UlidPk ''id'',
      Mapped ''aggregate_type'' (StringT 50) False [],
      Mapped ''aggregate_id'' (CharT ULID_LENGTH) False [],
      Mapped ''event_type'' (StringT 100) False [],
      Mapped ''payload'' JsonbT False [],
      Mapped ''trace_id'' (StringT 64) True [],
      Mapped ''schema_version'' IntegerT False [ServerDefault (IntDefault 1)],
      created_at_column ''occurred_at'',
      Mapped ''published_at'' DateTimeT True [],
      Mapped ''attempt_count'' IntegerT False [ServerDefault (IntDefault 0)],
      Mapped ''next_attempt_at'' DateTimeT True [],
      Mapped ''last_error'' TextT True [],
      Mapped ''dead_lettered_at'' DateTimeT True []]
     [CheckConstraint (Compare AtLeast (Col ''attempt_count'') (Num 0)) ''attempt_count_non_negative'',
      IndexOn ''ix_outbox_events_unpublished'' [''next_attempt_at'', ''occurred_at''] (Some (And (IsNull
        (Col ''published_at'')) (IsNull (Col ''dead_lettered_at''))))]"

definition ConsumerInboxRecord :: table where
  "ConsumerInboxRecord = declared ''consumer_inbox''
     [Mapped ''consumer_name'' (StringT 100) False [PrimaryKeyColumn],
      Mapped ''event_id'' (CharT ULID_LENGTH) False [PrimaryKeyColumn],
      created_at_column ''processed_at'']
     []"


section \<open>Scheduled tasks\<close>

definition TASK_TYPES :: "string list" where
  "TASK_TYPES = [''UNDO_SETTLE'', ''ESCROW_AUTO_RELEASE'', ''LINK_EXPIRY'', ''MONEY_REQUEST_EXPIRY'']"

definition TASK_STATUSES :: "string list" where
  "TASK_STATUSES = [''PENDING'', ''DONE'', ''CANCELLED'', ''FAILED'']"

definition ScheduledTaskRecord :: table where
  "ScheduledTaskRecord = declared ''scheduled_tasks''
     [UlidPk ''id'',
      Mapped ''task_type'' StatusText False [],
      Mapped ''resource_id'' (CharT ULID_LENGTH) False [],
      Mapped ''due_at'' DateTimeT False [],
      Mapped ''status'' StatusText False [ServerDefault (TextDefault ''PENDING'')],
      Mapped ''attempt_count'' IntegerT False [ServerDefault (IntDefault 0)],
      Mapped ''last_error'' TextT True [],
      created_at_column ''created_at'',
      Mapped ''completed_at'' DateTimeT True []]
     [CheckConstraint (In (Col ''task_type'') [''UNDO_SETTLE'', ''ESCROW_AUTO_RELEASE'', ''LINK_EXPIRY'',
       ''MONEY_REQUEST_EXPIRY'']) ''task_type_valid'',
      CheckConstraint (In (Col ''status'') [''PENDING'', ''DONE'', ''CANCELLED'', ''FAILED'']) ''status_valid'',
      CheckConstraint (Compare AtLeast (Col ''attempt_count'') (Num 0)) ''attempt_count_non_negative'',
      UniqueConstraint [''task_type'', ''resource_id''] ''one_task_per_resource'',
      IndexOn ''ix_scheduled_tasks_due'' [''due_at''] (Some (Compare Equal (Col ''status'')
        (Str ''PENDING'')))]"


section \<open>The metadata\<close>

definition metadata :: "table list" where
  "metadata =
     [AuditLogRecord, AccountRecord, IdempotencyRecord, LedgerEntryRecord, LedgerTransactionRecord,
       TransferRecord, GroupMemberRecord, GroupWalletRecord, GroupWithdrawalApprovalRecord,
       GroupWithdrawalRequestRecord, SessionRecord, UserRecord, MoneyRequestRecord, OverdraftGrantRecord,
       OverdraftLoanRecord, OverdraftPoolRecord, OverdraftRepaymentRecord, PaymentLinkPaymentRecord,
       PaymentLinkRecord, SafePayEscrowRecord, ConsumerInboxRecord, OutboxEventRecord, ScheduledTaskRecord]"

end
