(* ===== verification/Upgrade.thy ===== *)
theory Upgrade
  imports Schema_Facts Orm_Models
begin

text \<open>
  The schema the revisions lead to.  Two tables are altered after they were created, \<open>accounts\<close> and
  \<open>transfers\<close>; all others stay as they are.
\<close>

section \<open>Altering the two core tables\<close>

definition schema_with :: "table \<Rightarrow> table \<Rightarrow> table list" where
  "schema_with A T = alembic_version # [table_consumer_inbox, table_idempotency_records, table_outbox_events, table_users, A,
     table_audit_logs, table_sessions, T, table_ledger_transactions, table_money_requests, table_ledger_entries]
     @ advanced_tables"

lemma schema_with_initial: "alembic_version # initial_tables @ advanced_tables = schema_with table_accounts table_transfers"
  by (simp add: schema_with_def initial_tables_def)

definition accounts_at :: "table_constraint list \<Rightarrow> table" where
  "accounts_at ks = table_accounts\<lparr>tb_constraints := ks\<rparr>"

definition transfers_at :: "column list \<Rightarrow> table_constraint list \<Rightarrow> table" where
  "transfers_at cs ks = table_transfers\<lparr>tb_columns := cs, tb_constraints := ks\<rparr>"

lemma core_names [simp]: "tb_name (accounts_at ks) = ''accounts''" "tb_name (transfers_at cs ks) = ''transfers''"
  "tb_name alembic_version = ''alembic_version''"
  by (simp_all add: accounts_at_def transfers_at_def alembic_version_def)

lemma core_parts [simp]:
  "tb_constraints (accounts_at ks) = ks" "tb_constraints (transfers_at cs ks) = ks"
  "tb_columns (transfers_at cs ks) = cs"
  "(accounts_at ks)\<lparr>tb_constraints := ks'\<rparr> = accounts_at ks'"
  "(transfers_at cs ks)\<lparr>tb_constraints := ks'\<rparr> = transfers_at cs ks'"
  "(transfers_at cs ks)\<lparr>tb_columns := cs'\<rparr> = transfers_at cs' ks"
  by (simp_all add: accounts_at_def transfers_at_def)

lemma schema_with_find [simp]:
  "find_table ''accounts'' (schema_with (accounts_at ks) (transfers_at cs ls)) = Some (accounts_at ks)"
  "find_table ''transfers'' (schema_with (accounts_at ks) (transfers_at cs ls)) = Some (transfers_at cs ls)"
  "find_table ''users'' (schema_with (accounts_at ks) (transfers_at cs ls)) = Some table_users"
  "find_table ''ledger_entries'' (schema_with (accounts_at ks) (transfers_at cs ls)) = Some table_ledger_entries"
  "find_table ''ledger_transactions'' (schema_with (accounts_at ks) (transfers_at cs ls)) = Some table_ledger_transactions"
  "find_table ''audit_logs'' (schema_with (accounts_at ks) (transfers_at cs ls)) = Some table_audit_logs"
  by (simp_all add: schema_with_def)

lemma schema_with_put [simp]:
  "map (\<lambda>x. if tb_name x = ''accounts'' then accounts_at ks' else x) (schema_with (accounts_at ks) (transfers_at cs ls))
     = schema_with (accounts_at ks') (transfers_at cs ls)"
  "map (\<lambda>x. if tb_name x = ''transfers'' then transfers_at cs' ls' else x) (schema_with (accounts_at ks) (transfers_at cs ls))
     = schema_with (accounts_at ks) (transfers_at cs' ls')"
  by (simp_all add: schema_with_def advanced_tables_def)

lemma put_core [simp]:
  assumes "cat_tables c = schema_with (accounts_at ks) (transfers_at cs ls)"
  shows "put_table (accounts_at ks') c = c\<lparr>cat_tables := schema_with (accounts_at ks') (transfers_at cs ls)\<rparr>"
    "put_table (transfers_at cs' ls') c = c\<lparr>cat_tables := schema_with (accounts_at ks) (transfers_at cs' ls')\<rparr>"
  using assms by (simp_all add: put_table_def)

text \<open>No foreign key depends on a unique key other than \<open>id\<close>.\<close>

lemma locally_no_dependency: "locally_ok t k \<Longrightarrow> key \<noteq> [''id''] \<Longrightarrow> \<not> depends_on n key k"
  by (cases k) auto

lemma local_no_dependency:
  assumes "table_local t" "key \<noteq> [''id'']"
  shows "\<not> list_ex (depends_on n key) (tb_constraints t)"
  using assms locally_no_dependency [OF _ assms(2)] by (auto simp: table_local_def list_ex_iff list_all_iff)

lemma schema_no_dependency:
  assumes "key \<noteq> [''id'']" "\<not> list_ex (depends_on n key) ks" "\<not> list_ex (depends_on n key) ls"
  shows "\<not> list_ex (\<lambda>u. list_ex (depends_on n key) (tb_constraints u)) (schema_with (accounts_at ks) (transfers_at cs ls))"
  using assms
  by (simp add: schema_with_def advanced_tables_def local_no_dependency alembic_version_def)

lemma fresh_unique:
  assumes "cat_tables c = schema_with (accounts_at ks) (transfers_at cs ls)"
    and "n = ''one_account_per_user_per_type'' \<or> n = ''uq_accounts_user_id''"
    and "n \<notin> set (concat (map backing_index ks))" "n \<notin> set (concat (map backing_index ls))"
  shows "n \<notin> set (relation_names c)"
  using assms unfolding relation_names_def schema_with_def advanced_tables_def
  by (auto simp: names_of_table_def alembic_version_def table_defs accounts_at_def transfers_at_def)

text \<open>What a revision makes of the constraints of a table: those it drops go, those it adds come last.\<close>

fun dropped :: "string \<Rightarrow> operation \<Rightarrow> string list" where
  "dropped n (DropConstraint k m) = (if m = n then [k] else [])"
| "dropped n _ = []"

fun added :: "string \<Rightarrow> operation \<Rightarrow> table_constraint list" where
  "added n (AddConstraint m k) = (if m = n then [k] else [])"
| "added n _ = []"

definition altered :: "string \<Rightarrow> operation list \<Rightarrow> table_constraint list \<Rightarrow> table_constraint list" where
  "altered n ds ks = filter (\<lambda>k. con_name k \<notin> set (concat (map (dropped n) ds))) ks @ concat (map (added n) ds)"

definition accounts_checks :: "table_constraint list" where
  "accounts_checks = altered ''accounts'' (relink_tables @ modify_checks) (tb_constraints table_accounts)"

definition transfers_columns_2 :: "column list" where
  "transfers_columns_2 = tb_columns table_transfers @ [Column ''parent_transfer_id'' (CharT 26) True None]"

definition transfers_checks_2 :: "table_constraint list" where
  "transfers_checks_2 = altered ''transfers'' (relink_tables @ modify_checks) (tb_constraints table_transfers)"

definition transfers_columns :: "column list" where
  "transfers_columns = transfers_columns_2 @ [Column ''intended_receiver_account_id'' (CharT 26) True None]"

definition transfers_checks_5 :: "table_constraint list" where
  "transfers_checks_5 = altered ''transfers'' intended_receiver transfers_checks_2"

definition transfers_checks :: "table_constraint list" where
  "transfers_checks = altered ''transfers'' fund_kind transfers_checks_5"

lemma core_initial:
  "table_accounts = accounts_at (tb_constraints table_accounts)"
  "table_transfers = transfers_at (tb_columns table_transfers) (tb_constraints table_transfers)"
  by (simp_all add: accounts_at_def transfers_at_def)

lemmas alter_simps = add_constraint_def drop_constraint_def add_column_def drop_column_def column_type_def has_columns_def
  ck_convention_def fresh_unique schema_no_dependency Let_def

lemma accounts_columns [simp]: "tb_columns (accounts_at ks) = tb_columns table_accounts"
  by (simp add: accounts_at_def)

lemma relink_run:
  assumes "cat_tables c = schema_with table_accounts table_transfers" "cat_rows c ''transfers'' = []"
    and "cat_rows c ''accounts'' = [system_account_row i ''SYSTEM_ISSUANCE'' number now]"
  shows "migrate (relink_tables @ modify_checks) c
    = Some (c\<lparr>cat_tables := schema_with (accounts_at accounts_checks) (transfers_at transfers_columns_2 transfers_checks_2)\<rparr>)"
proof -
  let ?ks = "tb_constraints table_accounts" and ?cs = "tb_columns table_transfers" and ?ls = "tb_constraints table_transfers"
  have tables: "cat_tables c = schema_with (accounts_at ?ks) (transfers_at ?cs ?ls)"
    using assms(1) core_initial by metis
  have rows: "(cat_rows c)(''transfers'' := []) = cat_rows c" using assms(2) by (simp add: fun_upd_idem)
  show ?thesis
    using tables rows assms(2,3)
    unfolding relink_tables_def modify_checks_def accounts_checks_def transfers_columns_2_def transfers_checks_2_def altered_def
    by (simp add: alter_simps table_accounts_def table_transfers_def row_of_def system_account_row_def check_passes_def)
qed

lemma intended_receiver_run:
  assumes "cat_tables c = schema_with (accounts_at accounts_checks) (transfers_at transfers_columns_2 transfers_checks_2)"
    and "cat_rows c ''transfers'' = []"
  shows "migrate intended_receiver c
    = Some (c\<lparr>cat_tables := schema_with (accounts_at accounts_checks) (transfers_at transfers_columns transfers_checks_5)\<rparr>)"
proof -
  have rows: "(cat_rows c)(''transfers'' := []) = cat_rows c" using assms(2) by (simp add: fun_upd_idem)
  have keyed: "[''id''] \<in> set (concat (map key_of accounts_checks))"
    by (simp add: accounts_checks_def altered_def table_accounts_def relink_tables_def modify_checks_def)
  show ?thesis
    using assms rows keyed
    unfolding intended_receiver_def transfers_columns_def transfers_checks_5_def transfers_columns_2_def
      transfers_checks_2_def altered_def relink_tables_def modify_checks_def
    by (simp add: alter_simps table_accounts_def table_transfers_def)
qed

lemma fund_kind_run:
  assumes "cat_tables c = schema_with (accounts_at accounts_checks) (transfers_at transfers_columns transfers_checks_5)"
    and "cat_rows c ''transfers'' = []"
  shows "migrate fund_kind c
    = Some (c\<lparr>cat_tables := schema_with (accounts_at accounts_checks) (transfers_at transfers_columns transfers_checks)\<rparr>)"
  using assms unfolding transfers_checks_def fund_kind_def
  by (simp add: alter_simps transfers_checks_5_def transfers_checks_2_def transfers_columns_def transfers_columns_2_def altered_def
      relink_tables_def modify_checks_def intended_receiver_def table_transfers_def)


section \<open>Privileges and system accounts\<close>

fun privilege_op :: "table list \<Rightarrow> operation \<Rightarrow> bool" where
  "privilege_op ts (Grant ps n r) = (find_table n ts \<noteq> None)"
| "privilege_op ts (Revoke ps n r) = (find_table n ts \<noteq> None)"
| "privilege_op ts (GrantAll ps r) = True"
| "privilege_op ts _ = False"

lemma grant_all_run: "\<exists>g. fold (\<lambda>t. grant ps (tb_name t) r) ts c = c\<lparr>cat_grants := g\<rparr>"
proof (induction ts arbitrary: c)
  case Nil
  have "fold (\<lambda>t. grant ps (tb_name t) r) [] c = c\<lparr>cat_grants := cat_grants c\<rparr>" by simp
  then show ?case by blast
next
  case (Cons t ts)
  obtain g where "fold (\<lambda>t. grant ps (tb_name t) r) ts (grant ps (tb_name t) r c)
      = (grant ps (tb_name t) r c)\<lparr>cat_grants := g\<rparr>"
    using Cons.IH by blast
  moreover have "(grant ps (tb_name t) r c)\<lparr>cat_grants := g\<rparr> = c\<lparr>cat_grants := g\<rparr>" by (simp add: grant_def)
  ultimately show ?case by auto
qed

lemma revoke_removes:
  "p \<in> set ps \<Longrightarrow> (r, n, p) \<notin> set (cat_grants (revoke ps n r c))"
  "x \<notin> set (cat_grants c) \<Longrightarrow> x \<notin> set (cat_grants (revoke ps n r c))"
  by (auto simp: revoke_def)

lemma privileges_run:
  assumes "list_all (privilege_op (cat_tables c)) ds"
  shows "\<exists>g. migrate ds c = Some (c\<lparr>cat_grants := g\<rparr>)"
  using assms
proof (induction ds arbitrary: c)
  case Nil
  have "migrate [] c = Some (c\<lparr>cat_grants := cat_grants c\<rparr>)" by simp
  then show ?case by blast
next
  case (Cons d ds)
  have "\<exists>g. execute d c = Some (c\<lparr>cat_grants := g\<rparr>)"
    using Cons.prems grant_all_run by (cases d) (auto simp: grant_def revoke_def)
  then obtain g where g: "execute d c = Some (c\<lparr>cat_grants := g\<rparr>)" by blast
  have "list_all (privilege_op (cat_tables (c\<lparr>cat_grants := g\<rparr>))) ds" using Cons.prems by simp
  from Cons.IH [OF this] obtain h where "migrate ds (c\<lparr>cat_grants := g\<rparr>) = Some (c\<lparr>cat_grants := g\<rparr>\<lparr>cat_grants := h\<rparr>)" by blast
  with g show ?case by auto
qed

lemma system_account_run:
  assumes "find_table ''accounts'' (cat_tables c) = Some t" "\<not> list_ex (\<lambda>x. x ''id'' = VStr i) (cat_rows c ''accounts'')"
    and "admitted (cat_rows c) t (system_account_row i ty number (cat_now c))"
  shows "execute (InsertAccount i ty number) c = Some (c\<lparr>cat_rows := (cat_rows c)(''accounts'' :=
      cat_rows c ''accounts'' @ [system_account_row i ty number (cat_now c)])\<rparr>)"
  using assms by (simp add: insert_system_account_def Let_def)

lemma admitted_system_account:
  assumes "list_all (\<lambda>x. x ''id'' \<noteq> VStr i \<and> x ''account_number'' \<noteq> VStr number) rows" "f ''accounts'' = rows"
  shows "ty = ''SYSTEM_ISSUANCE'' \<Longrightarrow> admitted f table_accounts (system_account_row i ty number now)"
    and "ty = ''ESCROW'' \<or> ty = ''PENDING_SETTLEMENT''
      \<Longrightarrow> admitted f (accounts_at accounts_checks) (system_account_row i ty number now)"
  using assms
  by (auto simp: admitted_def not_null_ok_def table_accounts_def accounts_checks_def altered_def relink_tables_def
      modify_checks_def accounts_at_def system_account_row_def row_of_def check_passes_def compare_values_def list_all_iff)

lemma system_row_fields [simp]:
  "system_account_row i ty number now ''id'' = VStr i" "system_account_row i ty number now ''account_number'' = VStr number"
  by (simp_all add: system_account_row_def row_of_def)

lemma upgrade_receiver_run:
  "\<exists>c. migrate (concat (map rv_upgrade (take 4 revision_chain))) (blank now) = Some c
    \<and> cat_tables c = schema_with (accounts_at accounts_checks) (transfers_at transfers_columns transfers_checks_5)
    \<and> (''mm_app'', ''ledger_entries'', UpdatePriv) \<notin> set (cat_grants c)
    \<and> cat_rows c = (\<lambda>_. [])(''accounts'' :=
        [system_account_row SYSTEM_ISSUANCE_ACCOUNT_ID ''SYSTEM_ISSUANCE'' ''SYS-ISSUANCE-001'' now,
         system_account_row ''00000000000000000000000001'' ''ESCROW'' ''SYS-ESCROW-001'' now,
         system_account_row ''00000000000000000000000002'' ''PENDING_SETTLEMENT'' ''SYS-PENDING-001'' now])"
proof -
  let ?iss = "system_account_row SYSTEM_ISSUANCE_ACCOUNT_ID ''SYSTEM_ISSUANCE'' ''SYS-ISSUANCE-001'' now"
  let ?esc = "system_account_row ''00000000000000000000000001'' ''ESCROW'' ''SYS-ESCROW-001'' now"
  let ?pend = "system_account_row ''00000000000000000000000002'' ''PENDING_SETTLEMENT'' ''SYS-PENDING-001'' now"
  define c1 where "c1 = fold opened initial_tables (blank now)"
  have c1: "migrate initial_schema (blank now) = Some c1" "cat_tables c1 = alembic_version # initial_tables"
    "cat_rows c1 = (\<lambda>_. [])" "cat_now c1 = now"
    using initial_schema_run [of now] by (auto simp: c1_def blank_def opened_all_rows fun_eq_iff)
  let ?p1 = "[GrantAll [SelectPriv, InsertPriv, UpdatePriv, DeletePriv] APP_ROLE, GrantAll [SelectPriv] READONLY_ROLE]
     @ map (\<lambda>t. Revoke [UpdatePriv, DeletePriv] t APP_ROLE) APPEND_ONLY_TABLES"
  obtain g where g: "migrate ?p1 c1 = Some (c1\<lparr>cat_grants := g\<rparr>)"
    using privileges_run [of c1 ?p1] c1(2) by (auto simp: APPEND_ONLY_TABLES_def initial_tables_def)
  define c2 where "c2 = c1\<lparr>cat_grants := g, cat_rows := (\<lambda>_. [])(''accounts'' := [?iss])\<rparr>"
  have "execute (InsertAccount SYSTEM_ISSUANCE_ACCOUNT_ID ''SYSTEM_ISSUANCE'' ''SYS-ISSUANCE-001'') (c1\<lparr>cat_grants := g\<rparr>) = Some c2"
    using system_account_run [of "c1\<lparr>cat_grants := g\<rparr>" table_accounts] c1
      admitted_system_account(1) [of SYSTEM_ISSUANCE_ACCOUNT_ID "''SYS-ISSUANCE-001''" "[]" "\<lambda>_. []"]
    by (simp add: initial_tables_def c2_def)
  then have "migrate [InsertAccount SYSTEM_ISSUANCE_ACCOUNT_ID ''SYSTEM_ISSUANCE'' ''SYS-ISSUANCE-001''] (c1\<lparr>cat_grants := g\<rparr>) = Some c2"
    by simp
  from migrate_step [OF g this] have c2: "migrate ledger_privileges c1 = Some c2"
    unfolding ledger_privileges_def by (simp only: append_assoc append.simps)
  define c3 where "c3 = fold opened advanced_tables c2"
  have rows3: "cat_rows c3 = (\<lambda>_. [])(''accounts'' := [?iss])"
    by (auto simp: c3_def c2_def opened_all_rows fun_eq_iff advanced_tables_def)
  have c3: "migrate (concat (map create advanced_tables)) c2 = Some c3"
    "cat_tables c3 = schema_with table_accounts table_transfers" "cat_now c3 = now"
    using advanced_tables_run [of c2] c1 by (simp_all add: c2_def c3_def schema_with_initial [symmetric])
  define c4 where "c4 = c3\<lparr>cat_tables := schema_with (accounts_at accounts_checks) (transfers_at transfers_columns_2 transfers_checks_2)\<rparr>"
  have c4: "migrate (relink_tables @ modify_checks) c3 = Some c4"
    using relink_run [of c3] c3(2) rows3 by (simp add: c4_def)
  define c5 where "c5 = c4\<lparr>cat_rows := (\<lambda>_. [])(''accounts'' := [?iss, ?esc])\<rparr>"
  define c6 where "c6 = c4\<lparr>cat_rows := (\<lambda>_. [])(''accounts'' := [?iss, ?esc, ?pend])\<rparr>"
  have c5: "execute (InsertAccount ''00000000000000000000000001'' ''ESCROW'' ''SYS-ESCROW-001'') c4 = Some c5"
    using system_account_run [of c4 "accounts_at accounts_checks"] rows3 c3(3)
      admitted_system_account(2) [of "''00000000000000000000000001''" "''SYS-ESCROW-001''" "[?iss]" "cat_rows c4" "''ESCROW''" now]
    by (simp add: c4_def c5_def SYSTEM_ISSUANCE_ACCOUNT_ID_def)
  have c6: "execute (InsertAccount ''00000000000000000000000002'' ''PENDING_SETTLEMENT'' ''SYS-PENDING-001'') c5 = Some c6"
    using system_account_run [of c5 "accounts_at accounts_checks"] c3(3)
      admitted_system_account(2) [of "''00000000000000000000000002''" "''SYS-PENDING-001''" "[?iss, ?esc]" "cat_rows c5"
        "''PENDING_SETTLEMENT''" now]
    by (simp add: c4_def c5_def c6_def SYSTEM_ISSUANCE_ACCOUNT_ID_def)
  let ?p2 = "[GrantAll [SelectPriv, InsertPriv, UpdatePriv, DeletePriv] ''mm_app'', GrantAll [SelectPriv] ''mm_readonly'',
     Revoke [UpdatePriv, DeletePriv] ''ledger_entries'' ''mm_app'', Revoke [UpdatePriv, DeletePriv] ''ledger_transactions'' ''mm_app'',
     Revoke [UpdatePriv, DeletePriv] ''audit_logs'' ''mm_app'']"
  obtain h where h: "migrate ?p2 c6 = Some (c6\<lparr>cat_grants := h\<rparr>)"
    using privileges_run [of c6 ?p2] by (auto simp: c6_def c4_def)
  have c7: "migrate advanced_features c2 = Some (c6\<lparr>cat_grants := h\<rparr>)"
    using migrate_step [OF c3(1) migrate_step [OF c4 migrate_first [OF c5 migrate_first [OF c6 h]]]]
    unfolding advanced_features_def by (simp only: append_assoc append.simps)
  have "(''mm_app'', ''ledger_entries'', UpdatePriv) \<notin> set (cat_grants d)" if "migrate ?p2 c6 = Some d" for d
    using that by (auto simp: revoke_removes split: if_splits)
  from this [OF h] have revoked: "(''mm_app'', ''ledger_entries'', UpdatePriv) \<notin> set h" by simp
  have "migrate intended_receiver (c6\<lparr>cat_grants := h\<rparr>) = Some (c6\<lparr>cat_grants := h,
      cat_tables := schema_with (accounts_at accounts_checks) (transfers_at transfers_columns transfers_checks_5)\<rparr>)"
    by (rule intended_receiver_run [THEN trans]) (simp_all add: c6_def c4_def)
  from migrate_step [OF c1(1) migrate_step [OF c2 migrate_step [OF c7 this]]] revoked
  show ?thesis by (simp add: revision_chain_def c6_def del: migrate.simps)
qed

lemma upgrade_head_run:
  "\<exists>c. migrate upgrade_head (blank now) = Some c
    \<and> cat_tables c = schema_with (accounts_at accounts_checks) (transfers_at transfers_columns transfers_checks)
    \<and> cat_rows c = (\<lambda>_. [])(''accounts'' :=
        [system_account_row SYSTEM_ISSUANCE_ACCOUNT_ID ''SYSTEM_ISSUANCE'' ''SYS-ISSUANCE-001'' now,
         system_account_row ''00000000000000000000000001'' ''ESCROW'' ''SYS-ESCROW-001'' now,
         system_account_row ''00000000000000000000000002'' ''PENDING_SETTLEMENT'' ''SYS-PENDING-001'' now])"
proof -
  obtain c where c: "migrate (concat (map rv_upgrade (take 4 revision_chain))) (blank now) = Some c"
    "cat_tables c = schema_with (accounts_at accounts_checks) (transfers_at transfers_columns transfers_checks_5)"
    "cat_rows c = (\<lambda>_. [])(''accounts'' :=
        [system_account_row SYSTEM_ISSUANCE_ACCOUNT_ID ''SYSTEM_ISSUANCE'' ''SYS-ISSUANCE-001'' now,
         system_account_row ''00000000000000000000000001'' ''ESCROW'' ''SYS-ESCROW-001'' now,
         system_account_row ''00000000000000000000000002'' ''PENDING_SETTLEMENT'' ''SYS-PENDING-001'' now])"
    using upgrade_receiver_run [of now] by blast
  have "cat_rows c ''transfers'' = []" using c(3) by simp
  from fund_kind_run [OF c(2) this] have d: "migrate fund_kind c = Some (c\<lparr>cat_tables :=
      schema_with (accounts_at accounts_checks) (transfers_at transfers_columns transfers_checks)\<rparr>)" (is "_ = Some ?d") .
  obtain k where k: "migrate reassert_privileges ?d = Some (?d\<lparr>cat_grants := k\<rparr>)"
    using privileges_run [of ?d reassert_privileges] by (auto simp: reassert_privileges_def APPEND_ONLY_TABLES_def)
  have "upgrade_head = concat (map rv_upgrade (take 4 revision_chain)) @ (fund_kind @ reassert_privileges)"
    by (simp add: upgrade_head_def revision_chain_def)
  with migrate_step [OF c(1) migrate_step [OF d k]] c(3) show ?thesis by auto
qed

end
