(* ===== verification/Row_Values.thy ===== *)
theory Row_Values
  imports Database Sql_Schema
begin

text \<open>
  The rows of the session as the database stores them: for each row type the value of every column,
  and for each table name the list of its rows.  This is what relates the records the services work with
  to the declared schema.
\<close>

section \<open>Enumerated columns\<close>

fun user_status_str :: "user_status \<Rightarrow> string" where
  "user_status_str UserActive = ''ACTIVE''"
| "user_status_str UserSuspended = ''SUSPENDED''"
| "user_status_str UserClosed = ''CLOSED''"

fun idempotency_status_str :: "idempotency_status \<Rightarrow> string" where
  "idempotency_status_str PROCESSING = ''PROCESSING''"
| "idempotency_status_str COMPLETED = ''COMPLETED''"

fun task_type_str :: "task_type \<Rightarrow> string" where
  "task_type_str UndoSettleTask = ''UNDO_SETTLE''"
| "task_type_str EscrowAutoReleaseTask = ''ESCROW_AUTO_RELEASE''"
| "task_type_str LinkExpiryTask = ''LINK_EXPIRY''"
| "task_type_str MoneyRequestExpiryTask = ''MONEY_REQUEST_EXPIRY''"

fun task_status_str :: "task_status \<Rightarrow> string" where
  "task_status_str TaskPending = ''PENDING''"
| "task_status_str TaskDone = ''DONE''"
| "task_status_str TaskCancelled = ''CANCELLED''"
| "task_status_str TaskFailed = ''FAILED''"


section \<open>Rows\<close>

definition opt_value :: "('a \<Rightarrow> sql_value) \<Rightarrow> 'a option \<Rightarrow> sql_value" where
  "opt_value f v = (case v of None \<Rightarrow> VNull | Some x \<Rightarrow> f x)"

lemma opt_value_simps [simp]: "opt_value f None = VNull" "opt_value f (Some x) = f x"
  by (simp_all add: opt_value_def)

definition user_values :: "user_row \<Rightarrow> sql_row" where
  "user_values x = row_of
     [(''id'', VStr (u_id x)), (''phone'', VStr (u_phone x)), (''display_name'', VStr (u_display_name x)),
      (''password_hash'', VStr (u_password_hash x)), (''pin_hash'', VStr (u_pin_hash x)),
      (''pin_failed_attempts'', VInt (u_pin_failed_attempts x)),
      (''pin_locked_until'', opt_value VTime (u_pin_locked_until x)),
      (''status'', VStr (user_status_str (u_status x))), (''created_at'', VTime (u_created_at x)),
      (''updated_at'', VTime (u_updated_at x))]"

definition session_values :: "session_row \<Rightarrow> sql_row" where
  "session_values x = row_of
     [(''id'', VStr (s_id x)), (''user_id'', VStr (s_user_id x)),
      (''refresh_token_hash'', VStr (s_refresh_token_hash x)),
      (''rotated_to_id'', opt_value VStr (s_rotated_to_id x)), (''issued_at'', VTime (s_issued_at x)),
      (''expires_at'', VTime (s_expires_at x)), (''revoked_at'', opt_value VTime (s_revoked_at x)),
      (''user_agent'', opt_value VStr (s_user_agent x)), (''ip_address'', opt_value VStr (s_ip_address x))]"

definition account_values :: "account_row \<Rightarrow> sql_row" where
  "account_values x = row_of
     [(''id'', VStr (a_id x)), (''user_id'', opt_value VStr (a_user_id x)),
      (''account_type'', VStr (account_type_str (a_type x))), (''account_number'', VStr (a_number x)),
      (''currency'', VStr (a_currency x)), (''balance_minor'', VInt (a_balance x)),
      (''status'', VStr (account_status_str (a_status x))), (''version'', VInt (a_version x)),
      (''created_at'', VTime (a_created_at x)), (''updated_at'', VTime (a_updated_at x))]"

definition transfer_values :: "transfer_row \<Rightarrow> sql_row" where
  "transfer_values x = row_of
     [(''id'', VStr (t_id x)), (''reference'', VStr (t_reference x)),
      (''sender_account_id'', VStr (t_sender x)), (''receiver_account_id'', VStr (t_receiver x)),
      (''amount_minor'', VInt (t_amount x)), (''currency'', VStr (t_currency x)),
      (''kind'', VStr (kind_str (t_kind x))), (''status'', VStr (transfer_status_str (t_status x))),
      (''note'', opt_value VStr (t_note x)), (''initiated_by_user_id'', opt_value VStr (t_initiated_by x)),
      (''request_id'', opt_value VStr (t_request_id x)),
      (''reversal_of_id'', opt_value VStr (t_reversal_of x)),
      (''parent_transfer_id'', opt_value VStr (t_parent x)),
      (''intended_receiver_account_id'', opt_value VStr (t_intended_receiver x)),
      (''created_at'', VTime (t_created_at x)), (''completed_at'', opt_value VTime (t_completed_at x))]"

definition ledger_transaction_values :: "ledger_transaction_row \<Rightarrow> sql_row" where
  "ledger_transaction_values x = row_of
     [(''id'', VStr (lt_id x)), (''transfer_id'', VStr (lt_transfer_id x)),
      (''type'', VStr (kind_str (lt_type x))), (''description'', opt_value VStr (lt_description x)),
      (''posted_at'', VTime (lt_posted_at x))]"

definition ledger_entry_values :: "ledger_entry_row \<Rightarrow> sql_row" where
  "ledger_entry_values x = row_of
     [(''id'', VStr (le_id x)), (''ledger_transaction_id'', VStr (le_txn x)),
      (''account_id'', VStr (le_account x)), (''amount_minor'', VInt (le_amount x)),
      (''currency'', VStr (le_currency x)), (''balance_after_minor'', VInt (le_balance_after x)),
      (''created_at'', VTime (le_created_at x))]"

definition idempotency_values :: "idempotency_row \<Rightarrow> sql_row" where
  "idempotency_values x = row_of
     [(''actor_id'', VStr (i_actor x)), (''endpoint'', VStr (i_endpoint x)),
      (''idempotency_key'', VStr (i_key x)), (''request_fingerprint'', VStr (i_fingerprint x)),
      (''status'', VStr (idempotency_status_str (i_status x))),
      (''resource_id'', opt_value VStr (i_resource_id x)), (''http_status'', opt_value VInt (i_http_status x)),
      (''response_body'', opt_value VJson (i_response x)), (''created_at'', VTime (i_created_at x)),
      (''completed_at'', opt_value VTime (i_completed_at x))]"

definition outbox_values :: "outbox_row \<Rightarrow> sql_row" where
  "outbox_values x = row_of
     [(''id'', VStr (o_id x)), (''aggregate_type'', VStr (o_aggregate_type x)),
      (''aggregate_id'', VStr (o_aggregate_id x)), (''event_type'', VStr (o_event_type x)),
      (''payload'', VJson (o_payload x)), (''trace_id'', opt_value VStr (o_trace_id x)),
      (''schema_version'', VInt (o_schema_version x)), (''occurred_at'', VTime (o_occurred_at x)),
      (''published_at'', opt_value VTime (o_published_at x)), (''attempt_count'', VInt (o_attempt_count x)),
      (''next_attempt_at'', opt_value VTime (o_next_attempt_at x)),
      (''last_error'', opt_value VStr (o_last_error x)),
      (''dead_lettered_at'', opt_value VTime (o_dead_lettered_at x))]"

definition audit_values :: "audit_row \<Rightarrow> sql_row" where
  "audit_values x = row_of
     [(''id'', VStr (au_id x)), (''actor_user_id'', opt_value VStr (au_actor x)),
      (''action'', VStr (au_action x)), (''resource_type'', VStr (au_resource_type x)),
      (''resource_id'', opt_value VStr (au_resource_id x)), (''request_id'', opt_value VStr (au_request_id x)),
      (''ip_address'', opt_value VStr (au_ip_address x)), (''metadata'', opt_value VJson (au_metadata x)),
      (''created_at'', VTime (au_created_at x))]"

definition task_values :: "task_row \<Rightarrow> sql_row" where
  "task_values x = row_of
     [(''id'', VStr (k_id x)), (''task_type'', VStr (task_type_str (k_type x))),
      (''resource_id'', VStr (k_resource_id x)), (''due_at'', VTime (k_due_at x)),
      (''status'', VStr (task_status_str (k_status x))), (''attempt_count'', VInt (k_attempt_count x)),
      (''last_error'', opt_value VStr (k_last_error x)), (''created_at'', VTime (k_created_at x)),
      (''completed_at'', opt_value VTime (k_completed_at x))]"

definition money_request_values :: "money_request_row \<Rightarrow> sql_row" where
  "money_request_values x = row_of
     [(''id'', VStr (m_id x)), (''reference'', VStr (m_reference x)),
      (''requester_account_id'', VStr (m_requester x)), (''payer_account_id'', VStr (m_payer x)),
      (''amount_minor'', VInt (m_amount x)), (''currency'', VStr (m_currency x)),
      (''note'', opt_value VStr (m_note x)), (''status'', VStr (request_status_str (m_status x))),
      (''transfer_id'', opt_value VStr (m_transfer_id x)), (''expires_at'', VTime (m_expires_at x)),
      (''responded_at'', opt_value VTime (m_responded_at x)), (''created_at'', VTime (m_created_at x)),
      (''updated_at'', VTime (m_updated_at x))]"

definition escrow_values :: "escrow_row \<Rightarrow> sql_row" where
  "escrow_values x = row_of
     [(''id'', VStr (e_id x)), (''reference'', VStr (e_reference x)),
      (''hold_transfer_id'', VStr (e_hold_transfer x)),
      (''settlement_transfer_id'', opt_value VStr (e_settlement_transfer x)),
      (''buyer_user_id'', VStr (e_buyer x)), (''seller_user_id'', VStr (e_seller x)),
      (''amount_minor'', VInt (e_amount x)), (''currency'', VStr (e_currency x)),
      (''description'', opt_value VStr (e_description x)), (''status'', VStr (escrow_status_str (e_status x))),
      (''delivery_code_hash'', VStr (e_code_hash x)), (''delivery_code_attempts'', VInt (e_code_attempts x)),
      (''delivery_code_locked_until'', opt_value VTime (e_code_locked_until x)),
      (''tracking_number'', opt_value VStr (e_tracking_number x)),
      (''courier_slug'', opt_value VStr (e_courier x)), (''shipped_at'', opt_value VTime (e_shipped_at x)),
      (''delivered_at'', opt_value VTime (e_delivered_at x)),
      (''auto_release_at'', opt_value VTime (e_auto_release_at x)),
      (''settled_at'', opt_value VTime (e_settled_at x)),
      (''dispute_reason'', opt_value VStr (e_dispute_reason x)),
      (''disputed_at'', opt_value VTime (e_disputed_at x)),
      (''resolved_by_user_id'', opt_value VStr (e_resolved_by x)),
      (''resolution_note'', opt_value VStr (e_resolution_note x)), (''created_at'', VTime (e_created_at x)),
      (''updated_at'', VTime (e_updated_at x))]"

definition pool_values :: "pool_row \<Rightarrow> sql_row" where
  "pool_values x = row_of
     [(''id'', VStr (p_id x)), (''sponsor_user_id'', VStr (p_sponsor x)),
      (''pool_account_id'', VStr (p_account x)), (''currency'', VStr (p_currency x)),
      (''status'', VStr (pool_status_str (p_status x))), (''created_at'', VTime (p_created_at x)),
      (''updated_at'', VTime (p_updated_at x))]"

definition grant_values :: "grant_row \<Rightarrow> sql_row" where
  "grant_values x = row_of
     [(''id'', VStr (g_id x)), (''pool_id'', VStr (g_pool x)),
      (''beneficiary_user_id'', VStr (g_beneficiary x)), (''max_draw_minor'', VInt (g_max_draw x)),
      (''status'', VStr (grant_status_str (g_status x))), (''created_at'', VTime (g_created_at x)),
      (''updated_at'', VTime (g_updated_at x))]"

definition loan_values :: "loan_row \<Rightarrow> sql_row" where
  "loan_values x = row_of
     [(''id'', VStr (l_id x)), (''pool_id'', VStr (l_pool x)), (''borrower_user_id'', VStr (l_borrower x)),
      (''draw_transfer_id'', VStr (l_draw_transfer x)), (''principal_minor'', VInt (l_principal x)),
      (''outstanding_minor'', VInt (l_outstanding x)), (''currency'', VStr (l_currency x)),
      (''status'', VStr (loan_status_str (l_status x))), (''created_at'', VTime (l_created_at x)),
      (''repaid_at'', opt_value VTime (l_repaid_at x))]"

definition repayment_values :: "repayment_row \<Rightarrow> sql_row" where
  "repayment_values x = row_of
     [(''id'', VStr (r_id x)), (''loan_id'', VStr (r_loan x)), (''transfer_id'', VStr (r_transfer x)),
      (''amount_minor'', VInt (r_amount x)), (''triggered_by_transfer_id'', opt_value VStr (r_triggered_by x)),
      (''created_at'', VTime (r_created_at x))]"

definition inbox_values :: "inbox_row \<Rightarrow> sql_row" where
  "inbox_values x = row_of
     [(''consumer_name'', VStr (n_consumer x)), (''event_id'', VStr (n_event_id x)),
      (''processed_at'', VTime (n_processed_at x))]"


section \<open>Tables\<close>

text \<open>The tables no service writes to (group wallets, payment links, the version table) are empty.\<close>

definition sql_tables :: "db \<Rightarrow> string \<Rightarrow> sql_row list" where
  "sql_tables s n =
     (case map_of
        [(''users'', map user_values (users s)),
         (''sessions'', map session_values (login_sessions s)),
         (''accounts'', map account_values (accounts s)),
         (''transfers'', map transfer_values (transfers s)),
         (''ledger_transactions'', map ledger_transaction_values (ledger_transactions s)),
         (''ledger_entries'', map ledger_entry_values (ledger_entries s)),
         (''idempotency_records'', map idempotency_values (idempotency_records s)),
         (''outbox_events'', map outbox_values (outbox_events s)),
         (''audit_logs'', map audit_values (audit_logs s)),
         (''scheduled_tasks'', map task_values (scheduled_tasks s)),
         (''money_requests'', map money_request_values (money_requests s)),
         (''safepay_escrows'', map escrow_values (safepay_escrows s)),
         (''overdraft_pools'', map pool_values (overdraft_pools s)),
         (''overdraft_grants'', map grant_values (overdraft_grants s)),
         (''overdraft_loans'', map loan_values (overdraft_loans s)),
         (''overdraft_repayments'', map repayment_values (overdraft_repayments s)),
         (''consumer_inbox'', map inbox_values (consumer_inbox s))] n of
      None \<Rightarrow> []
    | Some rs \<Rightarrow> rs)"

lemma sql_tables_simps [simp]:
  "sql_tables s ''users'' = map user_values (users s)"
  "sql_tables s ''sessions'' = map session_values (login_sessions s)"
  "sql_tables s ''accounts'' = map account_values (accounts s)"
  "sql_tables s ''transfers'' = map transfer_values (transfers s)"
  "sql_tables s ''ledger_transactions'' = map ledger_transaction_values (ledger_transactions s)"
  "sql_tables s ''ledger_entries'' = map ledger_entry_values (ledger_entries s)"
  "sql_tables s ''idempotency_records'' = map idempotency_values (idempotency_records s)"
  "sql_tables s ''outbox_events'' = map outbox_values (outbox_events s)"
  "sql_tables s ''audit_logs'' = map audit_values (audit_logs s)"
  "sql_tables s ''scheduled_tasks'' = map task_values (scheduled_tasks s)"
  "sql_tables s ''money_requests'' = map money_request_values (money_requests s)"
  "sql_tables s ''safepay_escrows'' = map escrow_values (safepay_escrows s)"
  "sql_tables s ''overdraft_pools'' = map pool_values (overdraft_pools s)"
  "sql_tables s ''overdraft_grants'' = map grant_values (overdraft_grants s)"
  "sql_tables s ''overdraft_loans'' = map loan_values (overdraft_loans s)"
  "sql_tables s ''overdraft_repayments'' = map repayment_values (overdraft_repayments s)"
  "sql_tables s ''consumer_inbox'' = map inbox_values (consumer_inbox s)"
  by (simp_all add: sql_tables_def)

end
