(* ===== verification/Installation.thy ===== *)
theory Installation
  imports Solvency Upgrade Row_Values
begin

text \<open>
  The database a fresh installation starts with: the rows the Alembic revisions leave behind, read as the
  session of the services, and the privileges of the database roles.
\<close>

section \<open>The rows\<close>

definition empty_db :: "int \<Rightarrow> db" where
  "empty_db now = \<lparr>users = [], login_sessions = [], accounts = [], transfers = [], ledger_transactions = [],
     ledger_entries = [], idempotency_records = [], outbox_events = [], audit_logs = [], scheduled_tasks = [],
     money_requests = [], safepay_escrows = [], overdraft_pools = [], overdraft_grants = [], overdraft_loans = [],
     overdraft_repayments = [], consumer_inbox = [], tick = 0, txn_now = now\<rparr>"

definition system_account :: "string \<Rightarrow> account_type \<Rightarrow> string \<Rightarrow> int \<Rightarrow> account_row" where
  "system_account aid ty number now = \<lparr>a_id = aid, a_user_id = None, a_type = ty, a_number = number, a_currency = ''BDT'',
     a_balance = 0, a_status = ACTIVE, a_version = 0, a_created_at = now, a_updated_at = now\<rparr>"

definition system_accounts :: "int \<Rightarrow> account_row list" where
  "system_accounts now =
     [system_account SYSTEM_ISSUANCE_ACCOUNT_ID SYSTEM_ISSUANCE ''SYS-ISSUANCE-001'' now,
      system_account ESCROW_ACCOUNT_ID ESCROW ''SYS-ESCROW-001'' now,
      system_account PENDING_SETTLEMENT_ACCOUNT_ID PENDING_SETTLEMENT ''SYS-PENDING-001'' now]"

definition installed :: "int \<Rightarrow> db" where
  "installed now = (empty_db now)\<lparr>accounts := system_accounts now\<rparr>"

lemma system_account_values:
  "account_values (system_account i ty number now) = system_account_row i (account_type_str ty) number now"
  by (simp add: account_values_def system_account_def system_account_row_def)

lemma sql_tables_empty: "sql_tables (empty_db now) = (\<lambda>_. [])"
  by (rule ext) (simp add: sql_tables_def empty_db_def)

lemma sql_tables_accounts: "sql_tables (s\<lparr>accounts := xs\<rparr>) = (sql_tables s)(''accounts'' := map account_values xs)"
  by (rule ext) (simp add: sql_tables_def)

lemma installed_rows:
  "sql_tables (installed now) = (\<lambda>_. [])(''accounts'' :=
     [system_account_row SYSTEM_ISSUANCE_ACCOUNT_ID ''SYSTEM_ISSUANCE'' ''SYS-ISSUANCE-001'' now,
      system_account_row ''00000000000000000000000001'' ''ESCROW'' ''SYS-ESCROW-001'' now,
      system_account_row ''00000000000000000000000002'' ''PENDING_SETTLEMENT'' ''SYS-PENDING-001'' now])"
  by (simp add: installed_def sql_tables_accounts sql_tables_empty system_accounts_def system_account_values
      ESCROW_ACCOUNT_ID_def PENDING_SETTLEMENT_ACCOUNT_ID_def)

lemma system_ids_differ:
  "ESCROW_ACCOUNT_ID \<noteq> SYSTEM_ISSUANCE_ACCOUNT_ID" "PENDING_SETTLEMENT_ACCOUNT_ID \<noteq> SYSTEM_ISSUANCE_ACCOUNT_ID"
  "PENDING_SETTLEMENT_ACCOUNT_ID \<noteq> ESCROW_ACCOUNT_ID"
  by (simp_all add: SYSTEM_ISSUANCE_ACCOUNT_ID_def ESCROW_ACCOUNT_ID_def PENDING_SETTLEMENT_ACCOUNT_ID_def)

lemma installed_ok: "books_ok (installed now)" "rows_ok (installed now)"
proof -
  have "books_of (installed now) = \<lparr>b_accounts = system_accounts now, b_transfers = [], b_ledger = [], b_entries = []\<rparr>"
    by (simp add: installed_def empty_db_def books_of_def)
  then show "books_ok (installed now)"
    by (simp add: books_ok_def books_inv_def system_accounts_def system_account_def account_row_ok_def
        SYSTEM_ISSUANCE_ACCOUNT_ID_def ESCROW_ACCOUNT_ID_def PENDING_SETTLEMENT_ACCOUNT_ID_def
        USER_OWNED_ACCOUNT_TYPES_def UNOWNED_ACCOUNT_TYPES_def)
  show "rows_ok (installed now)"
    by (simp add: installed_def empty_db_def rows_ok_def requests_ok_def escrows_ok_def loans_ok_def tasks_ok_def
        users_keyed_def column_unique_def)
qed

lemma installed_sound: "sound (installed now)"
  using installed_ok [of now]
  by (simp add: sound_def custody_def house_def solvent_def backed_def keyed_def used_keys_def installed_def empty_db_def
      system_accounts_def system_account_def holding_account_def balance_of_def)


section \<open>Privileges\<close>

text \<open>Whatever was granted before, the last revision leaves the forensic tables append-only.\<close>

lemma reassert_append_only:
  assumes "t \<in> set APPEND_ONLY_TABLES" "migrate reassert_privileges c = Some d"
  shows "(APP_ROLE, t, p) \<in> set (cat_grants d) \<longleftrightarrow> p \<in> {SelectPriv, InsertPriv}"
  using assms
  by (cases p) (auto simp: reassert_privileges_def APPEND_ONLY_TABLES_def grant_def revoke_def bind_eq_Some_conv
      split: if_splits)

text \<open>No statement grants the reporting role more than reading.\<close>

fun grants_reading :: "operation \<Rightarrow> bool" where
  "grants_reading (GrantAll ps role) = (role = READONLY_ROLE \<longrightarrow> set ps \<subseteq> {SelectPriv})"
| "grants_reading (Grant ps t role) = (role = READONLY_ROLE \<longrightarrow> set ps \<subseteq> {SelectPriv})"
| "grants_reading _ = True"

definition reads_only :: "catalog \<Rightarrow> bool" where
  "reads_only c \<longleftrightarrow> (\<forall>(r, t, p) \<in> set (cat_grants c). r = READONLY_ROLE \<longrightarrow> p = SelectPriv)"

lemma reads_only_grant: "reads_only c \<Longrightarrow> (role = READONLY_ROLE \<longrightarrow> set ps \<subseteq> {SelectPriv}) \<Longrightarrow> reads_only (grant ps t role c)"
  by (auto simp: reads_only_def grant_def)

lemma reads_only_grant_all:
  "reads_only c \<Longrightarrow> (role = READONLY_ROLE \<longrightarrow> set ps \<subseteq> {SelectPriv})
     \<Longrightarrow> reads_only (fold (\<lambda>t. grant ps (tb_name t) role) ts c)"
  by (induction ts arbitrary: c) (auto intro: reads_only_grant)

lemma reads_only_subset: "reads_only c \<Longrightarrow> set (cat_grants d) \<subseteq> set (cat_grants c) \<Longrightarrow> reads_only d"
  by (auto simp: reads_only_def)

lemma other_grants:
  "drop_table n c = Some d \<Longrightarrow> set (cat_grants d) \<subseteq> set (cat_grants c)"
  "create_index i n cs u w c = Some d \<Longrightarrow> cat_grants d = cat_grants c"
  "drop_index i n c = Some d \<Longrightarrow> cat_grants d = cat_grants c"
  "add_column n col c = Some d \<Longrightarrow> cat_grants d = cat_grants c"
  "drop_column n x c = Some d \<Longrightarrow> cat_grants d = cat_grants c"
  "add_constraint n k c = Some d \<Longrightarrow> cat_grants d = cat_grants c"
  "drop_constraint m n c = Some d \<Longrightarrow> cat_grants d = cat_grants c"
  "insert_system_account i ty number c = Some d \<Longrightarrow> cat_grants d = cat_grants c"
  "delete_accounts p c = Some d \<Longrightarrow> cat_grants d = cat_grants c"
  by (auto simp: drop_table_def create_index_def drop_index_def add_column_def drop_column_def add_constraint_def
      drop_constraint_def insert_system_account_def delete_accounts_def Let_def split: option.splits if_splits)

lemma create_table_reads_only: "create_table n cols cons c = Some d \<Longrightarrow> reads_only c \<Longrightarrow> reads_only d"
  by (auto simp: create_table_def Let_def reads_only_def grant_def APP_ROLE_def READONLY_ROLE_def split: if_splits)

lemma execute_reads_only:
  assumes "execute op c = Some d" "grants_reading op" "reads_only c"
  shows "reads_only d"
proof (cases op)
  case (CreateTable n cols cons)
  with assms show ?thesis by (simp add: create_table_reads_only)
next
  case (GrantAll ps role)
  with assms show ?thesis by (auto simp: reads_only_grant_all)
next
  case (Grant ps t role)
  with assms show ?thesis by (auto simp: reads_only_grant split: if_splits)
next
  case (Revoke ps t role)
  with assms show ?thesis by (auto simp: reads_only_def revoke_def split: if_splits)
qed (use assms other_grants in \<open>auto elim!: reads_only_subset\<close>)

lemma migrate_reads_only: "migrate ops c = Some d \<Longrightarrow> list_all grants_reading ops \<Longrightarrow> reads_only c \<Longrightarrow> reads_only d"
proof (induction ops arbitrary: c)
  case (Cons op ops)
  then obtain c' where "execute op c = Some c'" "migrate ops c' = Some d" by (auto simp: bind_eq_Some_conv)
  with Cons show ?case using execute_reads_only by auto
qed simp

lemma create_grants_reading [simp]: "list_all grants_reading (create t)"
  by (simp add: create_def list_all_iff)

lemma creates_grant_reading [simp]: "list_all grants_reading (concat (map create ts))"
  by (induction ts) simp_all

lemma head_grants_reading: "list_all grants_reading upgrade_head"
  by (simp add: upgrade_head_def revision_chain_def initial_schema_def ledger_privileges_def advanced_features_def
      relink_tables_def modify_checks_def intended_receiver_def fund_kind_def reassert_privileges_def
      APPEND_ONLY_TABLES_def APP_ROLE_def READONLY_ROLE_def)


section \<open>The installation\<close>

text \<open>
  C35: a fresh installation is sound.  Running the revisions on a blank database succeeds and leaves the
  three system accounts as its only rows; read as the session of the services, that database satisfies
  every invariant the rest of the development builds on; the application role may read the ledger and the
  audit trail and add to them but neither change, delete nor truncate their rows, and the reporting role
  may only read.
\<close>

theorem installation_sound:
  "\<exists>c. migrate upgrade_head (blank now) = Some c
     \<and> cat_rows c = sql_tables (installed now)
     \<and> books_ok (installed now) \<and> rows_ok (installed now) \<and> custody (installed now)
     \<and> map a_id (accounts (installed now)) = [SYSTEM_ISSUANCE_ACCOUNT_ID, ESCROW_ACCOUNT_ID, PENDING_SETTLEMENT_ACCOUNT_ID]
     \<and> list_all (\<lambda>t. {p. (APP_ROLE, t, p) \<in> set (cat_grants c)} = {SelectPriv, InsertPriv}) APPEND_ONLY_TABLES
     \<and> {p. \<exists>t. (READONLY_ROLE, t, p) \<in> set (cat_grants c)} \<subseteq> {SelectPriv}"
proof -
  obtain c where c: "migrate upgrade_head (blank now) = Some c" "cat_rows c = sql_tables (installed now)"
    using upgrade_head_run [of now] by (auto simp: installed_rows)
  have head: "upgrade_head = concat (map rv_upgrade (take 5 revision_chain)) @ reassert_privileges"
    by (simp add: upgrade_head_def revision_chain_def)
  from c(1) obtain b where "migrate reassert_privileges b = Some c"
    unfolding head migrate_append by (auto simp only: bind_eq_Some_conv)
  with reassert_append_only have "list_all (\<lambda>t. {p. (APP_ROLE, t, p) \<in> set (cat_grants c)} = {SelectPriv, InsertPriv}) APPEND_ONLY_TABLES"
    by (force simp: list_all_iff)
  moreover have "reads_only c"
    using migrate_reads_only [OF c(1) head_grants_reading] by (simp add: reads_only_def blank_def)
  ultimately show ?thesis
    using c installed_sound [of now]
    by (auto simp: sound_def reads_only_def installed_def system_accounts_def system_account_def)
qed

end
