(* ===== verification/Seed.thy ===== *)
theory Seed
  imports Installation
begin

text \<open>
  The demo seed, \<open>scripts/seed.py\<close>: wipe the mutable tables with the owner's connection, then register
  users, send transfers and ask for money through the services, and let the integrity report decide the
  exit code.
\<close>

section \<open>The script\<close>

definition DEMO_PASSWORD :: string where
  "DEMO_PASSWORD = ''demo-password-2026''"

definition DEMO_PIN :: string where
  "DEMO_PIN = ''1234''"

definition DEMO_USERS :: "(string \<times> string) list" where
  "DEMO_USERS = [(''01711111111'', ''Alice Rahman''), (''01722222222'', ''Bob Hasan''),
     (''01733333333'', ''Chowdhury Karim''), (''01744444444'', ''Dina Akter'')]"

definition DEMO_TRANSFERS :: "(string \<times> string \<times> int \<times> string) list" where
  "DEMO_TRANSFERS = [(''01711111111'', ''01722222222'', 250000, ''Lunch''),
     (''01733333333'', ''01711111111'', 75000, ''Bus fare'')]"

definition DEMO_REQUESTS :: "(string \<times> string \<times> int \<times> string) list" where
  "DEMO_REQUESTS = [(''01722222222'', ''01711111111'', 120000, ''Dinner split'')]"

text \<open>\<open>reset\<close>: the tables of group wallets and payment links are truncated too; no service uses them.\<close>

definition seed_reset :: "db \<Rightarrow> db" where
  "seed_reset s = s\<lparr>users := [], login_sessions := [], transfers := [], ledger_transactions := [], ledger_entries := [],
     idempotency_records := [], outbox_events := [], audit_logs := [], scheduled_tasks := [], money_requests := [],
     safepay_escrows := [], overdraft_pools := [], overdraft_grants := [], overdraft_loans := [],
     overdraft_repayments := [], consumer_inbox := [],
     accounts := sql_update (\<lambda>a. a_user_id a = None) (\<lambda>a. a\<lparr>a_balance := 0, a_version := 0\<rparr>)
       (filter (\<lambda>a. \<not> (a_user_id a \<noteq> None \<or> a_type a = GROUP)) (accounts s))\<rparr>"

text \<open>
  An absent account is \<open>None\<close>, on which Python raises; an account found by phone always has an owner.
\<close>

definition owned :: "account option \<Rightarrow> exn + account \<times> string" where
  "owned found =
     (case found of None \<Rightarrow> Inl (PyError ''AttributeError'')
      | Some a \<Rightarrow> (case acc_user_id a of None \<Rightarrow> Inl (PyError ''AttributeError'') | Some u \<Rightarrow> Inr (a, u)))"

definition seed_send :: "env \<Rightarrow> string \<times> string \<times> int \<times> string \<Rightarrow> transfer_result tx" where
  "seed_send E = (\<lambda>(from_phone, to_phone, amount, note).
     tx_bind (get_account_by_phone from_phone) (\<lambda>found.
     tx_bind (get_account_by_phone to_phone) (\<lambda>found'.
     resolve (owned found) (\<lambda>(sender, uid).
     resolve (owned found') (\<lambda>(receiver, uid').
     tx_bind (fresh_ulid E) (\<lambda>key.
       execute_transfer E
         ((base_command uid (acc_id sender) (acc_id receiver) (mk_money amount BDT) key
            (fingerprint_request (sha256 E) [(''to'', JStr to_phone), (''amount'', JInt amount)]))
          \<lparr>c_kind := P2P_SEND, c_note := Some note\<rparr>)))))))"

definition seed_ask :: "env \<Rightarrow> string \<times> string \<times> int \<times> string \<Rightarrow> money_request_result tx" where
  "seed_ask E = (\<lambda>(requester_phone, payer_phone, amount, note).
     tx_bind (get_account_by_phone requester_phone) (\<lambda>found.
     resolve (owned found) (\<lambda>(requester, uid).
       create_request E uid payer_phone (mk_money amount BDT) (Some note) None)))"

text \<open>\<open>faults k\<close> is what the database does to the \<open>k\<close>-th unit of work; an exception ends the script.\<close>

definition seed :: "env \<Rightarrow> (nat \<Rightarrow> faults) \<Rightarrow> int tx" where
  "seed E faults =
     tx_bind (tx_modify seed_reset) (\<lambda>_.
     tx_bind (tx_mapM (\<lambda>(k, phone, name).
        uow_run E (faults k) (register E phone name DEMO_PASSWORD DEMO_PIN None None None)) (enumerate 0 DEMO_USERS)) (\<lambda>_.
     tx_bind (tx_mapM (\<lambda>(k, t). uow_run E (faults k) (seed_send E t)) (enumerate 4 DEMO_TRANSFERS)) (\<lambda>_.
     tx_bind (tx_mapM (\<lambda>(k, r). uow_run E (faults k) (seed_ask E r)) (enumerate 6 DEMO_REQUESTS)) (\<lambda>_.
     tx_bind (uow_run E (faults 7) (reconcile True)) (\<lambda>report.
       tx_return (if is_balanced report then 0 else 1))))))"


section \<open>The seed reconciles\<close>

lemma seed_reset_ok:
  assumes "books_ok s"
  shows "books_ok (seed_reset s)" "rows_ok (seed_reset s)"
proof -
  let ?as = "filter (\<lambda>a. \<not> (a_user_id a \<noteq> None \<or> a_type a = GROUP)) (accounts s)"
  let ?bs = "sql_update (\<lambda>a. a_user_id a = None) (\<lambda>a. a\<lparr>a_balance := 0, a_version := 0\<rparr>) ?as"
  have books: "books_of (seed_reset s) = \<lparr>b_accounts = ?bs, b_transfers = [], b_ledger = [], b_entries = []\<rparr>"
    by (simp add: seed_reset_def books_of_def)
  have "keys_distinct a_id ?as" using accounts_key [of "books_of s"] assms by (simp add: books_ok_def distinct_map_filter)
  then have "keys_distinct a_id ?bs" by (subst map_sql_update_same) simp_all
  moreover have "a_balance b = 0 \<and> list_all snd (account_row_ok b)" if b: "b \<in> set ?bs" for b
  proof -
    from b obtain a where a: "a \<in> set ?as" "b = a\<lparr>a_balance := 0, a_version := 0\<rparr>"
      by (auto simp: sql_update_def)
    with account_checks [of "books_of s" a] assms show ?thesis by (auto simp: books_ok_def account_row_ok_def)
  qed
  ultimately show "books_ok (seed_reset s)" unfolding books_ok_def books by (simp add: books_inv_def)
  show "rows_ok (seed_reset s)"
    by (simp add: seed_reset_def rows_ok_def requests_ok_def escrows_ok_def loans_ok_def tasks_ok_def users_keyed_def
        column_unique_def)
qed

lemma seed_ops_rel:
  "tx_rel evolves (seed_send E t)" "tx_rel progresses (seed_send E t)"
  "tx_rel evolves (seed_ask E r)" "tx_rel progresses (seed_ask E r)"
  unfolding seed_send_def seed_ask_def
  by (cases t; cases r; simp; intro evo.rel_rules tx_rel_intros prog.rel_rules prog_intros api_books.queries_rel
      api_progress.queries_rel)+

text \<open>Both invariants hold of the session after every outcome of a handler.\<close>

definition stays_ok :: "'a tx \<Rightarrow> bool" where
  "stays_ok m \<longleftrightarrow> (\<forall>s. books_ok s \<and> rows_ok s \<longrightarrow> books_ok (snd (m s)) \<and> rows_ok (snd (m s)))"

lemma stays_ok_bind:
  assumes "stays_ok m" "\<And>x. stays_ok (f x)"
  shows "stays_ok (tx_bind m f)"
  unfolding stays_ok_def
proof (intro allI impI)
  fix s
  assume s: "books_ok s \<and> rows_ok s"
  obtain r t where run: "m s = (r, t)" by (cases "m s")
  with assms(1) s have t: "books_ok t \<and> rows_ok t" unfolding stays_ok_def by (metis snd_conv)
  show "books_ok (snd (tx_bind m f s)) \<and> rows_ok (snd (tx_bind m f s))"
  proof (cases r)
    case (Inl e)
    with run t show ?thesis by (simp add: tx_bind_app)
  next
    case (Inr x)
    with run t assms(2) [of x] show ?thesis by (simp add: tx_bind_app stays_ok_def)
  qed
qed

lemma stays_ok_return: "stays_ok (tx_return x)"
  by (simp add: stays_ok_def tx_run)

lemma stays_ok_mapM: "(\<And>x. stays_ok (f x)) \<Longrightarrow> stays_ok (tx_mapM f xs)"
  by (induction xs) (simp_all add: stays_ok_bind stays_ok_return)

lemma stays_ok_uow:
  assumes "tx_rel evolves m" "tx_rel progresses m"
  shows "stays_ok (uow_run E fs m)"
  unfolding stays_ok_def
  using committed.uow_run_rel [OF assms(1)] committed_progress.uow_run_rel [OF assms(2)]
  by (auto simp: evolves_def progresses_def)

lemma seed_units:
  "stays_ok (tx_mapM (\<lambda>(k, phone, name). uow_run E (faults k) (register E phone name pw pin None None None)) us)"
  "stays_ok (tx_mapM (\<lambda>(k, t). uow_run E (faults k) (seed_send E t)) ts)"
  "stays_ok (tx_mapM (\<lambda>(k, r). uow_run E (faults k) (seed_ask E r)) rs)"
  by (rule stays_ok_mapM, auto intro!: stays_ok_uow seed_ops_rel tx_rel_intros prog_intros)+

lemma uow_reconcile_balanced:
  assumes "sound_faults fs" "books_ok s" "rows_ok s" "uow_run E fs (reconcile d) s = (Inr report, t)"
  shows "is_balanced report"
proof -
  from uow_run_effect [OF assms(1,4)] obtain u where u: "same_tables s u" "reconcile d u = (Inr report, t)" by blast
  have "books_ok u" "rows_ok u"
    using committed.tables [OF u(1)] committed_progress.tables [OF u(1)] assms(2,3)
    by (auto simp: evolves_def progresses_def)
  from reconcile_balanced [OF this, of d] u(2) show ?thesis by auto
qed

text \<open>
  The seed leaves a balanced system.  Whatever state the database is in when the script resets it,
  as long as its accounts are well formed, and whatever transient faults its units of work meet: if the
  script reaches its end, the exit code is 0; and every way it can end, an exception included, leaves a
  database that satisfies the invariants.
\<close>

lemma seed_exits_balanced:
  assumes "books_ok s" "\<And>k. sound_faults (faults k)" "seed E faults s = (r, t)"
  shows "(\<forall>code. r = Inr code \<longrightarrow> code = 0) \<and> books_ok t \<and> rows_ok t"
proof -
  let ?register = "tx_mapM (\<lambda>(k, phone, name).
      uow_run E (faults k) (register E phone name DEMO_PASSWORD DEMO_PIN None None None)) (enumerate 0 DEMO_USERS)"
  let ?send = "tx_mapM (\<lambda>(k, t). uow_run E (faults k) (seed_send E t)) (enumerate 4 DEMO_TRANSFERS)"
  let ?ask = "tx_mapM (\<lambda>(k, r). uow_run E (faults k) (seed_ask E r)) (enumerate 6 DEMO_REQUESTS)"
  let ?report = "tx_bind (uow_run E (faults 7) (reconcile True)) (\<lambda>report. tx_return (if is_balanced report then 0 else 1))"
  have rep: "stays_ok ?report"
    by (intro stays_ok_bind stays_ok_return stays_ok_uow api_books.queries_rel api_progress.queries_rel)
  have run: "tx_bind ?register (\<lambda>_. tx_bind ?send (\<lambda>_. tx_bind ?ask (\<lambda>_. ?report))) (seed_reset s) = (r, t)"
    using assms(3) by (simp add: seed_def tx_bind_app [of "tx_modify seed_reset"] tx_run)
  note start = seed_reset_ok [OF assms(1)]
  have "stays_ok (tx_bind ?register (\<lambda>_. tx_bind ?send (\<lambda>_. tx_bind ?ask (\<lambda>_. ?report))))"
    by (intro stays_ok_bind seed_units rep)
  with start run have ok: "books_ok t \<and> rows_ok t" unfolding stays_ok_def by (metis snd_conv)
  have "code = 0" if "r = Inr code" for code
  proof -
    from run that obtain x y z u v w where steps: "?register (seed_reset s) = (Inr x, u)" "?send u = (Inr y, v)" "?ask v = (Inr z, w)"
      and last: "?report w = (Inr code, t)" by (auto simp: tx_bind_okD)
    have "books_ok w \<and> rows_ok w" using steps start seed_units unfolding stays_ok_def by (metis snd_conv)
    with last uow_reconcile_balanced [OF assms(2) [of 7], of w E True] show ?thesis by (auto simp: tx_okD)
  qed
  with ok show ?thesis by blast
qed

text \<open>A database that loses its connection at the first attempt still ends up sound.\<close>

end
