(* ===== verification/Settlement.thy ===== *)
theory Settlement
  imports Custody
begin

text \<open>
  What two composed operations do to the tables: the release of a SafePay order, which every way of
  ending an order in the seller's favour goes through, and a send that draws on a Spot-Me pool.
\<close>

section \<open>A release pays the seller\<close>

lemma settled_transfer:
  assumes "execute_transfer E cmd s = (Inr r, t)" "\<not> tr_replayed r"
  shows "\<exists>x new. transfers t = transfers s @ x # new \<and> t_id x = tr_id r \<and> t_amount x = minor (c_amount cmd)
    \<and> t_sender x = c_sender cmd \<and> t_receiver x = c_receiver cmd \<and> t_kind x = c_kind cmd \<and> t_parent x = c_parent cmd"
  using assms
proof (cases rule: execute_transfer_fresh)
  case (1 mv now s0 u v sender receiver ur)
  have "swept u t"
    using tx_relD [OF lien_swept 1(11)] tx_relD [OF swept_frame [OF vault_idem_complete] 1(12)] swept_trans by blast
  then obtain new where "transfers t = transfers u @ new" unfolding swept_def by blast
  moreover from 1(4) have "transfers u = transfers s @ [mv_transfer mv]" by (auto simp: fresh_effect_def 1(3))
  ultimately show ?thesis
    using 1(4) by (intro exI [of _ "mv_transfer mv"] exI [of _ new]) (auto simp: fresh_effect_def)
qed

lemma settle_hold_pays:
  assumes run: "settle_hold E hid rf fs ns ben h amt kind actor note rq s = (Inr r, t)"
    and fresh: "(actor, ''INTERNAL:/holds/'' @ str_lower (kind_str kind), ''settle:'' @ hid @ '':'' @ transfer_status_str ns)
      \<notin> idem_key ` set (idempotency_records s)"
    and debt: "\<And>a uid. a \<in> set (accounts s) \<Longrightarrow> a_id a = ben \<Longrightarrow> a_user_id a = Some uid \<Longrightarrow> debt_free uid s"
  shows "balance_of t = move h ben (minor amt) (balance_of s)
    \<and> (\<exists>x \<in> set (transfers t). t_id x = hid \<and> t_status x = ns)
    \<and> (\<exists>x \<in> set (transfers t). t_id x = tr_id r \<and> t_parent x = Some hid \<and> t_kind x = kind
         \<and> t_sender x = h \<and> t_receiver x = ben \<and> t_amount x = minor amt)"
proof -
  let ?P = "\<lambda>y. t_id y = hid \<and> t_status y = fs"
  let ?cmd = "settle_command E hid ns ben h amt kind actor note rq"
  define s1 where "s1 = s\<lparr>transfers := sql_update ?P
      (\<lambda>y. y\<lparr>t_status := ns, t_completed_at := Some (txn_now s)\<rparr>) (transfers s)\<rparr>"
  from run have tr: "try_transition_status hid fs ns s = (Inr 1, s1)" and ex: "execute_transfer E ?cmd s1 = (Inr r, t)"
    unfolding settle_hold_def s1_def by (auto simp: tx_okD try_transition_okD)
  have cmd: "c_sender ?cmd = h" "c_receiver ?cmd = ben" "c_amount ?cmd = amt" "c_kind ?cmd = kind" "c_parent ?cmd = Some hid"
      "c_actor ?cmd = actor" "c_key ?cmd = ''settle:'' @ hid @ '':'' @ transfer_status_str ns"
      "c_endpoint ?cmd = ''INTERNAL:/holds/'' @ str_lower (kind_str kind)"
    by (simp_all add: settle_command_def base_command_def)
  from tr have "0 < sql_rowcount ?P (transfers s)" by (simp add: try_transition_okD)
  then obtain y where y: "y \<in> set (transfers s)" "?P y" by (auto simp: sql_rowcount_pos)
  then have held: "y\<lparr>t_status := ns, t_completed_at := Some (txn_now s)\<rparr> \<in> set (transfers s1)"
    by (simp add: s1_def set_sql_update)
  have new: "\<not> tr_replayed r"
  proof
    assume "tr_replayed r"
    from replayed_key [OF ex this, unfolded cmd] fresh show False by (simp add: s1_def)
  qed
  have "balance_of t = move (c_sender ?cmd) (c_receiver ?cmd) (minor (c_amount ?cmd)) (balance_of s1)"
    by (rule transfer_moves [OF ex new]) (use debt in \<open>auto simp: s1_def cmd debt_free_def\<close>)
  moreover have "balance_of s1 = balance_of s" by (rule balance_of_frame) (simp add: s1_def)
  moreover from settled_transfer [OF ex new] obtain x rest where "transfers t = transfers s1 @ x # rest" "t_id x = tr_id r"
    "t_amount x = minor amt" "t_sender x = h" "t_receiver x = ben" "t_kind x = kind" "t_parent x = Some hid"
    by (auto simp: cmd)
  ultimately show ?thesis using held y(2) by (auto simp: cmd intro!: bexI [of _ "y\<lparr>t_status := ns, t_completed_at := Some (txn_now s)\<rparr>"])
qed

lemma mark_settled_effect:
  assumes "mark_settled i fr to tid now nt s = (Inr 1, t)"
  shows "(\<exists>e \<in> set (safepay_escrows t). e_id e = i \<and> e_status e = to \<and> e_settlement_transfer e = Some tid)
    \<and> ledger_entries t = ledger_entries s \<and> transfers t = transfers s"
proof -
  let ?P = "\<lambda>r. e_id r = i \<and> e_status r \<in> set fr \<and> e_settlement_transfer r = None"
  let ?f = "\<lambda>r. r\<lparr>e_status := to, e_settlement_transfer := Some tid, e_settled_at := Some now,
               e_resolved_by := None, e_resolution_note := nt, e_code_attempts := 0,
               e_code_locked_until := None, e_updated_at := now\<rparr>"
  from assms have t: "t = s\<lparr>safepay_escrows := sql_update ?P ?f (safepay_escrows s)\<rparr>"
    and "0 < sql_rowcount ?P (safepay_escrows s)" by (simp_all add: mark_settled_def update_escrows_okD)
  then obtain e where "e \<in> set (safepay_escrows s)" "?P e" by (auto simp: sql_rowcount_pos)
  then have "?f e \<in> set (safepay_escrows t)" "e_id (?f e) = i" by (auto simp: t set_sql_update)
  then show ?thesis by (intro conjI bexI [of _ "?f e"]) (simp_all add: t)
qed

lemma cancel_task_effect:
  assumes "cancel_task ty rid s = (Inr n, t)"
  shows "(\<forall>k \<in> set (scheduled_tasks t). k_type k = ty \<and> k_resource_id k = rid \<longrightarrow> k_status k \<noteq> TaskPending)
     \<and> ledger_entries t = ledger_entries s \<and> transfers t = transfers s \<and> safepay_escrows t = safepay_escrows s"
proof -
  let ?P = "\<lambda>k. k_type k = ty \<and> k_resource_id k = rid \<and> k_status k = TaskPending"
  let ?f = "\<lambda>k. k\<lparr>k_status := TaskCancelled, k_completed_at := Some (txn_now s)\<rparr>"
  have t: "t = s\<lparr>scheduled_tasks := sql_update ?P ?f (scheduled_tasks s)\<rparr>"
    using assms by (simp add: cancel_task_def tx_okD)
  have "k_status k \<noteq> TaskPending" if "k \<in> set (scheduled_tasks t)" "k_type k = ty \<and> k_resource_id k = rid" for k
  proof -
    from that(1) have "k \<in> set (sql_update ?P ?f (scheduled_tasks s))" by (simp only: t) simp
    from in_sql_updateD [OF this] that(2) show ?thesis by (elim disjE bexE conjE) simp_all
  qed
  then show ?thesis by (simp add: t)
qed

lemma audit_frame:
  assumes "safepay_audit E a act i rq md s = (Inr u, t)"
  shows "ledger_entries t = ledger_entries s \<and> transfers t = transfers s \<and> safepay_escrows t = safepay_escrows s
    \<and> scheduled_tasks t = scheduled_tasks s"
proof -
  have "tx_frame (\<lambda>s. (ledger_entries s, transfers s, safepay_escrows s, scheduled_tasks s)) (safepay_audit E a act i rq md)"
    unfolding safepay_audit_def by (intro tx_frame_bind tx_frame_feeds frames; simp)
  from tx_frameD [OF this assms] show ?thesis by simp
qed


text \<open>An order of 25 taka that waits for its release.\<close>

definition demo_escrow :: escrow_row where
  "demo_escrow = \<lparr>e_id = ''E'', e_reference = ''R'', e_hold_transfer = ''H'',
     e_settlement_transfer = None, e_buyer = ''alice'', e_seller = ''bob'', e_amount = 2500, e_currency = ''BDT'',
     e_description = None, e_status = Delivered, e_code_hash = ''c'', e_code_attempts = 0, e_code_locked_until = None,
     e_tracking_number = None, e_courier = None, e_shipped_at = None, e_delivered_at = None, e_auto_release_at = None,
     e_settled_at = None, e_dispute_reason = None, e_disputed_at = None, e_resolved_by = None,
     e_resolution_note = None, e_created_at = 0, e_updated_at = 0\<rparr>"

definition demo_order :: db where
  "demo_order = demo_db\<lparr>
     accounts := map (\<lambda>a. if a_id a = ESCROW_ACCOUNT_ID then a\<lparr>a_balance := 2500\<rparr> else a) (accounts demo_db),
     transfers := [demo_hold\<lparr>t_receiver := ESCROW_ACCOUNT_ID, t_kind := ESCROW_HOLD, t_status := HELD\<rparr>],
     safepay_escrows := [demo_escrow], scheduled_tasks := [demo_task ''E'' EscrowAutoReleaseTask]\<rparr>"

lemma demo_escrow_lock: "lock_order [''00000000000000000000000001'', ''B''] = [''00000000000000000000000001'', ''B'']"
  by code_simp

lemmas release_simps = release_locked_def get_transfer_def settle_hold_def settle_command_def try_transition_status_def
  mark_settled_def update_escrows_def cancel_task_def safepay_audit_def escrow_row_ok_def demo_order_def demo_hold_def
  demo_escrow_def demo_task_def demo_escrow_lock

lemma demo_release_runs:
  "\<exists>body t. release_locked demo_env demo_escrow ''bob'' ''window elapsed'' None None demo_order = (Inr body, t)"
  by (simp add: release_simps run_simps cong: tx_bind_weak_cong)




section \<open>A send that draws on a pool\<close>

lemma execute_keeps_loans:
  assumes run: "execute_transfer E cmd s = (Inr r, t)"
    and idle: "overdraft_leg (c_kind cmd) \<or> (\<forall>a \<in> set (accounts s). a_id a = c_receiver cmd \<longrightarrow> a_user_id a = None)"
  shows "overdraft_loans t = overdraft_loans s"
proof (cases "tr_replayed r")
  case True
  from execute_replayed_same [OF run True] show ?thesis
    by (auto dest!: arg_cong [of _ _ overdraft_loans] simp: same_tables_def)
next
  case False
  with run show ?thesis
  proof (cases rule: execute_transfer_fresh)
    case (1 mv now s0 u v sender receiver ur)
    from 1(7) obtain rb where rb: "rb \<in> set (accounts s)" "a_id rb = c_receiver cmd" "account_to_domain rb = Inr receiver"
      by blast
    have "v = u"
      by (rule lien_after_credit_idle [OF 1(11)]) (use idle rb account_to_domain_okD [OF rb(3)] 1(10) in auto)
    moreover have "overdraft_loans u = overdraft_loans s" using 1(4) by (auto simp: fresh_effect_def 1(3))
    ultimately show ?thesis using 1(12) by (simp add: tx_okD)
  qed
qed

lemma select_grant_okD:
  "select_grant short locked grants = Inr (Some gr) \<Longrightarrow>
     gr \<in> set grants \<and> short \<le> bg_max_draw gr
     \<and> (\<exists>pool. map_of locked (bg_pool_account gr) = Some pool \<and> short \<le> minor (acc_balance pool))"
  by (induction grants) (auto split: if_splits option.splits)

lemma active_grant_okD:
  assumes "active_grants_for_borrower u s = (Inr grants, t)" "gr \<in> set grants"
  shows "t = s \<and> (\<exists>g \<in> set (overdraft_grants s). \<exists>p \<in> set (overdraft_pools s). p_id p = g_pool g \<and> g_beneficiary g = u
    \<and> g_status g = GrantActive \<and> p_status p = PoolActive
    \<and> bg_max_draw gr = g_max_draw g \<and> bg_pool gr = p_id p \<and> bg_pool_account gr = p_account p)"
  using assms by (fastforce simp: active_grants_for_borrower_def tx_okD split: if_splits)

lemma cover_shortfall_okD:
  assumes "cover_shortfall E actor sender amount short locked grants key rq now s = (Inr d, t)"
  shows "\<exists>gr loan. select_grant short locked grants = Inr (Some gr) \<and> short \<le> overdraft_max_draw_minor E
    \<and> overdraft_loans t = overdraft_loans s @ [loan] \<and> l_pool loan = bg_pool gr \<and> l_borrower loan = actor
    \<and> l_principal loan = short \<and> l_outstanding loan = short \<and> l_status loan = LoanOutstanding
    \<and> map account_face (accounts t) = map account_face (accounts s)"
proof -
  from assms obtain gr draw s1 loan_id where
    sel: "select_grant short locked grants = Inr (Some gr)" "short \<le> overdraft_max_draw_minor E"
    and draw: "execute_transfer E (draw_command E actor (acc_id sender) gr (mk_money short (mcurrency amount)) key rq) s
        = (Inr draw, s1)"
    and loan: "create_loan E (bg_pool gr) actor (tr_id draw) short (code (mcurrency amount)) now s1 = (Inr loan_id, t)"
    unfolding cover_shortfall_def by (auto simp: tx_bind_okD tx_basic_okD)
  have "overdraft_loans s1 = overdraft_loans s"
    by (rule execute_keeps_loans [OF draw]) (simp add: draw_command_def overdraft_leg_def)
  with loan have "\<exists>row. overdraft_loans t = overdraft_loans s @ [row] \<and> l_pool row = bg_pool gr \<and> l_borrower row = actor
      \<and> l_principal row = short \<and> l_outstanding row = short \<and> l_status row = LoanOutstanding"
    unfolding create_loan_def by (auto simp: tx_okD)
  moreover have "map account_face (accounts t) = map account_face (accounts s)"
    using tx_relD [OF execute_transfer_tstep draw] loan unfolding create_loan_def by (auto simp: tx_okD transfer_step_def)
  ultimately show ?thesis using sel by blast
qed

lemma undoable_send_keeps_loans:
  assumes "undoable_send E a sn rc amt key nt rq ep s = (Inr h, t)"
    and unowned: "\<And>x. x \<in> set (accounts s) \<Longrightarrow> a_id x = PENDING_SETTLEMENT_ACCOUNT_ID \<Longrightarrow> a_user_id x = None"
  shows "overdraft_loans t = overdraft_loans s"
proof -
  from assms(1) obtain s1 where
    hold: "hold_money E a sn PENDING_SETTLEMENT_ACCOUNT_ID amt UNDO_HOLD PENDING_UNDO key nt rq True (Some rc) ep s = (Inr h, s1)"
    and rest: "(if tr_replayed h then tx_return ()
       else tx_bind (schedule_task E UndoSettleTask (tr_id h) UNDO_WINDOW_SECONDS) (\<lambda>_. tx_return ())) s1 = (Inr (), t)"
    unfolding undoable_send_def by (auto simp: tx_bind_okD tx_basic_okD)
  from unowned have "overdraft_loans s1 = overdraft_loans s"
    by (intro execute_keeps_loans [OF hold [unfolded hold_money_def]]) (simp add: base_command_def)
  moreover have keep: "tx_frame overdraft_loans (if tr_replayed h then tx_return ()
       else tx_bind (schedule_task E UndoSettleTask (tr_id h) UNDO_WINDOW_SECONDS) (\<lambda>_. tx_return ()))"
    by (auto intro!: tx_frame_bind tx_frame_basic frames)
  ultimately show ?thesis using tx_frameD [OF keep rest] by simp
qed

text \<open>
  C23: a send borrows exactly what is missing.  A send that succeeds comes from an account its actor owns.
  If the balance covers the amount, no loan is taken; otherwise exactly one loan is added, owed by the
  actor, over exactly the difference, within the global cap and the cap of an active grant of the
  actor on an active pool whose account holds that much.
\<close>

theorem shortfall_covered:
  assumes run: "send_once E actor sn rc amount key note rq now s = (Inr (rid, body), t)"
    and unowned: "\<And>x. x \<in> set (accounts s) \<Longrightarrow> a_id x = PENDING_SETTLEMENT_ACCOUNT_ID \<Longrightarrow> a_user_id x = None"
  shows "\<exists>a \<in> set (accounts s). a_id a = sn \<and> a_user_id a = Some actor
    \<and> (if minor amount \<le> a_balance a then overdraft_loans t = overdraft_loans s
       else \<exists>loan. overdraft_loans t = overdraft_loans s @ [loan] \<and> l_borrower loan = actor
         \<and> l_status loan = LoanOutstanding \<and> l_principal loan = minor amount - a_balance a
         \<and> l_outstanding loan = l_principal loan \<and> l_principal loan \<le> overdraft_max_draw_minor E
         \<and> (\<exists>g \<in> set (overdraft_grants s). \<exists>p \<in> set (overdraft_pools s). \<exists>b \<in> set (accounts s).
              g_beneficiary g = actor \<and> g_status g = GrantActive \<and> p_id p = g_pool g \<and> p_status p = PoolActive
              \<and> l_pool loan = p_id p \<and> a_id b = p_account p
              \<and> l_principal loan \<le> g_max_draw g \<and> l_principal loan \<le> a_balance b))"
proof -
  from run obtain grants locked sender d h s0 s1 s2 where
    grants: "active_grants_for_borrower actor s = (Inr grants, s0)"
    and lock: "lock_accounts_for_update (sn # PENDING_SETTLEMENT_ACCOUNT_ID # map bg_pool_account grants) s0 = (Inr locked, s1)"
    and sender: "map_of locked sn = Some sender" "ensure_owned_by sender actor = Inr ()"
    and cover: "(if max 0 (minor amount - minor (acc_balance sender)) \<noteq> 0
              then tx_bind (cover_shortfall E actor sender amount (max 0 (minor amount - minor (acc_balance sender)))
                     locked grants key rq now) (\<lambda>d. tx_return (Some d))
              else tx_return None) s1 = (Inr d, s2)"
    and send: "undoable_send E actor sn rc amount (''undo-hold:'' @ client_key_digest E key)
                note rq ''INTERNAL:/transfers/undo-hold'' s2 = (Inr h, t)"
    unfolding send_once_def by (auto simp: tx_bind_okD tx_basic_okD split: option.splits)
  have st: "s0 = s" "s1 = s"
    using grants tx_frameD [OF frame_reads(4) [where v = "\<lambda>s. s"] lock] by (simp_all add: active_grants_for_borrower_def tx_okD)
  from lock_accounts_okD [OF lock sender(1)] obtain a where a: "a \<in> set (accounts s)" "a_id a = sn"
    "account_to_domain a = Inr sender" by (auto simp: st)
  have bal: "minor (acc_balance sender) = a_balance a" "a_user_id a = Some actor"
    using account_to_domain_okD [OF a(3)] sender(2) by (simp_all add: ensure_ok)
  show ?thesis
  proof (cases "minor amount \<le> a_balance a")
    case True
    with cover have "s2 = s" by (simp add: st bal tx_okD)
    with undoable_send_keeps_loans [OF send] unowned True a bal show ?thesis by auto
  next
    case False
    with cover obtain d' where "cover_shortfall E actor sender amount (minor amount - a_balance a)
        locked grants key rq now s = (Inr d', s2)" by (auto simp: st bal tx_okD max_def)
    from cover_shortfall_okD [OF this] obtain gr loan where
      sel: "select_grant (minor amount - a_balance a) locked grants = Inr (Some gr)"
      and loan: "minor amount - a_balance a \<le> overdraft_max_draw_minor E"
        "overdraft_loans s2 = overdraft_loans s @ [loan]" "l_pool loan = bg_pool gr" "l_borrower loan = actor"
        "l_principal loan = minor amount - a_balance a" "l_outstanding loan = minor amount - a_balance a"
        "l_status loan = LoanOutstanding"
      and face: "map account_face (accounts s2) = map account_face (accounts s)" by blast
    have "a_user_id x = None" if x: "x \<in> set (accounts s2)" "a_id x = PENDING_SETTLEMENT_ACCOUNT_ID" for x
    proof -
      from x(1) have "account_face x \<in> set (map account_face (accounts s2))" by simp
      then obtain y where "y \<in> set (accounts s)" "account_face x = account_face y" unfolding face by auto
      with unowned [of y] x(2) show ?thesis by (simp add: account_face_def account_core_def)
    qed
    then have loans: "overdraft_loans t = overdraft_loans s2" by (rule undoable_send_keeps_loans [OF send])
    from select_grant_okD [OF sel] obtain pool where pool: "gr \<in> set grants" "minor amount - a_balance a \<le> bg_max_draw gr"
      "map_of locked (bg_pool_account gr) = Some pool" "minor amount - a_balance a \<le> minor (acc_balance pool)" by blast
    from lock_accounts_okD [OF lock pool(3)] obtain b where b: "b \<in> set (accounts s)" "a_id b = bg_pool_account gr"
      "account_to_domain b = Inr pool" by (auto simp: st)
    from active_grant_okD [OF grants pool(1)] obtain g p where gp: "g \<in> set (overdraft_grants s)" "p \<in> set (overdraft_pools s)"
      "p_id p = g_pool g" "g_beneficiary g = actor" "g_status g = GrantActive" "p_status p = PoolActive"
      "bg_max_draw gr = g_max_draw g" "bg_pool gr = p_id p" "bg_pool_account gr = p_account p" by blast
    have "\<exists>g \<in> set (overdraft_grants s). \<exists>p \<in> set (overdraft_pools s). \<exists>b \<in> set (accounts s).
              g_beneficiary g = actor \<and> g_status g = GrantActive \<and> p_id p = g_pool g \<and> p_status p = PoolActive
              \<and> l_pool loan = p_id p \<and> a_id b = p_account p
              \<and> l_principal loan \<le> g_max_draw g \<and> l_principal loan \<le> a_balance b"
      by (rule bexI [OF _ gp(1)], rule bexI [OF _ gp(2)], rule bexI [OF _ b(1)])
         (use gp b(2) loan(3,5) pool(2,4) account_to_domain_okD [OF b(3)] in simp)
    with loan loans False a(2) bal(2) show ?thesis by (intro bexI [OF _ a(1)]) auto
  qed
qed

text \<open>Alice has 10 taka, Bob's pool lends her what is missing for a payment of 25.\<close>

definition demo_pool :: db where
  "demo_pool = demo_db\<lparr>
     accounts := map (\<lambda>a. if a_id a = ''A'' then a\<lparr>a_balance := 1000\<rparr> else a) (accounts demo_db)
       @ [(demo_account ''P'' (Some ''bob'') OVERDRAFT_POOL)\<lparr>a_balance := 5000\<rparr>],
     overdraft_pools := [\<lparr>p_id = ''Q'', p_sponsor = ''bob'', p_account = ''P'', p_currency = ''BDT'', p_status = PoolActive,
       p_created_at = 0, p_updated_at = 0\<rparr>],
     overdraft_grants := [\<lparr>g_id = ''G'', g_pool = ''Q'', g_beneficiary = ''alice'', g_max_draw = 2000, g_status = GrantActive,
       g_created_at = 0, g_updated_at = 0\<rparr>]\<rparr>"

lemma demo_pool_locks:
  "lock_order [''A'', ''00000000000000000000000002'', ''P''] = [''00000000000000000000000002'', ''A'', ''P'']"
  "lock_order [''P'', ''A''] = [''A'', ''P'']"
  by code_simp+

lemmas send_simps = send_once_def active_grants_for_borrower_def cover_shortfall_def draw_command_def create_loan_def
  undoable_send_def hold_money_def schedule_task_def demo_pool_def demo_pool_locks

lemma demo_borrow_runs:
  "\<exists>rid body t. send_once demo_env ''alice'' ''A'' ''B'' (mk_money 2500 BDT) ''k1'' None None 0 demo_pool = (Inr (rid, body), t)"
  by (simp add: send_simps run_simps cong: tx_bind_weak_cong)

theorem shortfall_covered_witness:
  "\<exists>rid body t loan. send_once demo_env ''alice'' ''A'' ''B'' (mk_money 2500 BDT) ''k1'' None None 0 demo_pool = (Inr (rid, body), t)
     \<and> overdraft_loans t = [loan] \<and> l_borrower loan = ''alice'' \<and> l_principal loan = 1500"
proof -
  obtain rid body t where run:
    "send_once demo_env ''alice'' ''A'' ''B'' (mk_money 2500 BDT) ''k1'' None None 0 demo_pool = (Inr (rid, body), t)"
    using demo_borrow_runs by blast
  have "a_balance a = 1000" if "a \<in> set (accounts demo_pool)" "a_id a = ''A''" for a
    using that by (auto simp: demo_pool_def demo_db_def demo_account_def ESCROW_ACCOUNT_ID_def
        SYSTEM_ISSUANCE_ACCOUNT_ID_def PENDING_SETTLEMENT_ACCOUNT_ID_def)
  moreover have "a_user_id x = None" if "x \<in> set (accounts demo_pool)" "a_id x = PENDING_SETTLEMENT_ACCOUNT_ID" for x
    using that by (auto simp: demo_pool_def demo_db_def demo_account_def PENDING_SETTLEMENT_ACCOUNT_ID_def)
  moreover have "overdraft_loans demo_pool = []" by (simp add: demo_pool_def demo_db_def)
  ultimately show ?thesis using shortfall_covered [OF run] run by fastforce
qed



section \<open>Paying a request\<close>

lemma require_payable_okD:
  assumes "require_payable i u now s = (Inr r, t)"
  shows "t = s \<and> r \<in> set (money_requests s) \<and> m_id r = i \<and> m_status r = ReqPending \<and> now < m_expires_at r
    \<and> (\<exists>a \<in> set (accounts s). a_id a = m_payer r \<and> a_user_id a = Some u)"
proof -
  from assms obtain acc s1 where lock: "lock_request i s = (Inr (Some r), s)"
    and acc: "get_account_by_id (m_payer r) s = (Inr (Some acc), s1)" "acc_user_id acc = Some u"
    and rest: "m_status r = ReqPending" "now < m_expires_at r" "t = s1"
    unfolding require_payable_def lock_request_def
    by (auto simp: tx_bind_okD tx_basic_okD split: option.splits if_splits)
  from lock have "r \<in> set (money_requests s)" "m_id r = i"
    by (auto simp: lock_request_def tx_okD one_or_none_Some dest!: filter_singletonD)
  moreover from get_account_by_id_okD [OF acc(1)] acc(2) obtain a where "s1 = s" "a \<in> set (accounts s)" "a_id a = m_payer r"
    "a_user_id a = Some u" by (auto dest: account_to_domain_okD)
  ultimately show ?thesis using rest by auto
qed

lemma mark_accepted_effect:
  assumes "mark_accepted i tid now s = (Inr 1, t)"
  shows "(\<exists>r \<in> set (money_requests t). m_id r = i \<and> m_status r = ReqAccepted \<and> m_transfer_id r = Some tid)
    \<and> ledger_entries t = ledger_entries s \<and> transfers t = transfers s"
proof -
  let ?P = "\<lambda>r. m_id r = i \<and> m_status r = ReqPending"
  let ?f = "\<lambda>r. r\<lparr>m_status := ReqAccepted, m_transfer_id := Some tid, m_responded_at := Some now, m_updated_at := now\<rparr>"
  from assms have t: "t = s\<lparr>money_requests := sql_update ?P ?f (money_requests s)\<rparr>"
    and "0 < sql_rowcount ?P (money_requests s)" by (simp_all add: mark_accepted_def update_requests_okD)
  then obtain r where "r \<in> set (money_requests s)" "?P r" by (auto simp: sql_rowcount_pos)
  then have "?f r \<in> set (money_requests t)" "m_id (?f r) = i" by (auto simp: t set_sql_update)
  then show ?thesis by (intro conjI bexI [of _ "?f r"]) (simp_all add: t)
qed


text \<open>Bob asks Alice for 25 taka; she has 100.\<close>

definition demo_request :: db where
  "demo_request = demo_db\<lparr>
     accounts := map (\<lambda>a. if a_id a = ''A'' then a\<lparr>a_balance := 10000\<rparr> else a) (accounts demo_db),
     money_requests := [\<lparr>m_id = ''M'', m_reference = ''R'', m_requester = ''B'', m_payer = ''A'', m_amount = 2500,
       m_currency = ''BDT'', m_note = None, m_status = ReqPending, m_transfer_id = None, m_expires_at = 1000000000,
       m_responded_at = None, m_created_at = 0, m_updated_at = 0\<rparr>]\<rparr>"

lemmas accept_simps = accept_request_def require_payable_def lock_request_def accept_command_def mark_accepted_def
  update_requests_def request_row_ok_def money_request_event_def demo_request_def

lemma demo_accept_runs:
  "\<exists>res t. accept_request demo_env ''M'' ''alice'' ''k1'' None demo_request = (Inr res, t)"
  by (simp add: accept_simps run_simps cong: tx_bind_weak_cong)


end
