(* ===== verification/Schema_Match.thy ===== *)
theory Schema_Match
  imports Upgrade
begin

text \<open>
  The schema the revisions build against the schema the table classes declare.
\<close>

definition same_table :: "table \<Rightarrow> table \<Rightarrow> bool" where
  "same_table t u \<longleftrightarrow> tb_name t = tb_name u \<and> set (tb_columns t) = set (tb_columns u)
     \<and> set (tb_constraints t) = set (tb_constraints u) \<and> set (tb_indexes t) = set (tb_indexes u)"

definition same_schema :: "table list \<Rightarrow> table list \<Rightarrow> bool" where
  "same_schema ts us \<longleftrightarrow> (\<forall>t \<in> set ts. \<exists>u \<in> set us. same_table t u) \<and> (\<forall>u \<in> set us. \<exists>t \<in> set ts. same_table t u)"

text \<open>Two lists have the same elements when each element is found under its name in the other.\<close>

definition found_in :: "('a \<Rightarrow> string) \<Rightarrow> 'a list \<Rightarrow> 'a list \<Rightarrow> bool" where
  "found_in f xs ys \<longleftrightarrow> list_all (\<lambda>x. find (\<lambda>y. f y = f x) ys = Some x) xs"

lemma found_in_subset: "found_in f xs ys \<Longrightarrow> set xs \<subseteq> set ys"
  by (auto simp: found_in_def list_all_iff find_Some_iff)

lemma found_in_set:
  assumes "distinct (map f xs)" "length xs = length ys" "found_in f xs ys"
  shows "set xs = set ys"
proof (rule card_subset_eq)
  show "set xs \<subseteq> set ys" using assms(3) by (rule found_in_subset)
  then have "card (set xs) \<le> card (set ys)" by (intro card_mono) simp_all
  moreover have "card (set xs) = length xs" using assms(1) by (simp add: distinct_card distinct_map)
  ultimately show "card (set xs) = card (set ys)" using card_length [of ys] assms(2) by simp
qed simp

lemma same_tableI:
  assumes "tb_name t = tb_name u" "table_local t"
    and "length (tb_columns t) = length (tb_columns u)" "found_in col_name (tb_columns t) (tb_columns u)"
    and "length (tb_constraints t) = length (tb_constraints u)" "found_in con_name (tb_constraints t) (tb_constraints u)"
    and "found_in ix_name (tb_indexes t) (tb_indexes u)" "found_in ix_name (tb_indexes u) (tb_indexes t)"
  shows "same_table t u"
proof -
  have "set (tb_columns t) = set (tb_columns u)"
    using assms by (intro found_in_set) (simp_all add: table_local_def)
  moreover have "set (tb_constraints t) = set (tb_constraints u)"
    using assms by (intro found_in_set) (simp_all add: table_local_def)
  ultimately show ?thesis using assms(1,7,8) by (auto simp: same_table_def dest: found_in_subset)
qed

lemma declared_parts:
  "tb_name (declared t cs args) = t"
  "tb_columns (declared t cs args) = map column_of cs"
  "tb_indexes (declared t cs args) = concat (map arg_index args)"
  "tb_constraints (declared t cs args) =
     PrimaryKey (pk_convention t) (map mc_name (filter (\<lambda>c. PrimaryKeyColumn \<in> set (mc_options c)) cs))
     # concat (map (\<lambda>c. concat (map (option_constraint t (mc_name c)) (mc_options c))) cs)
     @ concat (map (arg_constraint t) args)"
  by (simp_all add: declared_def)

lemmas record_defs = AuditLogRecord_def AccountRecord_def TransferRecord_def LedgerTransactionRecord_def LedgerEntryRecord_def
  IdempotencyRecord_def GroupWalletRecord_def GroupMemberRecord_def GroupWithdrawalRequestRecord_def
  GroupWithdrawalApprovalRecord_def UserRecord_def SessionRecord_def MoneyRequestRecord_def
  OverdraftPoolRecord_def OverdraftGrantRecord_def OverdraftLoanRecord_def OverdraftRepaymentRecord_def
  PaymentLinkRecord_def PaymentLinkPaymentRecord_def SafePayEscrowRecord_def OutboxEventRecord_def
  ConsumerInboxRecord_def ScheduledTaskRecord_def

lemmas declare_simps = declared_parts column_of_def UlidPk_def created_at_column_def updated_at_column_def ULID_LENGTH_def
  MoneyMinor_def CurrencyCode_def ShortText_def StatusText_def pk_convention_def uq_convention_def fk_convention_def
  ck_convention_def found_in_def

lemma unaltered_tables_match_1 [simp]:
  "same_table table_consumer_inbox ConsumerInboxRecord"
  "same_table table_outbox_events OutboxEventRecord"
  "same_table table_users UserRecord"
  "same_table table_audit_logs AuditLogRecord"
  "same_table table_sessions SessionRecord"
  by (rule same_tableI; (simp; fail | simp add: declare_simps record_defs table_defs))+

lemma unaltered_tables_match_2 [simp]:
  "same_table table_ledger_transactions LedgerTransactionRecord"
  "same_table table_money_requests MoneyRequestRecord"
  "same_table table_ledger_entries LedgerEntryRecord"
  "same_table table_scheduled_tasks ScheduledTaskRecord"
  "same_table table_group_wallets GroupWalletRecord"
  by (rule same_tableI; (simp; fail | simp add: declare_simps record_defs table_defs))+

lemma unaltered_tables_match_3 [simp]:
  "same_table table_overdraft_pools OverdraftPoolRecord"
  "same_table table_payment_links PaymentLinkRecord"
  "same_table table_group_members GroupMemberRecord"
  "same_table table_group_withdrawal_requests GroupWithdrawalRequestRecord"
  "same_table table_overdraft_grants OverdraftGrantRecord"
  by (rule same_tableI; (simp; fail | simp add: declare_simps record_defs table_defs))+

lemma unaltered_tables_match_4 [simp]:
  "same_table table_overdraft_loans OverdraftLoanRecord"
  "same_table table_payment_link_payments PaymentLinkPaymentRecord"
  "same_table table_safepay_escrows SafePayEscrowRecord"
  "same_table table_group_withdrawal_approvals GroupWithdrawalApprovalRecord"
  "same_table table_overdraft_repayments OverdraftRepaymentRecord"
  by (rule same_tableI; (simp; fail | simp add: declare_simps record_defs table_defs))+

lemma core_tables_local [simp]:
  "table_local (accounts_at accounts_checks)" "table_local (transfers_at transfers_columns transfers_checks)"
  unfolding table_local_def index_ok_def has_columns_def column_type_def
  by (simp_all add: accounts_at_def accounts_checks_def transfers_at_def transfers_checks_def transfers_checks_5_def transfers_checks_2_def
      transfers_columns_def transfers_columns_2_def altered_def table_accounts_def table_transfers_def relink_tables_def
      modify_checks_def intended_receiver_def fund_kind_def KINDS_WITH_FUND_def ck_convention_def has_columns_def column_type_def)

lemma accounts_match [simp]: "same_table (accounts_at accounts_checks) AccountRecord"
  by (rule same_tableI, simp_all only: core_tables_local)
     (simp_all add: declare_simps AccountRecord_def accounts_at_def accounts_checks_def altered_def table_accounts_def
       relink_tables_def modify_checks_def)

lemma transfers_match [simp]: "same_table (transfers_at transfers_columns transfers_checks) TransferRecord"
  by (rule same_tableI, simp_all only: core_tables_local)
     (simp_all add: declare_simps TransferRecord_def transfers_at_def transfers_checks_def transfers_checks_5_def transfers_checks_2_def transfers_columns_def
       transfers_columns_2_def altered_def table_transfers_def relink_tables_def modify_checks_def intended_receiver_def
       fund_kind_def KINDS_WITH_FUND_def)

text \<open>
  The one difference: the initial revision declares the primary key of the idempotency records a second
  time as the unique constraint \<open>natural_key\<close>, which the class does not have and no revision drops.
\<close>

definition with_natural_key :: "table \<Rightarrow> table" where
  "with_natural_key t =
     (if tb_name t = ''idempotency_records''
      then t\<lparr>tb_constraints := tb_constraints t @ [Unique ''natural_key'' [''actor_id'', ''endpoint'', ''idempotency_key'']]\<rparr>
      else t)"

lemma idempotency_match [simp]: "same_table table_idempotency_records (with_natural_key IdempotencyRecord)"
  by (rule same_tableI, simp_all only: tables_local)
     (simp_all add: declare_simps IdempotencyRecord_def table_idempotency_records_def with_natural_key_def)

lemma same_table_refl [simp]: "same_table t t"
  by (simp add: same_table_def)

lemma natural_key_elsewhere: "tb_name t \<noteq> ''idempotency_records'' \<Longrightarrow> with_natural_key t = t"
  by (simp add: with_natural_key_def)

lemma record_names:
  "tb_name AuditLogRecord = ''audit_logs''" "tb_name AccountRecord = ''accounts''"
  "tb_name LedgerEntryRecord = ''ledger_entries''" "tb_name LedgerTransactionRecord = ''ledger_transactions''"
  "tb_name TransferRecord = ''transfers''" "tb_name GroupMemberRecord = ''group_members''"
  "tb_name GroupWalletRecord = ''group_wallets''"
  "tb_name GroupWithdrawalApprovalRecord = ''group_withdrawal_approvals''"
  "tb_name GroupWithdrawalRequestRecord = ''group_withdrawal_requests''" "tb_name SessionRecord = ''sessions''"
  "tb_name UserRecord = ''users''" "tb_name MoneyRequestRecord = ''money_requests''"
  "tb_name OverdraftGrantRecord = ''overdraft_grants''" "tb_name OverdraftLoanRecord = ''overdraft_loans''"
  "tb_name OverdraftPoolRecord = ''overdraft_pools''" "tb_name OverdraftRepaymentRecord = ''overdraft_repayments''"
  "tb_name PaymentLinkPaymentRecord = ''payment_link_payments''" "tb_name PaymentLinkRecord = ''payment_links''"
  "tb_name SafePayEscrowRecord = ''safepay_escrows''" "tb_name ConsumerInboxRecord = ''consumer_inbox''"
  "tb_name OutboxEventRecord = ''outbox_events''" "tb_name ScheduledTaskRecord = ''scheduled_tasks''"
  by (simp_all add: record_defs declared_parts(1))

text \<open>
  C18: the migrations build the schema the program declares.  Running every revision on a blank database
  succeeds, and the result has exactly the tables of the metadata, each with exactly the columns (type,
  nullability and server default), constraints (by name, condition, columns, reference and delete rule) and
  indexes its class declares, apart from the redundant unique constraint \<open>natural_key\<close>.
\<close>

theorem head_matches_models:
  "\<exists>c. migrate upgrade_head (blank now) = Some c
     \<and> same_schema (cat_tables c) (alembic_version # map with_natural_key metadata)"
proof -
  obtain c where c: "migrate upgrade_head (blank now) = Some c"
    "cat_tables c = schema_with (accounts_at accounts_checks) (transfers_at transfers_columns transfers_checks)"
    using upgrade_head_run [of now] by blast
  have "same_schema (schema_with (accounts_at accounts_checks) (transfers_at transfers_columns transfers_checks))
      (alembic_version # map with_natural_key metadata)"
    unfolding same_schema_def schema_with_def advanced_tables_def metadata_def
    by (simp add: natural_key_elsewhere record_names)
  with c show ?thesis by auto
qed

end
