(* ===== verification/Downgrade.thy ===== *)
theory Downgrade
  imports Schema_Match
begin

text \<open>
  The way back: dropping tables from the end of the catalog, and the downgrades of the revisions.
\<close>

section \<open>Dropping tables\<close>

definition undo :: "table \<Rightarrow> operation list" where
  "undo t = map (\<lambda>i. DropIndex (ix_name i) (tb_name t)) (rev (tb_indexes t)) @ [DropTable (tb_name t)]"

lemma refers_to_targets: "list_ex (refers_to n) (tb_constraints t) \<longleftrightarrow> n \<in> set (targets t)"
proof -
  have "refers_to n k \<longleftrightarrow> n \<in> set (fk_target k)" for k by (cases k) auto
  then show ?thesis by (auto simp: targets_def list_ex_iff)
qed

lemma drop_indexes_run:
  assumes "cat_tables c = ts @ [t\<lparr>tb_indexes := ixs\<rparr>]" "tb_name t \<notin> tb_name ` set ts" "distinct (map ix_name ixs)"
  shows "migrate (map (\<lambda>i. DropIndex (ix_name i) (tb_name t)) (rev ixs)) c
       = Some (c\<lparr>cat_tables := ts @ [t\<lparr>tb_indexes := []\<rparr>]\<rparr>)"
  using assms
proof (induction ixs arbitrary: c rule: rev_induct)
  case Nil
  then show ?case by (simp add: Nil.prems(1) [symmetric])
next
  case (snoc i ixs)
  have "find_table (tb_name t) ts = None" using snoc.prems(2) by (simp add: find_table_None)
  then have found: "find_table (tb_name t) (cat_tables c) = Some (t\<lparr>tb_indexes := ixs @ [i]\<rparr>)"
    by (simp add: snoc.prems(1) find_table_append)
  have "filter (\<lambda>x. ix_name x \<noteq> ix_name i) ixs = ixs"
    using snoc.prems(3) by (intro filter_True) (auto simp: rev_image_eqI)
  with found have step: "execute (DropIndex (ix_name i) (tb_name t)) c = Some (put_table (t\<lparr>tb_indexes := ixs\<rparr>) c)"
    by (simp add: drop_index_def)
  have "cat_tables (put_table (t\<lparr>tb_indexes := ixs\<rparr>) c) = ts @ [t\<lparr>tb_indexes := ixs\<rparr>]"
    using put_last [of "t\<lparr>tb_indexes := ixs\<rparr>" ts] snoc.prems(1,2) by simp
  from snoc.IH [OF this snoc.prems(2)] snoc.prems(3)
  have "migrate (map (\<lambda>i. DropIndex (ix_name i) (tb_name t)) (rev ixs)) (put_table (t\<lparr>tb_indexes := ixs\<rparr>) c)
      = Some ((put_table (t\<lparr>tb_indexes := ixs\<rparr>) c)\<lparr>cat_tables := ts @ [t\<lparr>tb_indexes := []\<rparr>]\<rparr>)"
    by simp
  moreover have "(put_table (t\<lparr>tb_indexes := ixs\<rparr>) c)\<lparr>cat_tables := us\<rparr> = c\<lparr>cat_tables := us\<rparr>" for us
    by (simp add: put_table_def)
  ultimately show ?case using step by (simp del: execute.simps)
qed

definition dropped_last :: "table list \<Rightarrow> string set \<Rightarrow> catalog \<Rightarrow> catalog \<Rightarrow> bool" where
  "dropped_last ts ns c d \<longleftrightarrow> cat_tables d = ts \<and> cat_now d = cat_now c
     \<and> cat_rows d = (\<lambda>n. if n \<in> ns then [] else cat_rows c n)"

lemma undo_run:
  assumes "cat_tables c = ts @ [t]" "tb_name t \<notin> tb_name ` set ts" "distinct (map ix_name (tb_indexes t))"
    and "\<And>u. u \<in> set ts \<Longrightarrow> tb_name t \<notin> set (targets u)"
  shows "\<exists>d. migrate (undo t) c = Some d \<and> dropped_last ts {tb_name t} c d"
proof -
  let ?c = "c\<lparr>cat_tables := ts @ [t\<lparr>tb_indexes := []\<rparr>]\<rparr>"
  have "t\<lparr>tb_indexes := tb_indexes t\<rparr> = t" by simp
  with drop_indexes_run [of c ts "tb_indexes t" t] assms(1-3)
  have indexes: "migrate (map (\<lambda>i. DropIndex (ix_name i) (tb_name t)) (rev (tb_indexes t))) c = Some ?c" by simp
  have "find_table (tb_name t) (cat_tables ?c) \<noteq> None" by (simp add: find_table_append split: option.splits)
  moreover have "\<not> list_ex (\<lambda>u. tb_name u \<noteq> tb_name t \<and> list_ex (refers_to (tb_name t)) (tb_constraints u)) (cat_tables ?c)"
    using assms(4) unfolding refers_to_targets by (auto simp: list_ex_iff)
  moreover have "filter (\<lambda>u. tb_name u \<noteq> tb_name t) ts = ts"
    using assms(2) by (intro filter_True) (auto simp: rev_image_eqI)
  ultimately have "\<exists>d. execute (DropTable (tb_name t)) ?c = Some d \<and> dropped_last ts {tb_name t} c d"
    by (auto simp: drop_table_def dropped_last_def)
  then show ?thesis using indexes by (auto simp: undo_def migrate_append simp del: execute.simps)
qed

text \<open>Tables that refer to earlier tables only can be dropped in reverse order.\<close>

fun earlier_only :: "string list \<Rightarrow> table list \<Rightarrow> bool" where
  "earlier_only ns [] = True"
| "earlier_only ns (t # ts) = (set (targets t) \<subseteq> set (tb_name t # ns) \<and> earlier_only (tb_name t # ns) ts)"

lemma earlier_only_append:
  "earlier_only ns (ts @ us) \<longleftrightarrow> earlier_only ns ts \<and> earlier_only (rev (map tb_name ts) @ ns) us"
  by (induction ts arbitrary: ns) auto

lemma earlier_onlyD: "earlier_only ns ts \<Longrightarrow> u \<in> set ts \<Longrightarrow> set (targets u) \<subseteq> set ns \<union> tb_name ` set ts"
  by (induction ts arbitrary: ns) fastforce+

lemma undo_all_run:
  assumes "cat_tables c = ts @ us" "distinct (map tb_name (ts @ us))" "earlier_only [] (ts @ us)"
    and "list_all (\<lambda>t. distinct (map ix_name (tb_indexes t))) us"
  shows "\<exists>d. migrate (concat (map undo (rev us))) c = Some d \<and> dropped_last ts (tb_name ` set us) c d"
  using assms
proof (induction us arbitrary: c rule: rev_induct)
  case Nil
  then show ?case by (simp add: dropped_last_def)
next
  case (snoc t us)
  have "\<exists>d. migrate (undo t) c = Some d \<and> dropped_last (ts @ us) {tb_name t} c d"
  proof (rule undo_run)
    show "cat_tables c = (ts @ us) @ [t]" using snoc.prems(1) by simp
    show "tb_name t \<notin> tb_name ` set (ts @ us)" using snoc.prems(2) by auto
    then show "tb_name t \<notin> set (targets u)" if "u \<in> set (ts @ us)" for u
      using earlier_onlyD [OF _ that, of "[]"] snoc.prems(3) earlier_only_append [of "[]" "ts @ us" "[t]"] by auto
  qed (use snoc.prems(4) in simp)
  then obtain d where d: "migrate (undo t) c = Some d" "dropped_last (ts @ us) {tb_name t} c d" by blast
  have "\<exists>e. migrate (concat (map undo (rev us))) d = Some e \<and> dropped_last ts (tb_name ` set us) d e"
    using snoc.prems(2-4) d(2) earlier_only_append [of "[]" "ts @ us" "[t]"]
    by (intro snoc.IH) (auto simp: dropped_last_def)
  then obtain e where e: "migrate (concat (map undo (rev us))) d = Some e" "dropped_last ts (tb_name ` set us) d e" by blast
  have "dropped_last ts (tb_name ` set (us @ [t])) c e"
    using d(2) e(2) by (auto simp: dropped_last_def fun_eq_iff)
  with migrate_step [OF d(1) e(1)] show ?case by simp
qed



section \<open>The downgrades of the revisions\<close>

lemma initial_down_undo: "initial_schema_down = concat (map undo (rev initial_tables))"
  by (simp add: initial_schema_down_def initial_tables_def undo_def table_defs)

lemma undo_cong: "tb_name t = tb_name u \<Longrightarrow> tb_indexes t = tb_indexes u \<Longrightarrow> undo t = undo u"
  by (simp add: undo_def)

definition transfers_checks_4 :: "table_constraint list" where
  "transfers_checks_4 = altered ''transfers'' fund_kind_down transfers_checks"

definition transfers_checks_3 :: "table_constraint list" where
  "transfers_checks_3 = altered ''transfers'' intended_receiver_down transfers_checks_4"

definition accounts_checks_1 :: "table_constraint list" where
  "accounts_checks_1 = altered ''accounts'' advanced_features_down accounts_checks"

definition transfers_checks_1 :: "table_constraint list" where
  "transfers_checks_1 = altered ''transfers'' advanced_features_down transfers_checks_3"

text \<open>The alterations \<open>advanced_features_down\<close> starts with, before it drops the tables.\<close>

definition restore_checks :: "operation list" where
  "restore_checks = takeWhile (\<lambda>d. d \<noteq> DropIndex ''ix_overdraft_repayments_loan'' ''overdraft_repayments'')
     (tl advanced_features_down)"

lemma advanced_down_split:
  "advanced_features_down = [DeleteAccounts (In (Col ''account_type'') [''ESCROW'', ''PENDING_SETTLEMENT''])] @ restore_checks
     @ concat (map undo (rev advanced_tables))"
  by (simp add: advanced_features_down_def restore_checks_def advanced_tables_def undo_def table_defs)

lemma depends_refers [simp]: "(refers_to n k \<and> depends_on n key k) = depends_on n key k"
  by (cases k) auto

lemmas checks_defs = transfers_checks_1_def transfers_checks_3_def transfers_checks_4_def accounts_checks_1_def
  transfers_checks_def transfers_checks_5_def transfers_checks_2_def transfers_columns_def transfers_columns_2_def accounts_checks_def altered_def
  relink_tables_def modify_checks_def intended_receiver_def intended_receiver_down_def fund_kind_def fund_kind_down_def
  table_accounts_def table_transfers_def ck_convention_def

lemma transfers_indexes [simp]:
  "tb_indexes (transfers_at cs ls) =
     [Index ''ix_transfers_receiver_created'' [''receiver_account_id'', ''created_at''] False None,
      Index ''ix_transfers_sender_created'' [''sender_account_id'', ''created_at''] False None]"
  "(transfers_at cs ls)\<lparr>tb_indexes :=
     [Index ''ix_transfers_receiver_created'' [''receiver_account_id'', ''created_at''] False None,
      Index ''ix_transfers_sender_created'' [''sender_account_id'', ''created_at''] False None]\<rparr> = transfers_at cs ls"
  by (simp_all add: transfers_at_def table_transfers_def)

lemma fund_kind_down_run:
  assumes "cat_tables c = schema_with (accounts_at accounts_checks) (transfers_at transfers_columns transfers_checks)"
    and "cat_rows c ''transfers'' = []"
  shows "migrate fund_kind_down c
    = Some (c\<lparr>cat_tables := schema_with (accounts_at accounts_checks) (transfers_at transfers_columns transfers_checks_4)\<rparr>)"
  using assms unfolding transfers_checks_4_def fund_kind_down_def
  by (simp add: alter_simps transfers_checks_def transfers_checks_5_def transfers_checks_2_def transfers_columns_def transfers_columns_2_def altered_def
      relink_tables_def modify_checks_def intended_receiver_def fund_kind_def table_transfers_def)

lemma intended_receiver_down_run:
  assumes "cat_tables c = schema_with (accounts_at accounts_checks) (transfers_at transfers_columns transfers_checks_4)"
    and "cat_rows c ''transfers'' = []"
  shows "migrate intended_receiver_down c
    = Some (c\<lparr>cat_tables := schema_with (accounts_at accounts_checks) (transfers_at transfers_columns_2 transfers_checks_3)\<rparr>)"
proof -
  have rows: "(cat_rows c)(''transfers'' := []) = cat_rows c" using assms(2) by (simp add: fun_upd_idem)
  have ks: "\<not> list_ex (depends_on ''transfers'' [''intended_receiver_account_id'']) accounts_checks"
    by (simp add: checks_defs)
  show ?thesis
    using assms rows ks unfolding transfers_checks_3_def intended_receiver_down_def
    by (simp add: alter_simps transfers_checks_4_def transfers_checks_def transfers_checks_5_def transfers_checks_2_def transfers_columns_def
        transfers_columns_2_def altered_def relink_tables_def modify_checks_def intended_receiver_def fund_kind_def fund_kind_down_def
        table_transfers_def)
qed

lemma restore_run:
  assumes "cat_tables c = schema_with (accounts_at accounts_checks) (transfers_at transfers_columns_2 transfers_checks_3)"
    and "cat_rows c ''transfers'' = []" "cat_rows c ''accounts'' = [system_account_row i ''SYSTEM_ISSUANCE'' number now]"
  shows "migrate restore_checks c
    = Some (c\<lparr>cat_tables := schema_with (accounts_at accounts_checks_1) (transfers_at (tb_columns table_transfers) transfers_checks_1)\<rparr>)"
proof -
  have rows: "(cat_rows c)(''transfers'' := []) = cat_rows c" using assms(2) by (simp add: fun_upd_idem)
  show ?thesis
    using assms rows unfolding restore_checks_def advanced_features_down_def accounts_checks_1_def transfers_checks_1_def
    by (simp add: alter_simps transfers_checks_3_def transfers_checks_4_def transfers_checks_def transfers_checks_5_def transfers_checks_2_def
        transfers_columns_2_def accounts_checks_def altered_def relink_tables_def modify_checks_def intended_receiver_def
        intended_receiver_down_def fund_kind_def fund_kind_down_def table_accounts_def table_transfers_def
        row_of_def system_account_row_def check_passes_def compare_values_def)
qed

lemma restricts_cases: "restricts c r t k \<Longrightarrow> ''accounts'' \<in> set (fk_target k) \<and> cat_rows c (tb_name t) \<noteq> []"
  by (cases k) auto

text \<open>While no other table has rows, system accounts can be deleted.\<close>

lemma delete_run:
  assumes "find_table ''accounts'' (cat_tables c) = Some a" "cat_rows c = (\<lambda>_. [])(''accounts'' := rs)"
    and "\<And>t. t \<in> set (cat_tables c) \<Longrightarrow> tb_name t = ''accounts'' \<Longrightarrow> ''accounts'' \<notin> set (targets t)"
  shows "execute (DeleteAccounts p) c
    = Some (c\<lparr>cat_rows := (\<lambda>_. [])(''accounts'' := filter (\<lambda>r. truth r p \<noteq> Some True) rs)\<rparr>)"
proof -
  have "\<not> restricts c r t k" if "t \<in> set (cat_tables c)" "k \<in> set (tb_constraints t)" for r t k
    using restricts_cases [of c r t k] assms(2) assms(3) [OF that(1)] that(2)
    by (auto simp: targets_def split: if_splits)
  then show ?thesis using assms(1,2) by (auto simp: delete_accounts_def list_ex_iff)
qed

definition base_tables :: "table \<Rightarrow> table \<Rightarrow> table list" where
  "base_tables A T = [table_consumer_inbox, table_idempotency_records, table_outbox_events, table_users, A,
     table_audit_logs, table_sessions, T, table_ledger_transactions, table_money_requests, table_ledger_entries]"

lemma schema_with_base: "schema_with A T = (alembic_version # base_tables A T) @ advanced_tables"
  by (simp add: schema_with_def base_tables_def)

abbreviation accounts_back :: table where
  "accounts_back \<equiv> accounts_at accounts_checks_1"

abbreviation transfers_back :: table where
  "transfers_back \<equiv> transfers_at (tb_columns table_transfers) transfers_checks_1"

lemma back_targets [simp]:
  "targets alembic_version = []" "targets accounts_back = [''users'']"
  "targets transfers_back = [''users'', ''accounts'', ''transfers'', ''accounts'']"
  "set (targets (accounts_at accounts_checks)) = {''users''}"
  by (simp_all add: targets_def alembic_version_def checks_defs advanced_features_down_def)

lemma back_ordered:
  "earlier_only [] (schema_with accounts_back transfers_back)" "distinct (map tb_name (schema_with accounts_back transfers_back))"
  unfolding schema_with_def advanced_tables_def by simp_all

lemma indexes_distinct:
  "list_all (\<lambda>t. distinct (map ix_name (tb_indexes t))) (base_tables accounts_back transfers_back)"
  "list_all (\<lambda>t. distinct (map ix_name (tb_indexes t))) advanced_tables"
  unfolding base_tables_def advanced_tables_def by (simp_all add: table_defs accounts_at_def)

lemma back_matches: "same_table accounts_back table_accounts" "same_table transfers_back table_transfers"
  by (auto simp: same_table_def checks_defs accounts_at_def transfers_at_def advanced_features_down_def)

lemma undo_base: "map undo (rev (base_tables accounts_back transfers_back)) = map undo (rev initial_tables)"
proof -
  have "undo accounts_back = undo table_accounts" "undo transfers_back = undo table_transfers"
    by (rule undo_cong; simp add: accounts_at_def transfers_at_def table_transfers_def)+
  then show ?thesis by (simp add: base_tables_def initial_tables_def)
qed

lemma privileges_down_run:
  assumes "cat_tables c = schema_with (accounts_at accounts_checks) (transfers_at transfers_columns transfers_checks)"
    and "cat_rows c ''transfers'' = []"
  shows "\<exists>g. migrate (reassert_privileges_down @ fund_kind_down @ intended_receiver_down) c
    = Some (c\<lparr>cat_grants := g, cat_tables := schema_with (accounts_at accounts_checks) (transfers_at transfers_columns_2 transfers_checks_3)\<rparr>)"
proof -
  obtain g where g: "migrate reassert_privileges_down c = Some (c\<lparr>cat_grants := g\<rparr>)"
    using privileges_run [of c reassert_privileges_down] assms(1)
    by (auto simp: reassert_privileges_down_def APPEND_ONLY_TABLES_def)
  have "migrate (fund_kind_down @ intended_receiver_down) (c\<lparr>cat_grants := g\<rparr>)
      = Some (c\<lparr>cat_grants := g, cat_tables := schema_with (accounts_at accounts_checks) (transfers_at transfers_columns_2 transfers_checks_3)\<rparr>)"
    using assms by (intro migrate_step [OF fund_kind_down_run]) (simp_all add: intended_receiver_down_run)
  from migrate_step [OF g this] show ?thesis by blast
qed

lemma features_down_run:
  assumes tables: "cat_tables c = schema_with (accounts_at accounts_checks) (transfers_at transfers_columns_2 transfers_checks_3)"
    and rows: "cat_rows c = (\<lambda>_. [])(''accounts'' := [system_account_row i ''SYSTEM_ISSUANCE'' number now,
      system_account_row j ''ESCROW'' number' now, system_account_row k ''PENDING_SETTLEMENT'' number'' now])"
  shows "\<exists>d. migrate advanced_features_down c = Some d \<and> cat_tables d = alembic_version # base_tables accounts_back transfers_back
    \<and> cat_rows d = (\<lambda>_. [])(''accounts'' := [system_account_row i ''SYSTEM_ISSUANCE'' number now])"
proof -
  let ?p = "In (Col ''account_type'') [''ESCROW'', ''PENDING_SETTLEMENT'']"
  let ?rows = "(\<lambda>_. [])(''accounts'' := [system_account_row i ''SYSTEM_ISSUANCE'' number now])"
  have type: "system_account_row a ty b now ''account_type'' = VStr ty" for a ty b
    by (simp add: system_account_row_def row_of_def)
  have "execute (DeleteAccounts ?p) c = Some (c\<lparr>cat_rows := ?rows\<rparr>)"
  proof -
    have "''accounts'' \<notin> set (targets t)" if "t \<in> set (cat_tables c)" "tb_name t = ''accounts''" for t
      using that by (auto simp: tables schema_with_def advanced_tables_def)
    with tables show ?thesis using delete_run [OF _ rows, of "accounts_at accounts_checks" ?p]
      by (simp add: type del: execute.simps)
  qed
  moreover have "migrate restore_checks (c\<lparr>cat_rows := ?rows\<rparr>)
      = Some (c\<lparr>cat_rows := ?rows, cat_tables := schema_with accounts_back transfers_back\<rparr>)" (is "_ = Some ?d")
    using tables by (subst restore_run) simp_all
  moreover have "\<exists>e. migrate (concat (map undo (rev advanced_tables))) ?d = Some e
      \<and> dropped_last (alembic_version # base_tables accounts_back transfers_back) (tb_name ` set advanced_tables) ?d e"
    using back_ordered indexes_distinct(2) by (intro undo_all_run) (simp_all add: schema_with_base)
  ultimately obtain e where "migrate advanced_features_down c = Some e"
      "dropped_last (alembic_version # base_tables accounts_back transfers_back) (tb_name ` set advanced_tables) ?d e"
    unfolding advanced_down_split by (auto simp: migrate_append simp del: execute.simps)
  then show ?thesis by (auto simp: dropped_last_def fun_eq_iff advanced_tables_def)
qed

lemma base_down_run:
  assumes tables: "cat_tables c = alembic_version # base_tables accounts_back transfers_back"
    and rows: "cat_rows c = (\<lambda>_. [])(''accounts'' := [system_account_row SYSTEM_ISSUANCE_ACCOUNT_ID ty number now])"
  shows "\<exists>d. migrate (ledger_privileges_down @ initial_schema_down) c = Some d \<and> cat_tables d = [alembic_version]
    \<and> cat_rows d = (\<lambda>_. [])"
proof -
  let ?p = "Compare Equal (Col ''id'') (Str SYSTEM_ISSUANCE_ACCOUNT_ID)"
  let ?ps = "map (\<lambda>t. Grant [UpdatePriv, DeletePriv] t APP_ROLE) APPEND_ONLY_TABLES"
  have "execute (DeleteAccounts ?p) c = Some (c\<lparr>cat_rows := (\<lambda>_. [])\<rparr>)" (is "_ = Some ?d")
  proof -
    have "find_table ''accounts'' (cat_tables c) = Some accounts_back" by (simp add: tables base_tables_def)
    moreover have "''accounts'' \<notin> set (targets t)" if "t \<in> set (cat_tables c)" "tb_name t = ''accounts''" for t
      using that by (auto simp: tables base_tables_def)
    ultimately show ?thesis using delete_run [OF _ rows, of accounts_back ?p]
      by (simp add: compare_values_def fun_upd_idem_iff del: execute.simps)
  qed
  moreover obtain g where "migrate ?ps ?d = Some (?d\<lparr>cat_grants := g\<rparr>)" (is "_ = Some ?e")
    using privileges_run [of ?d ?ps] tables by (auto simp: APPEND_ONLY_TABLES_def base_tables_def)
  ultimately have step: "migrate ledger_privileges_down c = Some ?e"
    unfolding ledger_privileges_down_def by (rule migrate_first)
  have "earlier_only [] ([alembic_version] @ base_tables accounts_back transfers_back)"
    "distinct (map tb_name ([alembic_version] @ base_tables accounts_back transfers_back))"
    unfolding base_tables_def by simp_all
  then have "\<exists>f. migrate (concat (map undo (rev (base_tables accounts_back transfers_back)))) ?e = Some f
      \<and> dropped_last [alembic_version] (tb_name ` set (base_tables accounts_back transfers_back)) ?e f"
    using tables indexes_distinct(1) by (intro undo_all_run) simp_all
  then obtain f where "migrate initial_schema_down ?e = Some f" "cat_tables f = [alembic_version]" "cat_rows f = (\<lambda>_. [])"
    unfolding initial_down_undo undo_base by (auto simp: dropped_last_def fun_eq_iff)
  with migrate_step [OF step] show ?thesis by blast
qed


text \<open>
  C20: two downgrades do not restore what was there before their upgrade.  The revision
  \<open>f41a9f26c001\<close> finds the kind \<open>OVERDRAFT_FUND\<close> admitted already and its downgrade forbids it; the
  revision \<open>c3f8a2d91b74\<close> finds no UPDATE privilege on the ledger in a database migrated from scratch and
  its downgrade grants it.
\<close>

theorem downgrade_drifts:
  "\<exists>c d e s t. migrate (concat (map rv_upgrade (take 4 revision_chain))) (blank now) = Some c
     \<and> migrate (fund_kind @ fund_kind_down) c = Some d
     \<and> find_table ''transfers'' (cat_tables c) = Some s \<and> find_table ''transfers'' (cat_tables d) = Some t
     \<and> Check ''ck_transfers_kind_valid'' (In (Col ''kind'') KINDS_WITH_FUND) \<in> set (tb_constraints s)
     \<and> Check ''ck_transfers_kind_valid'' (In (Col ''kind'') KINDS_WITHOUT_FUND) \<in> set (tb_constraints t)
     \<and> migrate (fund_kind @ reassert_privileges @ reassert_privileges_down) c = Some e
     \<and> (APP_ROLE, ''ledger_entries'', UpdatePriv) \<notin> set (cat_grants c)
     \<and> (APP_ROLE, ''ledger_entries'', UpdatePriv) \<in> set (cat_grants e)"
proof -
  obtain c where c: "migrate (concat (map rv_upgrade (take 4 revision_chain))) (blank now) = Some c"
    "cat_tables c = schema_with (accounts_at accounts_checks) (transfers_at transfers_columns transfers_checks_5)"
    "(''mm_app'', ''ledger_entries'', UpdatePriv) \<notin> set (cat_grants c)" "cat_rows c ''transfers'' = []"
    using upgrade_receiver_run [of now] by fastforce
  let ?d = "c\<lparr>cat_tables := schema_with (accounts_at accounts_checks) (transfers_at transfers_columns transfers_checks)\<rparr>"
  have d: "migrate fund_kind c = Some ?d" using c(2,4) by (rule fund_kind_run)
  have again: "migrate (fund_kind @ fund_kind_down) c
      = Some (c\<lparr>cat_tables := schema_with (accounts_at accounts_checks) (transfers_at transfers_columns transfers_checks_4)\<rparr>)"
    using c(4) by (intro migrate_step [OF d] fund_kind_down_run [THEN trans]) simp_all
  have "\<exists>e. migrate (reassert_privileges @ reassert_privileges_down) ?d = Some e
      \<and> (''mm_app'', ''ledger_entries'', UpdatePriv) \<in> set (cat_grants e)"
    by (simp add: reassert_privileges_def reassert_privileges_down_def APPEND_ONLY_TABLES_def APP_ROLE_def grant_def revoke_def)
  then obtain e where e: "migrate (reassert_privileges @ reassert_privileges_down) ?d = Some e"
    "(''mm_app'', ''ledger_entries'', UpdatePriv) \<in> set (cat_grants e)" by blast
  have "Check ''ck_transfers_kind_valid'' (In (Col ''kind'') KINDS_WITH_FUND) \<in> set transfers_checks_5"
    by (simp add: transfers_checks_5_def transfers_checks_2_def altered_def relink_tables_def modify_checks_def table_transfers_def
        intended_receiver_def ck_convention_def KINDS_WITH_FUND_def)
  moreover have "Check ''ck_transfers_kind_valid'' (In (Col ''kind'') KINDS_WITHOUT_FUND) \<in> set transfers_checks_4"
    by (simp add: transfers_checks_4_def altered_def fund_kind_down_def ck_convention_def)
  ultimately show ?thesis
    using c(1,2,3) again migrate_step [OF d e(1)] e(2) by (auto simp: APP_ROLE_def)
qed

end
