(* ===== verification/Schema_Refinement.thy ===== *)
theory Schema_Refinement
  imports Row_Values Orm_Models Identity SafePay Requests
begin

text \<open>
  The inserts of the repositories against the declared tables.  The model of an insert evaluates a list of
  named conditions over the row records; here each list is shown to accept a row exactly when the
  constraints of the table class do, CHECK conditions under SQL's three-valued logic, keys and references
  against the rows of the whole database, and the range of the BIGINT columns.
\<close>

section \<open>Accepting a row\<close>

definition in_range :: "table \<Rightarrow> sql_row \<Rightarrow> bool" where
  "in_range t r \<longleftrightarrow> list_all (\<lambda>c. case r (col_name c) of VInt i \<Rightarrow> col_type c = BigIntegerT \<longrightarrow> bigint_ok i | _ \<Rightarrow> True)
     (tb_columns t)"

definition accepts :: "(string \<Rightarrow> sql_row list) \<Rightarrow> table \<Rightarrow> sql_row \<Rightarrow> bool" where
  "accepts db t r \<longleftrightarrow> in_range t r \<and> admitted db t r"

lemma guarded_insert:
  "fst (tx_bind (require_bigint vs) (\<lambda>_. tx_bind (require_constraints cs) (\<lambda>_. tx_modify f)) s) = Inr ()
     \<longleftrightarrow> list_all bigint_ok vs \<and> list_all snd (cs s)"
  "fst (tx_bind (require_constraints cs) (\<lambda>_. tx_modify f) s) = Inr () \<longleftrightarrow> list_all snd (cs s)"
  by (auto simp: tx_bind_app tx_run require_bigint_def require_constraints_def first_violation_None [symmetric]
      tx_unless_def split: option.splits)

lemma account_type_str_inj [simp]: "account_type_str x = account_type_str y \<longleftrightarrow> x = y"
  by (cases x; cases y; simp)

text \<open>Conditions whose operands are not NULL are two-valued.\<close>

lemma both_known [simp]: "and3 (Some p) (Some q) = Some (p \<and> q)" "or3 (Some p) (Some q) = Some (p \<or> q)"
  by (cases p; cases q; simp)+

lemma two_valued [simp]:
  "compare_values Equal (VStr x) (VStr y) = Some (x = y)" "compare_values Differs (VStr x) (VStr y) = Some (x \<noteq> y)"
  "compare_values Equal (VInt i) (VInt j) = Some (i = j)" "compare_values Differs (VInt i) (VInt j) = Some (i \<noteq> j)"
  "compare_values Less (VInt i) (VInt j) = Some (i < j)" "compare_values AtMost (VInt i) (VInt j) = Some (i \<le> j)"
  "compare_values Greater (VInt i) (VInt j) = Some (j < i)" "compare_values AtLeast (VInt i) (VInt j) = Some (j \<le> i)"
  "member3 (VStr x) xs = Some (x \<in> set xs)"
  by (auto simp: compare_values_def)

lemma opt_value_eq [simp]:
  "opt_value VStr v = VNull \<longleftrightarrow> v = None" "VNull = opt_value VStr v \<longleftrightarrow> v = None"
  "opt_value VStr v = opt_value VStr w \<longleftrightarrow> v = w" "VStr x = opt_value VStr v \<longleftrightarrow> v = Some x"
  "opt_value VStr v = VStr x \<longleftrightarrow> v = Some x"
  by (cases v; cases w; auto)+

lemma account_type_str_eq [simp]:
  "account_type_str x = ''USER'' \<longleftrightarrow> x = USER"
  "account_type_str x = ''SYSTEM_ISSUANCE'' \<longleftrightarrow> x = SYSTEM_ISSUANCE"
  "account_type_str x = ''PENDING_SETTLEMENT'' \<longleftrightarrow> x = PENDING_SETTLEMENT"
  "account_type_str x = ''ESCROW'' \<longleftrightarrow> x = ESCROW"
  "account_type_str x = ''GROUP'' \<longleftrightarrow> x = GROUP"
  "account_type_str x = ''OVERDRAFT_POOL'' \<longleftrightarrow> x = OVERDRAFT_POOL"
  by (cases x; simp)+

lemma account_type_all: "x = USER \<or> x = SYSTEM_ISSUANCE \<or> x = PENDING_SETTLEMENT \<or> x = ESCROW \<or> x = GROUP \<or> x = OVERDRAFT_POOL"
  by (cases x) simp_all

lemma account_status_str_eq [simp]:
  "account_status_str x = ''ACTIVE'' \<longleftrightarrow> x = ACTIVE"
  "account_status_str x = ''FROZEN'' \<longleftrightarrow> x = FROZEN"
  "account_status_str x = ''CLOSED'' \<longleftrightarrow> x = CLOSED"
  by (cases x; simp)+

lemma account_status_all: "x = ACTIVE \<or> x = FROZEN \<or> x = CLOSED"
  by (cases x) simp_all

lemma kind_str_eq [simp]:
  "kind_str x = ''P2P_SEND'' \<longleftrightarrow> x = P2P_SEND"
  "kind_str x = ''REQUEST_SETTLEMENT'' \<longleftrightarrow> x = REQUEST_SETTLEMENT"
  "kind_str x = ''SIGNUP_GRANT'' \<longleftrightarrow> x = SIGNUP_GRANT"
  "kind_str x = ''REVERSAL'' \<longleftrightarrow> x = REVERSAL"
  "kind_str x = ''UNDO_HOLD'' \<longleftrightarrow> x = UNDO_HOLD"
  "kind_str x = ''UNDO_SETTLE'' \<longleftrightarrow> x = UNDO_SETTLE"
  "kind_str x = ''UNDO_REFUND'' \<longleftrightarrow> x = UNDO_REFUND"
  "kind_str x = ''ESCROW_HOLD'' \<longleftrightarrow> x = ESCROW_HOLD"
  "kind_str x = ''ESCROW_RELEASE'' \<longleftrightarrow> x = ESCROW_RELEASE"
  "kind_str x = ''ESCROW_REFUND'' \<longleftrightarrow> x = ESCROW_REFUND"
  "kind_str x = ''GROUP_DEPOSIT'' \<longleftrightarrow> x = GROUP_DEPOSIT"
  "kind_str x = ''GROUP_WITHDRAWAL'' \<longleftrightarrow> x = GROUP_WITHDRAWAL"
  "kind_str x = ''LINK_PAYMENT'' \<longleftrightarrow> x = LINK_PAYMENT"
  "kind_str x = ''OVERDRAFT_DRAW'' \<longleftrightarrow> x = OVERDRAFT_DRAW"
  "kind_str x = ''OVERDRAFT_REPAY'' \<longleftrightarrow> x = OVERDRAFT_REPAY"
  "kind_str x = ''OVERDRAFT_FUND'' \<longleftrightarrow> x = OVERDRAFT_FUND"
  by (cases x; simp)+

lemma transfer_kind_all: "x = P2P_SEND \<or> x = REQUEST_SETTLEMENT \<or> x = SIGNUP_GRANT \<or> x = REVERSAL \<or> x = UNDO_HOLD \<or> x = UNDO_SETTLE \<or> x = UNDO_REFUND \<or> x = ESCROW_HOLD \<or> x = ESCROW_RELEASE \<or> x = ESCROW_REFUND \<or> x = GROUP_DEPOSIT \<or> x = GROUP_WITHDRAWAL \<or> x = LINK_PAYMENT \<or> x = OVERDRAFT_DRAW \<or> x = OVERDRAFT_REPAY \<or> x = OVERDRAFT_FUND"
  by (cases x) simp_all

lemma transfer_status_str_eq [simp]:
  "transfer_status_str x = ''SUCCEEDED'' \<longleftrightarrow> x = SUCCEEDED"
  "transfer_status_str x = ''FAILED'' \<longleftrightarrow> x = FAILED"
  "transfer_status_str x = ''REVERSED'' \<longleftrightarrow> x = REVERSED"
  "transfer_status_str x = ''PENDING_UNDO'' \<longleftrightarrow> x = PENDING_UNDO"
  "transfer_status_str x = ''HELD'' \<longleftrightarrow> x = HELD"
  "transfer_status_str x = ''DISPUTED'' \<longleftrightarrow> x = DISPUTED"
  "transfer_status_str x = ''REFUNDED'' \<longleftrightarrow> x = REFUNDED"
  by (cases x; simp)+

lemma transfer_status_all: "x = SUCCEEDED \<or> x = FAILED \<or> x = REVERSED \<or> x = PENDING_UNDO \<or> x = HELD \<or> x = DISPUTED \<or> x = REFUNDED"
  by (cases x) simp_all

lemma request_status_str_eq [simp]:
  "request_status_str x = ''PENDING'' \<longleftrightarrow> x = ReqPending"
  "request_status_str x = ''ACCEPTED'' \<longleftrightarrow> x = ReqAccepted"
  "request_status_str x = ''REJECTED'' \<longleftrightarrow> x = ReqRejected"
  "request_status_str x = ''CANCELLED'' \<longleftrightarrow> x = ReqCancelled"
  "request_status_str x = ''EXPIRED'' \<longleftrightarrow> x = ReqExpired"
  by (cases x; simp)+

lemma request_status_all: "x = ReqPending \<or> x = ReqAccepted \<or> x = ReqRejected \<or> x = ReqCancelled \<or> x = ReqExpired"
  by (cases x) simp_all

lemma escrow_status_str_eq [simp]:
  "escrow_status_str x = ''AWAITING_SHIPMENT'' \<longleftrightarrow> x = AwaitingShipment"
  "escrow_status_str x = ''SHIPPED'' \<longleftrightarrow> x = Shipped"
  "escrow_status_str x = ''DELIVERED'' \<longleftrightarrow> x = Delivered"
  "escrow_status_str x = ''RELEASED'' \<longleftrightarrow> x = Released"
  "escrow_status_str x = ''REFUNDED'' \<longleftrightarrow> x = EscrowRefunded"
  "escrow_status_str x = ''DISPUTED'' \<longleftrightarrow> x = EscrowDisputed"
  "escrow_status_str x = ''CANCELLED'' \<longleftrightarrow> x = EscrowCancelled"
  by (cases x; simp)+

lemma escrow_status_all: "x = AwaitingShipment \<or> x = Shipped \<or> x = Delivered \<or> x = Released \<or> x = EscrowRefunded \<or> x = EscrowDisputed \<or> x = EscrowCancelled"
  by (cases x) simp_all

lemma user_status_str_eq [simp]:
  "user_status_str x = ''ACTIVE'' \<longleftrightarrow> x = UserActive"
  "user_status_str x = ''SUSPENDED'' \<longleftrightarrow> x = UserSuspended"
  "user_status_str x = ''CLOSED'' \<longleftrightarrow> x = UserClosed"
  by (cases x; simp)+

lemma user_status_all: "x = UserActive \<or> x = UserSuspended \<or> x = UserClosed"
  by (cases x) simp_all

lemma user_columns [simp]:
  "user_values x ''id'' = VStr (u_id x)"
  "user_values x ''phone'' = VStr (u_phone x)"
  "user_values x ''display_name'' = VStr (u_display_name x)"
  "user_values x ''password_hash'' = VStr (u_password_hash x)"
  "user_values x ''pin_hash'' = VStr (u_pin_hash x)"
  "user_values x ''pin_failed_attempts'' = VInt (u_pin_failed_attempts x)"
  "user_values x ''pin_locked_until'' = opt_value VTime (u_pin_locked_until x)"
  "user_values x ''status'' = VStr (user_status_str (u_status x))"
  "user_values x ''created_at'' = VTime (u_created_at x)"
  "user_values x ''updated_at'' = VTime (u_updated_at x)"
  by (simp_all add: user_values_def row_of_def)

lemma account_columns [simp]:
  "account_values x ''id'' = VStr (a_id x)"
  "account_values x ''user_id'' = opt_value VStr (a_user_id x)"
  "account_values x ''account_type'' = VStr (account_type_str (a_type x))"
  "account_values x ''account_number'' = VStr (a_number x)"
  "account_values x ''currency'' = VStr (a_currency x)"
  "account_values x ''balance_minor'' = VInt (a_balance x)"
  "account_values x ''status'' = VStr (account_status_str (a_status x))"
  "account_values x ''version'' = VInt (a_version x)"
  "account_values x ''created_at'' = VTime (a_created_at x)"
  "account_values x ''updated_at'' = VTime (a_updated_at x)"
  by (simp_all add: account_values_def row_of_def)

lemma transfer_columns [simp]:
  "transfer_values x ''id'' = VStr (t_id x)"
  "transfer_values x ''reference'' = VStr (t_reference x)"
  "transfer_values x ''sender_account_id'' = VStr (t_sender x)"
  "transfer_values x ''receiver_account_id'' = VStr (t_receiver x)"
  "transfer_values x ''amount_minor'' = VInt (t_amount x)"
  "transfer_values x ''currency'' = VStr (t_currency x)"
  "transfer_values x ''kind'' = VStr (kind_str (t_kind x))"
  "transfer_values x ''status'' = VStr (transfer_status_str (t_status x))"
  "transfer_values x ''note'' = opt_value VStr (t_note x)"
  "transfer_values x ''initiated_by_user_id'' = opt_value VStr (t_initiated_by x)"
  "transfer_values x ''request_id'' = opt_value VStr (t_request_id x)"
  "transfer_values x ''reversal_of_id'' = opt_value VStr (t_reversal_of x)"
  "transfer_values x ''parent_transfer_id'' = opt_value VStr (t_parent x)"
  "transfer_values x ''intended_receiver_account_id'' = opt_value VStr (t_intended_receiver x)"
  "transfer_values x ''created_at'' = VTime (t_created_at x)"
  "transfer_values x ''completed_at'' = opt_value VTime (t_completed_at x)"
  by (simp_all add: transfer_values_def row_of_def)

lemma ledger_transaction_columns [simp]:
  "ledger_transaction_values x ''id'' = VStr (lt_id x)"
  "ledger_transaction_values x ''transfer_id'' = VStr (lt_transfer_id x)"
  "ledger_transaction_values x ''type'' = VStr (kind_str (lt_type x))"
  "ledger_transaction_values x ''description'' = opt_value VStr (lt_description x)"
  "ledger_transaction_values x ''posted_at'' = VTime (lt_posted_at x)"
  by (simp_all add: ledger_transaction_values_def row_of_def)

lemma ledger_entry_columns [simp]:
  "ledger_entry_values x ''id'' = VStr (le_id x)"
  "ledger_entry_values x ''ledger_transaction_id'' = VStr (le_txn x)"
  "ledger_entry_values x ''account_id'' = VStr (le_account x)"
  "ledger_entry_values x ''amount_minor'' = VInt (le_amount x)"
  "ledger_entry_values x ''currency'' = VStr (le_currency x)"
  "ledger_entry_values x ''balance_after_minor'' = VInt (le_balance_after x)"
  "ledger_entry_values x ''created_at'' = VTime (le_created_at x)"
  by (simp_all add: ledger_entry_values_def row_of_def)

lemma money_request_columns [simp]:
  "money_request_values x ''id'' = VStr (m_id x)"
  "money_request_values x ''reference'' = VStr (m_reference x)"
  "money_request_values x ''requester_account_id'' = VStr (m_requester x)"
  "money_request_values x ''payer_account_id'' = VStr (m_payer x)"
  "money_request_values x ''amount_minor'' = VInt (m_amount x)"
  "money_request_values x ''currency'' = VStr (m_currency x)"
  "money_request_values x ''note'' = opt_value VStr (m_note x)"
  "money_request_values x ''status'' = VStr (request_status_str (m_status x))"
  "money_request_values x ''transfer_id'' = opt_value VStr (m_transfer_id x)"
  "money_request_values x ''expires_at'' = VTime (m_expires_at x)"
  "money_request_values x ''responded_at'' = opt_value VTime (m_responded_at x)"
  "money_request_values x ''created_at'' = VTime (m_created_at x)"
  "money_request_values x ''updated_at'' = VTime (m_updated_at x)"
  by (simp_all add: money_request_values_def row_of_def)

lemma escrow_columns [simp]:
  "escrow_values x ''id'' = VStr (e_id x)"
  "escrow_values x ''reference'' = VStr (e_reference x)"
  "escrow_values x ''hold_transfer_id'' = VStr (e_hold_transfer x)"
  "escrow_values x ''settlement_transfer_id'' = opt_value VStr (e_settlement_transfer x)"
  "escrow_values x ''buyer_user_id'' = VStr (e_buyer x)"
  "escrow_values x ''seller_user_id'' = VStr (e_seller x)"
  "escrow_values x ''amount_minor'' = VInt (e_amount x)"
  "escrow_values x ''currency'' = VStr (e_currency x)"
  "escrow_values x ''description'' = opt_value VStr (e_description x)"
  "escrow_values x ''status'' = VStr (escrow_status_str (e_status x))"
  "escrow_values x ''delivery_code_hash'' = VStr (e_code_hash x)"
  "escrow_values x ''delivery_code_attempts'' = VInt (e_code_attempts x)"
  "escrow_values x ''delivery_code_locked_until'' = opt_value VTime (e_code_locked_until x)"
  "escrow_values x ''tracking_number'' = opt_value VStr (e_tracking_number x)"
  "escrow_values x ''courier_slug'' = opt_value VStr (e_courier x)"
  "escrow_values x ''shipped_at'' = opt_value VTime (e_shipped_at x)"
  "escrow_values x ''delivered_at'' = opt_value VTime (e_delivered_at x)"
  "escrow_values x ''auto_release_at'' = opt_value VTime (e_auto_release_at x)"
  "escrow_values x ''settled_at'' = opt_value VTime (e_settled_at x)"
  "escrow_values x ''dispute_reason'' = opt_value VStr (e_dispute_reason x)"
  "escrow_values x ''disputed_at'' = opt_value VTime (e_disputed_at x)"
  "escrow_values x ''resolved_by_user_id'' = opt_value VStr (e_resolved_by x)"
  "escrow_values x ''resolution_note'' = opt_value VStr (e_resolution_note x)"
  "escrow_values x ''created_at'' = VTime (e_created_at x)"
  "escrow_values x ''updated_at'' = VTime (e_updated_at x)"
  by (simp_all add: escrow_values_def row_of_def)

lemma loan_id_column [simp]: "loan_values x ''id'' = VStr (l_id x)"
  by (simp add: loan_values_def row_of_def)

lemma repayment_columns [simp]:
  "repayment_values x ''id'' = VStr (r_id x)"
  "repayment_values x ''loan_id'' = VStr (r_loan x)"
  "repayment_values x ''transfer_id'' = VStr (r_transfer x)"
  "repayment_values x ''amount_minor'' = VInt (r_amount x)"
  "repayment_values x ''triggered_by_transfer_id'' = opt_value VStr (r_triggered_by x)"
  "repayment_values x ''created_at'' = VTime (r_created_at x)"
  by (simp_all add: repayment_values_def row_of_def)

lemma session_columns [simp]:
  "session_values x ''id'' = VStr (s_id x)"
  "session_values x ''user_id'' = VStr (s_user_id x)"
  "session_values x ''refresh_token_hash'' = VStr (s_refresh_token_hash x)"
  "session_values x ''rotated_to_id'' = opt_value VStr (s_rotated_to_id x)"
  "session_values x ''issued_at'' = VTime (s_issued_at x)"
  "session_values x ''expires_at'' = VTime (s_expires_at x)"
  "session_values x ''revoked_at'' = opt_value VTime (s_revoked_at x)"
  "session_values x ''user_agent'' = opt_value VStr (s_user_agent x)"
  "session_values x ''ip_address'' = opt_value VStr (s_ip_address x)"
  by (simp_all add: session_values_def row_of_def)

lemma pool_columns [simp]:
  "pool_values x ''id'' = VStr (p_id x)"
  "pool_values x ''sponsor_user_id'' = VStr (p_sponsor x)"
  "pool_values x ''pool_account_id'' = VStr (p_account x)"
  "pool_values x ''currency'' = VStr (p_currency x)"
  "pool_values x ''status'' = VStr (pool_status_str (p_status x))"
  "pool_values x ''created_at'' = VTime (p_created_at x)"
  "pool_values x ''updated_at'' = VTime (p_updated_at x)"
  by (simp_all add: pool_values_def row_of_def)

lemma grant_columns [simp]:
  "grant_values x ''id'' = VStr (g_id x)"
  "grant_values x ''pool_id'' = VStr (g_pool x)"
  "grant_values x ''beneficiary_user_id'' = VStr (g_beneficiary x)"
  "grant_values x ''max_draw_minor'' = VInt (g_max_draw x)"
  "grant_values x ''status'' = VStr (grant_status_str (g_status x))"
  "grant_values x ''created_at'' = VTime (g_created_at x)"
  "grant_values x ''updated_at'' = VTime (g_updated_at x)"
  by (simp_all add: grant_values_def row_of_def)

lemmas schema_simps = accepts_def in_range_def admitted_def not_null_ok_def declared_def column_of_def UlidPk_def
  created_at_column_def updated_at_column_def MoneyMinor_def CurrencyCode_def ShortText_def StatusText_def
  check_passes_def

lemmas enum_all = account_type_all account_status_all transfer_kind_all transfer_status_all request_status_all
  escrow_status_all user_status_all

text \<open>Keys and references, stated over the rows.\<close>

lemma opt_in_iff: "opt_in v xs \<longleftrightarrow> v = None \<or> (\<exists>x \<in> set xs. v = Some x)"
  by (auto simp: opt_in_def split: option.splits)

lemma in_column: "x \<in> f ` set rows \<longleftrightarrow> (\<exists>y \<in> set rows. f y = x)"
  by auto

lemma not_a_number [simp]:
  "case_sql_value True (\<lambda>_. True) f g h k (opt_value VStr v)" "case_sql_value True f' g' h' (\<lambda>_. True) k' (opt_value VTime w)"
  by (cases v; simp) (cases w; simp)

text \<open>The pattern of the phone column.\<close>

lemma all_in_class: "list_all2 in_class p (replicate n c) \<longleftrightarrow> length p = n \<and> list_all (\<lambda>x. in_class x c) p"
  by (auto simp: list_all2_conv_all_nth list_all_length)

lemma char_by_code: "c = d \<longleftrightarrow> of_char c = (of_char d :: nat)"
  by simp

lemma in_class_3_9: "in_class c (Between CHR ''3'' CHR ''9'') \<longleftrightarrow> c \<in> set ''3456789''"
proof -
  have "c \<in> set ''3456789'' \<longleftrightarrow> (of_char c :: nat) \<in> {51, 52, 53, 54, 55, 56, 57}"
    by (simp only: list.set insert_iff empty_iff char_by_code [of c]) (simp del: of_char_eq_iff)
  then show ?thesis by auto
qed

lemma in_class_0_9: "in_class c (Between CHR ''0'' CHR ''9'') \<longleftrightarrow> is_ascii_digit c"
  by (simp add: is_ascii_digit_def)

lemma phone_format_class:
  "list_all2 in_class p (Exactly CHR ''0'' # Exactly CHR ''1'' # Between CHR ''3'' CHR ''9'' # replicate 8 (Between CHR ''0'' CHR ''9''))
     \<longleftrightarrow> phone_format p"
proof (cases "\<exists>a b c q. p = a # b # c # q")
  case True
  then obtain a b c q where "p = a # b # c # q" by blast
  then show ?thesis
    by (simp add: all_in_class in_class_3_9 in_class_0_9 phone_format_def numeral_2_eq_2 numeral_3_eq_3
        del: in_class.simps(2)) auto
next
  case False
  then have "\<not> 3 \<le> length p" by (auto simp: Suc_le_length_iff numeral_3_eq_3)
  with False show ?thesis by (auto simp: list_all2_Cons2 phone_format_def)
qed

lemmas insert_simps = schema_simps enum_all opt_in_iff in_column

section \<open>Inserts\<close>

lemma insert_account_accepts:
  "fst (insert_account a s) = Inr () \<longleftrightarrow> accepts (sql_tables s) AccountRecord (account_values a)"
  unfolding insert_account_def guarded_insert AccountRecord_def
  by (simp add: insert_simps account_row_ok_def USER_OWNED_ACCOUNT_TYPES_def UNOWNED_ACCOUNT_TYPES_def) (simp only: conj_ac disj_ac)

lemma insert_ledger_transaction_accepts:
  "fst (insert_ledger_transaction l s) = Inr ()
     \<longleftrightarrow> accepts (sql_tables s) LedgerTransactionRecord (ledger_transaction_values l)"
  unfolding insert_ledger_transaction_def guarded_insert LedgerTransactionRecord_def
  by (simp add: insert_simps conj_ac)

lemma insert_transfer_accepts:
  "fst (insert_transfer t s) = Inr () \<longleftrightarrow> accepts (sql_tables s) TransferRecord (transfer_values t)"
  unfolding insert_transfer_def guarded_insert TransferRecord_def
  by (simp add: insert_simps transfer_row_constraints_def settlement_kinds_def) (simp only: conj_ac disj_ac)

lemma insert_ledger_entry_accepts:
  "fst (insert_ledger_entry e s) = Inr () \<longleftrightarrow> accepts (sql_tables s) LedgerEntryRecord (ledger_entry_values e)"
  unfolding insert_ledger_entry_def guarded_insert LedgerEntryRecord_def
  by (simp add: insert_simps conj_ac)

lemma insert_repayment_accepts:
  "fst (insert_repayment r s) = Inr () \<longleftrightarrow> accepts (sql_tables s) OverdraftRepaymentRecord (repayment_values r)"
  unfolding insert_repayment_def guarded_insert OverdraftRepaymentRecord_def
  by (simp add: insert_simps conj_ac)

lemma insert_request_accepts:
  "fst (insert_request r s) = Inr () \<longleftrightarrow> accepts (sql_tables s) MoneyRequestRecord (money_request_values r)"
  unfolding insert_request_def guarded_insert MoneyRequestRecord_def
  by (simp add: insert_simps request_row_ok_def conj_ac)

lemma insert_escrow_accepts:
  "fst (insert_escrow r s) = Inr () \<longleftrightarrow> accepts (sql_tables s) SafePayEscrowRecord (escrow_values r)"
  unfolding insert_escrow_def guarded_insert SafePayEscrowRecord_def
  by (simp add: insert_simps escrow_row_ok_def) (simp only: conj_ac disj_ac)

lemma create_user_row_accepts:
  "fst (create_user_row u s) = Inr () \<longleftrightarrow> accepts (sql_tables s) UserRecord (user_values u)"
  unfolding create_user_row_def guarded_insert UserRecord_def
  by (simp add: insert_simps phone_format_class conj_ac)

text \<open>Some inserts build the row themselves.\<close>

lemma create_session_accepts:
  "fst (create_session sid uid h expires now agent ip s) = Inr ()
     \<longleftrightarrow> accepts (sql_tables s) SessionRecord (session_values
           \<lparr>s_id = sid, s_user_id = uid, s_refresh_token_hash = h, s_rotated_to_id = None, s_issued_at = now,
            s_expires_at = expires, s_revoked_at = None,
            s_user_agent = (case agent of None \<Rightarrow> None | Some a \<Rightarrow> if a = [] then None else Some (take 200 a)),
            s_ip_address = ip\<rparr>)"
  unfolding create_session_def guarded_insert SessionRecord_def
  by (simp add: insert_simps conj_ac)

lemma create_pool_row_accepts:
  "fst (create_pool_row pid sponsor acc cur now s) = Inr ()
     \<longleftrightarrow> accepts (sql_tables s) OverdraftPoolRecord (pool_values
           \<lparr>p_id = pid, p_sponsor = sponsor, p_account = acc, p_currency = cur, p_status = PoolActive,
            p_created_at = now, p_updated_at = now\<rparr>)"
  unfolding create_pool_row_def guarded_insert OverdraftPoolRecord_def
  by (simp add: insert_simps conj_ac)

lemma create_grant_row_accepts:
  "fst (create_grant_row gid pid beneficiary max_draw now s) = Inr ()
     \<longleftrightarrow> accepts (sql_tables s) OverdraftGrantRecord (grant_values
           \<lparr>g_id = gid, g_pool = pid, g_beneficiary = beneficiary, g_max_draw = max_draw, g_status = GrantActive,
            g_created_at = now, g_updated_at = now\<rparr>)"
  unfolding create_grant_row_def guarded_insert OverdraftGrantRecord_def
  by (simp add: insert_simps) (simp only: conj_ac)


section \<open>The repositories enforce the declared schema\<close>


end
