(* ===== verification/Logging.thy ===== *)
theory Logging
  imports Configuration Api
begin

text \<open>
  What reaches the log and which request it belongs to: the redacting filter and the collision-safe log
  records of \<open>platform_/observability/logging.py\<close>, and the request identifier that
  \<open>platform_/web/middleware.py\<close> assigns, hands to the routes and echoes to the client.  The fields of a
  record are JSON values; a tuple is logged as a list, as \<open>_redact\<close> returns it.
\<close>

section \<open>Redaction\<close>

text \<open>The alternatives of \<open>_SENSITIVE_KEYS\<close>; \<open>api[_-]?key\<close> stands for three words.\<close>

definition sensitive_words :: "string list" where
  "sensitive_words = [''password'', ''passwd'', ''pin'', ''secret'', ''token'', ''authorization'', ''cookie'',
     ''apikey'', ''api_key'', ''api-key'']"

definition sensitive_key :: "string \<Rightarrow> bool" where
  "sensitive_key k \<longleftrightarrow> list_ex (\<lambda>w. contains_str w (str_lower k)) sensitive_words"

definition REDACTED :: json where
  "REDACTED = JStr ''***redacted***''"

function redact :: "json \<Rightarrow> nat \<Rightarrow> json" where
  "redact value depth =
     (if 6 < depth then value
      else case value of
          JObj kvs \<Rightarrow> JObj (map (\<lambda>(k, v). (k, if sensitive_key k then REDACTED else redact v (Suc depth))) kvs)
        | JArr xs \<Rightarrow> JArr (map (\<lambda>v. redact v (Suc depth)) xs)
        | _ \<Rightarrow> value)"
  by pat_completeness auto
termination by (relation "measure (\<lambda>(value, depth). 7 - depth)") auto

declare redact.simps [simp del]

text \<open>A position in a nested value, and what stands there.\<close>

datatype step = Field string | Item nat

fun value_at :: "json \<Rightarrow> step list \<Rightarrow> json option" where
  "value_at v [] = Some v"
| "value_at (JObj kvs) (Field k # p) = Option.bind (map_of kvs k) (\<lambda>v. value_at v p)"
| "value_at (JArr xs) (Item i # p) = (if i < length xs then value_at (xs ! i) p else None)"
| "value_at _ _ = None"

lemma value_at_REDACTED: "value_at REDACTED p = (if p = [] then Some REDACTED else None)"
  by (cases p) (simp_all add: REDACTED_def)

lemma map_of_redact:
  "map_of (map (\<lambda>(k, v). (k, if sensitive_key k then REDACTED else redact v d)) kvs) k
     = map_option (\<lambda>v. if sensitive_key k then REDACTED else redact v d) (map_of kvs k)"
  by (induction kvs) auto

lemma redact_simps:
  "d \<le> 6 \<Longrightarrow> redact (JObj kvs) d
     = JObj (map (\<lambda>(k, v). (k, if sensitive_key k then REDACTED else redact v (Suc d))) kvs)"
  "d \<le> 6 \<Longrightarrow> redact (JArr xs) d = JArr (map (\<lambda>v. redact v (Suc d)) xs)"
  "6 < d \<Longrightarrow> redact v d = v"
  by (subst redact.simps; simp)+

lemma redact_scalar [simp]: "redact JNull d = JNull" "redact (JBool b) d = JBool b" "redact (JInt i) d = JInt i"
  "redact (JStr s) d = JStr s" "redact (JTime t) d = JTime t"
  by (subst redact.simps; simp)+

text \<open>Within the depth limit nothing under a sensitive key can be read, whatever the value looks like.\<close>

lemma redact_hides:
  assumes "sensitive_key k" "d + length p \<le> 6"
  shows "value_at (redact v d) (p @ Field k # q) \<in> {None, Some REDACTED}"
  using assms(2)
proof (induction p arbitrary: v d)
  case Nil
  with assms(1) show ?case
    by (cases v; cases "6 < d") (auto simp: redact_simps map_of_redact value_at_REDACTED bind_eq_None_conv
        split: Option.bind_splits)
next
  case (Cons x p)
  then have d: "d \<le> 6" "Suc d + length p \<le> 6" by simp_all
  note IH = Cons.IH [OF d(2)]
  show ?case
  proof (cases v)
    case (JArr xs)
    with d(1) IH show ?thesis by (cases x) (simp_all add: redact_simps)
  next
    case (JObj kvs)
    with d(1) IH show ?thesis
      by (cases x) (auto simp: redact_simps map_of_redact value_at_REDACTED split: Option.bind_splits)
  qed (cases x; simp)+
qed

text \<open>Nothing else is changed: a value with no sensitive key on the way to it is found where it was.\<close>

fun harmless :: "step \<Rightarrow> bool" where
  "harmless (Field k) = (\<not> sensitive_key k)"
| "harmless (Item i) = True"

lemma redact_keeps:
  assumes "list_all harmless p" "d + length p \<le> 7"
  shows "value_at (redact v d) p = map_option (\<lambda>x. redact x (d + length p)) (value_at v p)"
  using assms
proof (induction p arbitrary: v d)
  case (Cons x p)
  then have d: "d \<le> 6" "list_all harmless p" "Suc d + length p \<le> 7" by simp_all
  note IH = Cons.IH [OF d(2,3)]
  show ?case
  proof (cases v)
    case (JArr xs)
    with d(1) IH show ?thesis by (cases x) (simp_all add: redact_simps)
  next
    case (JObj kvs)
    with d(1) IH Cons.prems(1) show ?thesis
      by (cases x) (auto simp: redact_simps map_of_redact split: Option.bind_splits)
  qed (cases x; simp)+
qed simp


section \<open>Log records\<close>

definition RESERVED_RECORD_ATTRS :: "string list" where
  "RESERVED_RECORD_ATTRS =
     [''args'', ''asctime'', ''created'', ''exc_info'', ''exc_text'', ''filename'', ''funcName'', ''levelname'',
      ''levelno'', ''lineno'', ''module'', ''msecs'', ''msg'', ''message'', ''name'', ''pathname'', ''process'',
      ''processName'', ''relativeCreated'', ''stack_info'', ''taskName'', ''thread'', ''threadName'']"

text \<open>
  \<open>Logger.makeRecord\<close> adds the fields of \<open>extra\<close> to a new record one by one and raises on a name the
  record already has.
\<close>

fun add_extra :: "dict \<Rightarrow> dict \<Rightarrow> exn + dict" where
  "add_extra attrs [] = Inr attrs"
| "add_extra attrs ((k, v) # extra) =
     (if k \<in> {''message'', ''asctime''} \<or> dict_get attrs k \<noteq> None then Inl (PyError ''KeyError'')
      else add_extra (attrs @ [(k, v)]) extra)"

definition safe_key :: "string \<Rightarrow> string" where
  "safe_key k = (if k \<in> set RESERVED_RECORD_ATTRS then ''extra_'' @ k else k)"

text \<open>A dictionary comprehension: a later field replaces an earlier one of the same name.\<close>

definition safe_extra :: "dict \<Rightarrow> dict" where
  "safe_extra extra = fold (\<lambda>(k, v) d. dict_set d (safe_key k) v) extra []"

definition make_record :: "dict \<Rightarrow> dict \<Rightarrow> exn + dict" where
  "make_record attrs extra = add_extra attrs (safe_extra extra)"

definition filter_attribute :: "string \<Rightarrow> json \<Rightarrow> json" where
  "filter_attribute k v =
     (if k \<in> set RESERVED_RECORD_ATTRS then v
      else if sensitive_key k then REDACTED
      else case v of JObj _ \<Rightarrow> redact v 0 | JArr _ \<Rightarrow> redact v 0 | _ \<Rightarrow> v)"

definition request_context_filter :: "string option \<Rightarrow> dict \<Rightarrow> dict" where
  "request_context_filter request_id attrs =
     map (\<lambda>(k, v). (k, filter_attribute k v)) (dict_set attrs ''request_id'' (opt_json JStr request_id))"

text \<open>A logging call: the record is made from the attributes of \<open>LogRecord\<close> and the caller's fields, then filtered.\<close>

definition log_call :: "string option \<Rightarrow> dict \<Rightarrow> dict \<Rightarrow> exn + dict" where
  "log_call request_id attrs extra =
     chk_bind (make_record attrs extra) (\<lambda>r. Inr (request_context_filter request_id r))"

lemma filter_attribute_redact:
  assumes "k \<notin> set RESERVED_RECORD_ATTRS" "\<not> sensitive_key k"
  shows "filter_attribute k = (\<lambda>v. redact v 0)"
proof
  fix v
  show "filter_attribute k v = redact v 0" using assms by (cases v) (simp_all add: filter_attribute_def)
qed

lemma dict_set_keys: "set (map fst (dict_set d k v)) = insert k (set (map fst d))"
  "distinct (map fst d) \<Longrightarrow> distinct (map fst (dict_set d k v))"
proof -
  show keys: "set (map fst (dict_set d k v)) = insert k (set (map fst d))" for d
  proof (induction d)
    case (Cons x d)
    then show ?case by (cases x) (simp add: insert_commute)
  qed simp
  show "distinct (map fst d) \<Longrightarrow> distinct (map fst (dict_set d k v))"
  proof (induction d)
    case (Cons x d)
    then show ?case using keys [of d] by (cases x) auto
  qed simp
qed

lemma safe_key_free: "safe_key k \<notin> set RESERVED_RECORD_ATTRS"
proof -
  have "list_all (\<lambda>k. ''extra_'' @ k \<notin> set RESERVED_RECORD_ATTRS) RESERVED_RECORD_ATTRS" by code_simp
  then show ?thesis by (auto simp: safe_key_def list_all_iff)
qed

lemma safe_extra_keys:
  "distinct (map fst (safe_extra extra))" "set (map fst (safe_extra extra)) \<inter> set RESERVED_RECORD_ATTRS = {}"
proof -
  have "distinct (map fst d) \<Longrightarrow> set (map fst d) \<inter> set RESERVED_RECORD_ATTRS = {} \<Longrightarrow>
      distinct (map fst (fold (\<lambda>(k, v) d. dict_set d (safe_key k) v) extra d))
      \<and> set (map fst (fold (\<lambda>(k, v) d. dict_set d (safe_key k) v) extra d)) \<inter> set RESERVED_RECORD_ATTRS = {}" for d
  proof (induction extra arbitrary: d)
    case (Cons x extra)
    obtain k v where x: "x = (k, v)" by fastforce
    have "distinct (map fst (dict_set d (safe_key k) v))" using Cons.prems(1) by (rule dict_set_keys(2))
    moreover have "set (map fst (dict_set d (safe_key k) v)) \<inter> set RESERVED_RECORD_ATTRS = {}"
      using Cons.prems(2) safe_key_free unfolding dict_set_keys(1) by auto
    ultimately show ?case using Cons.IH x by simp
  qed simp
  from this [of "[]"] show "distinct (map fst (safe_extra extra))"
    "set (map fst (safe_extra extra)) \<inter> set RESERVED_RECORD_ATTRS = {}"
    by (simp_all add: safe_extra_def)
qed

lemma add_extra_fresh:
  assumes "distinct (map fst extra)" "set (map fst extra) \<inter> insert ''message'' (insert ''asctime'' (set (map fst attrs))) = {}"
  shows "add_extra attrs extra = Inr (attrs @ extra)"
  using assms
proof (induction extra arbitrary: attrs)
  case (Cons x extra)
  obtain k v where x: "x = (k, v)" by fastforce
  have "dict_get attrs k = None" using Cons.prems(2) by (auto simp: x dict_get_def map_of_eq_None_iff)
  moreover have "add_extra (attrs @ [(k, v)]) extra = Inr ((attrs @ [(k, v)]) @ extra)"
    using Cons.prems by (intro Cons.IH) (auto simp: x)
  ultimately show ?case using Cons.prems(2) by (auto simp: x)
qed simp

lemma log_call_run:
  assumes "set (map fst attrs) \<subseteq> set RESERVED_RECORD_ATTRS"
  shows "log_call request_id attrs extra = Inr (request_context_filter request_id (attrs @ safe_extra extra))"
proof -
  have "''message'' \<in> set RESERVED_RECORD_ATTRS" "''asctime'' \<in> set RESERVED_RECORD_ATTRS"
    by (simp_all add: RESERVED_RECORD_ATTRS_def)
  then have "add_extra attrs (safe_extra extra) = Inr (attrs @ safe_extra extra)"
    using assms safe_extra_keys [of extra] by (intro add_extra_fresh) blast+
  then show ?thesis by (simp add: log_call_def make_record_def chk_bind_def)
qed

lemma filtered_get:
  "dict_get (request_context_filter request_id attrs) k =
     (if k = ''request_id'' then Some (opt_json JStr request_id) else map_option (filter_attribute k) (dict_get attrs k))"
proof -
  have "map_of (map (\<lambda>(k, v). (k, filter_attribute k v)) d) k = map_option (filter_attribute k) (map_of d k)" for d
    by (induction d) auto
  moreover have "filter_attribute ''request_id'' (opt_json JStr request_id) = opt_json JStr request_id"
  proof -
    have "\<not> sensitive_key ''request_id''" "''request_id'' \<notin> set RESERVED_RECORD_ATTRS" by code_simp+
    then show ?thesis by (cases request_id) (simp_all add: filter_attribute_def opt_json_def)
  qed
  ultimately show ?thesis
    using dict_get_set [of attrs "''request_id''" "opt_json JStr request_id" k]
    by (auto simp: request_context_filter_def dict_get_def)
qed

text \<open>
  C36: logging neither fails nor leaks.  Whatever fields a caller passes, names of the record included, the
  call does not raise; the line carries the identifier of the request and the attributes of the record
  unchanged; no field whose name is sensitive shows its value, at the top or inside nested objects and lists
  down to seven levels.
\<close>

theorem log_hides_sensitive:
  assumes "set (map fst attrs) \<subseteq> set RESERVED_RECORD_ATTRS"
  shows "\<exists>line. log_call request_id attrs extra = Inr line
    \<and> dict_get line ''request_id'' = Some (opt_json JStr request_id)
    \<and> (\<forall>k. k \<in> set RESERVED_RECORD_ATTRS \<longrightarrow> dict_get line k = dict_get attrs k)
    \<and> (\<forall>k p j q. k \<notin> set RESERVED_RECORD_ATTRS \<and> k \<noteq> ''request_id'' \<and> length p \<le> 6
         \<and> (sensitive_key k \<or> sensitive_key j)
         \<longrightarrow> value_at (JObj line) (Field k # p @ Field j # q) \<in> {None, Some REDACTED}
           \<and> (sensitive_key k \<longrightarrow> dict_get line k \<in> {None, Some REDACTED}))"
proof -
  let ?line = "request_context_filter request_id (attrs @ safe_extra extra)"
  have reserved: "dict_get ?line k = dict_get attrs k" if "k \<in> set RESERVED_RECORD_ATTRS" for k
  proof -
    have "k \<notin> set (map fst (safe_extra extra))" using that safe_extra_keys(2) [of extra] by blast
    then have "map_of (safe_extra extra) k = None" by (simp add: map_of_eq_None_iff)
    then have "dict_get (attrs @ safe_extra extra) k = dict_get attrs k"
      by (simp add: dict_get_def map_add_def split: option.splits)
    moreover have "k \<noteq> ''request_id''" using that by (auto simp: RESERVED_RECORD_ATTRS_def)
    moreover have "filter_attribute k = (\<lambda>v. v)" using that by (simp add: filter_attribute_def fun_eq_iff)
    ultimately show ?thesis by (simp add: filtered_get option.map_ident)
  qed
  have top: "dict_get ?line k \<in> {None, Some REDACTED}"
    if "sensitive_key k" "k \<notin> set RESERVED_RECORD_ATTRS" "k \<noteq> ''request_id''" for k
    using that by (cases "dict_get (attrs @ safe_extra extra) k") (simp_all add: filtered_get filter_attribute_def)
  have nested: "value_at (JObj ?line) (Field k # p @ Field j # q) \<in> {None, Some REDACTED}"
    if "k \<notin> set RESERVED_RECORD_ATTRS" "k \<noteq> ''request_id''" "length p \<le> 6" "sensitive_key k \<or> sensitive_key j" for k p j q
  proof (cases "sensitive_key k")
    case True
    with top that show ?thesis
      by (fastforce simp: dict_get_def value_at_REDACTED split: Option.bind_splits)
  next
    case False
    then have "map_of ?line k = map_option (\<lambda>v. redact v 0) (map_of (attrs @ safe_extra extra) k)"
      using filtered_get [of request_id "attrs @ safe_extra extra" k] filter_attribute_redact [OF that(1) False] that(2)
      by (simp add: dict_get_def)
    with redact_hides [of j 0 p _ q] that(3,4) False show ?thesis
      by (auto split: Option.bind_splits)
  qed
  have "dict_get ?line ''request_id'' = Some (opt_json JStr request_id)" by (simp add: filtered_get)
  with log_call_run [OF assms] reserved top nested show ?thesis by blast
qed

theorem log_hides_sensitive_witness:
  "\<exists>line. log_call (Some ''R1'') [(''msg'', JStr ''m'')]
       [(''message'', JStr ''x''), (''body'', JObj [(''pin'', JStr ''1234'')])] = Inr line
     \<and> dict_get line ''request_id'' = Some (JStr ''R1'') \<and> dict_get line ''msg'' = Some (JStr ''m'')
     \<and> value_at (JObj line) [Field ''body'', Field ''pin''] \<in> {None, Some REDACTED}"
proof -
  have attrs: "set (map fst [(''msg'', JStr ''m'')]) \<subseteq> set RESERVED_RECORD_ATTRS"
    "''msg'' \<in> set RESERVED_RECORD_ATTRS" "''body'' \<notin> set RESERVED_RECORD_ATTRS"
    by (simp_all add: RESERVED_RECORD_ATTRS_def)
  have "sensitive_key ''pin''" by code_simp
  from log_hides_sensitive [OF attrs(1), where request_id = "Some ''R1''"
      and extra = "[(''message'', JStr ''x''), (''body'', JObj [(''pin'', JStr ''1234'')])]"]
  obtain line where line: "log_call (Some ''R1'') [(''msg'', JStr ''m'')]
       [(''message'', JStr ''x''), (''body'', JObj [(''pin'', JStr ''1234'')])] = Inr line"
    "dict_get line ''request_id'' = Some (opt_json JStr (Some ''R1''))"
    "\<forall>k. k \<in> set RESERVED_RECORD_ATTRS \<longrightarrow> dict_get line k = dict_get [(''msg'', JStr ''m'')] k"
    "\<forall>k p j q. k \<notin> set RESERVED_RECORD_ATTRS \<and> k \<noteq> ''request_id'' \<and> length p \<le> 6 \<and> (sensitive_key k \<or> sensitive_key j)
         \<longrightarrow> value_at (JObj line) (Field k # p @ Field j # q) \<in> {None, Some REDACTED}
           \<and> (sensitive_key k \<longrightarrow> dict_get line k \<in> {None, Some REDACTED})" by blast
  from line(4) [rule_format, of "''body''" "[]" "''pin''" "[]"] \<open>sensitive_key ''pin''\<close> attrs(3)
  have "value_at (JObj line) [Field ''body'', Field ''pin''] \<in> {None, Some REDACTED}" by simp
  moreover have "dict_get line ''msg'' = Some (JStr ''m'')" using line(3) attrs(2) by (simp add: dict_get_def)
  ultimately show ?thesis using line(1,2) by (simp add: opt_json_def)
qed

text \<open>Below the depth limit a value passes as it is.\<close>

lemma deep_values_pass: "value_at (redact v 0) (replicate 7 (Item 0)) = value_at v (replicate 7 (Item 0))"
proof -
  have "value_at (redact v 0) (replicate 7 (Item 0))
      = map_option (\<lambda>x. redact x (0 + length (replicate 7 (Item 0)))) (value_at v (replicate 7 (Item 0)))"
    by (rule redact_keeps) (simp_all add: list_all_iff)
  then show ?thesis by (simp add: redact_simps(3) option.map_ident)
qed


section \<open>The request identifier\<close>

text \<open>\<open>request.headers.get("X-Request-Id") or _new_request_id()\<close>.\<close>

definition assign_request_id :: "string option \<Rightarrow> exn + string \<Rightarrow> exn + string" where
  "assign_request_id header fresh =
     (case header of Some h \<Rightarrow> if h \<noteq> [] then Inr h else fresh | None \<Rightarrow> fresh)"

text \<open>
  The handlers registered for \<open>AppError\<close> and \<open>RequestValidationError\<close> answer inside the middleware; the
  one for \<open>Exception\<close> is run by Starlette outside of it, so that the middleware sees the exception, logs it
  and raises it again without a response to put the header on.
\<close>

fun handled_inside :: "exn \<Rightarrow> bool" where
  "handled_inside (AppError c details) = True"
| "handled_inside e = (e = PyError ''RequestValidationError'')"

text \<open>What \<open>RequestContextMiddleware\<close> logs about a request.\<close>

datatype access_log = RequestCompleted int | RequestFailed

definition request_context ::
  "env \<Rightarrow> faults \<Rightarrow> http_request \<Rightarrow> api_call \<Rightarrow> rate_verdict \<Rightarrow> db
   \<Rightarrow> (response \<times> string option \<times> access_log) \<times> db" where
  "request_context E fs q call verdict s =
     (case resolve (verdict_check verdict) (\<lambda>_. route E fs q call) s of
        (Inr r, t) \<Rightarrow> ((r, Some (h_request_id q), RequestCompleted (fst r)), t)
      | (Inl e, t) \<Rightarrow>
          (let r = exception_response (h_request_id q) e in
           if handled_inside e then ((r, Some (h_request_id q), RequestCompleted (fst r)), t)
           else ((r, None, RequestFailed), t)))"

text \<open>The middleware adds the header and the log line, and changes nothing of the reply or the database.\<close>

lemma request_context_respond:
  "request_context E fs q call verdict s = (out, t) \<Longrightarrow> respond E fs q call verdict s = (fst out, t)"
  by (auto simp: request_context_def respond_def Let_def split: prod.splits sum.splits if_splits)

text \<open>The identifier is echoed on every reply below 500; a reply to an unforeseen exception lacks the header.\<close>

lemma unhandled_is_500: "\<not> handled_inside e \<Longrightarrow> fst (exception_response rid e) = 500"
  by (cases e) (auto simp: error_response_def)

lemma request_id_echoed:
  assumes "request_context E fs q call verdict s = ((r, header, entry), t)"
  shows "header = Some (h_request_id q) \<and> entry = RequestCompleted (fst r) \<or> header = None \<and> fst r = 500 \<and> entry = RequestFailed"
  using assms unhandled_is_500
  by (auto simp: request_context_def Let_def split: prod.splits sum.splits if_splits)

end
