(* ===== verification/Broker.thy ===== *)
theory Broker
  imports Messaging Configuration
begin

text \<open>
  The broker adapters of \<open>platform_/messaging/publisher.py\<close> and the choice between them in
  \<open>apps/outbox_relay/main.py\<close>.  The AMQP client is a parameter: whether an open channel is still open at
  an attempt, whether a new connection can be made, and how the broker answers a publication.  What the
  adapter makes of it is the sequence of outcomes the relay is proved correct for.
\<close>

section \<open>RabbitMQ\<close>

text \<open>A publication that raises \<open>AMQPError\<close> or \<open>OSError\<close> may have been stored before its answer was lost.\<close>

datatype amqp_reply = Acknowledged | AmqpFailure string bool

record amqp_client =
  still_open :: "nat \<Rightarrow> bool"
  connect_error :: "nat \<Rightarrow> string option"
  amqp_reply_at :: "nat \<Rightarrow> amqp_reply"

text \<open>The adapter holds a channel or none; it counts the connections it made.\<close>

record rabbitmq_broker =
  has_channel :: bool
  connections :: nat

definition RabbitMqBroker :: rabbitmq_broker where
  "RabbitMqBroker = \<lparr>has_channel = False, connections = 0\<rparr>"

definition ensure_channel :: "amqp_client \<Rightarrow> nat \<Rightarrow> rabbitmq_broker \<Rightarrow> (string + unit) \<times> rabbitmq_broker" where
  "ensure_channel C n b =
     (if has_channel b \<and> still_open C n then (Inr (), b)
      else case connect_error C n of
          Some e \<Rightarrow> (Inl e, b)
        | None \<Rightarrow> (Inr (), b\<lparr>has_channel := True, connections := Suc (connections b)\<rparr>))"

definition rabbitmq_publish :: "amqp_client \<Rightarrow> nat \<Rightarrow> rabbitmq_broker \<Rightarrow> publish_outcome \<times> rabbitmq_broker" where
  "rabbitmq_publish C n b =
     (case ensure_channel C n b of
        (Inl e, b') \<Rightarrow> (Refused e, b'\<lparr>has_channel := False\<rparr>)
      | (Inr _, b') \<Rightarrow>
          (case amqp_reply_at C n of
             Acknowledged \<Rightarrow> (Confirmed, b')
           | AmqpFailure e stored \<Rightarrow> ((if stored then Unconfirmed e else Refused e), b'\<lparr>has_channel := False\<rparr>)))"

definition close_broker :: "rabbitmq_broker \<Rightarrow> rabbitmq_broker" where
  "close_broker b = b\<lparr>has_channel := False\<rparr>"

text \<open>The adapter over the attempts of a relay.\<close>

fun broker_at :: "amqp_client \<Rightarrow> nat \<Rightarrow> rabbitmq_broker" where
  "broker_at C 0 = RabbitMqBroker"
| "broker_at C (Suc n) = snd (rabbitmq_publish C n (broker_at C n))"

definition rabbitmq_outcome :: "amqp_client \<Rightarrow> nat \<Rightarrow> publish_outcome" where
  "rabbitmq_outcome C n = fst (rabbitmq_publish C n (broker_at C n))"

text \<open>\<open>NullBroker.publish\<close> only logs, and returns.\<close>

definition null_outcome :: "nat \<Rightarrow> publish_outcome" where
  "null_outcome n = Confirmed"

definition relay_broker :: "settings \<Rightarrow> amqp_client \<Rightarrow> nat \<Rightarrow> publish_outcome" where
  "relay_broker s C = (if cfg_rabbitmq_url s \<noteq> [] then rabbitmq_outcome C else null_outcome)"

text \<open>A publication is confirmed only when the broker acknowledged it, and a confirmed one keeps the channel.\<close>

lemma confirmed_acknowledged:
  assumes "rabbitmq_outcome C n = Confirmed"
  shows "amqp_reply_at C n = Acknowledged" "has_channel (broker_at C (Suc n))"
  using assms
  by (auto simp: rabbitmq_outcome_def rabbitmq_publish_def ensure_channel_def
      split: if_splits option.splits amqp_reply.splits prod.splits sum.splits)

text \<open>After a failure the channel is gone, so the next attempt connects anew.\<close>

lemma failure_drops_channel:
  "rabbitmq_outcome C n \<noteq> Confirmed \<Longrightarrow> \<not> has_channel (broker_at C (Suc n))"
  by (auto simp: rabbitmq_outcome_def rabbitmq_publish_def ensure_channel_def
      split: if_splits option.splits amqp_reply.splits prod.splits sum.splits)

lemma reconnects_after_failure:
  assumes "rabbitmq_outcome C n \<noteq> Confirmed" "connect_error C (Suc n) = None"
  shows "connections (broker_at C (Suc (Suc n))) = Suc (connections (broker_at C (Suc n)))"
proof -
  have "\<not> has_channel (broker_at C (Suc n))" using failure_drops_channel [OF assms(1)] .
  with assms(2) show ?thesis
    by (simp only: broker_at.simps(2) [of C "Suc n"])
      (simp add: rabbitmq_publish_def ensure_channel_def split: amqp_reply.splits)
qed

text \<open>A healthy connection is used for every publication: one connection is made in all.\<close>

lemma one_connection:
  assumes "\<And>k. k < n \<Longrightarrow> still_open C k \<and> connect_error C k = None \<and> amqp_reply_at C k = Acknowledged"
  shows "\<And>k. k < n \<Longrightarrow> rabbitmq_outcome C k = Confirmed" "n \<noteq> 0 \<Longrightarrow> connections (broker_at C n) = 1"
proof -
  have state: "k \<le> n \<Longrightarrow> broker_at C k = (if k = 0 then RabbitMqBroker else \<lparr>has_channel = True, connections = 1\<rparr>)" for k
    by (induction k) (auto simp: assms rabbitmq_publish_def ensure_channel_def RabbitMqBroker_def)
  then show "n \<noteq> 0 \<Longrightarrow> connections (broker_at C n) = 1" by simp
  show "rabbitmq_outcome C k = Confirmed" if "k < n" for k
    using state [of k] assms [OF that] that
    by (auto simp: rabbitmq_outcome_def rabbitmq_publish_def ensure_channel_def RabbitMqBroker_def)
qed


section \<open>The relay process\<close>

text \<open>An iteration of \<open>main\<close> with the settings of the deployment.\<close>

definition relay_iteration :: "settings \<Rightarrow> env \<Rightarrow> amqp_client \<Rightarrow> fault option \<Rightarrow> relay_world \<Rightarrow> relay_world" where
  "relay_iteration s E C = relay_poll E (relay_broker s C) (nat (cfg_outbox_batch_size s)) (nat (cfg_outbox_max_attempts s))"

lemma accepted_relay:
  assumes "load_settings s = Inr c"
  shows "0 < nat (cfg_outbox_batch_size c)" "0 < nat (cfg_outbox_max_attempts c)"
  using assms by (simp_all add: load_settings_ok field_checks_def)

text \<open>
  C28: the outbox drains in every deployment.  With settings the program accepts, whatever the AMQP client
  does at each attempt (channels that close, connections that fail, refusals, lost acknowledgements), as long
  as the clock advances and the iterations commit, every event ends up published or dead-lettered after
  finitely many iterations of the relay.
\<close>

theorem deployed_relay_drains:
  assumes "load_settings raw = Inr s" "clock_advances E" "keys_distinct o_id (outbox_events (w_db w))"
  shows "\<exists>n. \<forall>r \<in> set (outbox_events (w_db ((relay_iteration s E C None ^^ n) w))).
    o_published_at r \<noteq> None \<or> o_dead_lettered_at r \<noteq> None"
  using relay_drains [OF assms(2) accepted_relay(1) [OF assms(1)] assms(3)] by (simp add: relay_iteration_def)

theorem deployed_relay_drains_witness:
  "\<exists>n. \<forall>r \<in> set (outbox_events (w_db ((relay_iteration demo_settings demo_env
       \<lparr>still_open = (\<lambda>_. False), connect_error = (\<lambda>_. Some ''down''), amqp_reply_at = (\<lambda>_. Acknowledged)\<rparr> None ^^ n) demo_relay))).
    o_published_at r \<noteq> None \<or> o_dead_lettered_at r \<noteq> None"
proof (rule deployed_relay_drains [OF demo_configured(1) demo_clock_advances])
  show "keys_distinct o_id (outbox demo_relay)" by (simp add: demo_relay_def demo_event_def)
qed

end
