(* ===== verification/Schemas.thy ===== *)
theory Schemas
  imports Api
begin

text \<open>
  The request models of \<open>apps/api/schemas.py\<close>: from the JSON body of a request to the values a route
  receives.  A model is a list of fields; \<open>StrictModel\<close> forbids unknown fields, converts nothing and strips
  white space from strings before their constraints are checked.
\<close>

section \<open>Strict models\<close>

datatype field_type =
    Pattern "string \<Rightarrow> bool"
  | Length nat nat
  | Range int int
  | Literal "string list"
  | Bool
  | Optional field_type

datatype model_field = MField (mf_name: string) (mf_type: field_type) (mf_default: "json option")

text \<open>The white space of ASCII.\<close>

definition is_white :: "char \<Rightarrow> bool" where
  "is_white c \<longleftrightarrow> of_char c \<in> {9, 10, 11, 12, 13, 32 :: nat}"

definition trim :: "string \<Rightarrow> string" where
  "trim s = rev (dropWhile is_white (rev (dropWhile is_white s)))"

text \<open>The value of a field after validation, \<open>None\<close> when it is refused.\<close>

fun validate_field :: "field_type \<Rightarrow> json \<Rightarrow> json option" where
  "validate_field (Pattern P) (JStr s) = (if P (trim s) then Some (JStr (trim s)) else None)"
| "validate_field (Length lo hi) (JStr s) = (if valid_length lo hi (trim s) then Some (JStr (trim s)) else None)"
| "validate_field (Range lo hi) (JInt n) = (if lo \<le> n \<and> n \<le> hi then Some (JInt n) else None)"
| "validate_field (Literal xs) (JStr s) = (if s \<in> set xs then Some (JStr s) else None)"
| "validate_field Bool (JBool b) = Some (JBool b)"
| "validate_field (Optional f) v = (if v = JNull then Some JNull else validate_field f v)"
| "validate_field _ _ = None"

definition validate_entry :: "dict \<Rightarrow> model_field \<Rightarrow> (string \<times> json) option" where
  "validate_entry body f =
     map_option (\<lambda>v. (mf_name f, v))
       (case dict_get body (mf_name f) of Some v \<Rightarrow> validate_field (mf_type f) v | None \<Rightarrow> mf_default f)"

definition validate_model :: "model_field list \<Rightarrow> json \<Rightarrow> dict option" where
  "validate_model fs body =
     (case body of
        JObj kvs \<Rightarrow>
          if set (map fst kvs) \<subseteq> set (map mf_name fs) then those (map (validate_entry kvs) fs) else None
      | _ \<Rightarrow> None)"

lemma unknown_field_refused: "k \<notin> set (map mf_name fs) \<Longrightarrow> validate_model fs (JObj ((k, v) # kvs)) = None"
  by (auto simp: validate_model_def)

text \<open>The order of the fields in the body does not matter.\<close>

lemma validate_model_order:
  assumes "set (map fst a) = set (map fst b)" "\<And>k. dict_get a k = dict_get b k"
  shows "validate_model fs (JObj a) = validate_model fs (JObj b)"
proof -
  have "validate_entry a = validate_entry b" by (simp add: validate_entry_def assms(2) fun_eq_iff)
  with assms(1) show ?thesis by (simp add: validate_model_def)
qed


section \<open>The models\<close>

definition Phone :: field_type where
  "Phone = Pattern valid_phone"

definition Pin :: field_type where
  "Pin = Pattern valid_pin"

definition AmountMinor :: field_type where
  "AmountMinor = Range 1 1000000000000"

definition Note :: field_type where
  "Note = Optional (Length 0 200)"

definition CurrencyField :: model_field where
  "CurrencyField = MField ''currency'' (Literal [''BDT'']) (Some (JStr ''BDT''))"

definition RegisterRequest :: "model_field list" where
  "RegisterRequest = [MField ''phone'' Phone None, MField ''displayName'' (Length 2 120) None,
     MField ''password'' (Length 8 128) None, MField ''pin'' Pin None]"

definition LoginRequest :: "model_field list" where
  "LoginRequest = [MField ''phone'' Phone None, MField ''password'' (Length 1 128) None]"

definition RefreshRequest :: "model_field list" where
  "RefreshRequest = [MField ''refreshToken'' (Length 10 512) None]"

definition LogoutRequest :: "model_field list" where
  "LogoutRequest = [MField ''refreshToken'' (Length 10 512) None]"

definition TransferRequest :: "model_field list" where
  "TransferRequest = [MField ''recipientPhone'' Phone None, MField ''amountMinor'' AmountMinor None,
     MField ''pin'' Pin None, MField ''note'' Note (Some JNull), CurrencyField]"

definition CreateSafePayRequest :: "model_field list" where
  "CreateSafePayRequest = [MField ''sellerPhone'' Phone None, MField ''amountMinor'' AmountMinor None,
     MField ''pin'' Pin None, MField ''description'' Note (Some JNull), CurrencyField]"

definition ShipSafePayRequest :: "model_field list" where
  "ShipSafePayRequest = [MField ''courier'' (Pattern valid_courier) None, MField ''trackingNumber'' (Length 4 64) None]"

definition ReleaseSafePayRequest :: "model_field list" where
  "ReleaseSafePayRequest = [MField ''deliveryCode'' (Pattern valid_delivery_code) None]"

definition DisputeSafePayRequest :: "model_field list" where
  "DisputeSafePayRequest = [MField ''reason'' (Length 10 500) None]"

definition CourierDeliveryWebhook :: "model_field list" where
  "CourierDeliveryWebhook = [MField ''eventId'' (Length 8 128) None, MField ''trackingNumber'' (Length 4 64) None,
     MField ''status'' (Literal [''DELIVERED'']) None, MField ''releaseImmediately'' Bool (Some (JBool True))]"

definition ResolveSafePayDispute :: "model_field list" where
  "ResolveSafePayDispute = [MField ''decision'' (Literal [''RELEASE'', ''REFUND'']) None,
     MField ''note'' (Length 10 500) None, MField ''banBuyer'' Bool (Some (JBool False))]"

definition CreateOverdraftPool :: "model_field list" where
  "CreateOverdraftPool = [MField ''amountMinor'' AmountMinor None, MField ''pin'' Pin None, CurrencyField]"

definition FundOverdraftPool :: "model_field list" where
  "FundOverdraftPool = CreateOverdraftPool"

definition CreateOverdraftGrant :: "model_field list" where
  "CreateOverdraftGrant = [MField ''beneficiaryPhone'' Phone None, MField ''maxDrawMinor'' (Range 1 50000) None,
     MField ''pin'' Pin None]"

definition CreateMoneyRequest :: "model_field list" where
  "CreateMoneyRequest = [MField ''payerPhone'' Phone None, MField ''amountMinor'' AmountMinor None,
     MField ''note'' Note (Some JNull), CurrencyField]"

definition AcceptMoneyRequest :: "model_field list" where
  "AcceptMoneyRequest = [MField ''pin'' Pin None]"

lemmas model_defs = RegisterRequest_def LoginRequest_def RefreshRequest_def LogoutRequest_def TransferRequest_def
  CreateSafePayRequest_def ShipSafePayRequest_def ReleaseSafePayRequest_def DisputeSafePayRequest_def
  CourierDeliveryWebhook_def ResolveSafePayDispute_def CreateOverdraftPool_def FundOverdraftPool_def
  CreateOverdraftGrant_def CreateMoneyRequest_def AcceptMoneyRequest_def CurrencyField_def Phone_def Pin_def
  AmountMinor_def Note_def


section \<open>Models and guards\<close>

text \<open>
  The guards the routes evaluate on their arguments are the constraints of the models: a body is accepted
  exactly when the guard holds of its stripped values, and those values are what the route receives.
\<close>

lemma register_model:
  "validate_model RegisterRequest (JObj [(''phone'', JStr p), (''displayName'', JStr d), (''password'', JStr w), (''pin'', JStr n)])
     = (if valid_phone (trim p) \<and> valid_length 2 120 (trim d) \<and> valid_length 8 128 (trim w) \<and> valid_pin (trim n)
        then Some [(''phone'', JStr (trim p)), (''displayName'', JStr (trim d)), (''password'', JStr (trim w)),
                   (''pin'', JStr (trim n))]
        else None)"
  by (simp add: model_defs validate_model_def validate_entry_def dict_get_def)

lemma transfer_model:
  "validate_model TransferRequest (JObj [(''recipientPhone'', JStr p), (''amountMinor'', JInt a), (''pin'', JStr n),
       (''note'', opt_json JStr t), (''currency'', JStr c)])
     = (if valid_phone (trim p) \<and> valid_amount a \<and> valid_pin (trim n) \<and> valid_note (map_option trim t) \<and> c = ''BDT''
        then Some [(''recipientPhone'', JStr (trim p)), (''amountMinor'', JInt a), (''pin'', JStr (trim n)),
                   (''note'', opt_json JStr (map_option trim t)), (''currency'', JStr ''BDT'')]
        else None)"
  by (cases t) (auto simp: model_defs validate_model_def validate_entry_def dict_get_def opt_json_def valid_note_def
      valid_length_def valid_amount_def)

lemma grant_model:
  "validate_model CreateOverdraftGrant (JObj [(''beneficiaryPhone'', JStr p), (''maxDrawMinor'', JInt m), (''pin'', JStr n)])
     = (if valid_phone (trim p) \<and> (0 < m \<and> m \<le> 50000) \<and> valid_pin (trim n)
        then Some [(''beneficiaryPhone'', JStr (trim p)), (''maxDrawMinor'', JInt m), (''pin'', JStr (trim n))]
        else None)"
  by (auto simp: model_defs validate_model_def validate_entry_def dict_get_def)

lemma webhook_model:
  "validate_model CourierDeliveryWebhook (JObj [(''eventId'', JStr e), (''trackingNumber'', JStr t), (''status'', JStr st),
       (''releaseImmediately'', JBool b)])
     = (if valid_length 8 128 (trim e) \<and> valid_length 4 64 (trim t) \<and> st = ''DELIVERED''
        then Some [(''eventId'', JStr (trim e)), (''trackingNumber'', JStr (trim t)), (''status'', JStr ''DELIVERED''),
                   (''releaseImmediately'', JBool b)]
        else None)"
  by (auto simp: model_defs validate_model_def validate_entry_def dict_get_def)

text \<open>Money is an integer: text and truth values are refused where an amount is expected.\<close>

lemma amount_is_integer: "validate_field AmountMinor v \<noteq> None \<Longrightarrow> \<exists>n. v = JInt n \<and> valid_amount n"
  by (cases v) (auto simp: AmountMinor_def valid_amount_def split: if_splits)

end
