(* ===== verification/Spec2Isabelle.thy ===== *)
theory Spec2Isabelle
  imports Latch Seed Settlement Schema_Match Downgrade Schema_Refinement Logging Broker Schemas
begin

text \<open>
  \<^bold>\<open>Verification of the money movement platform.\<close>

  The program under \<open>src/backend\<close> is a payment service: users hold accounts in minor units of a currency,
  send money, request it, hold it in escrow and lend it through overdraft pools.  Its parts are the kernel
  (\<open>platform_/kernel\<close>), the financial core with its double-entry ledger (\<open>modules/financial_core\<close>), four
  feature modules built on it (money requests, SafePay escrow, overdraft, identity), a reconciliation
  report, the HTTP API (\<open>apps/api\<close>), three worker processes (\<open>apps/scheduler_worker\<close>,
  \<open>apps/outbox_relay\<close>, \<open>apps/notification_worker\<close>), the Alembic migrations and a demo seed.  All money
  moves through one use case, \<open>TransferUseCase.execute\<close>; everything else builds commands for it.  The
  processes share one PostgreSQL database and nothing else; events leave it through the outbox table.

  \<^bold>\<open>How the program is modelled.\<close>  A function that works on a SQLAlchemy session is a function from the
  session to an outcome and the session it leaves, \<open>'a tx = db \<Rightarrow> (exn + 'a) \<times> db\<close>; a raise is \<open>Inl\<close>.  The
  session is kept on the exceptional path, because the code catches some exceptions and keeps what was
  written; a rollback is explicit, in \<open>transaction\<close> and in the savepoint \<open>nested\<close>.  A table is the list of
  its rows, a statement an operation on that list, a constraint a named condition evaluated before the rows
  are written.  Clocks, entropy, digests, argon2, JWT, Redis, the AMQP client and the faults of the database
  are parameters: fields of the record \<open>env\<close> or arguments.  Every call of a clock or of an entropy source
  takes the next element of a sequence, counted by \<open>tick\<close>.

  \<^bold>\<open>Theories and sources.\<close>
    \<^item> \<open>Prelude\<close>: the monad, SQL statements on lists of rows, the fact collections, the locale
      \<open>session_preorder\<close> of relations on sessions that every handler respects.
    \<^item> \<open>Errors\<close>, \<open>Money\<close>, \<open>Digits\<close>, \<open>Ids\<close>, \<open>Json\<close>: \<open>platform_/kernel/errors.py\<close>, \<open>money.py\<close>, \<open>ids.py\<close> and the
      canonical JSON of \<open>application/idempotency.py\<close>.
    \<^item> \<open>Account\<close>, \<open>Ledger\<close>, \<open>Policies\<close>: the domain layer of the financial core.
    \<^item> \<open>Database\<close>: the row types, the session \<open>db\<close>, the parameters \<open>env\<close>.  \<open>Repositories\<close>: the SQL adapters;
      \<open>Repository_Facts\<close>: what each does when it succeeds and what it leaves alone.
    \<^item> \<open>Transfers\<close>: \<open>application/transfer.py\<close>.  \<open>Lien\<close>: the repayment lien, which is called by the use case
      and calls it, and \<open>execute_transfer\<close>, the use case as \<open>build_container\<close> wires it.
    \<^item> \<open>Holding\<close> (holds, undo window, account opening), \<open>Scheduling\<close>, \<open>Overdraft\<close>, \<open>Requests\<close>, \<open>SafePay\<close>,
      \<open>Identity\<close>, \<open>Unit_Of_Work\<close>, \<open>Reconciliation\<close>, \<open>Statements\<close>: one module or service each.
    \<^item> \<open>Web\<close>, \<open>Schemas\<close>, \<open>Api\<close>: rate limiting, dependencies and envelopes; the request models; all 33 endpoints
      and \<open>dispatch\<close>.  \<open>Logging\<close>: the redacting log filter and the request identifier.
    \<^item> \<open>Workers\<close>, \<open>Messaging\<close>, \<open>Broker\<close>: the scheduler; the relay and the consumer; the RabbitMQ adapter.
    \<^item> \<open>Configuration\<close>: \<open>platform_/config.py\<close>, \<open>platform_/database/engine.py\<close>, \<open>apps/api/container.py\<close>.
    \<^item> \<open>Sql_Schema\<close>, \<open>Orm_Models\<close>: tables with three-valued CHECK conditions, and the 23 table classes.
      \<open>Migrations\<close>, \<open>Revisions\<close>: Alembic's operations on a catalog, and the six revisions in both directions.
      \<open>Row_Values\<close>: the rows of the session as values of those tables.  \<open>Installation\<close>, \<open>Seed\<close>: the first
      database and \<open>scripts/seed.py\<close>.
    \<^item> \<open>Books\<close>, \<open>Evolution\<close>, \<open>Lifecycle\<close>, \<open>Latch\<close>, \<open>Custody\<close>, \<open>Solvency\<close>, \<open>Settlement\<close>, \<open>Transfer_Props\<close>,
      \<open>Api_Props\<close>, \<open>System\<close>, \<open>Schema_Facts\<close>, \<open>Migration_Facts\<close>, \<open>Upgrade\<close>, \<open>Schema_Match\<close>, \<open>Downgrade\<close>,
      \<open>Schema_Refinement\<close>: invariants and properties.  \<open>Scenario\<close>: the concrete database and parameters the
      witnesses run on.

  \<^bold>\<open>What is proved.\<close>
    \<^item> The books.  \<open>Books\<close> states the accounting invariant over accounts, transfers and ledger; \<open>Evolution\<close> shows
      that every handler keeps it and only appends to history; \<open>System\<close> lifts it to every interleaving of API
      calls, polls, relay and consumer iterations, with any faults, retries and redeliveries: the integrity
      report is balanced after each.
    \<^item> The transfer.  It is executed exactly once per idempotency key, only with authority and within the
      limits, refines an abstract movement of balances, and an accepted configuration never lets a credit lower
      the payee's balance.  \<open>uow_run\<close> commits one execution or none.
    \<^item> State machines.  \<open>Lifecycle\<close> gives each table of rows with a status its permitted steps (locale
      \<open>row_steps\<close>); decided requests, settled orders and repaid loans never change again; \<open>Latch\<close> shows that of
      any number of contenders for a row exactly one wins.
    \<^item> Custody.  The escrow account and the pending-settlement account always cover what is parked in them;
      \<open>Settlement\<close> gives the exact effect of a release, a covered shortfall and an accepted request.
    \<^item> The edge.  After a reply with an error status no money has moved, a call without credentials or with a
      wrong PIN changes no balance, strangers cannot tell which references exist, quotas are exact, statements are complete over
      any pages, logs and start-up settings give no secrets away.
    \<^item> Workers.  A task that fails affects no other task; the queue and the outbox drain; an event marked
      published was stored by the broker, and each event is notified once.
    \<^item> The schema.  The revisions build exactly the tables the classes declare; the inserts of the model accept
      exactly the rows those tables admit; downgrading leads back; a fresh installation is sound.

  \<^bold>\<open>Interfaces.\<close>  A contract that several components rely on is a locale, interpreted on the model's own
  definitions: \<open>session_preorder\<close> and its extensions \<open>committed_preorder\<close>, \<open>transfer_preorder\<close>,
  \<open>credit_interceptor\<close> and \<open>api_services\<close> carry a relation from the statements through units of work, the
  transfer use case and the routes to the API; \<open>fee_strategy\<close>, \<open>row_steps\<close>, \<open>status_latch\<close> and \<open>draining\<close> (queues
  that run empty) are the others.

  \<^bold>\<open>Bounds and fuel.\<close>  The lien posts its repayments through the transfer use case, which runs the lien
  again; \<open>execute_depth\<close> unfolds this to a given depth, and since a repayment is of a kind the lien ignores,
  one nested level is enough: \<open>execute_transfer_recursive\<close> shows that the wired use case satisfies its
  recursive equation and that every deeper unfolding is the same function.  The retry loop of the unit of work
  recurses on the remaining attempts, \<open>transaction_max_attempts\<close> at most.  Following the cursors of a statement
  uses as fuel the number of rows left, each page consuming at least one.  Redaction recurses to depth six, as
  the code does.  BIGINT columns are checked for the range of 64 bits on every write.

  \<^bold>\<open>Assumptions of the model.\<close>  Units of work are executed one after the other: row locks appear only where a
  race is decided by a conditional update (\<open>Latch\<close>) and in the order in which accounts are locked.  The text of
  error messages is left out, their codes, statuses and details are not.  \<open>JTime\<close> stands for the ISO text of an
  instant.  Characters are those of ASCII where the code inspects them.  The widths of text columns are declared
  but not enforced on insert.  The exception handlers and dependencies run in the order FastAPI documents.
  A statement that PostgreSQL would refuse makes a migration fail as a whole.

  \<^bold>\<open>Not modelled.\<close>  The protocol classes of \<open>ports.py\<close> (no behaviour; their adapters are modelled), connection
  pools, the JSON formatter and the handlers of the logging library, sleeping and signals of the workers,
  request timing, CORS and OpenAPI metadata, the response models that only document replies, the offline mode
  of Alembic, and group wallets and payment links beyond their tables, for which the repository has no service.
\<close>

end
